(* ===== verification/Prelude.thy ===== *)
theory Prelude
  imports Main "HOL-Library.Word" "HOL-Library.Sublist"
begin

text \<open>
  Shared vocabulary of the development.

  A Go \<open>byte\<close> is a HOL \<open>char\<close> (both are exactly eight bits) and a Go string or byte slice is a
  \<open>char list\<close>, so literals of the source are literals here.  \<open>byte_of\<close> is Go's conversion
  \<open>byte(n)\<close>: it keeps the low eight bits.  Integers of a fixed width are words where the width
  matters.  The theory also holds the models of the standard library routines that several
  components call (\<open>encoding/binary\<close>, \<open>encoding/hex\<close>, \<open>strings\<close>, \<open>bytes\<close>, \<open>io.ReadFull\<close>) and the
  interface of a length-delimited wire format (locale \<open>codec\<close>), which the MySQL, PostgreSQL, Redis
  and Guacamole components interpret.
\<close>

named_theorems byte_simps "facts that move between bytes and numbers"
named_theorems wire_defs "definitions of wire encoders, for unfolding"

type_synonym byte = char
type_synonym bytes = string
type_synonym u16 = "16 word"
type_synonym u32 = "32 word"
type_synonym u64 = "64 word"

abbreviation byte_val :: "byte \<Rightarrow> nat" where
  "byte_val \<equiv> of_char"

abbreviation byte_of :: "nat \<Rightarrow> byte" where
  "byte_of \<equiv> char_of"

abbreviation NUL :: byte where
  "NUL \<equiv> CHR 0x00"

abbreviation CR :: byte where
  "CR \<equiv> CHR 0x0D"

abbreviation LF :: byte where
  "LF \<equiv> CHR 0x0A"

subsection \<open>Bytes and numbers\<close>

lemma byte_val_lt [simp, byte_simps]: "byte_val c < 256"
  by (rule nat_of_char_less_256)

lemma byte_val_le [simp]: "byte_val c \<le> 255"
  using byte_val_lt [of c] by linarith

lemma byte_val_byte_of [byte_simps]: "byte_val (byte_of n) = n mod 256"
  by simp

lemma byte_val_eq_0 [simp]: "byte_val c = 0 \<longleftrightarrow> c = NUL"
proof
  assume "byte_val c = 0"
  then have "byte_val c = byte_val NUL" by simp
  then show "c = NUL" by (simp only: of_char_eq_iff)
qed simp

text \<open>Go's \<open>a ^ b\<close> on bytes, and \<open>b + 1\<close> on a \<open>byte\<close> (which wraps).\<close>

definition byte_xor :: "byte \<Rightarrow> byte \<Rightarrow> byte" where
  "byte_xor a b = byte_of (Bit_Operations.xor (byte_val a) (byte_val b))"

definition byte_succ :: "byte \<Rightarrow> byte" where
  "byte_succ b = byte_of (byte_val b + 1)"

lemma xor_nat_less_256:
  assumes "a < 256" "b < 256"
  shows "Bit_Operations.xor a b < (256::nat)"
proof -
  have "take_bit 8 a = a" "take_bit 8 b = b"
    using assms by (simp_all add: take_bit_nat_eq_self_iff)
  then have "take_bit 8 (Bit_Operations.xor a b) = Bit_Operations.xor a b"
    by (simp add: take_bit_xor)
  moreover have "take_bit 8 (Bit_Operations.xor a b) < 2 ^ 8"
    by (rule take_bit_nat_less_exp)
  ultimately show ?thesis by (simp only:) simp
qed

lemma byte_xor_cancel [simp]: "byte_xor (byte_xor a b) b = a"
proof -
  have "Bit_Operations.xor (byte_val a) (byte_val b) < 256"
    by (rule xor_nat_less_256) simp_all
  then show ?thesis
    by (simp add: byte_xor_def xor.assoc)
qed

lemma byte_xor_commute: "byte_xor a b = byte_xor b a"
  by (simp add: byte_xor_def xor.commute)

lemma byte_xor_self [simp]: "byte_xor a a = NUL"
  by (simp add: byte_xor_def char_of_eq_iff)

definition xor_bytes :: "bytes \<Rightarrow> bytes \<Rightarrow> bytes" where
  "xor_bytes xs ys = map2 byte_xor xs ys"

lemma length_xor_bytes [simp]: "length (xor_bytes xs ys) = min (length xs) (length ys)"
  by (simp add: xor_bytes_def)

lemma xor_bytes_cancel:
  "length xs = length ys \<Longrightarrow> xor_bytes (xor_bytes xs ys) ys = xs"
  by (induction xs ys rule: list_induct2) (simp_all add: xor_bytes_def)

subsection \<open>Fixed-width integers on the wire (encoding/binary)\<close>

text \<open>\<open>le_val\<close> reads a byte list as a little-endian number, \<open>le_bytes k n\<close> writes the low \<open>k\<close>
  bytes of \<open>n\<close>; the big-endian pair reverses them.\<close>

primrec le_val :: "bytes \<Rightarrow> nat" where
  "le_val [] = 0"
| "le_val (c # cs) = byte_val c + 256 * le_val cs"

primrec le_bytes :: "nat \<Rightarrow> nat \<Rightarrow> bytes" where
  "le_bytes 0 n = []"
| "le_bytes (Suc k) n = byte_of n # le_bytes k (n div 256)"

definition be_val :: "bytes \<Rightarrow> nat" where
  "be_val bs = le_val (rev bs)"

definition be_bytes :: "nat \<Rightarrow> nat \<Rightarrow> bytes" where
  "be_bytes k n = rev (le_bytes k n)"

lemma length_le_bytes [simp]: "length (le_bytes k n) = k"
  by (induction k arbitrary: n) simp_all

lemma length_be_bytes [simp]: "length (be_bytes k n) = k"
  by (simp add: be_bytes_def)

lemma le_val_le_bytes: "le_val (le_bytes k n) = n mod 256 ^ k"
proof (induction k arbitrary: n)
  case 0
  then show ?case by simp
next
  case (Suc k)
  have "n mod 256 ^ Suc k = n mod 256 + 256 * (n div 256 mod 256 ^ k)"
    by (simp add: mod_mult2_eq)
  with Suc show ?case by simp
qed

lemma be_val_be_bytes: "be_val (be_bytes k n) = n mod 256 ^ k"
  by (simp add: be_val_def be_bytes_def le_val_le_bytes)

lemma le_val_lt: "le_val bs < 256 ^ length bs"
proof (induction bs)
  case Nil
  then show ?case by simp
next
  case (Cons c cs)
  have "byte_val c + 256 * le_val cs < 256 + 256 * le_val cs" by simp
  also have "\<dots> \<le> 256 * 256 ^ length cs" using Cons by simp
  finally show ?case by simp
qed

lemma be_val_lt: "be_val bs < 256 ^ length bs"
  using le_val_lt [of "rev bs"] by (simp add: be_val_def)

lemma le_bytes_le_val: "length bs = k \<Longrightarrow> le_bytes k (le_val bs) = bs"
proof (induction bs arbitrary: k)
  case Nil
  then show ?case by simp
next
  case (Cons c cs)
  then obtain j where "k = Suc j" "length cs = j" by (cases k) auto
  moreover have "byte_of (byte_val c + 256 * le_val cs) = c"
    by (metis char_of_char char_of_mod_256 mod_mult_self2)
  moreover have "(byte_val c + 256 * le_val cs) div 256 = le_val cs"
    by simp
  ultimately show ?case using Cons.IH by simp
qed

lemma be_bytes_be_val: "length bs = k \<Longrightarrow> be_bytes k (be_val bs) = bs"
  by (simp add: be_bytes_def be_val_def le_bytes_le_val)

lemma le_word_roundtrip [simp]:
  fixes w :: u32 and v :: u64
  shows "of_nat (le_val (le_bytes 4 (unat w))) = w" "of_nat (le_val (le_bytes 8 (unat v))) = v"
  using unsigned_less [of w, where ?'a = nat] unsigned_less [of v, where ?'a = nat]
  by (simp_all add: le_val_le_bytes)

text \<open>Go assembles multi-byte numbers with shifts and \<open>|\<close>; the operands never overlap.\<close>

lemma or_push_bit:
  fixes a b :: nat
  assumes "a < 2 ^ k"
  shows "Bit_Operations.or a (push_bit k b) = a + 2 ^ k * b"
proof -
  have "\<not> bit a n" if "k \<le> n" for n
  proof -
    have "a < 2 ^ n" using assms that by (meson less_le_trans one_le_numeral power_increasing)
    then show ?thesis by (simp add: bit_iff_odd)
  qed
  then have "a + push_bit k b = Bit_Operations.or a (push_bit k b)"
    by (intro disjunctive_add) (auto simp: bit_push_bit_iff)
  then show ?thesis by (simp add: push_bit_eq_mult mult.commute)
qed

subsection \<open>Slices: io.ReadFull, bytes.IndexByte, bytes.TrimSuffix\<close>

text \<open>\<open>read_full n s\<close> is \<open>io.ReadFull\<close> of \<open>n\<close> bytes from a stream that still holds \<open>s\<close>:
  an error (\<open>None\<close>) when the stream ends early.\<close>

definition read_full :: "nat \<Rightarrow> bytes \<Rightarrow> (bytes \<times> bytes) option" where
  "read_full n s = (if length s < n then None else Some (take n s, drop n s))"

lemma read_full_append [simp]:
  "length xs = n \<Longrightarrow> read_full n (xs @ ys) = Some (xs, ys)"
  by (simp add: read_full_def)

lemma read_full_Some:
  "read_full n s = Some (xs, ys) \<longleftrightarrow> s = xs @ ys \<and> length xs = n"
  by (auto simp: read_full_def)

fun index_byte :: "byte \<Rightarrow> bytes \<Rightarrow> nat option" where
  "index_byte c [] = None"
| "index_byte c (x # xs) = (if x = c then Some 0 else map_option Suc (index_byte c xs))"

lemma index_byte_None [simp]: "index_byte c xs = None \<longleftrightarrow> c \<notin> set xs"
  by (induction xs) auto

lemma index_byte_append [simp]:
  "c \<notin> set xs \<Longrightarrow> index_byte c (xs @ c # ys) = Some (length xs)"
  by (induction xs) auto

lemma index_byte_Some:
  "index_byte c xs = Some i \<Longrightarrow> i < length xs \<and> xs ! i = c \<and> c \<notin> set (take i xs)"
proof (induction xs arbitrary: i)
  case Nil
  then show ?case by simp
next
  case (Cons x xs)
  then show ?case by (cases i) (auto split: if_splits)
qed

lemma index_byte_nth: "distinct xs \<Longrightarrow> i < length xs \<Longrightarrow> index_byte (xs ! i) xs = Some i"
proof (induction xs arbitrary: i)
  case Nil
  then show ?case by simp
next
  case (Cons x xs)
  then show ?case by (cases i) auto
qed

lemma drop_facts: "drop i v = c # x \<Longrightarrow> i < length v \<and> v ! i = c \<and> drop (Suc i) v = x"
  by (metis Cons_nth_drop_Suc drop_eq_Nil linorder_not_less list.discI list.inject)

lemma index_byte_SomeD:
  assumes "index_byte c xs = Some i"
  shows "xs = take i xs @ c # drop (Suc i) xs" "c \<notin> set (take i xs)" "i < length xs"
  using index_byte_Some [OF assms] id_take_nth_drop [of i xs] by auto

text \<open>\<open>bytes.TrimSuffix(xs, []byte{c})\<close>: one trailing \<open>c\<close> is removed.\<close>

definition trim_suffix_byte :: "byte \<Rightarrow> bytes \<Rightarrow> bytes" where
  "trim_suffix_byte c xs = (if xs \<noteq> [] \<and> last xs = c then butlast xs else xs)"

lemma trim_suffix_byte_snoc [simp]: "trim_suffix_byte c (xs @ [c]) = xs"
  by (simp add: trim_suffix_byte_def)

lemma length_trim_suffix_byte: "length (trim_suffix_byte c xs) \<le> length xs"
  by (simp add: trim_suffix_byte_def)

lemma set_trim_suffix_byte: "set (trim_suffix_byte c xs) \<subseteq> set xs"
  by (auto simp: trim_suffix_byte_def dest: in_set_butlastD)

subsection \<open>Hexadecimal text (encoding/hex)\<close>

definition hex_digit :: "nat \<Rightarrow> byte" where
  "hex_digit n = ''0123456789abcdef'' ! n"

fun hex_encode :: "bytes \<Rightarrow> string" where
  "hex_encode [] = []"
| "hex_encode (c # cs) = hex_digit (byte_val c div 16) # hex_digit (byte_val c mod 16) # hex_encode cs"

definition hex_val :: "byte \<Rightarrow> nat option" where
  "hex_val c =
     (let v = byte_val c in
      if 48 \<le> v \<and> v \<le> 57 then Some (v - 48)
      else if 97 \<le> v \<and> v \<le> 102 then Some (v - 87)
      else if 65 \<le> v \<and> v \<le> 70 then Some (v - 55)
      else None)"

text \<open>\<open>hex.DecodeString\<close>: an error for an odd length or a byte that is not a hex digit.\<close>

fun hex_decode :: "string \<Rightarrow> bytes option" where
  "hex_decode [] = Some []"
| "hex_decode [c] = None"
| "hex_decode (a # b # cs) =
     (case hex_val a of None \<Rightarrow> None
      | Some h \<Rightarrow> (case hex_val b of None \<Rightarrow> None
        | Some l \<Rightarrow> map_option (\<lambda>bs. byte_of (16 * h + l) # bs) (hex_decode cs)))"

lemma hex_val_hex_digit: "n < 16 \<Longrightarrow> hex_val (hex_digit n) = Some n"
  by (auto simp: hex_digit_def hex_val_def numeral_eq_Suc less_Suc_eq)

lemma hex_decode_encode [simp]: "hex_decode (hex_encode bs) = Some bs"
proof (induction bs)
  case Nil
  then show ?case by simp
next
  case (Cons c cs)
  have "byte_val c div 16 < 16" by (simp add: div_less_iff_less_mult)
  moreover have "byte_val c mod 16 < 16" by simp
  moreover have "16 * (byte_val c div 16) + byte_val c mod 16 = byte_val c" by simp
  ultimately show ?case using Cons by (simp add: hex_val_hex_digit)
qed

lemma length_hex_encode [simp]: "length (hex_encode bs) = 2 * length bs"
  by (induction bs) simp_all

subsection \<open>Decimal text (strconv.Itoa)\<close>

fun itoa :: "nat \<Rightarrow> string" where
  "itoa n = (if n < 10 then [byte_of (48 + n)] else itoa (n div 10) @ [byte_of (48 + n mod 10)])"

declare itoa.simps [simp del]

definition is_digit :: "byte \<Rightarrow> bool" where
  "is_digit c \<longleftrightarrow> 48 \<le> byte_val c \<and> byte_val c \<le> 57"

definition dec_val :: "bytes \<Rightarrow> nat" where
  "dec_val ds = foldl (\<lambda>v d. v * 10 + (byte_val d - 48)) 0 ds"

lemma dec_val_Nil [simp]: "dec_val [] = 0"
  by (simp add: dec_val_def)

lemma dec_val_snoc [simp]: "dec_val (ds @ [d]) = dec_val ds * 10 + (byte_val d - 48)"
  by (simp add: dec_val_def)

lemma is_digit_byte_of [simp]: "n < 10 \<Longrightarrow> is_digit (byte_of (48 + n))"
  by (simp add: is_digit_def)

lemma dec_val_itoa [simp]: "dec_val (itoa n) = n"
proof (induction n rule: itoa.induct)
  case (1 n)
  show ?case
  proof (cases "n < 10")
    case True
    then show ?thesis by (simp add: itoa.simps [of n] dec_val_def)
  next
    case False
    with 1 show ?thesis by (simp add: itoa.simps [of n])
  qed
qed

lemma itoa_digits: "\<forall>c \<in> set (itoa n). is_digit c"
proof (induction n rule: itoa.induct)
  case (1 n)
  then show ?case by (auto simp: itoa.simps [of n])
qed

lemma itoa_not_Nil [simp]: "itoa n \<noteq> []"
  by (simp add: itoa.simps [of n])

text \<open>The decimal text is canonical: it starts with a zero only when it is \<open>''0''\<close>.\<close>

lemma itoa_canonical: "length (itoa n) > 1 \<Longrightarrow> hd (itoa n) \<noteq> CHR ''0''"
proof (induction n rule: itoa.induct)
  case (1 n)
  show ?case
  proof (cases "n < 10")
    case True
    with "1.prems" show ?thesis by (simp add: itoa.simps [of n])
  next
    case False
    then have eq: "itoa n = itoa (n div 10) @ [byte_of (48 + n mod 10)]"
      by (simp add: itoa.simps [of n])
    show ?thesis
    proof (cases "length (itoa (n div 10)) > 1")
      case True
      with "1.IH" False eq show ?thesis by simp
    next
      case short: False
      have small: "n div 10 < 10"
      proof (rule ccontr)
        assume "\<not> n div 10 < 10"
        then have "length (itoa (n div 10)) = Suc (length (itoa (n div 10 div 10)))"
          by (simp add: itoa.simps [of "n div 10"])
        with short have "itoa (n div 10 div 10) = []" by simp
        then show False by simp
      qed
      have "byte_val (byte_of (48 + n div 10)) \<noteq> byte_val CHR ''0''"
        using False small by simp
      then have "byte_of (48 + n div 10) \<noteq> CHR ''0''"
        by metis
      with eq small show ?thesis by (simp add: itoa.simps [of "n div 10"])
    qed
  qed
qed

lemma itoa_inj: "itoa m = itoa n \<longleftrightarrow> m = n"
  by (metis dec_val_itoa)

lemma length_itoa: "n < 10 ^ k \<Longrightarrow> 0 < k \<Longrightarrow> length (itoa n) \<le> k"
proof (induction n arbitrary: k rule: itoa.induct)
  case (1 n)
  show ?case
  proof (cases "n < 10")
    case True
    with "1.prems" show ?thesis by (simp add: itoa.simps [of n])
  next
    case False
    then obtain j where k: "k = Suc j" "0 < j"
      using "1.prems" by (cases k; cases "k - 1") auto
    with "1.prems" have "n div 10 < 10 ^ j" by (simp add: div_less_iff_less_mult mult.commute)
    with "1.IH" False k show ?thesis by (simp add: itoa.simps [of n])
  qed
qed

subsection \<open>Interface: a self-delimiting wire format\<close>

text \<open>
  What the proxies rely on when they frame a byte stream: the decoder returns exactly the value
  that was encoded and leaves the rest of the stream, and it always consumes something.  From
  these two laws follow that encodings are unambiguous (no encoding is a prefix of another) and
  that a stream of frames is cut into exactly the frames that were written.
\<close>

locale codec =
  fixes enc :: "'a \<Rightarrow> bytes"
    and dec :: "bytes \<Rightarrow> ('a \<times> bytes) option"
    and wf :: "'a \<Rightarrow> bool"
  assumes dec_enc: "wf x \<Longrightarrow> dec (enc x @ rest) = Some (x, rest)"
    and dec_consumes: "dec s = Some (x, rest) \<Longrightarrow> length rest < length s"
begin

lemma enc_inj: "wf x \<Longrightarrow> wf y \<Longrightarrow> enc x = enc y \<Longrightarrow> x = y"
  using dec_enc [of x "[]"] dec_enc [of y "[]"] by simp

lemma enc_prefix_free:
  assumes "wf x" "wf y" "prefix (enc x) (enc y)"
  shows "x = y"
proof -
  from assms(3) obtain zs where "enc y = enc x @ zs" by (auto elim: prefixE)
  with dec_enc [OF assms(1), of zs] dec_enc [OF assms(2), of "[]"] show ?thesis by simp
qed

lemma enc_not_Nil: "wf x \<Longrightarrow> enc x \<noteq> []"
  using dec_enc [of x "[]"] dec_consumes [of "enc x" x "[]"] by auto

function decode_all :: "bytes \<Rightarrow> 'a list \<times> bytes" where
  "decode_all s =
     (case dec s of None \<Rightarrow> ([], s)
      | Some (x, rest) \<Rightarrow> (let (xs, r) = decode_all rest in (x # xs, r)))"
  by pat_completeness auto
termination
  by (relation "measure length") (auto dest: dec_consumes)

declare decode_all.simps [simp del]

lemma decode_all_frames:
  assumes "\<forall>x \<in> set xs. wf x"
  shows "decode_all (concat (map enc xs) @ rest) = (xs @ fst (decode_all rest), snd (decode_all rest))"
  using assms
proof (induction xs)
  case Nil
  then show ?case by simp
next
  case (Cons x xs)
  then show ?case
    by (simp add: decode_all.simps [of "enc x @ concat (map enc xs) @ rest"] dec_enc)
qed

lemma concat_enc_inj:
  assumes "\<forall>x \<in> set xs. wf x" "\<forall>y \<in> set ys. wf y"
    and "concat (map enc xs) = concat (map enc ys)"
  shows "xs = ys"
  using decode_all_frames [OF assms(1), of "[]"] decode_all_frames [OF assms(2), of "[]"] assms(3)
  by simp

end

subsection \<open>Interface: a processor of a chunked byte stream\<close>

text \<open>
  The audit pipeline receives a statement in pieces, as the network delivers it.  A processor keeps
  a state between the pieces; what it must guarantee is that the way the stream was cut does not
  show in what it has emitted.
\<close>

locale stream_processor =
  fixes process :: "'s \<Rightarrow> bytes \<Rightarrow> 's \<times> bytes"
    and inv :: "'s \<Rightarrow> bool"
  assumes process_Nil: "inv s \<Longrightarrow> process s [] = (s, [])"
    and process_append: "inv s \<Longrightarrow> process s (xs @ ys) =
      (let (s', o1) = process s xs; (s'', o2) = process s' ys in (s'', o1 @ o2))"
    and process_inv: "inv s \<Longrightarrow> inv (fst (process s xs))"
begin

fun process_chunks :: "'s \<Rightarrow> bytes list \<Rightarrow> 's \<times> bytes" where
  "process_chunks s [] = (s, [])"
| "process_chunks s (c # cs) =
     (let (s', o1) = process s c; (s'', o2) = process_chunks s' cs in (s'', o1 @ o2))"

lemma process_chunks_concat: "inv s \<Longrightarrow> process_chunks s cs = process s (concat cs)"
proof (induction cs arbitrary: s)
  case Nil
  then show ?case by (simp add: process_Nil)
next
  case (Cons c cs)
  obtain s' o1 where c: "process s c = (s', o1)" by (cases "process s c")
  with Cons.prems have "inv s'" using process_inv [of s c] by simp
  with Cons c show ?case by (simp add: process_append)
qed

lemma process_chunks_inv: "inv s \<Longrightarrow> inv (fst (process_chunks s cs))"
  by (simp add: process_chunks_concat process_inv)

lemma chunking_irrelevant:
  "inv s \<Longrightarrow> concat cs = concat ds \<Longrightarrow> process_chunks s cs = process_chunks s ds"
  by (simp add: process_chunks_concat)

end

subsection \<open>Interface: a system that keeps an invariant\<close>

text \<open>
  The shared structures of the program (lease pools, registries) are changed by many goroutines, one
  atomic action at a time.  A structure is its initial states and its actions; the promise is an
  invariant that holds initially and that every action keeps, hence holds in every reachable state.
\<close>

locale guarded_system =
  fixes init :: "'s \<Rightarrow> bool"
    and step :: "'s \<Rightarrow> 's \<Rightarrow> bool"
    and inv :: "'s \<Rightarrow> bool"
  assumes init_inv: "init s \<Longrightarrow> inv s"
    and step_inv: "inv s \<Longrightarrow> step s s' \<Longrightarrow> inv s'"
begin

lemma steps_inv: "step\<^sup>*\<^sup>* s s' \<Longrightarrow> inv s \<Longrightarrow> inv s'"
  by (induction rule: rtranclp_induct) (auto intro: step_inv)

lemma reachable_inv: "init s \<Longrightarrow> step\<^sup>*\<^sup>* s s' \<Longrightarrow> inv s'"
  using steps_inv init_inv by blast

end

end
