(* ===== verification/Go_Text.thy ===== *)
theory Go_Text
  imports Prelude
begin

text \<open>
  The text routines of Go's \<open>strings\<close> package that the program uses on untrusted input.

  \<open>TrimSpace\<close> removes Unicode white space: the six ASCII characters and the UTF-8 encodings of
  the other code points with the White\_Space property.  Because each multi-byte encoding starts
  with a lead byte, matching encodings at the two ends is what \<open>strings.TrimSpace\<close> does.

  \<open>ToUpper\<close>/\<open>ToLower\<close>/\<open>EqualFold\<close> are used by the program only to compare with ASCII constants.
  Besides the ASCII letters, the code points whose upper case is ASCII are U+017F and U+0131, the
  one whose lower case is ASCII (and that can occur here) is U+212A, and the simple folds of ASCII
  letters are U+017F and U+212A; all other non-ASCII text stays non-ASCII and is left as it is.
\<close>

definition space_encodings :: "bytes list" where
  "space_encodings =
     [[CHR 0x09], [CHR 0x0A], [CHR 0x0B], [CHR 0x0C], [CHR 0x0D], [CHR 0x20],
      [CHR 0xC2, CHR 0x85], [CHR 0xC2, CHR 0xA0],
      [CHR 0xE1, CHR 0x9A, CHR 0x80],
      [CHR 0xE2, CHR 0x80, CHR 0x80], [CHR 0xE2, CHR 0x80, CHR 0x81],
      [CHR 0xE2, CHR 0x80, CHR 0x82], [CHR 0xE2, CHR 0x80, CHR 0x83],
      [CHR 0xE2, CHR 0x80, CHR 0x84], [CHR 0xE2, CHR 0x80, CHR 0x85],
      [CHR 0xE2, CHR 0x80, CHR 0x86], [CHR 0xE2, CHR 0x80, CHR 0x87],
      [CHR 0xE2, CHR 0x80, CHR 0x88], [CHR 0xE2, CHR 0x80, CHR 0x89],
      [CHR 0xE2, CHR 0x80, CHR 0x8A], [CHR 0xE2, CHR 0x80, CHR 0xA8],
      [CHR 0xE2, CHR 0x80, CHR 0xA9], [CHR 0xE2, CHR 0x80, CHR 0xAF],
      [CHR 0xE2, CHR 0x81, CHR 0x9F], [CHR 0xE3, CHR 0x80, CHR 0x80]]"

lemma space_encodings_not_Nil: "e \<in> set space_encodings \<Longrightarrow> e \<noteq> []"
  by (auto simp: space_encodings_def)

definition leading_space :: "bytes \<Rightarrow> bytes option" where
  "leading_space s = find (\<lambda>e. prefix e s) space_encodings"

definition trailing_space :: "bytes \<Rightarrow> bytes option" where
  "trailing_space s = find (\<lambda>e. suffix e s) space_encodings"

lemma leading_space_Some:
  "leading_space s = Some e \<Longrightarrow> e \<in> set space_encodings \<and> prefix e s \<and> e \<noteq> []"
proof -
  assume "leading_space s = Some e"
  then have "e \<in> set space_encodings" "prefix e s"
    by (auto simp: leading_space_def find_Some_iff)
  then show ?thesis using space_encodings_not_Nil [of e] by simp
qed

lemma trailing_space_Some:
  "trailing_space s = Some e \<Longrightarrow> e \<in> set space_encodings \<and> suffix e s \<and> e \<noteq> []"
proof -
  assume "trailing_space s = Some e"
  then have "e \<in> set space_encodings" "suffix e s"
    by (auto simp: trailing_space_def find_Some_iff)
  then show ?thesis using space_encodings_not_Nil [of e] by simp
qed

function trim_left :: "bytes \<Rightarrow> bytes" where
  "trim_left s = (case leading_space s of None \<Rightarrow> s | Some e \<Rightarrow> trim_left (drop (length e) s))"
  by pat_completeness auto
termination
proof (relation "measure length", goal_cases)
  case (2 s e)
  then show ?case using leading_space_Some [of s e] by (cases s; cases e) auto
qed simp

function trim_right :: "bytes \<Rightarrow> bytes" where
  "trim_right s =
     (case trailing_space s of None \<Rightarrow> s | Some e \<Rightarrow> trim_right (take (length s - length e) s))"
  by pat_completeness auto
termination
proof (relation "measure length", goal_cases)
  case (2 s e)
  then show ?case using trailing_space_Some [of s e] by (cases s; cases e) auto
qed simp

declare trim_left.simps [simp del] trim_right.simps [simp del]

definition TrimSpace :: "string \<Rightarrow> string" where
  "TrimSpace s = trim_right (trim_left s)"

definition ascii_upper :: "byte \<Rightarrow> byte" where
  "ascii_upper c = (if 97 \<le> byte_val c \<and> byte_val c \<le> 122 then byte_of (byte_val c - 32) else c)"

definition ascii_lower :: "byte \<Rightarrow> byte" where
  "ascii_lower c = (if 65 \<le> byte_val c \<and> byte_val c \<le> 90 then byte_of (byte_val c + 32) else c)"

fun ToUpper :: "string \<Rightarrow> string" where
  "ToUpper [] = []"
| "ToUpper (a # []) = [ascii_upper a]"
| "ToUpper (a # b # cs) =
     (if a = CHR 0xC5 \<and> b = CHR 0xBF then CHR ''S'' # ToUpper cs
      else if a = CHR 0xC4 \<and> b = CHR 0xB1 then CHR ''I'' # ToUpper cs
      else ascii_upper a # ToUpper (b # cs))"

fun ToLower :: "string \<Rightarrow> string" where
  "ToLower (a # b # c # cs) =
     (if a = CHR 0xE2 \<and> b = CHR 0x84 \<and> c = CHR 0xAA then CHR ''k'' # ToLower cs
      else ascii_lower a # ToLower (b # c # cs))"
| "ToLower cs = map ascii_lower cs"

fun fold_case :: "string \<Rightarrow> string" where
  "fold_case (a # b # c # cs) =
     (if a = CHR 0xE2 \<and> b = CHR 0x84 \<and> c = CHR 0xAA then CHR ''k'' # fold_case cs
      else if a = CHR 0xC5 \<and> b = CHR 0xBF then CHR ''s'' # fold_case (c # cs)
      else ascii_lower a # fold_case (b # c # cs))"
| "fold_case [a, b] = (if a = CHR 0xC5 \<and> b = CHR 0xBF then [CHR ''s''] else [ascii_lower a, ascii_lower b])"
| "fold_case cs = map ascii_lower cs"

definition EqualFold :: "string \<Rightarrow> string \<Rightarrow> bool" where
  "EqualFold s t \<longleftrightarrow> fold_case s = fold_case t"

subsection \<open>Facts\<close>

lemma trim_left_suffix: "suffix (trim_left s) s"
proof (induction s rule: trim_left.induct)
  case (1 s)
  show ?case
  proof (cases "leading_space s")
    case None
    then show ?thesis by (simp add: trim_left.simps [of s])
  next
    case (Some e)
    with 1 have "suffix (trim_left (drop (length e) s)) (drop (length e) s)" by simp
    then have "suffix (trim_left (drop (length e) s)) s"
      using suffix_drop suffix_order.trans by blast
    with Some show ?thesis by (simp add: trim_left.simps [of s])
  qed
qed

lemma trim_right_prefix: "prefix (trim_right s) s"
proof (induction s rule: trim_right.induct)
  case (1 s)
  show ?case
  proof (cases "trailing_space s")
    case None
    then show ?thesis by (simp add: trim_right.simps [of s])
  next
    case (Some e)
    with 1 have "prefix (trim_right (take (length s - length e) s)) (take (length s - length e) s)"
      by simp
    then have "prefix (trim_right (take (length s - length e) s)) s"
      using take_is_prefix prefix_order.trans by blast
    with Some show ?thesis by (simp add: trim_right.simps [of s])
  qed
qed

lemma leading_space_trim_left: "leading_space (trim_left s) = None"
proof (induction s rule: trim_left.induct)
  case (1 s)
  then show ?case by (cases "leading_space s") (auto simp: trim_left.simps [of s])
qed

lemma trailing_space_trim_right: "trailing_space (trim_right s) = None"
proof (induction s rule: trim_right.induct)
  case (1 s)
  then show ?case by (cases "trailing_space s") (auto simp: trim_right.simps [of s])
qed

lemma leading_space_prefix:
  "leading_space s = None \<Longrightarrow> prefix t s \<Longrightarrow> leading_space t = None"
  by (auto simp: leading_space_def find_None_iff intro: prefix_order.trans)

lemma TrimSpace_idem [simp]: "TrimSpace (TrimSpace s) = TrimSpace s"
proof -
  have "leading_space (trim_right (trim_left s)) = None"
    by (rule leading_space_prefix [OF leading_space_trim_left trim_right_prefix])
  then have "trim_left (TrimSpace s) = TrimSpace s"
    by (simp add: TrimSpace_def trim_left.simps [of "trim_right (trim_left s)"])
  moreover have "trim_right (TrimSpace s) = TrimSpace s"
    by (simp add: TrimSpace_def trim_right.simps [of "trim_right (trim_left s)"] trailing_space_trim_right)
  ultimately show ?thesis by (simp add: TrimSpace_def)
qed

lemma length_TrimSpace: "length (TrimSpace s) \<le> length s"
  using prefix_length_le [OF trim_right_prefix, of "trim_left s"]
    suffix_length_le [OF trim_left_suffix, of s]
  by (simp add: TrimSpace_def)

lemma set_TrimSpace: "set (TrimSpace s) \<subseteq> set s"
  using set_mono_prefix [OF trim_right_prefix, of "trim_left s"] set_mono_suffix [OF trim_left_suffix, of s]
  by (auto simp: TrimSpace_def)

lemma TrimSpace_sublist: "\<exists>us vs. s = us @ TrimSpace s @ vs"
proof -
  obtain us where "s = us @ trim_left s" using trim_left_suffix by (metis suffix_def)
  moreover obtain vs where "trim_left s = TrimSpace s @ vs"
    using trim_right_prefix [of "trim_left s"] by (auto simp: TrimSpace_def elim: prefixE)
  ultimately show ?thesis by metis
qed

text \<open>A text whose first and last bytes are visible ASCII is left alone.\<close>

definition visible :: "byte \<Rightarrow> bool" where
  "visible c \<longleftrightarrow> 33 \<le> byte_val c \<and> byte_val c \<le> 126"

lemma space_encodings_not_visible:
  "e \<in> set space_encodings \<Longrightarrow> \<not> visible (hd e) \<and> \<not> visible (last e)"
  by (auto simp: space_encodings_def visible_def)

lemma TrimSpace_visible:
  assumes "s \<noteq> []" "visible (hd s)" "visible (last s)"
  shows "TrimSpace s = s"
proof -
  have "leading_space s = None"
  proof (rule ccontr)
    assume "leading_space s \<noteq> None"
    then obtain e where "e \<in> set space_encodings" "prefix e s" "e \<noteq> []"
      using leading_space_Some by blast
    with assms(2) space_encodings_not_visible [of e] show False
      by (auto elim!: prefixE)
  qed
  moreover have "trailing_space s = None"
  proof (rule ccontr)
    assume "trailing_space s \<noteq> None"
    then obtain e where "e \<in> set space_encodings" "suffix e s" "e \<noteq> []"
      using trailing_space_Some by blast
    with assms(3) space_encodings_not_visible [of e] show False
      by (auto simp: suffix_def)
  qed
  ultimately show ?thesis
    by (simp add: TrimSpace_def trim_left.simps [of s] trim_right.simps [of s])
qed

lemma TrimSpace_Nil [simp]: "TrimSpace [] = []"
  using length_TrimSpace [of "[]"] by simp

end
