(* ===== verification/Provision_Store.thy ===== *)
theory Provision_Store
  imports Go_Text
begin

text \<open>
  The stored side of account provisioning: operations, their stages and leases
  (\<open>internal/store/dbstore_database_provisioning.go\<close> and its \<open>_state\<close>, \<open>_lease\<close>, \<open>_clock\<close>,
  \<open>_activation\<close> and \<open>_deprovision\<close> files).

  The database is a record of tables.  The service's copy of an operation is the row itself.  A world is the database, the
  accounts that exist on the servers (instance, name and host), the audit entries (actor, instance,
  operation and result), the clock (in nanoseconds; the database and the service read the same one) and a script of events:
  every call on the outside takes the next event, which says how much time passes, whether the call
  works, fails without effect, or takes effect while the caller sees an error, and what the calls
  that are not under the store's control answer.  Theorems quantify over the script.  The tables of
  resources, account groups and sequences that activation also writes are not modelled; a failure
  there rolls the transaction back and is an event that fails.  A nil context is not modelled: no
  caller passes one.
\<close>

section \<open>Rows\<close>

datatype stage =
    NoStage
  | StageReserved
  | StageCreateStarted
  | StageCreateUncertain
  | StageUpstreamCreated
  | StageGrantStarted
  | StageActivationPending
  | StageCleanupRequired
  | StageCleanupInProgress
  | StageNotCreated
  | StageActiveManaged
  | StageDeprovisionRequested
  | StageDropStarted
  | StageDropUncertain

datatype cleanup_status =
    NoCleanupStatus
  | CleanupNone
  | CleanupRequired
  | CleanupInProgress
  | CleanupFailed

definition ProvisioningErrorCreateUncertain :: string where "ProvisioningErrorCreateUncertain = ''create_outcome_uncertain''"
definition ProvisioningErrorGrantFailed :: string where "ProvisioningErrorGrantFailed = ''grant_failed''"
definition ProvisioningErrorActivationFailed :: string where "ProvisioningErrorActivationFailed = ''activation_failed''"
definition ProvisioningErrorCleanupFailed :: string where "ProvisioningErrorCleanupFailed = ''cleanup_failed''"

record operation =
  op_ID :: string
  op_InstanceID :: string
  op_AdminAccountID :: string
  op_Username :: string
  op_Password :: string
  op_Host :: string
  op_GrantsJSON :: string
  op_Group :: string
  op_Remark :: string
  op_ExpiresAt :: "int option"
  op_ActorID :: string
  op_IdempotencyKey :: "string option"
  op_RequestHash :: string
  op_Stage :: stage
  op_CleanupStatus :: cleanup_status
  op_LastError :: string
  op_AttemptCount :: nat
  op_LastAttemptAt :: "int option"
  op_Revision :: int
  op_LeaseOwner :: string
  op_LeaseToken :: string
  op_LeaseExpiresAt :: "int option"
  op_CreatedAt :: int
  op_UpdatedAt :: int
  op_TerminalAt :: "int option"
  op_ActiveRetainedAt :: "int option"
  op_Active :: bool

definition zero_operation :: operation where
  "zero_operation = \<lparr>op_ID = [], op_InstanceID = [], op_AdminAccountID = [], op_Username = [], op_Password = [], op_Host = [],
     op_GrantsJSON = [], op_Group = [], op_Remark = [], op_ExpiresAt = None, op_ActorID = [], op_IdempotencyKey = None,
     op_RequestHash = [], op_Stage = NoStage, op_CleanupStatus = NoCleanupStatus, op_LastError = [], op_AttemptCount = 0,
     op_LastAttemptAt = None, op_Revision = 0, op_LeaseOwner = [], op_LeaseToken = [], op_LeaseExpiresAt = None,
     op_CreatedAt = 0, op_UpdatedAt = 0, op_TerminalAt = None, op_ActiveRetainedAt = None, op_Active = False\<rparr>"

record db_instance =
  in_ID :: string
  in_Status :: string
  in_Protocol :: string
  in_Active :: bool

record db_account =
  da_ID :: string
  da_InstanceID :: string
  da_UniqueName :: string
  da_Username :: string
  da_Password :: string
  da_Group :: string
  da_Remark :: string
  da_ExpiresAt :: "int option"
  da_Status :: string
  da_Managed :: bool
  da_UpstreamHost :: string
  da_ResourceSeq :: nat
  da_OperationID :: "string option"
  da_Active :: bool

record prov_db =
  operations :: "operation list"
  accounts :: "db_account list"
  instances :: "db_instance list"

record fence =
  fe_ID :: string
  fe_Stage :: stage
  fe_CleanupStatus :: cleanup_status
  fe_Revision :: int
  fe_LeaseOwner :: string
  fe_LeaseToken :: string

definition Fence :: "operation \<Rightarrow> fence" where
  "Fence o1 = \<lparr>fe_ID = op_ID o1, fe_Stage = op_Stage o1, fe_CleanupStatus = op_CleanupStatus o1,
     fe_Revision = op_Revision o1, fe_LeaseOwner = op_LeaseOwner o1, fe_LeaseToken = op_LeaseToken o1\<rparr>"

record transition =
  tr_Stage :: stage
  tr_CleanupStatus :: cleanup_status
  tr_LastError :: string
  tr_IncrementAttempt :: bool
  tr_ReleaseLease :: bool

record lease =
  le_Owner :: string
  le_Token :: string
  le_Duration :: int

section \<open>The world\<close>

datatype fate = Works | Fails | WorksUnnoticed

text \<open>\<open>ev_create\<close> is what the account creation reports (see the service) and whether the account then
  exists; \<open>ev_drop\<close> is whether the drop reports an error and whether the account is gone.\<close>

datatype create_disposition = CreateNotSent | CreateNotCreated | CreateMayBeApplied | CreateApplied

record event =
  ev_elapsed :: nat
  ev_fate :: fate
  ev_delay :: nat
  ev_cancelled :: bool
  ev_draws :: "nat \<Rightarrow> nat option"
  ev_fresh :: "nat \<Rightarrow> string"
  ev_seq :: nat
  ev_host :: "string option"
  ev_databases :: "string list option"
  ev_create :: "create_disposition \<times> bool \<times> bool"
  ev_grantFails :: bool
  ev_drop :: "bool \<times> bool"

record world =
  db :: prov_db
  upstream :: "(string \<times> string \<times> string) list"
  audits :: "(string \<times> string \<times> string \<times> string) list"
  clock :: int
  script :: "nat \<Rightarrow> event"
  position :: nat

definition take_event :: "world \<Rightarrow> event \<times> world" where
  "take_event w = (let e = script w (position w) in
     (e, w\<lparr>position := Suc (position w), clock := clock w + int (ev_elapsed e)\<rparr>))"

text \<open>A read and a transaction; the flag is the error.  A transaction gives \<open>None\<close> when its body
  returns an error, which rolls it back.\<close>

definition db_read :: "(int \<Rightarrow> prov_db \<Rightarrow> 'r) \<Rightarrow> 'r \<Rightarrow> world \<Rightarrow> ('r \<times> bool) \<times> world" where
  "db_read query zero w =
     (case take_event w of (e, w) \<Rightarrow>
        if ev_fate e = Works then ((query (clock w) (db w), False), w) else ((zero, True), w))"

definition db_write :: "(event \<Rightarrow> int \<Rightarrow> prov_db \<Rightarrow> ('r \<times> prov_db) option) \<Rightarrow> 'r \<Rightarrow> world \<Rightarrow> ('r \<times> bool) \<times> world" where
  "db_write body zero w =
     (case take_event w of (e, w) \<Rightarrow>
        if ev_fate e = Fails then ((zero, True), w)
        else case body e (clock w) (db w) of
          None \<Rightarrow> ((zero, True), w)
        | Some (r, d) \<Rightarrow>
            (if ev_fate e = Works then (r, False) else (zero, True), w\<lparr>db := d\<rparr>))"

section \<open>Identities and transitions\<close>

definition lower_or_digit :: "byte \<Rightarrow> bool" where
  "lower_or_digit c \<longleftrightarrow> 97 \<le> byte_val c \<and> byte_val c \<le> 122 \<or> 48 \<le> byte_val c \<and> byte_val c \<le> 57"

definition trim_prefix :: "string \<Rightarrow> string \<Rightarrow> string" where
  "trim_prefix p s = (if take (length p) s = p then drop (length p) s else s)"

definition validProvisioningIdentity :: "string \<Rightarrow> string \<Rightarrow> bool" where
  "validProvisioningIdentity ident username \<longleftrightarrow>
     (let token = trim_prefix ''jmo_'' (TrimSpace ident) in
      if token = TrimSpace ident \<or> length token \<noteq> 20 \<or> TrimSpace username \<noteq> ''jm_'' @ token then False
      else list_all lower_or_digit token)"

definition databaseProvisioningCleanupSource :: "stage \<Rightarrow> bool" where
  "databaseProvisioningCleanupSource s \<longleftrightarrow>
     s \<in> {StageCreateStarted, StageCreateUncertain, StageUpstreamCreated, StageGrantStarted, StageCleanupRequired,
          StageCleanupInProgress}"

definition validProvisioningTransition :: "stage \<Rightarrow> stage \<Rightarrow> cleanup_status \<Rightarrow> bool" where
  "validProvisioningTransition from to cleanup =
     (case to of
        StageCreateStarted \<Rightarrow> from = StageReserved \<and> cleanup = CleanupNone
      | StageUpstreamCreated \<Rightarrow> from = StageCreateStarted \<and> cleanup = CleanupNone
      | StageCreateUncertain \<Rightarrow> from = StageCreateStarted \<and> cleanup = CleanupRequired
      | StageGrantStarted \<Rightarrow> from = StageUpstreamCreated \<and> cleanup = CleanupNone
      | StageActivationPending \<Rightarrow> (from = StageGrantStarted \<or> from = StageActivationPending) \<and> cleanup = CleanupNone
      | StageNotCreated \<Rightarrow>
          (from = StageReserved \<or> from = StageCreateStarted \<or> from = StageCleanupInProgress \<or> from = StageNotCreated)
          \<and> cleanup = CleanupNone
      | StageDropStarted \<Rightarrow> (from = StageDeprovisionRequested \<or> from = StageDropUncertain) \<and> cleanup = CleanupInProgress
      | StageDropUncertain \<Rightarrow> from = StageDropStarted \<and> cleanup = CleanupRequired
      | StageCleanupRequired \<Rightarrow>
          databaseProvisioningCleanupSource from \<and> (cleanup = CleanupRequired \<or> cleanup = CleanupFailed)
      | StageCleanupInProgress \<Rightarrow> databaseProvisioningCleanupSource from \<and> cleanup = CleanupInProgress
      | _ \<Rightarrow> False)"

definition safeProvisioningErrorCode :: "string \<Rightarrow> bool" where
  "safeProvisioningErrorCode value \<longleftrightarrow>
     TrimSpace value \<in> {[], ProvisioningErrorCreateUncertain, ProvisioningErrorGrantFailed,
       ProvisioningErrorActivationFailed, ProvisioningErrorCleanupFailed}"

text \<open>The conditions the statements carry: the fence, and the lease against the database clock.\<close>

definition provisioningFenceCondition :: "fence \<Rightarrow> operation \<Rightarrow> bool" where
  "provisioningFenceCondition f o1 \<longleftrightarrow> Fence o1 = f"

definition validLeaseCondition :: "int \<Rightarrow> operation \<Rightarrow> bool" where
  "validLeaseCondition now o1 \<longleftrightarrow> (case op_LeaseExpiresAt o1 of None \<Rightarrow> False | Some t \<Rightarrow> now < t)"

definition expiredOrUnsetLeaseCondition :: "int \<Rightarrow> operation \<Rightarrow> bool" where
  "expiredOrUnsetLeaseCondition now o1 \<longleftrightarrow> (case op_LeaseExpiresAt o1 of None \<Rightarrow> True | Some t \<Rightarrow> t \<le> now)"

text \<open>An expiry is computed only for whole microseconds.\<close>

definition leaseExpiryExpression :: "int \<Rightarrow> int \<Rightarrow> int option" where
  "leaseExpiryExpression duration now =
     (if duration < 1000 \<or> duration mod 1000 \<noteq> 0 then None else Some (now + duration))"

text \<open>What is left of the lease, capped by its length; the fraction of a nanosecond that the
  floating-point reading may lose is not modelled.\<close>

definition leaseWindow :: "int \<Rightarrow> operation \<Rightarrow> int \<Rightarrow> int option" where
  "leaseWindow now o1 maxRemaining =
     (case op_LeaseExpiresAt o1 of None \<Rightarrow> None
      | Some t \<Rightarrow> if t - now \<le> 0 then None else Some (min maxRemaining (t - now)))"

text \<open>An UPDATE with a condition: the rows after it, and whether any row was affected.\<close>

definition update_where :: "(operation \<Rightarrow> bool) \<Rightarrow> (operation \<Rightarrow> operation) \<Rightarrow> prov_db \<Rightarrow> bool \<times> prov_db" where
  "update_where condition f d =
     (list_ex (\<lambda>o1. op_Active o1 \<and> condition o1) (operations d),
      d\<lparr>operations := map (\<lambda>o1. if op_Active o1 \<and> condition o1 then f o1 else o1) (operations d)\<rparr>)"

definition find_operation :: "string \<Rightarrow> prov_db \<Rightarrow> operation option" where
  "find_operation ident d = find (\<lambda>o1. op_Active o1 \<and> op_ID o1 = ident) (operations d)"

definition DatabaseProvisioningOperation :: "string \<Rightarrow> world \<Rightarrow> (operation \<times> bool) \<times> world" where
  "DatabaseProvisioningOperation ident w =
     (case db_read (\<lambda>_. find_operation (TrimSpace ident)) None w of
        ((Some o1, False), w) \<Rightarrow> ((o1, False), w)
      | ((_, _), w) \<Rightarrow> ((zero_operation, True), w))"

definition apply_transition :: "transition \<Rightarrow> int \<Rightarrow> operation \<Rightarrow> operation" where
  "apply_transition tr now o1 =
     (let o1 = o1\<lparr>op_Stage := tr_Stage tr, op_CleanupStatus := tr_CleanupStatus tr,
                  op_LastError := TrimSpace (tr_LastError tr), op_Revision := op_Revision o1 + 1, op_UpdatedAt := now\<rparr>;
          o1 = (if tr_IncrementAttempt tr
                then o1\<lparr>op_AttemptCount := op_AttemptCount o1 + 1, op_LastAttemptAt := Some now\<rparr> else o1);
          o1 = (if tr_ReleaseLease tr
                then o1\<lparr>op_LeaseOwner := [], op_LeaseToken := [], op_LeaseExpiresAt := None\<rparr> else o1) in
      if tr_Stage tr = StageNotCreated then o1\<lparr>op_TerminalAt := Some now\<rparr> else o1)"

text \<open>The result: the operation, whether the transition happened, and the error.\<close>

definition TransitionDatabaseProvisioningOperation ::
    "fence \<Rightarrow> transition \<Rightarrow> world \<Rightarrow> (operation \<times> bool \<times> bool) \<times> world" where
  "TransitionDatabaseProvisioningOperation expected tr w =
     (if \<not> validProvisioningTransition (fe_Stage expected) (tr_Stage tr) (tr_CleanupStatus tr)
         \<or> \<not> safeProvisioningErrorCode (tr_LastError tr)
      then ((zero_operation, False, True), w)
      else
      (case db_write (\<lambda>e now d. Some (update_where
               (\<lambda>o1. provisioningFenceCondition expected o1 \<and> validLeaseCondition now o1) (apply_transition tr now) d)) False w of
         ((_, True), w) \<Rightarrow> ((zero_operation, False, True), w)
       | ((affected, False), w) \<Rightarrow>
           if \<not> affected then ((zero_operation, False, False), w)
           else (case DatabaseProvisioningOperation (fe_ID expected) w of
                   ((o1, err), w) \<Rightarrow> ((o1, \<not> err, err), w))))"

section \<open>Leases\<close>

definition apply_lease :: "lease \<Rightarrow> int \<Rightarrow> int \<Rightarrow> operation \<Rightarrow> operation" where
  "apply_lease l now expiresAt o1 =
     o1\<lparr>op_LeaseOwner := le_Owner l, op_LeaseToken := le_Token l, op_LeaseExpiresAt := Some expiresAt,
        op_Revision := op_Revision o1 + 1, op_UpdatedAt := now\<rparr>"

definition lease_condition :: "fence \<Rightarrow> bool \<Rightarrow> int \<Rightarrow> operation \<Rightarrow> bool" where
  "lease_condition expected claim now o1 \<longleftrightarrow> provisioningFenceCondition expected o1
     \<and> (if claim then expiredOrUnsetLeaseCondition now o1 else validLeaseCondition now o1)"

definition lease_body ::
    "fence \<Rightarrow> lease \<Rightarrow> bool \<Rightarrow> event \<Rightarrow> int \<Rightarrow> prov_db \<Rightarrow> ((operation \<times> int) option \<times> prov_db) option" where
  "lease_body expected l claim e now d =
     (case leaseExpiryExpression (le_Duration l) now of None \<Rightarrow> None
      | Some expiresAt \<Rightarrow>
        (case update_where (lease_condition expected claim now) (apply_lease l now expiresAt) d of
           (False, d) \<Rightarrow> Some (None, d)
         | (True, d) \<Rightarrow>
             (case find_operation (fe_ID expected) d of None \<Rightarrow> None
              | Some o1 \<Rightarrow>
                (case leaseWindow (now + int (ev_delay e)) o1 (le_Duration l) of None \<Rightarrow> None
                 | Some window \<Rightarrow> Some (Some (o1, window), d)))))"

definition updateProvisioningLease ::
    "fence \<Rightarrow> lease \<Rightarrow> bool \<Rightarrow> world \<Rightarrow> (operation \<times> int \<times> bool \<times> bool) \<times> world" where
  "updateProvisioningLease expected l claim w =
     (case db_write (lease_body expected l claim) None w of
        ((_, True), w) \<Rightarrow> ((zero_operation, 0, False, True), w)
      | ((None, False), w) \<Rightarrow> ((zero_operation, 0, False, False), w)
      | ((Some (o1, window), False), w) \<Rightarrow> ((o1, window, True, False), w))"

definition trim_lease :: "lease \<Rightarrow> lease" where
  "trim_lease l = l\<lparr>le_Owner := TrimSpace (le_Owner l), le_Token := TrimSpace (le_Token l)\<rparr>"

definition lease_ok :: "lease \<Rightarrow> bool" where
  "lease_ok l \<longleftrightarrow> le_Owner l \<noteq> [] \<and> le_Token l \<noteq> [] \<and> le_Duration l > 0"

definition ClaimDatabaseProvisioningOperation ::
    "fence \<Rightarrow> lease \<Rightarrow> world \<Rightarrow> (operation \<times> int \<times> bool \<times> bool) \<times> world" where
  "ClaimDatabaseProvisioningOperation expected l w =
     (let l = trim_lease l in
      if \<not> lease_ok l \<or> leaseExpiryExpression (le_Duration l) 0 = None then ((zero_operation, 0, False, True), w)
      else updateProvisioningLease expected l True w)"

definition RenewDatabaseProvisioningOperation ::
    "fence \<Rightarrow> lease \<Rightarrow> world \<Rightarrow> (operation \<times> int \<times> bool \<times> bool) \<times> world" where
  "RenewDatabaseProvisioningOperation expected l w =
     (let l = trim_lease l in
      if \<not> lease_ok l \<or> fe_LeaseOwner expected \<noteq> le_Owner l \<or> fe_LeaseToken expected \<noteq> le_Token l
         \<or> leaseExpiryExpression (le_Duration l) 0 = None then ((zero_operation, 0, False, True), w)
      else updateProvisioningLease expected l False w)"

definition DeleteDatabaseProvisioningOperation :: "fence \<Rightarrow> world \<Rightarrow> (bool \<times> bool) \<times> world" where
  "DeleteDatabaseProvisioningOperation expected w =
     (if fe_Stage expected \<notin> {StageReserved, StageNotCreated, StageCleanupInProgress} then ((False, False), w)
      else db_write (\<lambda>e now d. Some (update_where
             (\<lambda>o1. provisioningFenceCondition expected o1 \<and> validLeaseCondition now o1)
             (\<lambda>o1. o1\<lparr>op_Active := False, op_UpdatedAt := now\<rparr>) d)) False w)"

section \<open>Creating operations\<close>

record operation_input =
  oi_ID :: string
  oi_InstanceID :: string
  oi_AdminAccountID :: string
  oi_Username :: string
  oi_Password :: string
  oi_Host :: string
  oi_GrantsJSON :: string
  oi_Group :: string
  oi_Remark :: string
  oi_ExpiresAt :: "int option"
  oi_ActorID :: string
  oi_IdempotencyKey :: string
  oi_RequestHash :: string
  oi_Lease :: lease
  oi_AdministratorUsername :: string
  oi_AdministratorPassword :: string
  oi_InstanceProof :: string

definition find_instance :: "string \<Rightarrow> prov_db \<Rightarrow> db_instance option" where
  "find_instance ident d = find (\<lambda>i. in_Active i \<and> in_ID i = ident) (instances d)"

definition activeDatabaseAccountScope :: "prov_db \<Rightarrow> db_account \<Rightarrow> bool" where
  "activeDatabaseAccountScope d a \<longleftrightarrow> da_Active a \<and> find_instance (da_InstanceID a) d \<noteq> None"

definition lockProvisioningInstance :: "string \<Rightarrow> prov_db \<Rightarrow> db_instance option" where
  "lockProvisioningInstance instanceID d = find_instance (TrimSpace instanceID) d"

definition lockProvisioningAdministrator :: "string \<Rightarrow> string \<Rightarrow> prov_db \<Rightarrow> db_account option" where
  "lockProvisioningAdministrator instanceID accountID d =
     find (\<lambda>a. activeDatabaseAccountScope d a \<and> da_ID a = TrimSpace accountID \<and> da_InstanceID a = TrimSpace instanceID) (accounts d)"

definition not_before :: "int \<Rightarrow> int option \<Rightarrow> bool" where
  "not_before now t = (case t of None \<Rightarrow> False | Some x \<Rightarrow> x \<le> now)"

definition new_operation :: "operation_input \<Rightarrow> int \<Rightarrow> operation" where
  "new_operation input now =
     \<lparr>op_ID = oi_ID input, op_InstanceID = oi_InstanceID input, op_AdminAccountID = oi_AdminAccountID input,
      op_Username = oi_Username input, op_Password = oi_Password input, op_Host = oi_Host input,
      op_GrantsJSON = oi_GrantsJSON input, op_Group = TrimSpace (oi_Group input), op_Remark = TrimSpace (oi_Remark input),
      op_ExpiresAt = oi_ExpiresAt input, op_ActorID = TrimSpace (oi_ActorID input),
      op_IdempotencyKey = (let key = TrimSpace (oi_IdempotencyKey input) in if key \<noteq> [] then Some key else None),
      op_RequestHash = (if TrimSpace (oi_IdempotencyKey input) \<noteq> [] then TrimSpace (oi_RequestHash input) else []),
      op_Stage = StageReserved, op_CleanupStatus = CleanupNone, op_LastError = [], op_AttemptCount = 0, op_LastAttemptAt = None,
      op_Revision = 1, op_LeaseOwner = le_Owner (oi_Lease input), op_LeaseToken = le_Token (oi_Lease input),
      op_LeaseExpiresAt = Some (now + le_Duration (oi_Lease input)), op_CreatedAt = now, op_UpdatedAt = now,
      op_TerminalAt = None, op_ActiveRetainedAt = None, op_Active = True\<rparr>"

text \<open>The primary key and the unique indexes of the table: one row per ID, and one active row per
  upstream name and per actor and key.\<close>

definition insert_conflict :: "operation \<Rightarrow> prov_db \<Rightarrow> bool" where
  "insert_conflict n d = list_ex (\<lambda>o1. op_ID o1 = op_ID n
     \<or> (op_Active o1 \<and> op_Username o1 = op_Username n)
     \<or> (op_Active o1 \<and> op_IdempotencyKey n \<noteq> None \<and> op_ActorID o1 = op_ActorID n \<and> op_IdempotencyKey o1 = op_IdempotencyKey n))
     (operations d)"

definition trim_input :: "operation_input \<Rightarrow> operation_input" where
  "trim_input input = input\<lparr>oi_ID := TrimSpace (oi_ID input), oi_InstanceID := TrimSpace (oi_InstanceID input),
     oi_AdminAccountID := TrimSpace (oi_AdminAccountID input), oi_Username := TrimSpace (oi_Username input),
     oi_Host := TrimSpace (oi_Host input), oi_Lease := trim_lease (oi_Lease input)\<rparr>"

definition input_ok :: "operation_input \<Rightarrow> bool" where
  "input_ok input \<longleftrightarrow> validProvisioningIdentity (oi_ID input) (oi_Username input)
     \<and> oi_InstanceID input \<noteq> [] \<and> oi_AdminAccountID input \<noteq> [] \<and> oi_Password input \<noteq> [] \<and> oi_Host input \<noteq> []
     \<and> TrimSpace (oi_GrantsJSON input) \<noteq> [] \<and> lease_ok (oi_Lease input)
     \<and> TrimSpace (oi_AdministratorUsername input) \<noteq> [] \<and> oi_AdministratorPassword input \<noteq> []
     \<and> length (TrimSpace (oi_InstanceProof input)) = 64"

text \<open>The body of the transaction: the rows it depends on are read under locks and compared with what
  the caller saw.  \<open>proof_of\<close> is the digest of an instance's connection fields.\<close>

definition create_body ::
    "(db_instance \<Rightarrow> string) \<Rightarrow> operation_input \<Rightarrow> event \<Rightarrow> int \<Rightarrow> prov_db \<Rightarrow> (operation option \<times> prov_db) option" where
  "create_body proof_of input e now d =
     (case (lockProvisioningInstance (oi_InstanceID input) d,
            lockProvisioningAdministrator (oi_InstanceID input) (oi_AdminAccountID input) d) of
        (Some inst, Some admin) \<Rightarrow>
          if in_Status inst \<noteq> ''active'' \<or> in_Protocol inst \<noteq> ''mysql'' \<or> da_Status admin \<noteq> ''active'' \<or> da_Password admin = []
             \<or> da_Username admin \<noteq> oi_AdministratorUsername input \<or> da_Password admin \<noteq> oi_AdministratorPassword input
             \<or> proof_of inst \<noteq> TrimSpace (oi_InstanceProof input) \<or> not_before now (da_ExpiresAt admin)
             \<or> list_ex (\<lambda>a. da_Active a \<and> da_InstanceID a = oi_InstanceID input \<and> da_Username a = oi_Username input) (accounts d)
             \<or> insert_conflict (new_operation input now) d
             \<or> leaseWindow (now + int (ev_delay e)) (new_operation input now) (le_Duration (oi_Lease input)) = None
          then None
          else Some (Some (new_operation input now), d\<lparr>operations := operations d @ [new_operation input now]\<rparr>)
      | _ \<Rightarrow> None)"

definition CreateDatabaseProvisioningOperation ::
    "(db_instance \<Rightarrow> string) \<Rightarrow> operation_input \<Rightarrow> world \<Rightarrow> (operation \<times> bool) \<times> world" where
  "CreateDatabaseProvisioningOperation proof_of input w =
     (let input = trim_input input in
      if \<not> input_ok input \<or> leaseExpiryExpression (le_Duration (oi_Lease input)) 0 = None then ((zero_operation, True), w)
      else (case db_write (create_body proof_of input) None w of
              ((Some o1, False), w) \<Rightarrow> ((o1, False), w)
            | ((_, _), w) \<Rightarrow> ((zero_operation, True), w)))"

definition DatabaseProvisioningOperationByIdempotency ::
    "string \<Rightarrow> string \<Rightarrow> world \<Rightarrow> (operation option \<times> bool) \<times> world" where
  "DatabaseProvisioningOperationByIdempotency actorID key w =
     db_read (\<lambda>_ d. find (\<lambda>o1. op_Active o1 \<and> op_ActorID o1 = TrimSpace actorID \<and> op_IdempotencyKey o1 = Some (TrimSpace key))
       (operations d)) None w"

datatype create_error = CreateInvalidRequest | CreateConflict | CreateFailed

text \<open>The result: the operation, whether it was created now, and the error.\<close>

definition CreateOrGetDatabaseProvisioningOperation ::
    "(db_instance \<Rightarrow> string) \<Rightarrow> operation_input \<Rightarrow> world \<Rightarrow> (operation \<times> bool \<times> create_error option) \<times> world" where
  "CreateOrGetDatabaseProvisioningOperation proof_of input w =
     (if TrimSpace (oi_ActorID input) = [] \<or> TrimSpace (oi_IdempotencyKey input) = [] \<or> length (TrimSpace (oi_RequestHash input)) \<noteq> 64
      then ((zero_operation, False, Some CreateInvalidRequest), w)
      else
      (case DatabaseProvisioningOperationByIdempotency (oi_ActorID input) (oi_IdempotencyKey input) w of
         ((_, True), w) \<Rightarrow> ((zero_operation, False, Some CreateFailed), w)
       | ((Some o1, False), w) \<Rightarrow>
           if op_RequestHash o1 \<noteq> oi_RequestHash input then ((zero_operation, False, Some CreateConflict), w)
           else ((o1, False, None), w)
       | ((None, False), w) \<Rightarrow>
           (case CreateDatabaseProvisioningOperation proof_of input w of
              ((o1, False), w) \<Rightarrow> ((o1, True, None), w)
            | ((_, True), w) \<Rightarrow>
                (case DatabaseProvisioningOperationByIdempotency (oi_ActorID input) (oi_IdempotencyKey input) w of
                   ((Some o1, False), w) \<Rightarrow>
                     if op_RequestHash o1 \<noteq> oi_RequestHash input then ((zero_operation, False, Some CreateConflict), w)
                     else ((o1, False, None), w)
                 | ((_, _), w) \<Rightarrow> ((zero_operation, False, Some CreateFailed), w)))))"

definition ProvisionedDatabaseAccountByOperation :: "string \<Rightarrow> world \<Rightarrow> (db_account option \<times> bool) \<times> world" where
  "ProvisionedDatabaseAccountByOperation operationID w =
     db_read (\<lambda>_ d. find (\<lambda>a. activeDatabaseAccountScope d a \<and> da_OperationID a = Some (TrimSpace operationID)) (accounts d)) None w"

definition DatabaseProvisioningAdmin :: "string \<Rightarrow> string \<Rightarrow> world \<Rightarrow> (db_instance \<times> db_account) option \<times> world" where
  "DatabaseProvisioningAdmin instanceID accountID w =
     (if TrimSpace instanceID = [] \<or> TrimSpace accountID = [] then (None, w)
      else (case db_read (\<lambda>_ d. lockProvisioningAdministrator instanceID accountID d) None w of
              ((Some admin, False), w) \<Rightarrow>
                (case find_instance (da_InstanceID admin) (db w) of None \<Rightarrow> (None, w) | Some inst \<Rightarrow> (Some (inst, admin), w))
            | ((_, _), w) \<Rightarrow> (None, w)))"

definition executable_stage :: "int \<Rightarrow> operation \<Rightarrow> bool" where
  "executable_stage staleBefore o1 \<longleftrightarrow>
     op_Stage o1 = StageActivationPending
     \<or> (op_Stage o1 = StageReserved \<and> op_CreatedAt o1 \<le> staleBefore)
     \<or> (op_Stage o1 \<in> {StageCreateStarted, StageCreateUncertain, StageUpstreamCreated, StageGrantStarted, StageCleanupRequired,
           StageCleanupInProgress, StageDeprovisionRequested, StageDropStarted, StageDropUncertain}
        \<and> (case op_LastAttemptAt o1 of None \<Rightarrow> op_UpdatedAt o1 | Some t \<Rightarrow> t) \<le> staleBefore)"

text \<open>The clock is read first, then the rows, both of them calls that may fail.\<close>

definition ListExecutableDatabaseProvisioningOperations ::
    "int \<Rightarrow> int \<Rightarrow> world \<Rightarrow> operation list option \<times> world" where
  "ListExecutableDatabaseProvisioningOperations staleAfter limit w =
     (if staleAfter \<le> 0 \<or> limit \<le> 0 \<or> limit > 500 then (None, w)
      else (case db_read (\<lambda>now _. now) 0 w of
              ((_, True), w) \<Rightarrow> (None, w)
            | ((now, False), w) \<Rightarrow>
              (case db_read (\<lambda>_ d. take (nat limit) (sort_key op_UpdatedAt
                      [o1 \<leftarrow> operations d. op_Active o1 \<and> expiredOrUnsetLeaseCondition now o1
                         \<and> executable_stage (now - staleAfter) o1])) [] w of
                 ((_, True), w) \<Rightarrow> (None, w)
               | ((rows, False), w) \<Rightarrow> (Some rows, w))))"

section \<open>Audit entries\<close>

definition BeginDatabaseProvisioningAudit :: "string \<Rightarrow> string \<Rightarrow> string \<Rightarrow> world \<Rightarrow> nat option \<times> world" where
  "BeginDatabaseProvisioningAudit actor instanceID kind w =
     (case take_event w of (e, w) \<Rightarrow>
        if ev_fate e = Fails then (None, w)
        else (if ev_fate e = Works then Some (length (audits w)) else None,
              w\<lparr>audits := audits w @ [(TrimSpace actor, TrimSpace instanceID, TrimSpace kind, ''started'')]\<rparr>))"

definition CompleteDatabaseProvisioningAudit :: "nat \<Rightarrow> string \<Rightarrow> world \<Rightarrow> world" where
  "CompleteDatabaseProvisioningAudit auditID result w =
     (case take_event w of (e, w) \<Rightarrow>
        if ev_fate e = Fails \<or> auditID \<ge> length (audits w) then w
        else (case audits w ! auditID of (actor, inst, kind, _) \<Rightarrow>
                w\<lparr>audits := (audits w)[auditID := (actor, inst, kind, result)]\<rparr>))"

section \<open>Activation\<close>

definition generateProvisioningUniqueName :: "(nat \<Rightarrow> string) \<Rightarrow> prov_db \<Rightarrow> string option" where
  "generateProvisioningUniqueName fresh d =
     find (\<lambda>name. \<not> list_ex (\<lambda>a. da_Active a \<and> da_UniqueName a = name) (accounts d))
       (map (\<lambda>attempt. ''db-'' @ take 12 (fresh attempt)) [0..<10])"

definition apply_activation :: "int \<Rightarrow> operation \<Rightarrow> operation" where
  "apply_activation now o1 =
     o1\<lparr>op_Stage := StageActiveManaged, op_ActiveRetainedAt := Some now, op_TerminalAt := None, op_LastError := [],
        op_LeaseOwner := [], op_LeaseToken := [], op_LeaseExpiresAt := None, op_Revision := op_Revision o1 + 1, op_UpdatedAt := now\<rparr>"

definition activateDatabaseProvisioningOperation :: "fence \<Rightarrow> int \<Rightarrow> prov_db \<Rightarrow> prov_db option" where
  "activateDatabaseProvisioningOperation expected now d =
     (case update_where (\<lambda>o1. provisioningFenceCondition expected o1 \<and> validLeaseCondition now o1) (apply_activation now) d of
        (affected, d) \<Rightarrow> if affected then Some d else None)"

definition account_of :: "operation \<Rightarrow> string \<Rightarrow> string \<Rightarrow> nat \<Rightarrow> db_account" where
  "account_of o1 ident uniqueName sequence =
     \<lparr>da_ID = ident, da_InstanceID = op_InstanceID o1, da_UniqueName = uniqueName, da_Username = op_Username o1,
      da_Password = op_Password o1, da_Group = op_Group o1, da_Remark = op_Remark o1, da_ExpiresAt = op_ExpiresAt o1,
      da_Status = ''active'', da_Managed = True, da_UpstreamHost = op_Host o1, da_ResourceSeq = sequence,
      da_OperationID = Some (op_ID o1), da_Active = True\<rparr>"

definition activation_body :: "fence \<Rightarrow> event \<Rightarrow> int \<Rightarrow> prov_db \<Rightarrow> (db_account option \<times> prov_db) option" where
  "activation_body expected e now d =
     (case find (\<lambda>o1. op_Active o1 \<and> provisioningFenceCondition expected o1 \<and> validLeaseCondition now o1) (operations d) of
        None \<Rightarrow> Some (None, d)
      | Some o1 \<Rightarrow>
          if \<not> validProvisioningIdentity (op_ID o1) (op_Username o1) then None
          else
          (case find (\<lambda>a. activeDatabaseAccountScope d a \<and> da_OperationID a = Some (fe_ID expected)) (accounts d) of
             Some a \<Rightarrow>
               if da_Status a \<noteq> ''active'' \<or> \<not> da_Managed a \<or> da_OperationID a \<noteq> Some (op_ID o1) then None
               else map_option (Pair (Some a)) (activateDatabaseProvisioningOperation expected now d)
           | None \<Rightarrow>
               (case generateProvisioningUniqueName (ev_fresh e) d of None \<Rightarrow> None
                | Some uniqueName \<Rightarrow>
                    (let a = account_of o1 (ev_fresh e 10) uniqueName (ev_seq e) in
                     if list_ex (\<lambda>b. da_ID b = da_ID a) (accounts d) then None
                     else map_option (Pair (Some a))
                       (activateDatabaseProvisioningOperation expected now (d\<lparr>accounts := accounts d @ [a]\<rparr>))))))"

text \<open>The result: the account, and whether the call is an error.  A lost fence is no error and no
  account.\<close>

definition ActivateDatabaseProvisioningOperation :: "fence \<Rightarrow> world \<Rightarrow> (db_account option \<times> bool) \<times> world" where
  "ActivateDatabaseProvisioningOperation expected w =
     (if fe_Stage expected \<noteq> StageActivationPending \<or> fe_CleanupStatus expected \<noteq> CleanupNone then ((None, False), w)
      else db_write (activation_body expected) None w)"

section \<open>Deprovisioning\<close>

definition managedAccountMatchesProvisioningOperation :: "db_account \<Rightarrow> operation \<Rightarrow> bool" where
  "managedAccountMatchesProvisioningOperation a o1 \<longleftrightarrow>
     da_Managed a \<and> da_OperationID a = Some (op_ID o1) \<and> da_Username a = op_Username o1 \<and> da_UpstreamHost a = op_Host o1
     \<and> validProvisioningIdentity (op_ID o1) (op_Username o1)"

definition begin_body :: "string \<Rightarrow> lease \<Rightarrow> event \<Rightarrow> int \<Rightarrow> prov_db \<Rightarrow> ((bool \<times> operation option) \<times> prov_db) option" where
  "begin_body accountID l e now d =
     (case find (\<lambda>a. activeDatabaseAccountScope d a \<and> da_ID a = accountID) (accounts d) of
        None \<Rightarrow> Some ((False, None), d)
      | Some a \<Rightarrow>
          if \<not> da_Managed a \<or> TrimSpace (case da_OperationID a of None \<Rightarrow> [] | Some i \<Rightarrow> i) = [] then Some ((False, None), d)
          else
          (case find (\<lambda>o1. op_Active o1 \<and> op_ID o1 = the (da_OperationID a) \<and> op_InstanceID o1 = da_InstanceID a) (operations d) of
             None \<Rightarrow> None
           | Some current \<Rightarrow>
               if \<not> validProvisioningIdentity (op_ID current) (op_Username current) \<or> op_Stage current \<noteq> StageActiveManaged
                  \<or> op_CleanupStatus current \<noteq> CleanupNone \<or> \<not> managedAccountMatchesProvisioningOperation a current then None
               else
               (case update_where (\<lambda>o1. provisioningFenceCondition (Fence current) o1 \<and> expiredOrUnsetLeaseCondition now o1)
                       (\<lambda>o1. (apply_lease l now (now + le_Duration l) o1)
                          \<lparr>op_Stage := StageDeprovisionRequested, op_CleanupStatus := CleanupNone\<rparr>) d of
                  (False, d) \<Rightarrow> Some ((True, None), d)
                | (True, d) \<Rightarrow> map_option (\<lambda>o1. ((True, Some o1), d)) (find_operation (op_ID current) d))))"

text \<open>The result: the operation, whether the account is managed, and the error.  (When the
  transaction fails the source may still report a managed account; its caller looks at the error
  first.)\<close>

definition BeginDatabaseDeprovision :: "string \<Rightarrow> lease \<Rightarrow> world \<Rightarrow> (operation \<times> bool \<times> bool) \<times> world" where
  "BeginDatabaseDeprovision accountID l w =
     (let accountID = TrimSpace accountID; l = trim_lease l in
      if accountID = [] \<or> \<not> lease_ok l \<or> leaseExpiryExpression (le_Duration l) 0 = None then ((zero_operation, False, True), w)
      else (case db_write (begin_body accountID l) (False, None) w of
              ((_, True), w) \<Rightarrow> ((zero_operation, False, True), w)
            | (((managed, None), False), w) \<Rightarrow> ((zero_operation, managed, False), w)
            | (((managed, Some o1), False), w) \<Rightarrow> ((o1, True, False), w)))"

definition complete_body :: "fence \<Rightarrow> string \<Rightarrow> event \<Rightarrow> int \<Rightarrow> prov_db \<Rightarrow> (bool \<times> prov_db) option" where
  "complete_body expected accountID e now d =
     (case find (\<lambda>o1. op_Active o1 \<and> provisioningFenceCondition expected o1 \<and> validLeaseCondition now o1) (operations d) of
        None \<Rightarrow> Some (False, d)
      | Some o1 \<Rightarrow>
          if \<not> validProvisioningIdentity (op_ID o1) (op_Username o1) then None
          else
          (case find (\<lambda>a. activeDatabaseAccountScope d a \<and> da_ID a = TrimSpace accountID \<and> da_InstanceID a = op_InstanceID o1) (accounts d) of
             None \<Rightarrow> None
           | Some a \<Rightarrow>
               if \<not> managedAccountMatchesProvisioningOperation a o1 then None
               else
               (case update_where (\<lambda>o1. provisioningFenceCondition expected o1 \<and> validLeaseCondition now o1)
                       (\<lambda>o1. o1\<lparr>op_Active := False, op_UpdatedAt := now\<rparr>)
                       (d\<lparr>accounts := map (\<lambda>b. if da_ID b = TrimSpace accountID \<and> da_Active b
                            then b\<lparr>da_Active := False, da_Status := ''disabled''\<rparr> else b) (accounts d)\<rparr>) of
                  (affected, d) \<Rightarrow> if affected then Some (True, d) else None)))"

definition CompleteDatabaseDeprovision :: "fence \<Rightarrow> string \<Rightarrow> world \<Rightarrow> (bool \<times> bool) \<times> world" where
  "CompleteDatabaseDeprovision expected accountID w =
     (if fe_Stage expected \<noteq> StageDropStarted \<or> fe_CleanupStatus expected \<noteq> CleanupInProgress then ((False, False), w)
      else db_write (complete_body expected accountID) False w)"

end
