(* ===== verification/Net.thy ===== *)
theory Net
  imports Prelude
begin

text \<open>
  The network endpoints the proxies talk to (\<open>net.Conn\<close>, \<open>context.Context\<close>).

  A connection is the bytes its peer has still to deliver (\<open>rx\<close>; a read past them fails, which
  covers a closed connection, an expired deadline and a cancelled context), the bytes written so
  far (\<open>tx\<close>) and a script of how the coming \<open>Write\<close> calls behave: \<open>Accept k\<close> takes at most \<open>k\<close>
  bytes, \<open>Fail k e\<close> takes at most \<open>k\<close> and returns the error \<open>e\<close>, and an exhausted script accepts
  everything.  Quantifying over the script quantifies over all behaviours \<open>io.Writer\<close> allows.
\<close>

datatype wres = Accept nat | Fail nat string

record conn =
  rx :: bytes
  tx :: bytes
  wplan :: "wres list"
  deadline_fails :: bool

record go_context =
  ctx_err :: "string option"
  ctx_has_deadline :: bool

definition conn_write :: "conn \<Rightarrow> bytes \<Rightarrow> nat \<times> string option \<times> conn" where
  "conn_write c data =
     (case wplan c of
        [] \<Rightarrow> (length data, None, c\<lparr>tx := tx c @ data\<rparr>)
      | Accept k # p \<Rightarrow>
          (min k (length data), None, c\<lparr>tx := tx c @ take k data, wplan := p\<rparr>)
      | Fail k e # p \<Rightarrow>
          (min k (length data), Some e, c\<lparr>tx := tx c @ take k data, wplan := p\<rparr>))"

definition conn_read_full :: "nat \<Rightarrow> conn \<Rightarrow> bytes option \<times> conn" where
  "conn_read_full n c =
     (case read_full n (rx c) of
        None \<Rightarrow> (None, c\<lparr>rx := []\<rparr>)
      | Some (bs, rest) \<Rightarrow> (Some bs, c\<lparr>rx := rest\<rparr>))"

lemma conn_write_bound: "conn_write c data = (n, e, c') \<Longrightarrow> n \<le> length data"
  by (auto simp: conn_write_def split: list.splits wres.splits)

lemma conn_write_tx: "conn_write c data = (n, e, c') \<Longrightarrow> tx c' = tx c @ take n data"
  by (auto simp: conn_write_def min_def split: list.splits wres.splits)

lemma conn_write_rx: "conn_write c data = (n, e, c') \<Longrightarrow> rx c' = rx c"
  by (auto simp: conn_write_def split: list.splits wres.splits)

lemma conn_read_full_tx [simp]: "tx (snd (conn_read_full n c)) = tx c"
  by (auto simp: conn_read_full_def split: option.splits prod.splits)

lemma conn_read_full_wplan [simp]: "wplan (snd (conn_read_full n c)) = wplan c"
  by (auto simp: conn_read_full_def split: option.splits prod.splits)

lemma conn_read_full_Some:
  "conn_read_full n c = (Some bs, c') \<Longrightarrow> length bs = n \<and> rx c = bs @ rx c' \<and> c' = c\<lparr>rx := rx c'\<rparr>"
  by (auto simp: conn_read_full_def read_full_def split: option.splits if_splits)

lemma conn_read_full_append:
  "rx c = bs @ rest \<Longrightarrow> length bs = n \<Longrightarrow> conn_read_full n c = (Some bs, c\<lparr>rx := rest\<rparr>)"
  by (simp add: conn_read_full_def)

lemma conn_read_full_rx_le: "length (rx (snd (conn_read_full n c))) \<le> length (rx c)"
  by (auto simp: conn_read_full_def read_full_def split: option.splits)

lemma conn_read_full_suffix: "conn_read_full n c = (r, c') \<Longrightarrow> suffix (rx c') (rx c)"
  by (auto simp: conn_read_full_def read_full_def suffix_drop split: option.splits if_splits)

text \<open>The write loop of \<open>mysqlwire.writePacketBytes\<close> and \<open>dbproxy.writePostgresBytes\<close>: write
  until everything is accepted, an error is returned, or no progress is made.\<close>

function write_loop :: "(nat \<Rightarrow> string \<Rightarrow> 'e) \<Rightarrow> string \<Rightarrow> conn \<Rightarrow> bytes \<Rightarrow> nat \<Rightarrow> 'e option \<times> conn" where
  "write_loop wrap stalled c packet sent =
     (if packet = [] then (None, c)
      else case conn_write c packet of
             (written, err, c') \<Rightarrow>
               (case err of
                  Some e \<Rightarrow> (Some (wrap (sent + written) e), c')
                | None \<Rightarrow>
                    (if written = 0 then (Some (wrap (sent + written) stalled), c')
                     else write_loop wrap stalled c' (drop written packet) (sent + written))))"
  by pat_completeness auto
termination
  by (relation "measure (\<lambda>(wrap, stalled, c, packet, sent). length packet)") auto

declare write_loop.simps [simp del]

lemma write_loop_Nil [simp]: "write_loop wrap stalled c [] sent = (None, c)"
  by (simp add: write_loop.simps)

lemma write_loop_None:
  "write_loop wrap stalled c packet sent = (None, c') \<Longrightarrow> tx c' = tx c @ packet"
proof (induction wrap stalled c packet sent rule: write_loop.induct)
  case (1 wrap stalled c packet sent)
  show ?case
  proof (cases "packet = []")
    case True
    with "1.prems" show ?thesis by simp
  next
    case False
    obtain n e d where w: "conn_write c packet = (n, e, d)" by (cases "conn_write c packet")
    with False "1.prems" have e: "e = None" and n: "n \<noteq> 0"
      and rec: "write_loop wrap stalled d (drop n packet) (sent + n) = (None, c')"
      by (auto simp: write_loop.simps [of wrap stalled c packet sent] split: option.splits if_splits)
    have "tx c' = tx d @ drop n packet"
      using "1.IH" [OF False w [symmetric] refl e n rec] .
    then show ?thesis using conn_write_tx [OF w] by simp
  qed
qed

text \<open>When the loop fails, the count it passes to \<open>wrap\<close> is the number of bytes delivered.\<close>

lemma write_loop_Some:
  "write_loop wrap stalled c packet sent = (Some r, c') \<Longrightarrow>
     \<exists>k e. k \<le> length packet \<and> r = wrap (sent + k) e \<and> tx c' = tx c @ take k packet"
proof (induction wrap stalled c packet sent rule: write_loop.induct)
  case (1 wrap stalled c packet sent)
  show ?case
  proof (cases "packet = []")
    case True
    with "1.prems" show ?thesis by simp
  next
    case False
    obtain n e d where w: "conn_write c packet = (n, e, d)" by (cases "conn_write c packet")
    show ?thesis
    proof (cases "e = None \<and> n \<noteq> 0")
      case True
      then have rec: "write_loop wrap stalled d (drop n packet) (sent + n) = (Some r, c')"
        using False w "1.prems" by (simp add: write_loop.simps [of wrap stalled c packet sent])
      from "1.IH" [OF False w [symmetric] refl] True rec
      obtain k x where "k \<le> length (drop n packet)" "r = wrap (sent + n + k) x"
          "tx c' = tx d @ take k (drop n packet)" by auto
      then show ?thesis
        using conn_write_tx [OF w] conn_write_bound [OF w]
        by (intro exI [of _ "n + k"] exI [of _ x]) (auto simp: take_add add.assoc)
    next
      case stop: False
      then have "\<exists>x. r = wrap (sent + n) x \<and> c' = d"
        using False w "1.prems"
        by (auto simp: write_loop.simps [of wrap stalled c packet sent] split: option.splits if_splits)
      then show ?thesis
        using conn_write_tx [OF w] conn_write_bound [OF w] by blast
    qed
  qed
qed

lemma write_loop_rx: "write_loop wrap stalled c packet sent = (r, c') \<Longrightarrow> rx c' = rx c"
proof (induction wrap stalled c packet sent rule: write_loop.induct)
  case (1 wrap stalled c packet sent)
  obtain n e d where w: "conn_write c packet = (n, e, d)" by (cases "conn_write c packet")
  then have "rx d = rx c" by (rule conn_write_rx)
  with 1 w show ?case
    by (auto simp: write_loop.simps [of wrap stalled c packet sent] split: option.splits if_splits)
qed

text \<open>A connection that never refuses: the loop finishes and delivers the packet.\<close>

lemma write_loop_empty_plan:
  "wplan c = [] \<Longrightarrow> write_loop wrap stalled c packet sent = (None, c\<lparr>tx := tx c @ packet\<rparr>)"
  by (cases "packet = []") (simp_all add: write_loop.simps [of wrap stalled c packet] conn_write_def)

end
