(* ===== verification/Compact_Ids.thy ===== *)
theory Compact_Ids
  imports Prelude
begin

text \<open>
  Package \<open>internal/util\<close>: base-62 numbers (\<open>base62.go\<close>), the ten-character connection user
  names built from them (\<open>compact.go\<close>) and the verifier of the MySQL native password exchange
  (\<open>mysql_password.go\<close>).  \<open>uint64\<close> is \<open>64 word\<close>; Go's \<open>int\<close> is a HOL \<open>int\<close> converted by
  \<open>of_int\<close>, which wraps as \<open>uint64(n)\<close> does.  The SHA-1 function is a parameter.
\<close>

section \<open>Base 62\<close>

definition Base62Chars :: string where
  "Base62Chars = ''0123456789abcdefghijklmnopqrstuvwxyzABCDEFGHIJKLMNOPQRSTUVWXYZ''"

datatype base62_error = EmptyString | InvalidBase62Character byte | Base62Overflow

text \<open>The table \<open>charToVal\<close>, \<open>None\<close> for the entries that \<open>init\<close> leaves at \<open>-1\<close>.\<close>

definition charToVal :: "byte \<Rightarrow> nat option" where
  "charToVal c = index_byte c Base62Chars"

text \<open>The loop writes into a buffer of 20 bytes from its end; running below index 0 would panic,
  which is the value \<open>None\<close>.\<close>

function encode_loop :: "u64 \<Rightarrow> nat \<Rightarrow> string \<Rightarrow> string option" where
  "encode_loop n i acc =
     (if n > 0
      then (if i = 0 then None
            else encode_loop (n div 62) (i - 1) (Base62Chars ! unat (n mod 62) # acc))
      else Some acc)"
  by pat_completeness auto
termination
  by (relation "measure (\<lambda>(n, i, acc). i)") auto

declare encode_loop.simps [simp del]

definition EncodeBase62 :: "u64 \<Rightarrow> string option" where
  "EncodeBase62 n = (if n = 0 then Some ''0'' else encode_loop n 20 [])"

fun decode_loop :: "bytes \<Rightarrow> u64 \<Rightarrow> base62_error + u64" where
  "decode_loop [] n = Inr n"
| "decode_loop (c # cs) n =
     (if byte_val c \<ge> 128 \<or> charToVal c = None then Inl (InvalidBase62Character c)
      else (let val = of_nat (the (charToVal c)) in
            if n > ((- 1) - val) div 62 then Inl Base62Overflow
            else decode_loop cs (n * 62 + val)))"

definition DecodeBase62 :: "string \<Rightarrow> base62_error + u64" where
  "DecodeBase62 s = (if s = [] then Inl EmptyString else decode_loop s 0)"

definition EncodeBase62Padded :: "u64 \<Rightarrow> nat \<Rightarrow> string option" where
  "EncodeBase62Padded n width =
     (case EncodeBase62 n of None \<Rightarrow> None
      | Some s \<Rightarrow> Some (if length s \<ge> width then s else replicate (width - length s) (CHR ''0'') @ s))"

section \<open>Compact user names\<close>

definition PrefixHost :: string where "PrefixHost = ''H''"
definition PrefixDatabase :: string where "PrefixDatabase = ''D''"
definition PrefixRedis :: string where "PrefixRedis = ''R''"

datatype compact_error =
    CompactUsernameLength nat
  | InvalidResourceID base62_error
  | InvalidSessionID base62_error

definition ResourceIDFromSeq :: "string \<Rightarrow> int \<Rightarrow> string option" where
  "ResourceIDFromSeq pfx seq = EncodeBase62Padded (of_int seq) 4"

definition FullUsername :: "string \<Rightarrow> int \<Rightarrow> int \<Rightarrow> string option" where
  "FullUsername pfx resourceSeq sessionSeq =
     (case EncodeBase62Padded (of_int resourceSeq) 4 of None \<Rightarrow> None
      | Some r \<Rightarrow> (case EncodeBase62Padded (of_int sessionSeq) 5 of None \<Rightarrow> None
        | Some s \<Rightarrow> Some (pfx @ r @ s)))"

definition ParseCompactUsername :: "string \<Rightarrow> compact_error + (string \<times> u64 \<times> u64)" where
  "ParseCompactUsername username =
     (if length username \<noteq> 10 then Inl (CompactUsernameLength (length username))
      else case DecodeBase62 (take 4 (drop 1 username)) of
             Inl e \<Rightarrow> Inl (InvalidResourceID e)
           | Inr rID \<Rightarrow>
               (case DecodeBase62 (take 5 (drop 5 username)) of
                  Inl e \<Rightarrow> Inl (InvalidSessionID e)
                | Inr sID \<Rightarrow> Inr ([username ! 0], rID, sID)))"

section \<open>MySQL native password\<close>

definition sha1_size :: nat where "sha1_size = 20"

definition MySQLNativePasswordHash :: "(bytes \<Rightarrow> bytes) \<Rightarrow> string \<Rightarrow> string" where
  "MySQLNativePasswordHash sha1 password =
     (let stage1 = sha1 password; stage2 = sha1 stage1 in hex_encode stage2)"

definition VerifyMySQLNativePasswordResponse ::
    "(bytes \<Rightarrow> bytes) \<Rightarrow> string \<Rightarrow> bytes \<Rightarrow> bytes \<Rightarrow> bool" where
  "VerifyMySQLNativePasswordResponse sha1 hash salt response =
     (if length salt = 0 \<or> length response \<noteq> sha1_size then False
      else case hex_decode hash of
             None \<Rightarrow> False
           | Some stage2 \<Rightarrow>
               (if length stage2 \<noteq> sha1_size then False
                else let scramble = sha1 (salt @ stage2);
                         stage1 = xor_bytes response scramble
                     in sha1 stage1 = stage2))"

section \<open>Base 62 is a positional system\<close>

fun base62_val :: "bytes \<Rightarrow> nat \<Rightarrow> nat" where
  "base62_val [] n = n"
| "base62_val (c # cs) n = base62_val cs (n * 62 + the (charToVal c))"

definition base62_digit :: "byte \<Rightarrow> bool" where
  "base62_digit c \<longleftrightarrow> charToVal c \<noteq> None"

lemma length_Base62Chars [simp]: "length Base62Chars = 62"
  by (simp add: Base62Chars_def)

lemma distinct_Base62Chars: "distinct Base62Chars"
  by (simp add: Base62Chars_def)

lemma charToVal_digit [simp]: "d < 62 \<Longrightarrow> charToVal (Base62Chars ! d) = Some d"
  by (simp add: charToVal_def index_byte_nth distinct_Base62Chars)

lemma charToVal_lt: "charToVal c = Some d \<Longrightarrow> d < 62"
  using index_byte_Some [of c Base62Chars d] by (simp add: charToVal_def)

lemma charToVal_ascii: "charToVal c = Some d \<Longrightarrow> byte_val c < 128"
proof -
  assume "charToVal c = Some d"
  then have "c \<in> set Base62Chars"
    using index_byte_Some [of c Base62Chars d] nth_mem unfolding charToVal_def by blast
  then show ?thesis by (auto simp: Base62Chars_def)
qed

lemma charToVal_zero [simp]: "charToVal (CHR ''0'') = Some 0"
  by (simp add: charToVal_def Base62Chars_def)

lemma base62_val_append: "base62_val (xs @ ys) n = base62_val ys (base62_val xs n)"
  by (induction xs arbitrary: n) auto

lemma base62_val_mono: "n \<le> base62_val cs n"
proof (induction cs arbitrary: n)
  case Nil
  then show ?case by simp
next
  case (Cons c cs)
  have "n \<le> n * 62 + the (charToVal c)" by simp
  also have "\<dots> \<le> base62_val cs (n * 62 + the (charToVal c))" by (rule Cons.IH)
  finally show ?case by simp
qed

lemma base62_val_zeros [simp]: "base62_val (replicate k (CHR ''0'') @ cs) 0 = base62_val cs 0"
  by (induction k) simp_all

lemma base62_val_bound:
  assumes "\<forall>c \<in> set cs. base62_digit c"
  shows "base62_val cs n < (n + 1) * 62 ^ length cs"
  using assms
proof (induction cs arbitrary: n)
  case Nil
  then show ?case by simp
next
  case (Cons c cs)
  then have "the (charToVal c) < 62" using charToVal_lt by (auto simp: base62_digit_def)
  then have "(n * 62 + the (charToVal c) + 1) * 62 ^ length cs \<le> (n + 1) * 62 * 62 ^ length cs"
    by (intro mult_le_mono1) simp
  moreover have "base62_val cs (n * 62 + the (charToVal c))
      < (n * 62 + the (charToVal c) + 1) * 62 ^ length cs"
    using Cons.prems by (intro Cons.IH) simp
  ultimately have "base62_val cs (n * 62 + the (charToVal c)) < (n + 1) * 62 * 62 ^ length cs"
    by (rule less_le_trans [rotated])
  then show ?case by (simp only: base62_val.simps list.size power_Suc mult.assoc add_Suc_right add_0_right)
qed

lemma unat_max_u64: "unat (- 1 :: u64) = 2 ^ 64 - 1"
  by (simp add: unsigned_minus_1_eq_mask mask_eq_exp_minus_1)

lemma unat_lt_u64: "unat (n :: u64) < 2 ^ 64"
  using unsigned_less [of n] by simp

lemma overflow_check:
  fixes n :: u64
  assumes "v < 62"
  shows "n > ((- 1) - of_nat v) div 62 \<longleftrightarrow> 2 ^ 64 \<le> unat n * 62 + v"
proof -
  have v: "unat (of_nat v :: u64) = v"
    using assms by (simp add: unat_of_nat)
  then have "of_nat v \<le> (- 1 :: u64)" by simp
  then have "unat ((- 1 :: u64) - of_nat v) = unat (- 1 :: u64) - unat (of_nat v :: u64)"
    by (rule unat_sub)
  then have "unat (((- 1 :: u64) - of_nat v) div 62) = (2 ^ 64 - 1 - v) div 62"
    unfolding unat_div v unat_max_u64 by simp
  then have "n > ((- 1) - of_nat v) div 62 \<longleftrightarrow> (2 ^ 64 - 1 - v) div 62 < unat n"
    by (simp add: word_less_nat_alt)
  also have "\<dots> \<longleftrightarrow> 2 ^ 64 - 1 - v < unat n * 62"
    by (simp add: div_less_iff_less_mult)
  also have "\<dots> \<longleftrightarrow> 2 ^ 64 \<le> unat n * 62 + v"
    using assms by auto
  finally show ?thesis .
qed

lemma decode_loop_digits:
  assumes "\<forall>c \<in> set cs. base62_digit c"
  shows "decode_loop cs n =
    (if base62_val cs (unat n) < 2 ^ 64 then Inr (of_nat (base62_val cs (unat n))) else Inl Base62Overflow)"
  using assms
proof (induction cs arbitrary: n)
  case Nil
  have "unat n < 2 ^ 64" by (rule unat_lt_u64)
  then show ?case by simp
next
  case (Cons c cs)
  then obtain v where v: "charToVal c = Some v" by (auto simp: base62_digit_def)
  then have lt: "v < 62" and ascii: "byte_val c < 128"
    by (auto dest: charToVal_lt charToVal_ascii)
  show ?case
  proof (cases "2 ^ 64 \<le> unat n * 62 + v")
    case True
    then have "\<not> base62_val (c # cs) (unat n) < 2 ^ 64"
      using base62_val_mono [of "unat n * 62 + v" cs] v by simp
    with True v ascii overflow_check [OF lt, of n] show ?thesis by simp
  next
    case False
    then have "unat (n * 62 + of_nat v) = unat n * 62 + v"
      using lt by (simp add: unat_word_ariths unat_of_nat)
    with False v ascii overflow_check [OF lt, of n] Cons show ?thesis by simp
  qed
qed

lemma decode_loop_bad_digit:
  "\<exists>c \<in> set cs. \<not> base62_digit c \<Longrightarrow> \<exists>e. decode_loop cs n = Inl e"
  by (induction cs arbitrary: n) (auto simp: base62_digit_def Let_def)

lemma encode_loop_val:
  "encode_loop n i acc = Some s \<Longrightarrow> base62_val s 0 = base62_val acc (unat n)"
proof (induction n i acc rule: encode_loop.induct)
  case (1 n i acc)
  show ?case
  proof (cases "n > 0")
    case True
    with "1.prems" have i: "i \<noteq> 0"
      and s: "encode_loop (n div 62) (i - 1) (Base62Chars ! unat (n mod 62) # acc) = Some s"
      by (auto simp: encode_loop.simps [of n i acc] split: if_splits)
    have digit: "unat (n mod 62) = unat n mod 62" by (simp add: unat_mod)
    have "base62_val s 0 = base62_val (Base62Chars ! unat (n mod 62) # acc) (unat (n div 62))"
      using "1.IH" True i s by simp
    also have "\<dots> = base62_val acc (unat n div 62 * 62 + unat n mod 62)"
      by (simp add: digit unat_div)
    finally show ?thesis by simp
  next
    case False
    then have "n = 0" by (simp add: word_gt_0)
    with "1.prems" show ?thesis
      by (simp add: encode_loop.simps [of 0])
  qed
qed

lemma encode_loop_digits:
  "encode_loop n i acc = Some s \<Longrightarrow> \<forall>c \<in> set acc. base62_digit c \<Longrightarrow> \<forall>c \<in> set s. base62_digit c"
proof (induction n i acc rule: encode_loop.induct)
  case (1 n i acc)
  have "unat (n mod 62) < 62" by (simp add: unat_mod)
  then have "base62_digit (Base62Chars ! unat (n mod 62))" by (simp add: base62_digit_def)
  with 1 show ?case
    by (auto simp: encode_loop.simps [of n i acc] split: if_splits)
qed

lemma encode_loop_Some:
  "unat n < 62 ^ k \<Longrightarrow> k \<le> i \<Longrightarrow>
     \<exists>s. encode_loop n i acc = Some s \<and> length s \<le> length acc + k"
proof (induction k arbitrary: n i acc)
  case 0
  then have "n = 0" by (simp add: unat_eq_0)
  then show ?case by (simp add: encode_loop.simps [of 0])
next
  case (Suc k)
  show ?case
  proof (cases "n > 0")
    case True
    have "unat (n div 62) < 62 ^ k"
      using Suc.prems(1) by (simp add: unat_div div_less_iff_less_mult mult.commute)
    moreover have "k \<le> i - 1" "i \<noteq> 0" using Suc.prems(2) by auto
    ultimately obtain s where "encode_loop (n div 62) (i - 1) (Base62Chars ! unat (n mod 62) # acc) = Some s"
        "length s \<le> length (Base62Chars ! unat (n mod 62) # acc) + k"
      using Suc.IH by blast
    with True \<open>i \<noteq> 0\<close> show ?thesis by (simp add: encode_loop.simps [of n i])
  next
    case False
    then show ?thesis by (simp add: encode_loop.simps [of n])
  qed
qed

lemma unat_lt_62_11: "unat (n :: u64) < 62 ^ 11"
proof -
  have "unat n < 2 ^ 64" by (rule unat_lt_u64)
  also have "(2::nat) ^ 64 < 62 ^ 11" by simp
  finally show ?thesis .
qed


lemma EncodeBase62_Some:
  "\<exists>s. EncodeBase62 n = Some s \<and> s \<noteq> [] \<and> length s \<le> 11 \<and> (\<forall>c \<in> set s. base62_digit c)
     \<and> base62_val s 0 = unat n"
proof (cases "n = 0")
  case True
  then show ?thesis by (simp add: EncodeBase62_def base62_digit_def)
next
  case False
  obtain s where s: "encode_loop n 20 [] = Some s" and len: "length s \<le> 11"
    using encode_loop_Some [OF unat_lt_62_11, of 20 n "[]"] by auto
  have val: "base62_val s 0 = unat n" using encode_loop_val [OF s] by simp
  moreover have "s \<noteq> []" using val False by (auto simp: unat_eq_0)
  moreover have "\<forall>c \<in> set s. base62_digit c" using encode_loop_digits [OF s] by simp
  ultimately show ?thesis using False s len by (simp add: EncodeBase62_def)
qed

lemma EncodeBase62_length:
  assumes "EncodeBase62 n = Some s" "0 < k"
  shows "length s \<le> k \<longleftrightarrow> unat n < 62 ^ k"
proof
  assume le: "length s \<le> k"
  from EncodeBase62_Some [of n] assms(1)
  have "base62_val s 0 = unat n" "\<forall>c \<in> set s. base62_digit c" by auto
  with base62_val_bound [of s 0] have "unat n < 62 ^ length s" by simp
  also have "(62::nat) ^ length s \<le> 62 ^ k" using le by (simp add: power_increasing)
  finally show "unat n < 62 ^ k" .
next
  assume lt: "unat n < 62 ^ k"
  show "length s \<le> k"
  proof (cases "n = 0 \<or> 11 \<le> k")
    case True
    with assms EncodeBase62_Some [of n] show ?thesis by (auto simp: EncodeBase62_def)
  next
    case False
    with encode_loop_Some [OF lt, of 20 "[]"] assms(1) show ?thesis
      by (auto simp: EncodeBase62_def)
  qed
qed

lemma DecodeBase62_digits:
  assumes "s \<noteq> []" "\<forall>c \<in> set s. base62_digit c"
  shows "DecodeBase62 s =
    (if base62_val s 0 < 2 ^ 64 then Inr (of_nat (base62_val s 0)) else Inl Base62Overflow)"
  using assms decode_loop_digits [of s 0] by (simp add: DecodeBase62_def)

lemma EncodeBase62Padded_Some:
  "\<exists>s. EncodeBase62Padded n w = Some s \<and> s \<noteq> [] \<and> (\<forall>c \<in> set s. base62_digit c)
     \<and> base62_val s 0 = unat n \<and> w \<le> length s \<and> (0 < w \<longrightarrow> (length s = w \<longleftrightarrow> unat n < 62 ^ w))"
proof -
  obtain s where s: "EncodeBase62 n = Some s" "s \<noteq> []" "\<forall>c \<in> set s. base62_digit c" "base62_val s 0 = unat n"
    using EncodeBase62_Some [of n] by blast
  have zero: "base62_digit (CHR ''0'')" by (simp add: base62_digit_def)
  have len: "0 < w \<Longrightarrow> length s \<le> w \<longleftrightarrow> unat n < 62 ^ w"
    using EncodeBase62_length [OF s(1)] .
  show ?thesis
  proof (cases "w \<le> length s")
    case True
    then show ?thesis using s len by (auto simp: EncodeBase62Padded_def)
  next
    case False
    then show ?thesis using s zero len by (auto simp: EncodeBase62Padded_def)
  qed
qed

lemma decode_padded:
  assumes "EncodeBase62Padded n w = Some s"
  shows "DecodeBase62 s = Inr n"
proof -
  from EncodeBase62Padded_Some [of n w] assms
  have "s \<noteq> []" "\<forall>c \<in> set s. base62_digit c" "base62_val s 0 = unat n" by auto
  with DecodeBase62_digits [of s] unat_lt_u64 [of n] show ?thesis by simp
qed

lemma unat_of_int_u64: "0 \<le> r \<Longrightarrow> r < 2 ^ 64 \<Longrightarrow> unat (of_int r :: u64) = nat r"
  by (simp add: unsigned_of_int take_bit_int_eq_self)

section \<open>Properties\<close>

text \<open>Every \<open>uint64\<close> is encoded without running out of the 20-byte buffer, in at most 11
  characters, and decoding the text gives the number back.\<close>

theorem EncodeBase62_roundtrip:
  "\<exists>s. EncodeBase62 n = Some s \<and> 1 \<le> length s \<and> length s \<le> 11 \<and> DecodeBase62 s = Inr n"
proof -
  obtain s where s: "EncodeBase62 n = Some s" "s \<noteq> []" "length s \<le> 11" "\<forall>c \<in> set s. base62_digit c"
      "base62_val s 0 = unat n"
    using EncodeBase62_Some [of n] by blast
  moreover have "DecodeBase62 s = Inr n"
    using DecodeBase62_digits [OF s(2,4)] s(5) unat_lt_u64 [of n] by simp
  ultimately show ?thesis by (cases s) auto
qed

text \<open>Decoding is exact: a text decodes to the number \<open>n\<close> exactly when it is a non-empty sequence
  of base-62 digits whose positional value is \<open>n\<close>; a value of \<open>2 ^ 64\<close> or more never wraps.\<close>

theorem DecodeBase62_exact:
  "DecodeBase62 s = Inr n \<longleftrightarrow> s \<noteq> [] \<and> list_all base62_digit s \<and> base62_val s 0 = unat n"
proof (cases "s \<noteq> [] \<and> list_all base62_digit s")
  case True
  then have "DecodeBase62 s =
      (if base62_val s 0 < 2 ^ 64 then Inr (of_nat (base62_val s 0)) else Inl Base62Overflow)"
    by (intro DecodeBase62_digits) (auto simp: list_all_iff)
  moreover have "of_nat m = n \<longleftrightarrow> m = unat n" if "m < 2 ^ 64" for m
    using that by (auto simp: unat_of_nat)
  ultimately show ?thesis using True unat_lt_u64 [of n] by auto
next
  case False
  then have "s = [] \<or> (\<exists>c \<in> set s. \<not> base62_digit c)" by (auto simp: list_all_iff)
  then have "\<exists>e. DecodeBase62 s = Inl e"
    using decode_loop_bad_digit [of s 0] by (auto simp: DecodeBase62_def)
  with False show ?thesis by auto
qed

text \<open>The ten-character user name built for a resource and a session parses back to the same
  prefix and sequence numbers whenever the numbers fit their fields (four and five characters).\<close>

theorem FullUsername_roundtrip:
  assumes "length pfx = 1" "0 \<le> r" "r < 62 ^ 4" "0 \<le> s" "s < 62 ^ 5"
  shows "\<exists>u. FullUsername pfx r s = Some u \<and> length u = 10
    \<and> ParseCompactUsername u = Inr (pfx, of_int r, of_int s)"
proof -
  have unat: "unat (of_int r :: u64) < 62 ^ 4" "unat (of_int s :: u64) < 62 ^ 5"
    using assms by (simp_all add: unat_of_int_u64 nat_less_iff)
  obtain a where a: "EncodeBase62Padded (of_int r) 4 = Some a" "length a = 4"
    using EncodeBase62Padded_Some [of "of_int r" 4] unat by auto
  obtain b where b: "EncodeBase62Padded (of_int s) 5 = Some b" "length b = 5"
    using EncodeBase62Padded_Some [of "of_int s" 5] unat by auto
  obtain p where p: "pfx = [p]" using assms(1) by (cases pfx) auto
  show ?thesis
    using a b p decode_padded [OF a(1)] decode_padded [OF b(1)]
    by (simp add: FullUsername_def ParseCompactUsername_def)
qed

theorem FullUsername_roundtrip_witness:
  "\<exists>u. FullUsername PrefixDatabase 4096 99999 = Some u \<and> length u = 10
    \<and> ParseCompactUsername u = Inr (PrefixDatabase, 4096, 99999)"
  using FullUsername_roundtrip [of PrefixDatabase 4096 99999]
  by (simp add: PrefixDatabase_def)

text \<open>A sequence number that does not fit its field is never silently truncated: the name built
  from it is longer than ten characters and the parser refuses it.\<close>

theorem FullUsername_oversize_refused:
  assumes "length pfx = 1" "r \<ge> 62 ^ 4 \<or> s \<ge> 62 ^ 5" "0 \<le> r" "r < 2 ^ 63" "0 \<le> s" "s < 2 ^ 63"
  shows "\<exists>u. FullUsername pfx r s = Some u \<and> ParseCompactUsername u = Inl (CompactUsernameLength (length u))"
proof -
  have unat: "unat (of_int r :: u64) = nat r" "unat (of_int s :: u64) = nat s"
    using assms(3-6) by (simp_all add: unat_of_int_u64)
  obtain a where a: "EncodeBase62Padded (of_int r) 4 = Some a" "4 \<le> length a"
      "length a = 4 \<longleftrightarrow> nat r < 62 ^ 4"
    using EncodeBase62Padded_Some [of "of_int r" 4] unat by auto
  obtain b where b: "EncodeBase62Padded (of_int s) 5 = Some b" "5 \<le> length b"
      "length b = 5 \<longleftrightarrow> nat s < 62 ^ 5"
    using EncodeBase62Padded_Some [of "of_int s" 5] unat by auto
  have "length a \<noteq> 4 \<or> length b \<noteq> 5"
    using assms(2) a(3) b(3) by (auto simp: nat_less_iff)
  with a b assms(1) show ?thesis
    by (simp add: FullUsername_def ParseCompactUsername_def) linarith
qed

theorem FullUsername_oversize_refused_witness:
  "\<exists>u. FullUsername PrefixHost (62 ^ 4) 0 = Some u
     \<and> ParseCompactUsername u = Inl (CompactUsernameLength (length u))"
  using FullUsername_oversize_refused [of PrefixHost "62 ^ 4" 0]
  by (simp add: PrefixHost_def)

end
