(* ===== verification/Mysql_Wire.thy ===== *)
theory Mysql_Wire
  imports Net Compact_Ids
begin

text \<open>
  Package \<open>internal/proxy/mysqlwire\<close>: packets (\<open>packet.go\<close>), the server's initial handshake
  (\<open>handshake.go\<close>), the client's answer to it (\<open>handshake_response.go\<close>) and the rest of the
  authentication exchange (\<open>auth_state.go\<close>).  The hash functions are parameters.  A nil context or
  connection is \<open>None\<close>.
\<close>

unbundle bit_operations_syntax

section \<open>Packets\<close>

datatype mysql_error =
    NilContext
  | NilConnection
  | InvalidSizeLimit
  | ContextError string
  | SetReadDeadline
  | ReadHeader
  | PacketExceedsLimit int
  | ReadPayload
  | PayloadExceedsProtocolLimit
  | PacketWriteError nat string
  | SetRawWriteDeadline
  | WriteRaw
  | ClearDeadlineError
  | HandshakeTooShort
  | NoServerVersionTerminator
  | FixedFieldsTruncated
  | CapabilityFieldsTruncated
  | NoProtocol41
  | NoServerTLS
  | NoConnectWithDB
  | UnsupportedPlugin
  | NoSecureAuthentication
  | AuthResponseTooLarge
  | EmptyAuthResponse
  | AuthDenied
  | MalformedAuthSwitch
  | FullAuthRequiresTLS
  | UnsupportedContinuation
  | UnexpectedAuthResponse
  | MalformedContinuation

record Packet =
  Sequence :: byte
  Payload :: bytes

definition MaxPacketPayloadBytes :: nat where
  "MaxPacketPayloadBytes = 16777215"

fun WrittenBytes :: "mysql_error \<Rightarrow> nat" where
  "WrittenBytes (PacketWriteError written cause) = written"
| "WrittenBytes _ = 0"

definition EncodePacket :: "byte \<Rightarrow> bytes \<Rightarrow> mysql_error + bytes" where
  "EncodePacket seq payload =
     (if length payload > MaxPacketPayloadBytes then Inl PayloadExceedsProtocolLimit
      else Inr ([byte_of (length payload), byte_of (drop_bit 8 (length payload)),
                 byte_of (drop_bit 16 (length payload)), seq] @ payload))"

definition header_length :: "bytes \<Rightarrow> nat" where
  "header_length h =
     (byte_val (h ! 0) OR push_bit 8 (byte_val (h ! 1))) OR push_bit 16 (byte_val (h ! 2))"

definition applyReadDeadline :: "go_context \<Rightarrow> conn \<Rightarrow> mysql_error option" where
  "applyReadDeadline ctx c =
     (case ctx_err ctx of Some e \<Rightarrow> Some (ContextError e)
      | None \<Rightarrow> if ctx_has_deadline ctx \<and> deadline_fails c then Some SetReadDeadline else None)"

definition ReadPacket ::
    "go_context option \<Rightarrow> conn option \<Rightarrow> int \<Rightarrow> (mysql_error + Packet) \<times> conn option" where
  "ReadPacket ctx conn maxPayloadBytes =
     (case ctx of None \<Rightarrow> (Inl NilContext, conn)
      | Some cx \<Rightarrow>
        (case conn of None \<Rightarrow> (Inl NilConnection, conn)
         | Some c \<Rightarrow>
           if maxPayloadBytes \<le> 0 then (Inl InvalidSizeLimit, conn)
           else (case applyReadDeadline cx c of Some e \<Rightarrow> (Inl e, conn)
             | None \<Rightarrow>
               (case conn_read_full 4 c of (None, c1) \<Rightarrow> (Inl ReadHeader, Some c1)
                | (Some header, c1) \<Rightarrow>
                  (let payloadLength = header_length header in
                   if int payloadLength > maxPayloadBytes
                   then (Inl (PacketExceedsLimit maxPayloadBytes), Some c1)
                   else (case conn_read_full payloadLength c1 of
                           (None, c2) \<Rightarrow> (Inl ReadPayload, Some c2)
                         | (Some payload, c2) \<Rightarrow>
                             (Inr \<lparr>Sequence = header ! 3, Payload = payload\<rparr>, Some c2)))))))"

definition writePacketBytes ::
    "conn \<Rightarrow> bytes \<Rightarrow> (nat \<Rightarrow> string \<Rightarrow> mysql_error) \<Rightarrow> mysql_error option \<times> conn" where
  "writePacketBytes c packet wrap = write_loop wrap ''multiple Read calls return no data or error'' c packet 0"

definition WritePacket ::
    "go_context option \<Rightarrow> conn option \<Rightarrow> byte \<Rightarrow> bytes \<Rightarrow> mysql_error option \<times> conn option" where
  "WritePacket ctx conn seq payload =
     (case ctx of None \<Rightarrow> (Some NilContext, conn)
      | Some cx \<Rightarrow>
        (case conn of None \<Rightarrow> (Some NilConnection, conn)
         | Some c \<Rightarrow>
           if length payload > MaxPacketPayloadBytes then (Some PayloadExceedsProtocolLimit, conn)
           else (case ctx_err cx of Some e \<Rightarrow> (Some (ContextError e), conn)
             | None \<Rightarrow>
               if ctx_has_deadline cx \<and> deadline_fails c
               then (Some (PacketWriteError 0 ''set mysql write deadline''), conn)
               else (case EncodePacket seq payload of Inl e \<Rightarrow> (Some e, conn)
                 | Inr packet \<Rightarrow>
                     (let (r, c') = writePacketBytes c packet PacketWriteError in (r, Some c'))))))"

text \<open>A cancelled context replaces the write error (\<open>ctx.Err()\<close> inside the callback); the context
  is not cancelled at the check before the write and may be cancelled during it
  (\<open>cancelled_during\<close>).\<close>

definition WriteRawPacket ::
    "go_context option \<Rightarrow> string option \<Rightarrow> conn option \<Rightarrow> bytes \<Rightarrow> mysql_error option \<times> conn option" where
  "WriteRawPacket ctx cancelled_during conn packet =
     (case ctx of None \<Rightarrow> (Some NilContext, conn)
      | Some cx \<Rightarrow>
        (case conn of None \<Rightarrow> (Some NilConnection, conn)
         | Some c \<Rightarrow>
           (case ctx_err cx of Some e \<Rightarrow> (Some (ContextError e), conn)
            | None \<Rightarrow>
              if ctx_has_deadline cx \<and> deadline_fails c then (Some SetRawWriteDeadline, conn)
              else (let (r, c') = writePacketBytes c packet
                        (\<lambda>_ _. case cancelled_during of Some e \<Rightarrow> ContextError e | None \<Rightarrow> WriteRaw)
                    in (r, Some c')))))"

definition ClearDeadline :: "conn option \<Rightarrow> mysql_error option" where
  "ClearDeadline conn =
     (case conn of None \<Rightarrow> Some NilConnection
      | Some c \<Rightarrow> if deadline_fails c then Some ClearDeadlineError else None)"

section \<open>Handshake\<close>

definition ClientConnectWithDB :: u32 where "ClientConnectWithDB = push_bit 3 1"
definition ClientProtocol41 :: u32 where "ClientProtocol41 = push_bit 9 1"
definition ClientSSL :: u32 where "ClientSSL = push_bit 11 1"
definition ClientSecureConnection :: u32 where "ClientSecureConnection = push_bit 15 1"
definition ClientPluginAuth :: u32 where "ClientPluginAuth = push_bit 19 1"

lemmas client_flags =
  ClientConnectWithDB_def ClientProtocol41_def ClientSSL_def ClientSecureConnection_def ClientPluginAuth_def

record Handshake =
  ProtocolVersion :: byte
  ServerVersion :: string
  ConnectionID :: u32
  AuthData :: bytes
  CapabilityFlags :: u32
  CharacterSet :: byte
  StatusFlags :: u16
  AuthPluginName :: string

record LoginOptions =
  opt_Username :: string
  opt_Password :: string
  opt_Database :: string
  opt_AuthPlugin :: string
  opt_Sequence :: byte
  opt_TLS :: bool

text \<open>Two pieces of \<open>ParseHandshake\<close>: the salt is cut to twenty bytes, and the plugin name is what
  follows it up to a NUL, when the server announces one.\<close>

definition join_salt :: "bytes \<Rightarrow> bytes \<Rightarrow> bytes" where
  "join_salt firstSalt secondSalt =
     (let authData = firstSalt @ secondSalt in if length authData > 20 then take 20 authData else authData)"

definition plugin_name :: "u32 \<Rightarrow> bytes \<Rightarrow> string" where
  "plugin_name capabilityFlags rest =
     (let pluginEnd = (case index_byte NUL rest of None \<Rightarrow> length rest | Some i \<Rightarrow> i) in
      if capabilityFlags AND ClientPluginAuth \<noteq> 0 \<and> 0 < length rest \<and> pluginEnd > 0
      then take pluginEnd rest else ''mysql_native_password'')"

definition ParseHandshake :: "bytes \<Rightarrow> mysql_error + Handshake" where
  "ParseHandshake payload =
     (if length payload < 1 then Inl HandshakeTooShort
      else let protocolVersion = payload ! 0; position = 1 in
      (case index_byte NUL (drop position payload) of None \<Rightarrow> Inl NoServerVersionTerminator
       | Some serverVersionEnd \<Rightarrow>
         (let serverVersion = take serverVersionEnd (drop position payload);
              position = position + serverVersionEnd + 1 in
          if length payload - position < 4 + 8 + 1 + 2 then Inl FixedFieldsTruncated
          else
          let connectionID = (of_nat (le_val (take 4 (drop position payload))) :: u32);
              position = position + 4;
              firstSalt = take 8 (drop position payload);
              position = position + 8 + 1;
              lowerCapabilities = le_val (take 2 (drop position payload));
              position = position + 2 in
          if position = length payload then
            Inr \<lparr>ProtocolVersion = protocolVersion, ServerVersion = serverVersion,
                 ConnectionID = connectionID, AuthData = firstSalt,
                 CapabilityFlags = of_nat lowerCapabilities, CharacterSet = NUL, StatusFlags = 0,
                 AuthPluginName = ''mysql_native_password''\<rparr>
          else if length payload - position < 1 + 2 + 2 + 1 + 10 then Inl CapabilityFieldsTruncated
          else
          let characterSet = payload ! position;
              position = position + 1;
              statusFlags = (of_nat (le_val (take 2 (drop position payload))) :: u16);
              position = position + 2;
              upperCapabilities = le_val (take 2 (drop position payload));
              position = position + 2;
              capabilityFlags = (of_nat lowerCapabilities :: u32) OR push_bit 16 (of_nat upperCapabilities);
              authPluginDataLength = byte_val (payload ! position);
              position = position + 1 + 10;
              secondSaltLength = (if authPluginDataLength > 8 then authPluginDataLength - 8 else 12);
              secondSaltLength = (if secondSaltLength > length payload - position
                                  then length payload - position else secondSaltLength);
              secondSalt = trim_suffix_byte NUL (take secondSaltLength (drop position payload));
              position = position + secondSaltLength;
              authData = join_salt firstSalt secondSalt;
              authPluginName = plugin_name capabilityFlags (drop position payload) in
            Inr \<lparr>ProtocolVersion = protocolVersion, ServerVersion = serverVersion,
                 ConnectionID = connectionID, AuthData = authData,
                 CapabilityFlags = capabilityFlags, CharacterSet = characterSet,
                 StatusFlags = statusFlags, AuthPluginName = authPluginName\<rparr>)))"

section \<open>The client's answer\<close>

definition challenge_response :: "(bytes \<Rightarrow> bytes) \<Rightarrow> string \<Rightarrow> bytes \<Rightarrow> bytes" where
  "challenge_response hash password salt =
     (let stage1 = hash password; stage2 = hash stage1; stage3 = hash (salt @ stage2)
      in xor_bytes stage1 stage3)"

definition BuildAuthResponse ::
    "(bytes \<Rightarrow> bytes) \<Rightarrow> (bytes \<Rightarrow> bytes) \<Rightarrow> string \<Rightarrow> string \<Rightarrow> bytes \<Rightarrow> mysql_error + bytes" where
  "BuildAuthResponse sha1 sha256 plugin password salt =
     (let salt = (if length salt > 20 then take 20 salt else salt) in
      if plugin = ''mysql_native_password'' then Inr (challenge_response sha1 password salt)
      else if plugin = ''caching_sha2_password'' then Inr (challenge_response sha256 password salt)
      else Inl UnsupportedPlugin)"

definition BuildHandshakeResponse41 ::
    "(bytes \<Rightarrow> bytes) \<Rightarrow> (bytes \<Rightarrow> bytes) \<Rightarrow> Handshake \<Rightarrow> LoginOptions \<Rightarrow> mysql_error + bytes" where
  "BuildHandshakeResponse41 sha1 sha256 handshake options =
     (let flags = CapabilityFlags handshake in
      if flags AND ClientProtocol41 = 0 then Inl NoProtocol41
      else if opt_TLS options \<and> flags AND ClientSSL = 0 then Inl NoServerTLS
      else if opt_Database options \<noteq> [] \<and> flags AND ClientConnectWithDB = 0 then Inl NoConnectWithDB
      else
      let plugin = (if opt_AuthPlugin options = [] then AuthPluginName handshake else opt_AuthPlugin options) in
      (case BuildAuthResponse sha1 sha256 plugin (opt_Password options) (AuthData handshake) of
         Inl e \<Rightarrow> Inl e
       | Inr authResponse \<Rightarrow>
         (let capabilities = ClientProtocol41;
              capabilities = (if flags AND ClientSecureConnection \<noteq> 0
                              then capabilities OR ClientSecureConnection else capabilities);
              capabilities = (if opt_TLS options then capabilities OR ClientSSL else capabilities);
              capabilities = (if plugin \<noteq> [] \<and> flags AND ClientPluginAuth \<noteq> 0
                              then capabilities OR ClientPluginAuth else capabilities);
              capabilities = (if opt_Database options \<noteq> [] \<and> flags AND ClientConnectWithDB \<noteq> 0
                              then capabilities OR ClientConnectWithDB else capabilities);
              characterSet = (if CharacterSet handshake = NUL then CHR 0x2D else CharacterSet handshake);
              payload = le_bytes 4 (unat capabilities) @ le_bytes 4 (2 ^ 24) @ [characterSet]
                        @ replicate 23 NUL @ opt_Username options @ [NUL] in
          if capabilities AND ClientSecureConnection = 0 then Inl NoSecureAuthentication
          else if length authResponse > 255 then Inl AuthResponseTooLarge
          else
          let payload = payload @ [byte_of (length authResponse)] @ authResponse;
              payload = (if capabilities AND ClientConnectWithDB \<noteq> 0
                         then payload @ opt_Database options @ [NUL] else payload);
              payload = (if capabilities AND ClientPluginAuth \<noteq> 0
                         then payload @ plugin @ [NUL] else payload) in
            EncodePacket (opt_Sequence options) payload)))"

section \<open>Continuing the authentication\<close>

record AuthenticationOptions =
  auth_Password :: string
  auth_VerifiedTLS :: bool
  auth_MaxPacketBytes :: int

definition parseAuthSwitch :: "bytes \<Rightarrow> (string \<times> bytes) option" where
  "parseAuthSwitch payload =
     (if length payload < 3 \<or> payload ! 0 \<noteq> CHR 0xFE then None
      else (case index_byte NUL (drop 1 payload) of None \<Rightarrow> None
        | Some i \<Rightarrow>
          (let separator = i + 1;
               plugin = take (separator - 1) (drop 1 payload);
               salt = trim_suffix_byte NUL (drop (separator + 1) payload) in
           if plugin = [] \<or> length salt = 0 then None else Some (plugin, salt))))"

definition readAuthMoreData ::
    "go_context option \<Rightarrow> conn option \<Rightarrow> Packet \<Rightarrow> int \<Rightarrow> (mysql_error + (byte \<times> byte)) \<times> conn option" where
  "readAuthMoreData ctx conn packet maxPacketBytes =
     (if length (Payload packet) = 2 then (Inr (Payload packet ! 1, Sequence packet), conn)
      else if length (Payload packet) = 1 then
        (case ReadPacket ctx conn maxPacketBytes of
           (Inl e, conn') \<Rightarrow> (Inl e, conn')
         | (Inr continuation, conn') \<Rightarrow>
             if length (Payload continuation) \<noteq> 1 then (Inl MalformedContinuation, conn')
             else (Inr (Payload continuation ! 0, Sequence continuation), conn'))
      else (Inl MalformedContinuation, conn))"

definition unread :: "conn option \<Rightarrow> nat" where
  "unread conn = (case conn of None \<Rightarrow> 0 | Some c \<Rightarrow> length (rx c))"

lemma ReadPacket_unread: "ReadPacket ctx conn m = (Inr p, conn') \<Longrightarrow> unread conn' + 4 \<le> unread conn"
proof -
  assume r: "ReadPacket ctx conn m = (Inr p, conn')"
  then obtain c header c1 payload c2 where c: "conn = Some c" "conn' = Some c2"
      and h: "conn_read_full 4 c = (Some header, c1)"
      and b: "conn_read_full (header_length header) c1 = (Some payload, c2)"
    by (auto simp: ReadPacket_def Let_def split: option.splits prod.splits if_splits)
  from conn_read_full_Some [OF h] have "length (rx c) = 4 + length (rx c1)" by simp
  moreover from conn_read_full_Some [OF b] have "length (rx c2) \<le> length (rx c1)" by simp
  ultimately show ?thesis using c by (simp add: unread_def)
qed

lemma WritePacket_unread: "unread (snd (WritePacket ctx conn q payload)) = unread conn"
proof (cases conn)
  case None
  then show ?thesis by (auto simp: WritePacket_def split: option.splits)
next
  case (Some c)
  show ?thesis
    using write_loop_rx [of PacketWriteError _ c _ 0]
    by (auto simp: WritePacket_def writePacketBytes_def unread_def Let_def Some
        split: option.splits prod.splits sum.splits)
qed

lemma readAuthMoreData_unread:
  "readAuthMoreData ctx conn p m = (Inr r, conn') \<Longrightarrow> unread conn' \<le> unread conn"
  by (auto simp: readAuthMoreData_def split: prod.splits sum.splits if_splits dest!: ReadPacket_unread)

text \<open>One round of the loop: read a packet and act on it.  \<open>Done\<close> ends the exchange with the
  given error (\<open>None\<close>: success), \<open>Again\<close> is another round.\<close>

datatype auth_round = Done "mysql_error option" | Again

definition auth_step ::
    "(bytes \<Rightarrow> bytes) \<Rightarrow> (bytes \<Rightarrow> bytes) \<Rightarrow> go_context option \<Rightarrow> AuthenticationOptions \<Rightarrow>
     conn option \<Rightarrow> auth_round \<times> conn option" where
  "auth_step sha1 sha256 ctx options conn =
     (case ReadPacket ctx conn (auth_MaxPacketBytes options) of
        (Inl e, conn') \<Rightarrow> (Done (Some e), conn')
      | (Inr packet, conn') \<Rightarrow>
          if length (Payload packet) = 0 then (Done (Some EmptyAuthResponse), conn')
          else
          let tag = Payload packet ! 0 in
          if tag = CHR 0x00 then (Done None, conn')
          else if tag = CHR 0xFF then (Done (Some AuthDenied), conn')
          else if tag = CHR 0xFE then
            (case parseAuthSwitch (Payload packet) of
               None \<Rightarrow> (Done (Some MalformedAuthSwitch), conn')
             | Some (plugin, salt) \<Rightarrow>
                 (case BuildAuthResponse sha1 sha256 plugin (auth_Password options) salt of
                    Inl e \<Rightarrow> (Done (Some e), conn')
                  | Inr response \<Rightarrow>
                      (case WritePacket ctx conn' (byte_succ (Sequence packet)) response of
                         (Some e, conn'') \<Rightarrow> (Done (Some e), conn'')
                       | (None, conn'') \<Rightarrow> (Again, conn''))))
          else if tag = CHR 0x01 then
            (case readAuthMoreData ctx conn' packet (auth_MaxPacketBytes options) of
               (Inl e, conn'') \<Rightarrow> (Done (Some e), conn'')
             | (Inr (code, seq), conn'') \<Rightarrow>
                 if code = CHR 0x03 then (Again, conn'')
                 else if code = CHR 0x04 then
                   (if \<not> auth_VerifiedTLS options then (Done (Some FullAuthRequiresTLS), conn'')
                    else (case WritePacket ctx conn'' (byte_succ seq) (auth_Password options @ [NUL]) of
                            (Some e, conn3) \<Rightarrow> (Done (Some e), conn3)
                          | (None, conn3) \<Rightarrow> (Again, conn3)))
                 else (Done (Some UnsupportedContinuation), conn''))
          else (Done (Some UnexpectedAuthResponse), conn'))"

lemma auth_step_Again:
  assumes "auth_step sha1 sha256 ctx options conn = (Again, conn')"
  shows "unread conn' < unread conn"
proof -
  from assms obtain packet c1 where r: "ReadPacket ctx conn (auth_MaxPacketBytes options) = (Inr packet, c1)"
    by (auto simp: auth_step_def split: prod.splits sum.splits)
  from ReadPacket_unread [OF r] have "unread c1 < unread conn" by simp
  moreover have "unread conn' \<le> unread c1"
    using assms r WritePacket_unread [of ctx] readAuthMoreData_unread [of ctx c1 packet]
    by (auto simp: auth_step_def Let_def split: prod.splits sum.splits option.splits if_splits)
       (metis snd_conv order_refl | metis snd_conv)+
  ultimately show ?thesis by simp
qed

function auth_loop ::
    "(bytes \<Rightarrow> bytes) \<Rightarrow> (bytes \<Rightarrow> bytes) \<Rightarrow> go_context option \<Rightarrow> AuthenticationOptions \<Rightarrow>
     conn option \<Rightarrow> mysql_error option \<times> conn option" where
  "auth_loop sha1 sha256 ctx options conn =
     (case auth_step sha1 sha256 ctx options conn of
        (Done r, conn') \<Rightarrow> (r, conn')
      | (Again, conn') \<Rightarrow> auth_loop sha1 sha256 ctx options conn')"
  by pat_completeness auto
termination
  by (relation "measure (\<lambda>(sha1, sha256, ctx, options, conn). unread conn)")
     (auto dest: auth_step_Again [OF sym])

declare auth_loop.simps [simp del]

definition ContinueAuthentication ::
    "(bytes \<Rightarrow> bytes) \<Rightarrow> (bytes \<Rightarrow> bytes) \<Rightarrow> go_context option \<Rightarrow> conn option \<Rightarrow>
     AuthenticationOptions \<Rightarrow> mysql_error option \<times> conn option" where
  "ContinueAuthentication sha1 sha256 ctx conn options =
     (if ctx = None then (Some NilContext, conn)
      else if auth_MaxPacketBytes options \<le> 0 then (Some InvalidSizeLimit, conn)
      else auth_loop sha1 sha256 ctx options conn)"

section \<open>Facts about packets\<close>

lemma header_length_le_val: "length h = 4 \<Longrightarrow> header_length h = le_val (take 3 h)"
proof -
  assume "length h = 4"
  then obtain a b c d where h: "h = [a, b, c, d]"
    by (auto simp: numeral_eq_Suc length_Suc_conv)
  have "(byte_val a OR push_bit 8 (byte_val b)) = byte_val a + 2 ^ 8 * byte_val b"
    by (rule or_push_bit) simp
  moreover have "byte_val a + 256 * byte_val b < 65536"
    using byte_val_lt [of a] byte_val_lt [of b] by linarith
  then have "byte_val a + 2 ^ 8 * byte_val b < 2 ^ 16" by simp
  then have "(byte_val a + 2 ^ 8 * byte_val b OR push_bit 16 (byte_val c))
      = byte_val a + 2 ^ 8 * byte_val b + 2 ^ 16 * byte_val c"
    by (rule or_push_bit)
  ultimately show ?thesis using h by (simp add: header_length_def)
qed

lemma EncodePacket_le_bytes:
  "length payload \<le> MaxPacketPayloadBytes \<Longrightarrow>
     EncodePacket q payload = Inr (le_bytes 3 (length payload) @ [q] @ payload)"
  by (simp add: EncodePacket_def numeral_3_eq_3 drop_bit_eq_div div_mult2_eq [symmetric])

definition packet_bytes :: "Packet \<Rightarrow> bytes" where
  "packet_bytes p = (case EncodePacket (Sequence p) (Payload p) of Inl e \<Rightarrow> [] | Inr b \<Rightarrow> b)"

definition packet_fits :: "int \<Rightarrow> Packet \<Rightarrow> bool" where
  "packet_fits m p \<longleftrightarrow> length (Payload p) \<le> MaxPacketPayloadBytes \<and> int (length (Payload p)) \<le> m \<and> 0 < m"

definition live_context :: "go_context option" where
  "live_context = Some \<lparr>ctx_err = None, ctx_has_deadline = False\<rparr>"

definition peer_sending :: "bytes \<Rightarrow> conn option" where
  "peer_sending s = Some \<lparr>rx = s, tx = [], wplan = [], deadline_fails = False\<rparr>"

definition packet_read :: "int \<Rightarrow> bytes \<Rightarrow> (Packet \<times> bytes) option" where
  "packet_read m s =
     (case ReadPacket live_context (peer_sending s) m of
        (Inr p, Some c) \<Rightarrow> Some (p, rx c)
      | _ \<Rightarrow> None)"

lemma packet_bytes_fits:
  "packet_fits m p \<Longrightarrow> packet_bytes p = le_bytes 3 (length (Payload p)) @ [Sequence p] @ Payload p"
  by (simp add: packet_bytes_def packet_fits_def EncodePacket_le_bytes)

lemma ReadPacket_packet_bytes:
  assumes "packet_fits m p" "ctx_err cx = None" "\<not> (ctx_has_deadline cx \<and> deadline_fails c)"
    and "rx c = packet_bytes p @ rest"
  shows "ReadPacket (Some cx) (Some c) m = (Inr p, Some (c\<lparr>rx := rest\<rparr>))"
proof -
  let ?h = "le_bytes 3 (length (Payload p)) @ [Sequence p]"
  have len: "length (Payload p) \<le> MaxPacketPayloadBytes" "int (length (Payload p)) \<le> m" "0 < m"
    using assms(1) by (auto simp: packet_fits_def)
  have rx: "rx c = ?h @ Payload p @ rest"
    using assms(1,4) by (simp add: packet_bytes_fits)
  have hl: "header_length ?h = length (Payload p)"
    using len(1) by (simp add: header_length_le_val le_val_le_bytes MaxPacketPayloadBytes_def)
  have seq: "?h ! 3 = Sequence p" by (simp add: nth_append)
  have h: "conn_read_full 4 c = (Some ?h, c\<lparr>rx := Payload p @ rest\<rparr>)"
    by (rule conn_read_full_append [OF rx]) simp
  have b: "conn_read_full (length (Payload p)) (c\<lparr>rx := Payload p @ rest\<rparr>)
      = (Some (Payload p), c\<lparr>rx := rest\<rparr>)"
    using conn_read_full_append [of "c\<lparr>rx := Payload p @ rest\<rparr>" "Payload p" rest] by simp
  show ?thesis
    using len assms(2,3) h b hl seq
    by (simp add: ReadPacket_def applyReadDeadline_def Let_def)
qed

lemma packet_read_shrinks: "packet_read m s = Some (p, rest) \<Longrightarrow> length rest < length s"
proof -
  assume "packet_read m s = Some (p, rest)"
  then obtain c where r: "ReadPacket live_context (peer_sending s) m = (Inr p, Some c)" and "rest = rx c"
    by (auto simp: packet_read_def split: prod.splits sum.splits option.splits)
  with ReadPacket_unread [OF r] show ?thesis by (simp add: unread_def peer_sending_def)
qed

interpretation mysql_packets: codec packet_bytes "packet_read m" "packet_fits m" for m
proof
  fix p rest
  assume fits: "packet_fits m p"
  show "packet_read m (packet_bytes p @ rest) = Some (p, rest)"
    using ReadPacket_packet_bytes [OF fits, of "the live_context" "the (peer_sending (packet_bytes p @ rest))" rest]
    by (simp add: packet_read_def live_context_def peer_sending_def)
next
  fix s p rest
  assume "packet_read m s = Some (p, rest)"
  then show "length rest < length s" by (rule packet_read_shrinks)
qed

lemma length_challenge_response:
  "(\<And>x. length (hash x) = k) \<Longrightarrow> length (challenge_response hash pw salt) = k"
  by (simp add: challenge_response_def Let_def)

section \<open>Facts about the authentication exchange\<close>

lemma challenge_response_digest:
  "hash p1 = hash p2 \<Longrightarrow> challenge_response hash p1 salt = challenge_response hash p2 salt"
  by (simp add: challenge_response_def)

lemma BuildAuthResponse_digest:
  "sha1 p1 = sha1 p2 \<Longrightarrow> sha256 p1 = sha256 p2 \<Longrightarrow>
     BuildAuthResponse sha1 sha256 plugin p1 salt = BuildAuthResponse sha1 sha256 plugin p2 salt"
  by (simp add: BuildAuthResponse_def challenge_response_digest [of sha1 p1 p2]
      challenge_response_digest [of sha256 p1 p2] Let_def)

lemma auth_step_digest:
  assumes "sha1 p1 = sha1 p2" "sha256 p1 = sha256 p2" "\<not> auth_VerifiedTLS options"
  shows "auth_step sha1 sha256 ctx (options\<lparr>auth_Password := p1\<rparr>) conn
    = auth_step sha1 sha256 ctx (options\<lparr>auth_Password := p2\<rparr>) conn"
  using assms(3)
  by (simp add: auth_step_def BuildAuthResponse_digest [of sha1 p1 p2 sha256, OF assms(1,2)] Let_def
      cong: sum.case_cong prod.case_cong option.case_cong if_cong)

lemma auth_loop_digest:
  assumes "sha1 p1 = sha1 p2" "sha256 p1 = sha256 p2" "\<not> auth_VerifiedTLS options"
  shows "auth_loop sha1 sha256 ctx (options\<lparr>auth_Password := p1\<rparr>) conn
    = auth_loop sha1 sha256 ctx (options\<lparr>auth_Password := p2\<rparr>) conn"
proof (induction "unread conn" arbitrary: conn rule: less_induct)
  case less
  note step = auth_step_digest [of sha1 p1 p2 sha256, OF assms, of ctx conn]
  obtain r conn' where s: "auth_step sha1 sha256 ctx (options\<lparr>auth_Password := p2\<rparr>) conn = (r, conn')"
    by (cases "auth_step sha1 sha256 ctx (options\<lparr>auth_Password := p2\<rparr>) conn")
  show ?case
  proof (cases r)
    case (Done e)
    with s step show ?thesis by (simp add: auth_loop.simps [of sha1 sha256 ctx _ conn])
  next
    case Again
    with s have "unread conn' < unread conn" by (auto dest: auth_step_Again)
    with less s step Again show ?thesis by (simp add: auth_loop.simps [of sha1 sha256 ctx _ conn])
  qed
qed

lemma auth_step_Done_None:
  "auth_step sha1 sha256 ctx options conn = (Done None, conn') \<Longrightarrow>
     \<exists>packet. ReadPacket ctx conn (auth_MaxPacketBytes options) = (Inr packet, conn')
       \<and> Payload packet \<noteq> [] \<and> Payload packet ! 0 = CHR 0x00"
  by (auto simp: auth_step_def Let_def split: prod.splits sum.splits option.splits if_splits)

lemma auth_loop_None:
  "auth_loop sha1 sha256 ctx options conn = (None, conn') \<Longrightarrow>
     \<exists>conn0 packet. ReadPacket ctx conn0 (auth_MaxPacketBytes options) = (Inr packet, conn')
       \<and> Payload packet \<noteq> [] \<and> Payload packet ! 0 = CHR 0x00"
proof (induction sha1 sha256 ctx options conn rule: auth_loop.induct)
  case (1 sha1 sha256 ctx options conn)
  obtain r c where s: "auth_step sha1 sha256 ctx options conn = (r, c)"
    by (cases "auth_step sha1 sha256 ctx options conn")
  show ?case
  proof (cases r)
    case (Done e)
    with s "1.prems" show ?thesis
      by (auto simp: auth_loop.simps [of sha1 sha256 ctx options conn] dest!: auth_step_Done_None)
  next
    case Again
    with 1 s show ?thesis by (simp add: auth_loop.simps [of sha1 sha256 ctx options conn])
  qed
qed

section \<open>Facts about handshakes\<close>

lemma join_salt_bounds: "length a = 8 \<Longrightarrow> 8 \<le> length (join_salt a b) \<and> length (join_salt a b) \<le> 20"
  by (simp add: join_salt_def Let_def)

lemma index_byte_take: "index_byte c xs = Some i \<Longrightarrow> c \<notin> set (take i xs)"
  using index_byte_Some by blast

lemma plugin_name_ok: "plugin_name flags rest \<noteq> [] \<and> NUL \<notin> set (plugin_name flags rest)"
  by (auto simp: plugin_name_def Let_def split: option.splits dest: index_byte_take in_set_takeD)

section \<open>Properties\<close>

text \<open>
  Framing: a stream in which packets were written one after the other is cut by the reader
  into exactly those packets, followed by whatever it makes of the bytes after them.
\<close>

theorem mysql_packet_stream:
  assumes "list_all (packet_fits m) ps"
  shows "mysql_packets.decode_all m (concat (map packet_bytes ps) @ rest)
    = (ps @ fst (mysql_packets.decode_all m rest), snd (mysql_packets.decode_all m rest))"
  using assms by (intro mysql_packets.decode_all_frames) (simp add: list_all_iff)

theorem mysql_packet_stream_witness:
  "mysql_packets.decode_all 16 (concat (map packet_bytes
      [\<lparr>Sequence = CHR 0x01, Payload = ''abc''\<rparr>, \<lparr>Sequence = CHR 0x02, Payload = []\<rparr>]) @ ''x'')
    = ([\<lparr>Sequence = CHR 0x01, Payload = ''abc''\<rparr>, \<lparr>Sequence = CHR 0x02, Payload = []\<rparr>]
        @ fst (mysql_packets.decode_all 16 ''x''), snd (mysql_packets.decode_all 16 ''x''))"
  by (rule mysql_packet_stream) (simp add: packet_fits_def MaxPacketPayloadBytes_def)

text \<open>
  What a write leaves on the wire, for every behaviour of the connection: after success the
  whole packet, after a failure exactly the first \<open>WrittenBytes\<close> bytes of it, and nothing when the
  write is refused up front.
\<close>

theorem WritePacket_delivery:
  "case WritePacket (Some cx) (Some c) sq payload of
     (None, Some c') \<Rightarrow> tx c' = tx c @ packet_bytes \<lparr>Sequence = sq, Payload = payload\<rparr>
                        \<and> length payload \<le> MaxPacketPayloadBytes
   | (Some e, Some c') \<Rightarrow> tx c' = tx c @ take (WrittenBytes e) (packet_bytes \<lparr>Sequence = sq, Payload = payload\<rparr>)
   | (_, None) \<Rightarrow> False"
proof (cases "length payload > MaxPacketPayloadBytes \<or> ctx_err cx \<noteq> None \<or> ctx_has_deadline cx \<and> deadline_fails c")
  case True
  then show ?thesis
    by (auto simp: WritePacket_def packet_bytes_def EncodePacket_def split: option.splits)
next
  case False
  let ?packet = "packet_bytes \<lparr>Sequence = sq, Payload = payload\<rparr>"
  from False have enc: "EncodePacket sq payload = Inr ?packet"
    by (simp add: packet_bytes_def EncodePacket_def)
  obtain r c' where w: "writePacketBytes c ?packet PacketWriteError = (r, c')" by fastforce
  have "WritePacket (Some cx) (Some c) sq payload = (r, Some c')"
    using False enc w by (auto simp: WritePacket_def)
  moreover have "tx c' = tx c @ ?packet" if "r = None"
    using that w by (auto simp: writePacketBytes_def dest: write_loop_None)
  moreover have "tx c' = tx c @ take (WrittenBytes e) ?packet" if "r = Some e" for e
    using that w by (auto simp: writePacketBytes_def dest!: write_loop_Some)
  ultimately show ?thesis using False by (cases r) auto
qed

text \<open>
  A parsed handshake is usable: it carries between 8 and 20 bytes of challenge, a plugin name
  that is never empty, and no NUL byte inside the strings.
\<close>

theorem ParseHandshake_usable:
  "case ParseHandshake p of Inl e \<Rightarrow> True
   | Inr h \<Rightarrow> 8 \<le> length (AuthData h) \<and> length (AuthData h) \<le> 20 \<and> AuthPluginName h \<noteq> []
       \<and> NUL \<notin> set (ServerVersion h) \<and> NUL \<notin> set (AuthPluginName h)"
  using join_salt_bounds plugin_name_ok index_byte_take
  by (simp add: ParseHandshake_def Let_def split: option.split)

text \<open>
  Without a verified TLS connection the password never leaves the gateway except through its
  digests: two passwords with the same digests give the same exchange, byte for byte, with every
  server and every network behaviour (so a server that asks for the cleartext password is refused).
\<close>

theorem ContinueAuthentication_no_cleartext:
  assumes "\<not> auth_VerifiedTLS options" "sha1 p1 = sha1 p2" "sha256 p1 = sha256 p2"
  shows "ContinueAuthentication sha1 sha256 ctx conn (options\<lparr>auth_Password := p1\<rparr>)
    = ContinueAuthentication sha1 sha256 ctx conn (options\<lparr>auth_Password := p2\<rparr>)"
  using assms by (simp add: ContinueAuthentication_def auth_loop_digest [of sha1 p1 p2 sha256])

theorem ContinueAuthentication_no_cleartext_witness:
  "ContinueAuthentication (\<lambda>p. take 1 p) (\<lambda>p. take 2 p) live_context (peer_sending [CHR 0x02, NUL, NUL, CHR 0x02, CHR 0x01, CHR 0x04])
      (\<lparr>auth_Password = [], auth_VerifiedTLS = False, auth_MaxPacketBytes = 64\<rparr>\<lparr>auth_Password := ''abc''\<rparr>)
    = ContinueAuthentication (\<lambda>p. take 1 p) (\<lambda>p. take 2 p) live_context (peer_sending [CHR 0x02, NUL, NUL, CHR 0x02, CHR 0x01, CHR 0x04])
      (\<lparr>auth_Password = [], auth_VerifiedTLS = False, auth_MaxPacketBytes = 64\<rparr>\<lparr>auth_Password := ''abd''\<rparr>)"
  by (rule ContinueAuthentication_no_cleartext) simp_all

text \<open>
  The exchange ends in success only on an OK packet: the last thing read from the server is a
  non-empty packet whose first byte is zero.
\<close>

theorem ContinueAuthentication_success:
  assumes "ContinueAuthentication sha1 sha256 ctx conn options = (None, conn')"
  shows "\<exists>conn0 packet. ReadPacket ctx conn0 (auth_MaxPacketBytes options) = (Inr packet, conn')
       \<and> Payload packet \<noteq> [] \<and> Payload packet ! 0 = CHR 0x00"
  using assms by (auto simp: ContinueAuthentication_def split: if_splits dest: auth_loop_None)


theorem ContinueAuthentication_success_witness:
  "\<exists>conn0 packet. ReadPacket live_context conn0 64 = (Inr packet, peer_sending [])
       \<and> Payload packet \<noteq> [] \<and> Payload packet ! 0 = CHR 0x00"
proof -
  let ?o = "\<lparr>auth_Password = ''pw'', auth_VerifiedTLS = False, auth_MaxPacketBytes = 64\<rparr>"
  let ?ok = "[CHR 0x02, NUL, NUL, CHR 0x02, NUL, NUL]"
  have "ReadPacket live_context (peer_sending ?ok) 64
      = (Inr \<lparr>Sequence = CHR 0x02, Payload = [NUL, NUL]\<rparr>, peer_sending [])"
    by (simp add: ReadPacket_def live_context_def peer_sending_def applyReadDeadline_def conn_read_full_def
        read_full_def header_length_def)
  then have "auth_loop (\<lambda>_. []) (\<lambda>_. []) live_context ?o (peer_sending ?ok) = (None, peer_sending [])"
    by (subst auth_loop.simps) (simp add: auth_step_def)
  then have "ContinueAuthentication (\<lambda>_. []) (\<lambda>_. []) live_context (peer_sending ?ok) ?o = (None, peer_sending [])"
    by (simp add: ContinueAuthentication_def live_context_def)
  from ContinueAuthentication_success [OF this] show ?thesis by simp
qed

end
