(* ===== verification/Go_Encoding.thy ===== *)
theory Go_Encoding
  imports Prelude
begin

text \<open>
  Text encodings of the Go standard library that the protocol components share:
  \<open>encoding/base64\<close>, \<open>strconv.Atoi\<close>, \<open>strings.Split\<close> and \<open>strings.ReplaceAll\<close> with a one-byte
  separator, and the keyed hash of \<open>crypto/hmac\<close> over a hash function that is a parameter.
\<close>

section \<open>Splitting and replacing\<close>

fun split_byte :: "byte \<Rightarrow> string \<Rightarrow> string list" where
  "split_byte sep [] = [[]]"
| "split_byte sep (c # s) =
     (if c = sep then [] # split_byte sep s
      else (case split_byte sep s of [] \<Rightarrow> [[c]] | part # parts \<Rightarrow> (c # part) # parts))"

definition replace_byte :: "byte \<Rightarrow> string \<Rightarrow> string \<Rightarrow> string" where
  "replace_byte old new s = concat (map (\<lambda>c. if c = old then new else [c]) s)"

lemma split_byte_not_Nil [simp]: "split_byte sep s \<noteq> []"
  by (induction s) (auto split: list.splits)

lemma split_byte_single: "sep \<notin> set s \<Longrightarrow> split_byte sep s = [s]"
  by (induction s) auto

lemma split_byte_append: "sep \<notin> set s \<Longrightarrow> split_byte sep (s @ sep # t) = s # split_byte sep t"
  by (induction s) auto

lemma split_byte_parts: "part \<in> set (split_byte sep s) \<Longrightarrow> sep \<notin> set part"
  by (induction s arbitrary: part) (auto split: if_splits list.splits)

lemma replace_byte_simps [simp]:
  "replace_byte old new [] = []"
  "replace_byte old new (c # s) = (if c = old then new else [c]) @ replace_byte old new s"
  by (simp_all add: replace_byte_def)

lemma replace_byte_append [simp]:
  "replace_byte old new (s @ t) = replace_byte old new s @ replace_byte old new t"
  by (simp add: replace_byte_def)

lemma replace_byte_absent: "old \<notin> set s \<Longrightarrow> replace_byte old new s = s"
  by (induction s) auto

lemma set_replace_byte: "set (replace_byte old new s) \<subseteq> (set s - {old}) \<union> set new"
  by (induction s) auto

lemma length_replace_byte: "length new \<le> k \<Longrightarrow> 0 < k \<Longrightarrow> length (replace_byte old new s) \<le> k * length s"
  by (induction s) auto

section \<open>Decimal numbers\<close>

text \<open>\<open>Atoi\<close> on a 64-bit platform: one optional sign, then only digits, within the range.\<close>

definition Atoi :: "string \<Rightarrow> int option" where
  "Atoi s =
     (let (negative, ds) = (case s of [] \<Rightarrow> (False, []) | c # r \<Rightarrow>
            if c = CHR ''-'' then (True, r) else if c = CHR ''+'' then (False, r) else (False, s)) in
      if ds = [] \<or> \<not> list_all is_digit ds then None
      else if negative then (if dec_val ds \<le> 2 ^ 63 then Some (- int (dec_val ds)) else None)
      else (if dec_val ds < 2 ^ 63 then Some (int (dec_val ds)) else None))"

lemma Atoi_itoa: "n < 2 ^ 63 \<Longrightarrow> Atoi (itoa n) = Some (int n)"
proof -
  assume n: "n < 2 ^ 63"
  obtain c r where s: "itoa n = c # r" by (cases "itoa n") simp_all
  have d: "list_all is_digit (itoa n)" using itoa_digits [of n] by (simp add: list_all_iff)
  with s have "is_digit c" by simp
  then have "c \<noteq> CHR ''-''" "c \<noteq> CHR ''+''" by (auto simp: is_digit_def)
  then show ?thesis using n d s dec_val_itoa [of n] by (simp add: Atoi_def)
qed

section \<open>Base 64\<close>

definition base64_alphabet :: string where
  "base64_alphabet = ''ABCDEFGHIJKLMNOPQRSTUVWXYZabcdefghijklmnopqrstuvwxyz0123456789+/''"

definition b64_digit :: "nat \<Rightarrow> byte" where
  "b64_digit n = base64_alphabet ! n"

definition b64_val :: "byte \<Rightarrow> nat option" where
  "b64_val c = index_byte c base64_alphabet"

fun base64_encode :: "bytes \<Rightarrow> string" where
  "base64_encode [] = []"
| "base64_encode [a] =
     [b64_digit (byte_val a div 4), b64_digit (byte_val a mod 4 * 16), CHR ''='', CHR ''='']"
| "base64_encode [a, b] =
     [b64_digit (byte_val a div 4), b64_digit (byte_val a mod 4 * 16 + byte_val b div 16),
      b64_digit (byte_val b mod 16 * 4), CHR ''='']"
| "base64_encode (a # b # c # r) =
     b64_digit (byte_val a div 4) # b64_digit (byte_val a mod 4 * 16 + byte_val b div 16)
     # b64_digit (byte_val b mod 16 * 4 + byte_val c div 64) # b64_digit (byte_val c mod 64)
     # base64_encode r"

text \<open>\<open>RawStdEncoding\<close> leaves the padding out.\<close>

definition base64_raw_encode :: "bytes \<Rightarrow> string" where
  "base64_raw_encode bs = filter (\<lambda>c. c \<noteq> CHR ''='') (base64_encode bs)"

text \<open>The decoder works in quads; padding ends the text, and the bits a padded quad does not use are
  not inspected.\<close>

fun b64_quads :: "string \<Rightarrow> bytes option" where
  "b64_quads [] = Some []"
| "b64_quads (p # q # r # s # rest) =
     (case (b64_val p, b64_val q) of
        (Some i, Some j) \<Rightarrow>
          if r = CHR ''='' then
            (if s = CHR ''='' \<and> rest = [] then Some [byte_of (i * 4 + j div 16)] else None)
          else
          (case b64_val r of None \<Rightarrow> None
           | Some k \<Rightarrow>
             if s = CHR ''='' then
               (if rest = [] then Some [byte_of (i * 4 + j div 16), byte_of (j mod 16 * 16 + k div 4)] else None)
             else
             (case b64_val s of None \<Rightarrow> None
              | Some l \<Rightarrow> map_option
                  (\<lambda>bs. byte_of (i * 4 + j div 16) # byte_of (j mod 16 * 16 + k div 4) # byte_of (k mod 4 * 64 + l) # bs)
                  (b64_quads rest)))
      | _ \<Rightarrow> None)"
| "b64_quads _ = None"

text \<open>Line breaks anywhere in the text are skipped.\<close>

definition base64_decode :: "string \<Rightarrow> bytes option" where
  "base64_decode s = b64_quads (filter (\<lambda>c. c \<noteq> CR \<and> c \<noteq> LF) s)"

lemma b64_alphabet_facts:
  "length base64_alphabet = 64" "distinct base64_alphabet"
  "CHR ''='' \<notin> set base64_alphabet" "CHR '','' \<notin> set base64_alphabet"
  "NUL \<notin> set base64_alphabet" "CR \<notin> set base64_alphabet" "LF \<notin> set base64_alphabet"
  by (simp_all add: base64_alphabet_def)

lemma b64_val_digit [simp]: "n < 64 \<Longrightarrow> b64_val (b64_digit n) = Some n"
  using index_byte_nth b64_alphabet_facts by (simp add: b64_val_def b64_digit_def)

lemma b64_digit_in: "n < 64 \<Longrightarrow> b64_digit n \<in> set base64_alphabet"
  using b64_alphabet_facts(1) by (simp add: b64_digit_def)

lemma b64_digit_neq [simp]:
  assumes "n < 64"
  shows "b64_digit n \<noteq> CHR ''=''" "b64_digit n \<noteq> CHR '',''" "b64_digit n \<noteq> NUL"
    "b64_digit n \<noteq> CR" "b64_digit n \<noteq> LF"
  using b64_digit_in [OF assms] b64_alphabet_facts by metis+

lemma b64_parts:
  "byte_val a div 4 < 64" "byte_val a mod 4 * 16 < 64" "byte_val b mod 16 * 4 < 64" "byte_val c mod 64 < 64"
  "byte_val a mod 4 * 16 + byte_val b div 16 < 64" "byte_val b mod 16 * 4 + byte_val c div 64 < 64"
proof -
  have "byte_val a < 256" "byte_val b < 256" "byte_val c < 256" by simp_all
  then show "byte_val a div 4 < 64" "byte_val a mod 4 * 16 < 64" "byte_val b mod 16 * 4 < 64" "byte_val c mod 64 < 64"
    "byte_val a mod 4 * 16 + byte_val b div 16 < 64" "byte_val b mod 16 * 4 + byte_val c div 64 < 64"
    by linarith+
qed

lemma quot_small: "byte_val b div 16 < 16" "byte_val c div 64 < 4"
  using byte_val_lt [of b] byte_val_lt [of c] by linarith+

lemma b64_quads_encode: "b64_quads (base64_encode bs) = Some bs"
proof (induction bs rule: base64_encode.induct)
  case (2 a)
  then show ?case by (simp add: b64_parts)
next
  case (3 a b)
  have "(byte_val a mod 4 * 16 + byte_val b div 16) div 16 = byte_val a mod 4"
    "(byte_val a mod 4 * 16 + byte_val b div 16) mod 16 = byte_val b div 16"
    using quot_small by simp_all
  then show ?case by (simp add: b64_parts mult.commute)
next
  case (4 a b c r)
  have "(byte_val a mod 4 * 16 + byte_val b div 16) div 16 = byte_val a mod 4"
    "(byte_val a mod 4 * 16 + byte_val b div 16) mod 16 = byte_val b div 16"
    "(byte_val b mod 16 * 4 + byte_val c div 64) div 4 = byte_val b mod 16"
    "(byte_val b mod 16 * 4 + byte_val c div 64) mod 4 = byte_val c div 64"
    using quot_small by simp_all
  with 4 show ?case by (simp add: b64_parts mult.commute)
qed simp

lemma base64_encode_set: "set (base64_encode bs) \<subseteq> insert (CHR ''='') (set base64_alphabet)"
  by (induction bs rule: base64_encode.induct) (auto simp: b64_parts b64_digit_in)

lemma base64_encode_clean:
  "CR \<notin> set (base64_encode bs)" "LF \<notin> set (base64_encode bs)" "CHR '','' \<notin> set (base64_encode bs)"
  "NUL \<notin> set (base64_encode bs)"
  using base64_encode_set [of bs] b64_alphabet_facts by auto

lemma base64_decode_encode [simp]: "base64_decode (base64_encode bs) = Some bs"
proof -
  have "filter (\<lambda>c. c \<noteq> CR \<and> c \<noteq> LF) (base64_encode bs) = base64_encode bs"
    using base64_encode_clean(1,2) [of bs] by (auto intro!: filter_True)
  then show ?thesis by (simp add: base64_decode_def b64_quads_encode)
qed

lemma base64_encode_eq_Nil [simp]: "base64_encode bs = [] \<longleftrightarrow> bs = []"
  by (cases bs rule: base64_encode.cases) simp_all

lemma length_base64_encode: "length (base64_encode bs) = 4 * ((length bs + 2) div 3)"
proof (induction bs rule: base64_encode.induct)
  case (4 a b c r)
  have "(5 + length r) div 3 = Suc ((2 + length r) div 3)" by linarith
  with 4 show ?case by simp
qed simp_all

lemma base64_raw_encode_clean:
  "CHR '','' \<notin> set (base64_raw_encode bs)" "NUL \<notin> set (base64_raw_encode bs)"
  using base64_encode_clean [of bs] by (auto simp: base64_raw_encode_def)

lemma base64_raw_encode_not_Nil: "bs \<noteq> [] \<Longrightarrow> base64_raw_encode bs \<noteq> []"
  by (cases bs rule: base64_encode.cases) (simp_all add: base64_raw_encode_def b64_parts)

section \<open>Keyed hashes\<close>

text \<open>\<open>hmac.New(sha256.New, key)\<close>: the block is 64 bytes and a longer key is hashed first.\<close>

definition hmac_key :: "(bytes \<Rightarrow> bytes) \<Rightarrow> bytes \<Rightarrow> bytes" where
  "hmac_key sha256 key =
     (let k = (if length key > 64 then sha256 key else key) in k @ replicate (64 - length k) NUL)"

definition hmac_sha256 :: "(bytes \<Rightarrow> bytes) \<Rightarrow> bytes \<Rightarrow> bytes \<Rightarrow> bytes" where
  "hmac_sha256 sha256 key data =
     (let k = hmac_key sha256 key in
      sha256 (map (byte_xor (CHR 0x5C)) k @ sha256 (map (byte_xor (CHR 0x36)) k @ data)))"

end
