(* ===== verification/Sql_Lexer.thy ===== *)
theory Sql_Lexer
  imports Go_Encoding
begin

text \<open>
  A reference lexer for the SQL the gateway sends to MySQL servers, with the session's
  \<open>NO_BACKSLASH_ESCAPES\<close> mode: a string is delimited by single quotes and a quoted identifier by
  backticks, and inside either the delimiter is written twice.  Everything a server could be made to
  execute is visible in the tokens, so a statement that lexes to the intended tokens carries no
  injected text.
\<close>

datatype token =
    Word string
  | Str string
  | Ident string
  | Punct byte
  | Unclosed

definition word_char :: "byte \<Rightarrow> bool" where
  "word_char c \<longleftrightarrow> is_digit c \<or> (65 \<le> byte_val c \<and> byte_val c \<le> 90) \<or> (97 \<le> byte_val c \<and> byte_val c \<le> 122)
     \<or> c = CHR ''_'' \<or> c = CHR ''$''"

text \<open>The body of a quoted token up to its closing delimiter, and what follows; \<open>None\<close> when the
  input ends first.\<close>

fun quoted_body :: "byte \<Rightarrow> string \<Rightarrow> (string \<times> string) option" where
  "quoted_body q [] = None"
| "quoted_body q [c] = (if c = q then Some ([], []) else None)"
| "quoted_body q (c # d # s) =
     (if c = q then
        (if d = q then map_option (\<lambda>(b, r). (q # b, r)) (quoted_body q s) else Some ([], d # s))
      else map_option (\<lambda>(b, r). (c # b, r)) (quoted_body q (d # s)))"

lemma quoted_body_shorter: "quoted_body q s = Some (b, r) \<Longrightarrow> length r < length s"
  by (induction q s arbitrary: b r rule: quoted_body.induct) (auto split: if_splits)

function lex :: "string \<Rightarrow> token list" where
  "lex s =
     (case s of [] \<Rightarrow> []
      | c # r \<Rightarrow>
        if c = CHR '' '' then lex r
        else if c = CHR 0x27 then
          (case quoted_body c r of None \<Rightarrow> [Unclosed] | Some (b, rest) \<Rightarrow> Str b # lex rest)
        else if c = CHR 0x60 then
          (case quoted_body c r of None \<Rightarrow> [Unclosed] | Some (b, rest) \<Rightarrow> Ident b # lex rest)
        else if word_char c then Word (takeWhile word_char s) # lex (dropWhile word_char s)
        else Punct c # lex r)"
  by pat_completeness auto
termination
  by (relation "measure length")
     (auto dest: quoted_body_shorter simp: le_imp_less_Suc length_dropWhile_le)

declare lex.simps [simp del]

definition double :: "byte \<Rightarrow> string \<Rightarrow> string" where
  "double q v = replace_byte q [q, q] v"

lemma quoted_body_double:
  "rest = [] \<or> hd rest \<noteq> q \<Longrightarrow> quoted_body q (double q v @ q # rest) = Some (v, rest)"
proof (induction v)
  case Nil
  then show ?case by (cases rest) (simp_all add: double_def)
next
  case (Cons c v)
  show ?case
  proof (cases "c = q")
    case True
    with Cons show ?thesis by (simp add: double_def)
  next
    case False
    obtain d s where "double q v @ q # rest = d # s" by (cases "double q v @ q # rest") auto
    with Cons False show ?thesis by (simp add: double_def)
  qed
qed

lemma lex_Nil [simp]: "lex [] = []"
  by (simp add: lex.simps)

lemma lex_space [simp]: "lex (CHR '' '' # s) = lex s"
  by (simp add: lex.simps [of "_ # _"])

lemma lex_string:
  "rest = [] \<or> hd rest \<noteq> CHR 0x27 \<Longrightarrow> lex (CHR 0x27 # double (CHR 0x27) v @ CHR 0x27 # rest) = Str v # lex rest"
  by (simp add: lex.simps [of "_ # _"] quoted_body_double)

lemma lex_ident:
  "rest = [] \<or> hd rest \<noteq> CHR 0x60 \<Longrightarrow> lex (CHR 0x60 # double (CHR 0x60) v @ CHR 0x60 # rest) = Ident v # lex rest"
  by (simp add: lex.simps [of "_ # _"] quoted_body_double)

lemma word_char_not_delimiter: "word_char c \<Longrightarrow> c \<noteq> CHR '' '' \<and> c \<noteq> CHR 0x27 \<and> c \<noteq> CHR 0x60"
  by (auto simp: word_char_def is_digit_def)

lemma lex_word:
  assumes "w \<noteq> []" "list_all word_char w" "rest = [] \<or> \<not> word_char (hd rest)"
  shows "lex (w @ rest) = Word w # lex rest"
proof -
  obtain c r where w: "w = c # r" using assms(1) by (cases w) auto
  have all: "\<forall>x \<in> set w. word_char x" using assms(2) by (simp add: list_all_iff)
  have "takeWhile word_char (w @ rest) = w" "dropWhile word_char (w @ rest) = rest"
    using all assms(3) by (cases rest; simp add: takeWhile_append dropWhile_append)+
  with w all word_char_not_delimiter [of c] show ?thesis by (simp add: lex.simps [of "_ # _"])
qed

lemma lex_punct:
  "\<not> word_char c \<Longrightarrow> c \<notin> {CHR '' '', CHR 0x27, CHR 0x60} \<Longrightarrow> lex (c # s) = Punct c # lex s"
  by (simp add: lex.simps [of "_ # _"])

end
