(* ===== verification/Db_Tls.thy ===== *)
theory Db_Tls
  imports Go_Text
begin

text \<open>
  The transport policy of a database instance (\<open>internal/dbtls/config.go\<close>): the three modes, with an
  empty mode read as no TLS.  The handshakes themselves are \<open>crypto/tls\<close>, a parameter of the
  components that run them.
\<close>

definition ModeDisable :: string where "ModeDisable = ''disable''"
definition ModeVerifyCA :: string where "ModeVerifyCA = ''verify-ca''"
definition ModeVerifyFull :: string where "ModeVerifyFull = ''verify-full''"

definition NormalizeMode :: "string \<Rightarrow> string option" where
  "NormalizeMode mode =
     (let mode = ToLower (TrimSpace mode) in
      if mode = [] then Some ModeDisable
      else if mode \<in> {ModeDisable, ModeVerifyCA, ModeVerifyFull} then Some mode
      else None)"

lemma NormalizeMode_values: "NormalizeMode m = Some mode \<Longrightarrow> mode \<in> {ModeDisable, ModeVerifyCA, ModeVerifyFull}"
  by (auto simp: NormalizeMode_def Let_def split: if_splits)

end
