(* ===== verification/Rbac_Store.thy ===== *)
theory Rbac_Store
  imports Go_Text
begin

text \<open>
  The part of the persistent state that authentication and authorization read (\<open>internal/model\<close>), and the queries
  that both checkers share (\<open>internal/rbac/active_resource.go\<close>).

  A table is the list of its rows, a row the columns that the queries mention.  A nullable column
  is an option; \<open>active_marker\<close> is 1 for a live row and NULL for one that was deactivated.  A query
  whose table name satisfies \<open>query_fails\<close> returns an error (a lost connection, a cancelled
  context), which is how the callers' error handling becomes visible.  Text is compared exactly;
  times are integers on one clock.
\<close>

section \<open>Rows\<close>

text \<open>Hosts, database instances, applications, container endpoints and platform accounts are read
  through the same columns (the protocol is a column of hosts and database instances only, the TLS
  mode of database instances), and so are host and database accounts.  The password column is the
  plaintext; its encryption at rest is not part of the model.\<close>

record grouped_row =
  row_ID :: string
  row_GroupName :: string
  row_ActiveMarker :: "int option"
  row_Status :: string
  row_Protocol :: string
  row_TLSMode :: string

record account_row =
  acct_ID :: string
  acct_ParentID :: string
  acct_GroupName :: string
  acct_ActiveMarker :: "int option"
  acct_ResourceID :: string
  acct_Status :: string
  acct_ExpiresAt :: "int option"
  acct_Username :: string
  acct_Password :: string

record Permission =
  p_ID :: string
  p_Action :: string
  p_ResourceType :: string
  p_ResourceID :: string
  p_Effect :: string
  p_ActiveMarker :: "int option"

record ResourceGrant =
  g_PrincipalType :: string
  g_PrincipalID :: string
  g_ResourceType :: string
  g_ResourceID :: string
  g_Effect :: string
  g_ExpiresAt :: "int option"
  g_ActiveMarker :: "int option"

record ResourceGroup =
  rg_ID :: string
  rg_Name :: string
  rg_GroupType :: string
  rg_ActiveMarker :: "int option"

record User_row =
  u_ID :: string
  u_ActiveMarker :: "int option"
  u_Username :: string
  u_PasswordHash :: string
  u_MySQLNativeHash :: string
  u_TokenHash :: string
  u_Status :: string
  u_IsSuperAdmin :: bool
  u_ExpiresAt :: "int option"

record UserSession =
  us_ID :: string
  us_UserID :: string
  us_SessionID :: string
  us_Status :: string
  us_ExpiresAt :: "int option"
  us_ActiveMarker :: "int option"

record ConnectionPassword =
  cp_UserID :: string
  cp_ResourceType :: string
  cp_ResourceID :: string
  cp_SecretHash :: string
  cp_MySQLNativeHash :: string
  cp_ExpiresAt :: int
  cp_RevokedAt :: "int option"
  cp_CreatedAt :: int
  cp_ActiveMarker :: "int option"

record Role =
  r_ID :: string
  r_Status :: string
  r_ActiveMarker :: "int option"

record UserRole =
  ur_UserID :: string
  ur_RoleID :: string
  ur_ExpiresAt :: "int option"

record RolePermission =
  rp_RoleID :: string
  rp_PermissionID :: string

record UserGroup =
  ug_ID :: string
  ug_ActiveMarker :: "int option"

record UserGroupMember =
  ugm_GroupID :: string
  ugm_UserID :: string

record TemporaryAccount =
  ta_ID :: string
  ta_Status :: string
  ta_ExpiresAt :: "int option"
  ta_ActiveMarker :: "int option"

record TemporaryAccountGrant =
  tg_TemporaryAccountID :: string
  tg_UserID :: string
  tg_ResourceType :: string
  tg_ResourceID :: string
  tg_StartsAt :: "int option"
  tg_ExpiresAt :: "int option"
  tg_RevokedAt :: "int option"
  tg_ActiveMarker :: "int option"

record store =
  users :: "User_row list"
  roles :: "Role list"
  user_roles :: "UserRole list"
  role_permissions :: "RolePermission list"
  permissions :: "Permission list"
  resource_groups :: "ResourceGroup list"
  hosts :: "grouped_row list"
  host_accounts :: "account_row list"
  database_instances :: "grouped_row list"
  database_accounts :: "account_row list"
  applications :: "grouped_row list"
  container_endpoints :: "grouped_row list"
  platform_accounts :: "grouped_row list"
  resource_grants :: "ResourceGrant list"
  user_groups :: "UserGroup list"
  user_group_members :: "UserGroupMember list"
  temporary_accounts :: "TemporaryAccount list"
  temporary_account_grants :: "TemporaryAccountGrant list"
  user_sessions :: "UserSession list"
  connection_passwords :: "ConnectionPassword list"
  query_fails :: "string \<Rightarrow> bool"

datatype rbac_error = NilDatabase | QueryError string

section \<open>Constants of the model package\<close>

definition ActiveMarkerValue :: int where "ActiveMarkerValue = 1"
definition ResourceTypeGroup :: string where "ResourceTypeGroup = ''resource_group''"
definition ResourceTypeAccountGroup :: string where "ResourceTypeAccountGroup = ''account_group''"
definition ResourceTypeHost :: string where "ResourceTypeHost = ''host''"
definition ResourceTypeHostAccount :: string where "ResourceTypeHostAccount = ''host_account''"
definition ResourceTypeDatabaseAccount :: string where "ResourceTypeDatabaseAccount = ''database_account''"
definition ResourceTypeDatabaseInstance :: string where "ResourceTypeDatabaseInstance = ''database_instance''"
definition ResourceTypeApplication :: string where "ResourceTypeApplication = ''application''"
definition ResourceTypeContainerEndpoint :: string where "ResourceTypeContainerEndpoint = ''container_endpoint''"
definition ResourceTypePlatformAccount :: string where "ResourceTypePlatformAccount = ''platform_account''"
definition ResourceGroupTypeResource :: string where "ResourceGroupTypeResource = ''resource''"
definition ResourceGroupTypeAccount :: string where "ResourceGroupTypeAccount = ''account''"
definition PermissionEffectAllow :: string where "PermissionEffectAllow = ''allow''"
definition PermissionEffectDeny :: string where "PermissionEffectDeny = ''deny''"

lemmas resource_types =
  ResourceTypeGroup_def ResourceTypeAccountGroup_def ResourceTypeHost_def ResourceTypeHostAccount_def
  ResourceTypeDatabaseAccount_def ResourceTypeDatabaseInstance_def ResourceTypeApplication_def
  ResourceTypeContainerEndpoint_def ResourceTypePlatformAccount_def

section \<open>Queries\<close>

definition live :: "int option \<Rightarrow> bool" where
  "live m \<longleftrightarrow> m = Some ActiveMarkerValue"

definition unexpired :: "int \<Rightarrow> int option \<Rightarrow> bool" where
  "unexpired now e = (case e of None \<Rightarrow> True | Some t \<Rightarrow> t > now)"

definition started :: "int \<Rightarrow> int option \<Rightarrow> bool" where
  "started now s = (case s of None \<Rightarrow> True | Some t \<Rightarrow> t \<le> now)"

text \<open>\<open>SELECT count(*) ... WHERE id = ? AND active_marker = 1\<close>, and the same for an account joined
  with its parent.\<close>

definition live_row :: "grouped_row list \<Rightarrow> string \<Rightarrow> bool" where
  "live_row rows resourceID = list_ex (\<lambda>x. row_ID x = resourceID \<and> live (row_ActiveMarker x)) rows"

definition live_account :: "account_row list \<Rightarrow> grouped_row list \<Rightarrow> string \<Rightarrow> bool" where
  "live_account accounts parents resourceID =
     list_ex (\<lambda>a. list_ex (\<lambda>h. row_ID h = acct_ParentID a \<and> acct_ID a = resourceID
       \<and> live (acct_ActiveMarker a) \<and> live (row_ActiveMarker h)) parents) accounts"

definition counted :: "store \<Rightarrow> string \<Rightarrow> bool \<Rightarrow> rbac_error + bool" where
  "counted db table found = (if query_fails db table then Inl (QueryError table) else Inr found)"

definition activeResourceExists :: "store \<Rightarrow> string \<Rightarrow> string \<Rightarrow> rbac_error + bool" where
  "activeResourceExists db resourceType resourceID =
     (if resourceType = ResourceTypeHost then counted db ''hosts'' (live_row (hosts db) resourceID)
      else if resourceType = ResourceTypeHostAccount then
        counted db ''host_accounts'' (live_account (host_accounts db) (hosts db) resourceID)
      else if resourceType = ResourceTypeDatabaseInstance then
        counted db ''database_instances'' (live_row (database_instances db) resourceID)
      else if resourceType = ResourceTypeDatabaseAccount then
        counted db ''database_accounts'' (live_account (database_accounts db) (database_instances db) resourceID)
      else if resourceType = ResourceTypeApplication then
        counted db ''applications'' (live_row (applications db) resourceID)
      else if resourceType = ResourceTypeContainerEndpoint then
        counted db ''container_endpoints'' (live_row (container_endpoints db) resourceID)
      else if resourceType = ResourceTypePlatformAccount then
        counted db ''platform_accounts'' (live_row (platform_accounts db) resourceID)
      else if resourceType = ResourceTypeGroup \<or> resourceType = ResourceTypeAccountGroup then
        counted db ''resource_groups''
          (list_ex (\<lambda>g. rg_ID g = resourceID \<and> live (rg_ActiveMarker g)) (resource_groups db))
      else Inr True)"

definition auditedResourceType :: "string \<Rightarrow> bool" where
  "auditedResourceType resourceType \<longleftrightarrow>
     resourceType \<in> {ResourceTypeHost, ResourceTypeHostAccount, ResourceTypeDatabaseInstance,
       ResourceTypeDatabaseAccount, ResourceTypeApplication, ResourceTypeContainerEndpoint,
       ResourceTypePlatformAccount, ResourceTypeGroup, ResourceTypeAccountGroup}"

text \<open>Membership queries of the two \<open>groupContainsResource\<close> methods: a row of the group by id, an
  account by the group of its parent, and an account by its own group.\<close>

definition row_in_group :: "grouped_row list \<Rightarrow> string \<Rightarrow> string \<Rightarrow> bool" where
  "row_in_group rows groupName resourceID =
     list_ex (\<lambda>x. row_GroupName x = groupName \<and> row_ID x = resourceID \<and> live (row_ActiveMarker x)) rows"

definition account_in_parent_group ::
    "account_row list \<Rightarrow> grouped_row list \<Rightarrow> string \<Rightarrow> string \<Rightarrow> bool" where
  "account_in_parent_group accounts parents groupName resourceID =
     list_ex (\<lambda>a. list_ex (\<lambda>h. row_ID h = acct_ParentID a \<and> row_GroupName h = groupName
       \<and> acct_ID a = resourceID \<and> live (acct_ActiveMarker a) \<and> live (row_ActiveMarker h)) parents) accounts"

definition account_in_own_group ::
    "account_row list \<Rightarrow> grouped_row list \<Rightarrow> string \<Rightarrow> string \<Rightarrow> bool" where
  "account_in_own_group accounts parents groupName resourceID =
     list_ex (\<lambda>a. list_ex (\<lambda>h. row_ID h = acct_ParentID a \<and> acct_GroupName a = groupName
       \<and> acct_ID a = resourceID \<and> live (acct_ActiveMarker a) \<and> live (row_ActiveMarker h)) parents) accounts"

section \<open>Interface: deny overrides allow\<close>

text \<open>
  Both checkers decide over a list of rules in the same way: a rule that matches and denies ends
  the decision, otherwise the rules that allow are combined.  \<open>decide\<close> is the check, \<open>denies\<close> and
  \<open>allows\<close> say when a list of rules does either; the laws are what a policy needs so that its
  outcome does not depend on the order of the rows and so that adding a deny never grants.
\<close>

locale deny_overrides =
  fixes decide :: "'rule list \<Rightarrow> 'q \<Rightarrow> bool"
    and denies :: "'rule \<Rightarrow> 'q \<Rightarrow> bool"
    and allows :: "'rule set \<Rightarrow> 'q \<Rightarrow> bool"
  assumes decide_iff: "decide rs q \<longleftrightarrow> \<not> (\<exists>r \<in> set rs. denies r q) \<and> allows (set rs) q"
    and allows_mono: "A \<subseteq> B \<Longrightarrow> allows A q \<Longrightarrow> allows B q"
    and allows_not_empty: "\<not> allows {} q"
begin

lemma decide_Nil: "\<not> decide [] q"
  by (simp add: decide_iff allows_not_empty)

lemma deny_wins: "r \<in> set rs \<Longrightarrow> denies r q \<Longrightarrow> \<not> decide rs q"
  by (auto simp: decide_iff)

lemma order_irrelevant: "set rs = set ss \<Longrightarrow> decide rs q = decide ss q"
  by (simp add: decide_iff)

lemma more_allows:
  assumes "decide rs q" "set rs \<subseteq> set ss" "\<And>r. r \<in> set ss - set rs \<Longrightarrow> \<not> denies r q"
  shows "decide ss q"
  using assms allows_mono [of "set rs" "set ss" q] by (auto simp: decide_iff)

lemma needs_allow: "decide rs q \<Longrightarrow> allows (set rs) q"
  by (simp add: decide_iff)

end

end
