(* ===== verification/Mysql_Provision.thy ===== *)
theory Mysql_Provision
  imports Mysql_Wire Sql_Lexer Db_Tls Rbac_Store
begin

text \<open>
  Creating, granting and dropping accounts on MySQL servers
  (\<open>internal/service/db_provision_sql.go\<close>, \<open>db_provision.go\<close>).

  The first part builds the statements.  Go ranges over the code points of a string; every test here
  refuses all code points above ASCII, so it is a test of the bytes.  The second part runs
  statements over a connection and reports how far each one got, and the third reads result rows.
\<close>

section \<open>Addresses\<close>

text \<open>\<open>net.ParseIP\<close>, as far as the code asks: whether the text is an address.\<close>

definition octet :: "string \<Rightarrow> bool" where
  "octet s \<longleftrightarrow> s \<noteq> [] \<and> list_all is_digit s \<and> (hd s = CHR ''0'' \<longrightarrow> length s = 1) \<and> dec_val s \<le> 255"

definition ipv4_text :: "string \<Rightarrow> bool" where
  "ipv4_text s \<longleftrightarrow> (let parts = split_byte (CHR ''.'') s in length parts = 4 \<and> list_all octet parts)"

definition is_hex :: "byte \<Rightarrow> bool" where
  "is_hex c \<longleftrightarrow> hex_val c \<noteq> None"

text \<open>The loop over the groups of an IPv6 text: \<open>i\<close> bytes are filled, \<open>ellipsis\<close> tells whether a
  double colon was seen.\<close>

function ipv6_loop :: "nat \<Rightarrow> bool \<Rightarrow> string \<Rightarrow> bool" where
  "ipv6_loop i ellipsis s =
     (if 16 \<le> i then s = [] \<and> \<not> ellipsis
      else
      let digits = takeWhile is_hex s; rest = dropWhile is_hex s in
      if digits = [] \<or> length digits > 4 then False
      else if rest \<noteq> [] \<and> hd rest = CHR ''.'' then
        (ellipsis \<or> i = 12) \<and> i + 4 \<le> 16 \<and> ipv4_text s \<and> (if i + 4 < 16 then ellipsis else \<not> ellipsis)
      else if rest = [] then (if i + 2 < 16 then ellipsis else \<not> ellipsis)
      else if hd rest \<noteq> CHR '':'' \<or> length rest = 1 then False
      else if hd (tl rest) = CHR '':'' then
        \<not> ellipsis \<and> (if length rest = 2 then i + 2 < 16 else ipv6_loop (i + 2) True (drop 2 rest))
      else ipv6_loop (i + 2) ellipsis (tl rest))"
  by pat_completeness auto
termination
  by (relation "measure (\<lambda>(i, ellipsis, s). 16 - i)") auto

definition ParseIP :: "string \<Rightarrow> bool" where
  "ParseIP s \<longleftrightarrow>
     (if CHR ''%'' \<in> set s then False
      else case find (\<lambda>c. c = CHR ''.'' \<or> c = CHR '':'') s of
        None \<Rightarrow> False
      | Some c \<Rightarrow>
          if c = CHR ''.'' then ipv4_text s
          else if take 2 s = ''::'' then (drop 2 s = [] \<or> ipv6_loop 0 True (drop 2 s))
          else ipv6_loop 0 False s)"

declare ipv6_loop.simps [simp del]

section \<open>Statements\<close>

datatype sql_error =
    UsernameLength
  | UsernameCharacter
  | HostLength
  | HostNotExact
  | HostTooLong
  | HostLabel
  | HostCharacter
  | PasswordLength
  | PasswordControl
  | NoGrants
  | TooManyGrants
  | DatabaseLength
  | DatabaseCharacter
  | UnsupportedPrivilege string

record DBGrant =
  Database :: string
  Privilege :: string

definition isASCIIAlphaNumeric :: "byte \<Rightarrow> bool" where
  "isASCIIAlphaNumeric c \<longleftrightarrow>
     97 \<le> byte_val c \<and> byte_val c \<le> 122 \<or> 65 \<le> byte_val c \<and> byte_val c \<le> 90 \<or> 48 \<le> byte_val c \<and> byte_val c \<le> 57"

definition isMySQLIdentifierCharacter :: "byte \<Rightarrow> bool" where
  "isMySQLIdentifierCharacter c \<longleftrightarrow>
     97 \<le> byte_val c \<and> byte_val c \<le> 122 \<or> 65 \<le> byte_val c \<and> byte_val c \<le> 90 \<or> 48 \<le> byte_val c \<and> byte_val c \<le> 57
     \<or> c = CHR ''_'' \<or> c = CHR ''$'' \<or> c = CHR ''-''"

definition isMySQLUsernameCharacter :: "byte \<Rightarrow> bool" where
  "isMySQLUsernameCharacter c \<longleftrightarrow> isMySQLIdentifierCharacter c \<or> c = CHR ''.'' \<or> c = CHR 0x27"

definition quoteMySQLString :: "string \<Rightarrow> string" where
  "quoteMySQLString v = [CHR 0x27] @ replace_byte (CHR 0x27) [CHR 0x27, CHR 0x27] v @ [CHR 0x27]"

definition quoteMySQLDatabaseIdentifier :: "string \<Rightarrow> sql_error + string" where
  "quoteMySQLDatabaseIdentifier v =
     (if v = [] \<or> length v > 64 then Inl DatabaseLength
      else if \<not> list_all isMySQLIdentifierCharacter v then Inl DatabaseCharacter
      else Inr ([CHR 0x60] @ replace_byte (CHR 0x60) [CHR 0x60, CHR 0x60] v @ [CHR 0x60]))"

definition validateMySQLAccountName :: "string \<Rightarrow> sql_error option" where
  "validateMySQLAccountName v =
     (if v = [] \<or> length v > 32 then Some UsernameLength
      else if \<not> list_all isMySQLUsernameCharacter v then Some UsernameCharacter
      else None)"

fun label_loop :: "string list \<Rightarrow> sql_error option" where
  "label_loop [] = None"
| "label_loop (label # labels) =
     (if label = [] \<or> length label > 63 \<or> hd label = CHR ''-'' \<or> last label = CHR ''-'' then Some HostLabel
      else if \<not> list_all (\<lambda>c. isASCIIAlphaNumeric c \<or> c = CHR ''-'') label then Some HostCharacter
      else label_loop labels)"

definition validateMySQLAccountHost :: "string \<Rightarrow> sql_error option" where
  "validateMySQLAccountHost v =
     (if v = [] \<or> length v > 255 then Some HostLength
      else if list_ex (\<lambda>c. c \<in> {CHR ''%'', CHR ''_''}) v then Some HostNotExact
      else if ParseIP v then None
      else if length v > 253 then Some HostTooLong
      else label_loop (split_byte (CHR ''.'') v))"

definition validateMySQLPassword :: "string \<Rightarrow> sql_error option" where
  "validateMySQLPassword v =
     (if v = [] \<or> length v > 1024 then Some PasswordLength
      else if list_ex (\<lambda>c. c \<in> {NUL, CR, LF}) v then Some PasswordControl
      else None)"

definition mysqlNoBackslashEscapesSQL :: string where
  "mysqlNoBackslashEscapesSQL =
     ''SET SESSION sql_mode = CONCAT_WS('' @ [CHR 0x27] @ '','' @ [CHR 0x27] @ '', NULLIF(@@SESSION.sql_mode, ''
     @ [CHR 0x27, CHR 0x27] @ ''), '' @ [CHR 0x27] @ ''NO_BACKSLASH_ESCAPES'' @ [CHR 0x27] @ '')''"

definition buildMySQLCreateStatements :: "string \<Rightarrow> string \<Rightarrow> string \<Rightarrow> sql_error + string list" where
  "buildMySQLCreateStatements username password host =
     (case validateMySQLAccountName username of Some e \<Rightarrow> Inl e
      | None \<Rightarrow>
        (case validateMySQLAccountHost host of Some e \<Rightarrow> Inl e
         | None \<Rightarrow>
           (case validateMySQLPassword password of Some e \<Rightarrow> Inl e
            | None \<Rightarrow>
                Inr [mysqlNoBackslashEscapesSQL,
                  ''CREATE USER '' @ quoteMySQLString username @ ''@'' @ quoteMySQLString host
                  @ '' IDENTIFIED BY '' @ quoteMySQLString password])))"

definition grant_privileges :: "string \<Rightarrow> string option" where
  "grant_privileges privilege =
     (if privilege = ''read'' then Some ''SELECT''
      else if privilege = ''readwrite'' then Some ''SELECT, INSERT, UPDATE, DELETE''
      else None)"

fun grant_loop :: "string \<Rightarrow> string \<Rightarrow> DBGrant list \<Rightarrow> string list \<Rightarrow> sql_error + string list" where
  "grant_loop quotedUser quotedHost [] statements = Inr statements"
| "grant_loop quotedUser quotedHost (grant # grants) statements =
     (case quoteMySQLDatabaseIdentifier (Database grant) of Inl e \<Rightarrow> Inl e
      | Inr database \<Rightarrow>
        (case grant_privileges (Privilege grant) of None \<Rightarrow> Inl (UnsupportedPrivilege (Privilege grant))
         | Some privileges \<Rightarrow>
             grant_loop quotedUser quotedHost grants
               (statements @ [''GRANT '' @ privileges @ '' ON '' @ database @ ''.* TO '' @ quotedUser @ ''@'' @ quotedHost])))"

definition buildMySQLGrantStatements :: "string \<Rightarrow> string \<Rightarrow> DBGrant list \<Rightarrow> sql_error + string list" where
  "buildMySQLGrantStatements username host grants =
     (case validateMySQLAccountName username of Some e \<Rightarrow> Inl e
      | None \<Rightarrow>
        (case validateMySQLAccountHost host of Some e \<Rightarrow> Inl e
         | None \<Rightarrow>
           if grants = [] then Inl NoGrants
           else if length grants > 128 then Inl TooManyGrants
           else grant_loop (quoteMySQLString username) (quoteMySQLString host) grants [mysqlNoBackslashEscapesSQL]))"

definition buildMySQLProvisionStatements ::
    "string \<Rightarrow> string \<Rightarrow> string \<Rightarrow> DBGrant list \<Rightarrow> sql_error + string list" where
  "buildMySQLProvisionStatements username password host grants =
     (case buildMySQLCreateStatements username password host of Inl e \<Rightarrow> Inl e
      | Inr createStatements \<Rightarrow>
        (case buildMySQLGrantStatements username host grants of Inl e \<Rightarrow> Inl e
         | Inr grantStatements \<Rightarrow> Inr (createStatements @ tl grantStatements)))"

definition ValidateMySQLProvisioning :: "string \<Rightarrow> string \<Rightarrow> string \<Rightarrow> DBGrant list \<Rightarrow> sql_error option" where
  "ValidateMySQLProvisioning username password host grants =
     (case buildMySQLProvisionStatements username password host grants of Inl e \<Rightarrow> Some e | Inr _ \<Rightarrow> None)"

definition dropMySQLUserStatement :: "string \<Rightarrow> string \<Rightarrow> string" where
  "dropMySQLUserStatement username host =
     ''DROP USER IF EXISTS '' @ quoteMySQLString username @ ''@'' @ quoteMySQLString host"

section \<open>Connecting\<close>

datatype connect_error =
    ConnectNilContext
  | ConnectDial
  | ConnectDeadline
  | ConnectReadHandshake
  | ConnectWire mysql_error
  | ConnectTLSPolicy
  | ConnectNoTLS
  | ConnectTLSHandshake string
  | ConnectNoCredential

text \<open>What the connector is given: the hashes, the dialler, the TLS handshake (it maps the connection
  below it to the one that carries the plaintext, with the value of \<open>dbtls.IsVerified\<close>) and whether
  the context is cancelled while the login packet is written.\<close>

record mysql_environment =
  me_sha1 :: "bytes \<Rightarrow> bytes"
  me_sha256 :: "bytes \<Rightarrow> bytes"
  me_dial :: "grouped_row \<Rightarrow> conn option"
  me_handshake :: "grouped_row \<Rightarrow> conn \<Rightarrow> string + conn \<times> bool"
  me_cancelled :: "string option"

definition maxMySQLAuthPacketBytes :: int where "maxMySQLAuthPacketBytes = 1048576"
definition maxMySQLProvisionPacketSize :: int where "maxMySQLProvisionPacketSize = int MaxPacketPayloadBytes"
definition mysqlProvisionTimeout :: int where "mysqlProvisionTimeout = 5000000000"

definition tls_request_payload :: "Handshake \<Rightarrow> bytes" where
  "tls_request_payload handshake =
     (let flags = CapabilityFlags handshake;
          capabilities = ClientProtocol41 OR ClientSSL;
          capabilities = (if flags AND ClientSecureConnection \<noteq> 0
                          then capabilities OR ClientSecureConnection else capabilities);
          capabilities = (if flags AND ClientPluginAuth \<noteq> 0
                          then capabilities OR ClientPluginAuth else capabilities) in
      le_bytes 4 (unat capabilities) @ le_bytes 4 (2 ^ 24)
      @ [if CharacterSet handshake = NUL then CHR 0x2D else CharacterSet handshake] @ replicate 23 NUL)"

definition writeMySQLTLSRequest ::
    "go_context option \<Rightarrow> conn option \<Rightarrow> Handshake \<Rightarrow> connect_error option \<times> conn option" where
  "writeMySQLTLSRequest ctx conn handshake =
     (if CapabilityFlags handshake AND ClientSSL = 0 then (Some ConnectNoTLS, conn)
      else (case WritePacket ctx conn (CHR 0x01) (tls_request_payload handshake) of
              (Some e, conn) \<Rightarrow> (Some (ConnectWire e), conn)
            | (None, conn) \<Rightarrow> (None, conn)))"

text \<open>The part that negotiates TLS: whether the connection to log in on is verified, the sequence
  number of the login packet, and that connection.\<close>

definition secure_transport ::
    "mysql_environment \<Rightarrow> go_context option \<Rightarrow> grouped_row \<Rightarrow> string \<Rightarrow> Handshake \<Rightarrow> conn option \<Rightarrow>
     (connect_error + bool \<times> byte) \<times> conn option" where
  "secure_transport env ctx inst mode handshake conn =
     (if mode = ModeDisable then (Inr (False, CHR 0x01), conn)
      else (case writeMySQLTLSRequest ctx conn handshake of
              (Some e, conn) \<Rightarrow> (Inl e, conn)
            | (None, conn) \<Rightarrow>
              (case conn of None \<Rightarrow> (Inl ConnectDial, conn)
               | Some c \<Rightarrow>
                 (case me_handshake env inst c of Inl e \<Rightarrow> (Inl (ConnectTLSHandshake e), conn)
                  | Inr (secured, verified) \<Rightarrow> (Inr (verified, CHR 0x02), Some secured)))))"

text \<open>The login on that connection; the second component is the connection as the login leaves it.\<close>

definition mysql_login ::
    "mysql_environment \<Rightarrow> go_context option \<Rightarrow> string \<Rightarrow> string \<Rightarrow> string \<Rightarrow> Handshake \<Rightarrow>
     bool \<Rightarrow> byte \<Rightarrow> conn option \<Rightarrow> connect_error option \<times> conn option" where
  "mysql_login env ctx username password mode handshake verified loginSequence conn =
     (case BuildHandshakeResponse41 (me_sha1 env) (me_sha256 env) handshake
             \<lparr>opt_Username = username, opt_Password = password, opt_Database = [],
              opt_AuthPlugin = AuthPluginName handshake, opt_Sequence = loginSequence,
              opt_TLS = (mode \<noteq> ModeDisable)\<rparr> of
        Inl e \<Rightarrow> (Some (ConnectWire e), conn)
      | Inr loginPacket \<Rightarrow>
        (case WriteRawPacket ctx (me_cancelled env) conn loginPacket of
           (Some e, conn) \<Rightarrow> (Some (ConnectWire e), conn)
         | (None, conn) \<Rightarrow>
           (case ContinueAuthentication (me_sha1 env) (me_sha256 env) ctx conn
                   \<lparr>auth_Password = password, auth_VerifiedTLS = verified,
                    auth_MaxPacketBytes = maxMySQLAuthPacketBytes\<rparr> of
              (Some e, conn) \<Rightarrow> (Some (ConnectWire e), conn)
            | (None, conn) \<Rightarrow>
              (case ClearDeadline conn of Some e \<Rightarrow> (Some (ConnectWire e), conn)
               | None \<Rightarrow> (None, conn)))))"

text \<open>The result is the error, if any, and the last state of the connection the code held (a failed
  attempt closes it).\<close>

definition mysqlConnect ::
    "mysql_environment \<Rightarrow> go_context option \<Rightarrow> grouped_row \<Rightarrow> string \<Rightarrow> string \<Rightarrow> connect_error option \<times> conn option" where
  "mysqlConnect env ctx inst username password =
     (case ctx of None \<Rightarrow> (Some ConnectNilContext, None)
      | Some _ \<Rightarrow>
        (case me_dial env inst of None \<Rightarrow> (Some ConnectDial, None)
         | Some c \<Rightarrow>
           if deadline_fails c then (Some ConnectDeadline, Some c)
           else
           (case ReadPacket ctx (Some c) maxMySQLAuthPacketBytes of
              (Inl _, conn) \<Rightarrow> (Some ConnectReadHandshake, conn)
            | (Inr greeting, conn) \<Rightarrow>
              (case ParseHandshake (Payload greeting) of Inl e \<Rightarrow> (Some (ConnectWire e), conn)
               | Inr handshake \<Rightarrow>
                 (case NormalizeMode (row_TLSMode inst) of None \<Rightarrow> (Some ConnectTLSPolicy, conn)
                  | Some mode \<Rightarrow>
                    (case secure_transport env ctx inst mode handshake conn of
                       (Inl e, conn) \<Rightarrow> (Some e, conn)
                     | (Inr (verified, loginSequence), conn) \<Rightarrow>
                         mysql_login env ctx username password mode handshake verified loginSequence conn))))))"

definition connectWithProvisioningAdmin ::
    "mysql_environment \<Rightarrow> go_context option \<Rightarrow> grouped_row \<Rightarrow> account_row \<Rightarrow> connect_error option \<times> conn option" where
  "connectWithProvisioningAdmin env ctx inst admin =
     (if acct_Password admin = [] then (Some ConnectNoCredential, None)
      else mysqlConnect env ctx inst (acct_Username admin) (acct_Password admin))"

text \<open>The host of a new account is the local address of an authenticated connection.  \<open>local_address\<close>
  gives its text and whether it is the unspecified address; \<open>None\<close> when it is not a TCP address.\<close>

definition resolveMySQLAccountHost ::
    "mysql_environment \<Rightarrow> (conn option \<Rightarrow> (string \<times> bool) option) \<Rightarrow> go_context option \<Rightarrow> grouped_row \<Rightarrow> account_row \<Rightarrow>
     string option" where
  "resolveMySQLAccountHost env local_address ctx inst admin =
     (if TrimSpace (acct_Username admin) = [] \<or> acct_Password admin = [] then None
      else (case mysqlConnect env ctx inst (acct_Username admin) (acct_Password admin) of
              (Some e, _) \<Rightarrow> None
            | (None, conn) \<Rightarrow>
                (case local_address conn of None \<Rightarrow> None
                 | Some (host, unspecified) \<Rightarrow>
                     if unspecified \<or> \<not> ParseIP host \<or> validateMySQLAccountHost host \<noteq> None then None else Some host)))"

section \<open>Running statements\<close>

datatype exec_error =
    StatementNotSent
  | StatementOutcomeUncertain
  | StatementRejected

text \<open>A context is given as it is seen by the write and by the read; both carry the deadline of the
  timeout.\<close>

type_synonym polls = "(go_context \<times> go_context) option"

definition query_payload :: "string \<Rightarrow> bytes" where
  "query_payload statement = CHR 0x03 # statement"

definition mysqlExecWithTimeout ::
    "polls \<Rightarrow> conn option \<Rightarrow> string \<Rightarrow> int \<Rightarrow> exec_error option \<times> conn option" where
  "mysqlExecWithTimeout ctx conn statement timeout =
     (case ctx of None \<Rightarrow> (Some StatementNotSent, conn)
      | Some (atWrite, atRead) \<Rightarrow>
        if timeout \<le> 0 then (Some StatementNotSent, conn)
        else
        (case WritePacket (Some atWrite) conn NUL (query_payload statement) of
           (Some e, conn) \<Rightarrow>
             (Some (if WrittenBytes e = 0 then StatementNotSent else StatementOutcomeUncertain), conn)
         | (None, conn) \<Rightarrow>
           (case ReadPacket (Some atRead) conn maxMySQLProvisionPacketSize of
              (Inl _, conn) \<Rightarrow> (Some StatementOutcomeUncertain, conn)
            | (Inr response, conn) \<Rightarrow>
                if Payload response = [] then (Some StatementOutcomeUncertain, conn)
                else if Payload response ! 0 = CHR 0x00 then (None, conn)
                else if Payload response ! 0 = CHR 0xFF then (Some StatementRejected, conn)
                else (Some StatementOutcomeUncertain, conn))))"

definition mysqlExec :: "polls \<Rightarrow> conn option \<Rightarrow> string \<Rightarrow> exec_error option \<times> conn option" where
  "mysqlExec ctx conn statement = mysqlExecWithTimeout ctx conn statement mysqlProvisionTimeout"

datatype DatabaseAccountCreateDisposition =
    DatabaseAccountCreateNotSent
  | DatabaseAccountCreateNotCreated
  | DatabaseAccountCreateMayBeApplied
  | DatabaseAccountCreateApplied

datatype provision_error =
    ProvisionConnect connect_error
  | ProvisionSql sql_error
  | ProvisionExec exec_error
  | ProvisionGrant
  | ProvisionDrop
  | ProvisionIncomplete

text \<open>The loop over the statements, with the state that \<open>exec\<close> changes passed along.\<close>

fun create_loop ::
    "(string \<Rightarrow> 's \<Rightarrow> exec_error option \<times> 's) \<Rightarrow> nat \<Rightarrow> string list \<Rightarrow> 's \<Rightarrow>
     (DatabaseAccountCreateDisposition \<times> provision_error option) \<times> 's" where
  "create_loop exec index [] st = ((DatabaseAccountCreateApplied, None), st)"
| "create_loop exec index (statement # statements) st =
     (case exec statement st of
        (None, st) \<Rightarrow> create_loop exec (Suc index) statements st
      | (Some e, st) \<Rightarrow>
          ((if index = 0 then DatabaseAccountCreateNotSent
            else case e of
              StatementOutcomeUncertain \<Rightarrow> DatabaseAccountCreateMayBeApplied
            | StatementNotSent \<Rightarrow> DatabaseAccountCreateNotSent
            | StatementRejected \<Rightarrow> DatabaseAccountCreateNotCreated,
            Some (ProvisionExec e)), st))"

definition runMySQLCreateStatements ::
    "(string \<Rightarrow> 's \<Rightarrow> exec_error option \<times> 's) \<Rightarrow> string \<Rightarrow> string \<Rightarrow> string \<Rightarrow> 's \<Rightarrow>
     (DatabaseAccountCreateDisposition \<times> provision_error option) \<times> 's" where
  "runMySQLCreateStatements exec username password host st =
     (case buildMySQLCreateStatements username password host of
        Inl e \<Rightarrow> ((DatabaseAccountCreateNotSent, Some (ProvisionSql e)), st)
      | Inr statements \<Rightarrow> create_loop exec 0 statements st)"

text \<open>The closure that \<open>CreateMySQLAccount\<close> passes: the n-th call sees the n-th contexts.\<close>

definition exec_on :: "(nat \<Rightarrow> polls) \<Rightarrow> string \<Rightarrow> conn option \<times> nat \<Rightarrow> exec_error option \<times> conn option \<times> nat" where
  "exec_on polls statement = (\<lambda>(conn, n). case mysqlExec (polls n) conn statement of (r, conn) \<Rightarrow> (r, conn, Suc n))"

definition CreateMySQLAccount ::
    "mysql_environment \<Rightarrow> go_context option \<Rightarrow> (nat \<Rightarrow> polls) \<Rightarrow> grouped_row \<Rightarrow> account_row \<Rightarrow>
     string \<Rightarrow> string \<Rightarrow> string \<Rightarrow> (DatabaseAccountCreateDisposition \<times> provision_error option) \<times> conn option" where
  "CreateMySQLAccount env ctx polls inst admin username password host =
     (case connectWithProvisioningAdmin env ctx inst admin of
        (Some e, conn) \<Rightarrow> ((DatabaseAccountCreateNotSent, Some (ProvisionConnect e)), conn)
      | (None, conn) \<Rightarrow>
          (case runMySQLCreateStatements (exec_on polls) username password host (conn, 0) of
             (result, conn, _) \<Rightarrow> (result, conn)))"

fun exec_all ::
    "(string \<Rightarrow> 's \<Rightarrow> exec_error option \<times> 's) \<Rightarrow> string list \<Rightarrow> 's \<Rightarrow> bool \<times> 's" where
  "exec_all exec [] st = (True, st)"
| "exec_all exec (statement # statements) st =
     (case exec statement st of (None, st) \<Rightarrow> exec_all exec statements st | (Some _, st) \<Rightarrow> (False, st))"

definition GrantMySQLAccount ::
    "mysql_environment \<Rightarrow> go_context option \<Rightarrow> (nat \<Rightarrow> polls) \<Rightarrow> grouped_row \<Rightarrow> account_row \<Rightarrow>
     string \<Rightarrow> string \<Rightarrow> DBGrant list \<Rightarrow> provision_error option \<times> conn option" where
  "GrantMySQLAccount env ctx polls inst admin username host grants =
     (case buildMySQLGrantStatements username host grants of Inl e \<Rightarrow> (Some (ProvisionSql e), None)
      | Inr statements \<Rightarrow>
        (case connectWithProvisioningAdmin env ctx inst admin of
           (Some e, conn) \<Rightarrow> (Some (ProvisionConnect e), conn)
         | (None, conn) \<Rightarrow>
             (case exec_all (exec_on polls) statements (conn, 0) of
                (ok, conn, _) \<Rightarrow> (if ok then None else Some ProvisionGrant, conn))))"

definition DropMySQLAccount ::
    "mysql_environment \<Rightarrow> go_context option \<Rightarrow> (nat \<Rightarrow> polls) \<Rightarrow> grouped_row \<Rightarrow> account_row \<Rightarrow>
     string \<Rightarrow> string \<Rightarrow> provision_error option \<times> conn option" where
  "DropMySQLAccount env ctx polls inst admin username host =
     (case validateMySQLAccountName username of Some e \<Rightarrow> (Some (ProvisionSql e), None)
      | None \<Rightarrow>
        (case validateMySQLAccountHost host of Some e \<Rightarrow> (Some (ProvisionSql e), None)
         | None \<Rightarrow>
           (case connectWithProvisioningAdmin env ctx inst admin of
              (Some e, conn) \<Rightarrow> (Some (ProvisionConnect e), conn)
            | (None, conn) \<Rightarrow>
                (case exec_all (exec_on polls) [mysqlNoBackslashEscapesSQL, dropMySQLUserStatement username host] (conn, 0) of
                   (ok, conn, _) \<Rightarrow> (if ok then None else Some ProvisionDrop, conn)))))"

definition ProvisionMySQLAccount ::
    "mysql_environment \<Rightarrow> go_context option \<Rightarrow> (nat \<Rightarrow> polls) \<Rightarrow> (nat \<Rightarrow> polls) \<Rightarrow> grouped_row \<Rightarrow> account_row \<Rightarrow>
     string \<Rightarrow> string \<Rightarrow> string \<Rightarrow> DBGrant list \<Rightarrow> provision_error option" where
  "ProvisionMySQLAccount env ctx createPolls grantPolls inst admin username password host grants =
     (case CreateMySQLAccount env ctx createPolls inst admin username password host of
        ((_, Some e), _) \<Rightarrow> Some e
      | ((disposition, None), _) \<Rightarrow>
          if disposition \<noteq> DatabaseAccountCreateApplied then Some ProvisionIncomplete
          else fst (GrantMySQLAccount env ctx grantPolls inst admin username host grants))"

section \<open>Reading results\<close>

definition readLenEncInt :: "bytes \<Rightarrow> u64 \<times> nat" where
  "readLenEncInt data =
     (if data = [] then (0, 0)
      else if data ! 0 = CHR 0xFC then
        (if length data \<ge> 3 then (of_nat (byte_val (data ! 1)) OR push_bit 8 (of_nat (byte_val (data ! 2))), 3) else (0, 0))
      else if data ! 0 = CHR 0xFD then
        (if length data \<ge> 4 then
           ((of_nat (byte_val (data ! 1)) OR push_bit 8 (of_nat (byte_val (data ! 2)))) OR push_bit 16 (of_nat (byte_val (data ! 3))), 4)
         else (0, 0))
      else if data ! 0 = CHR 0xFE then
        (if length data \<ge> 9 then (of_nat (le_val (take 8 (drop 1 data))), 9) else (0, 0))
      else if byte_val (data ! 0) < 0xFB then (of_nat (byte_val (data ! 0)), 1)
      else (0, 0))"

text \<open>The loop of \<open>parseMySQLTextRow\<close>; \<open>rest\<close> is the payload from the position on.  The end of a
  column is computed in a signed 64-bit integer; one that wraps below the position makes the slice
  expression panic (\<open>None\<close>).\<close>

function row_loop :: "nat \<Rightarrow> bytes \<Rightarrow> string list option" where
  "row_loop position rest =
     (case rest of [] \<Rightarrow> Some []
      | c # tail \<Rightarrow>
        if c = CHR 0xFB then map_option ((#) []) (row_loop (Suc position) tail)
        else
        (case readLenEncInt rest of (len, offset) \<Rightarrow>
           if offset = 0 then Some []
           else
           let data = drop offset rest;
               stop = sint (of_nat (position + offset) + len) in
           if stop > int (position + length rest) then Some []
           else if stop < int (position + offset) then None
           else let n = nat stop - (position + offset) in
                map_option ((#) (take n data)) (row_loop (nat stop) (drop n data))))"
  by pat_completeness auto
termination
  by (relation "measure (\<lambda>(position, rest). length rest)") auto

declare row_loop.simps [simp del]

definition parseMySQLTextRow :: "bytes \<Rightarrow> string list option" where
  "parseMySQLTextRow payload = row_loop 0 payload"

datatype query_result =
    Rows "string list list"
  | QueryFailed string
  | QueryPanics

fun skip_packets :: "go_context \<Rightarrow> nat \<Rightarrow> conn option \<Rightarrow> conn option option" where
  "skip_packets ctx 0 conn = Some conn"
| "skip_packets ctx (Suc n) conn =
     (case ReadPacket (Some ctx) conn maxMySQLProvisionPacketSize of
        (Inl _, _) \<Rightarrow> None
      | (Inr _, conn) \<Rightarrow> skip_packets ctx n conn)"

function rows_loop :: "go_context \<Rightarrow> conn option \<Rightarrow> string list list \<Rightarrow> query_result" where
  "rows_loop ctx conn rows =
     (case ReadPacket (Some ctx) conn maxMySQLProvisionPacketSize of
        (Inl _, _) \<Rightarrow> QueryFailed ''read mysql result row''
      | (Inr packet, conn') \<Rightarrow>
          if Payload packet = [] then QueryFailed ''empty mysql result row''
          else if Payload packet ! 0 = CHR 0xFE \<and> length (Payload packet) < 9 then Rows rows
          else if Payload packet ! 0 = CHR 0xFF then QueryFailed ''mysql query rejected''
          else (case parseMySQLTextRow (Payload packet) of None \<Rightarrow> QueryPanics
                | Some row \<Rightarrow> rows_loop ctx conn' (rows @ [row])))"
  by pat_completeness auto
termination
  by (relation "measure (\<lambda>(ctx, conn, rows). unread conn)")
     (auto dest: ReadPacket_unread [OF sym])

declare rows_loop.simps [simp del]

definition mysqlQueryWithTimeout :: "polls \<Rightarrow> conn option \<Rightarrow> string \<Rightarrow> int \<Rightarrow> query_result" where
  "mysqlQueryWithTimeout ctx conn query timeout =
     (case ctx of None \<Rightarrow> QueryFailed ''invalid mysql query context''
      | Some (atWrite, atRead) \<Rightarrow>
        if timeout \<le> 0 then QueryFailed ''invalid mysql query context''
        else
        (case WritePacket (Some atWrite) conn NUL (query_payload query) of
           (Some _, _) \<Rightarrow> QueryFailed ''write mysql query''
         | (None, conn) \<Rightarrow>
           (case ReadPacket (Some atRead) conn maxMySQLProvisionPacketSize of
              (Inl _, _) \<Rightarrow> QueryFailed ''read mysql query response''
            | (Inr response, conn) \<Rightarrow>
                if Payload response = [] then QueryFailed ''empty mysql query response''
                else if Payload response ! 0 = CHR 0xFF then QueryFailed ''mysql query rejected''
                else
                let columnCount = fst (readLenEncInt (Payload response)) in
                if columnCount = 0 then Rows []
                else (case skip_packets atRead (unat (columnCount + 1)) conn of
                        None \<Rightarrow> QueryFailed ''read mysql result metadata''
                      | Some conn \<Rightarrow> rows_loop atRead conn []))))"

definition mysqlQuery :: "polls \<Rightarrow> conn option \<Rightarrow> string \<Rightarrow> query_result" where
  "mysqlQuery ctx conn query = mysqlQueryWithTimeout ctx conn query mysqlProvisionTimeout"

datatype list_result =
    Databases "string list"
  | ListConnect connect_error
  | ListQuery string
  | ListPanics

definition ListMySQLDatabases ::
    "mysql_environment \<Rightarrow> go_context option \<Rightarrow> polls \<Rightarrow> grouped_row \<Rightarrow> account_row \<Rightarrow> list_result" where
  "ListMySQLDatabases env ctx polls inst admin =
     (case connectWithProvisioningAdmin env ctx inst admin of
        (Some e, _) \<Rightarrow> ListConnect e
      | (None, conn) \<Rightarrow>
          (case mysqlQuery polls conn ''SHOW DATABASES'' of
             Rows rows \<Rightarrow> Databases (map hd (filter (\<lambda>row. row \<noteq> [] \<and> hd row \<noteq> []) rows))
           | QueryFailed e \<Rightarrow> ListQuery e
           | QueryPanics \<Rightarrow> ListPanics))"

section \<open>Facts about the statements\<close>

lemma lex_word_space:
  "w \<noteq> [] \<Longrightarrow> list_all word_char w \<Longrightarrow> lex (w @ CHR '' '' # rest) = Word w # lex rest"
  by (simp add: lex_word word_char_def is_digit_def)

lemma quoted_string: "quoteMySQLString v @ rest = CHR 0x27 # double (CHR 0x27) v @ CHR 0x27 # rest"
  by (simp add: quoteMySQLString_def double_def)

lemma lex_quoted:
  "rest = [] \<or> hd rest \<noteq> CHR 0x27 \<Longrightarrow> lex (quoteMySQLString v @ rest) = Str v # lex rest"
  by (simp only: quoted_string lex_string)

lemma keyword_chars:
  "list_all word_char ''CREATE''" "list_all word_char ''USER''" "list_all word_char ''IDENTIFIED''"
  "list_all word_char ''BY''" "list_all word_char ''GRANT''" "list_all word_char ''SELECT''"
  "list_all word_char ''INSERT''" "list_all word_char ''UPDATE''" "list_all word_char ''DELETE''"
  "list_all word_char ''ON''" "list_all word_char ''TO''" "list_all word_char ''DROP''"
  "list_all word_char ''IF''" "list_all word_char ''EXISTS''"
  by (simp_all add: word_char_def is_digit_def)

definition mode_tokens :: "token list" where
  "mode_tokens =
     [Word ''SET'', Word ''SESSION'', Word ''sql_mode'', Punct (CHR ''=''), Word ''CONCAT_WS'', Punct (CHR ''(''),
      Str '','', Punct (CHR '',''), Word ''NULLIF'', Punct (CHR ''(''), Punct (CHR ''@''), Punct (CHR ''@''),
      Word ''SESSION'', Punct (CHR ''.''), Word ''sql_mode'', Punct (CHR '',''), Str [], Punct (CHR '')''),
      Punct (CHR '',''), Str ''NO_BACKSLASH_ESCAPES'', Punct (CHR '')'')]"

definition account_tokens :: "string \<Rightarrow> string \<Rightarrow> token list" where
  "account_tokens username host = [Str username, Punct (CHR ''@''), Str host]"

definition create_tokens :: "string \<Rightarrow> string \<Rightarrow> string \<Rightarrow> token list" where
  "create_tokens username password host =
     [Word ''CREATE'', Word ''USER''] @ account_tokens username host @ [Word ''IDENTIFIED'', Word ''BY'', Str password]"

definition drop_tokens :: "string \<Rightarrow> string \<Rightarrow> token list" where
  "drop_tokens username host =
     [Word ''DROP'', Word ''USER'', Word ''IF'', Word ''EXISTS''] @ account_tokens username host"

definition privilege_tokens :: "string \<Rightarrow> token list" where
  "privilege_tokens privilege =
     (if privilege = ''read'' then [Word ''SELECT'']
      else [Word ''SELECT'', Punct (CHR '',''), Word ''INSERT'', Punct (CHR '',''), Word ''UPDATE'',
            Punct (CHR '',''), Word ''DELETE''])"

definition grant_tokens :: "string \<Rightarrow> string \<Rightarrow> DBGrant \<Rightarrow> token list" where
  "grant_tokens username host g =
     [Word ''GRANT''] @ privilege_tokens (Privilege g)
     @ [Word ''ON'', Ident (Database g), Punct (CHR ''.''), Punct (CHR ''*''), Word ''TO'']
     @ account_tokens username host"

lemma lex_mode: "lex mysqlNoBackslashEscapesSQL = mode_tokens"
  by code_simp

lemma lex_account:
  "rest = [] \<or> hd rest \<noteq> CHR 0x27 \<Longrightarrow>
     lex (quoteMySQLString username @ CHR ''@'' # quoteMySQLString host @ rest) = account_tokens username host @ lex rest"
  by (simp add: lex_quoted lex_punct word_char_def is_digit_def account_tokens_def)

lemmas lex_keywords = keyword_chars [THEN lex_word_space [rotated], simplified]

lemma lex_create:
  "lex (''CREATE USER '' @ quoteMySQLString username @ ''@'' @ quoteMySQLString host
      @ '' IDENTIFIED BY '' @ quoteMySQLString password) = create_tokens username password host"
proof -
  have "lex (quoteMySQLString password) = [Str password]" using lex_quoted [of "[]" password] by simp
  then have "lex ('' IDENTIFIED BY '' @ quoteMySQLString password) = [Word ''IDENTIFIED'', Word ''BY'', Str password]"
    by (simp add: lex_keywords)
  with lex_account [of "'' IDENTIFIED BY '' @ quoteMySQLString password" username host] show ?thesis
    by (simp add: lex_keywords create_tokens_def)
qed

lemma lex_drop: "lex (dropMySQLUserStatement username host) = drop_tokens username host"
  using lex_account [of "[]" username host]
  by (simp add: dropMySQLUserStatement_def lex_keywords drop_tokens_def)

lemma lex_privileges:
  assumes "grant_privileges privilege = Some privileges"
  shows "lex (privileges @ CHR '' '' # rest) = privilege_tokens privilege @ lex rest"
proof -
  have w: "lex (w @ CHR '','' # CHR '' '' # r) = Word w # Punct (CHR '','') # lex r"
    if "list_all word_char w" "w \<noteq> []" for w r
    using that by (simp add: lex_word lex_punct word_char_def is_digit_def)
  note listed = keyword_chars [THEN w, simplified]
  show ?thesis
    using assms by (auto simp: grant_privileges_def privilege_tokens_def listed lex_keywords split: if_splits)
qed

lemma lex_grant:
  assumes "quoteMySQLDatabaseIdentifier (Database g) = Inr database" "grant_privileges (Privilege g) = Some privileges"
  shows "lex (''GRANT '' @ privileges @ '' ON '' @ database @ ''.* TO '' @ quoteMySQLString username @ ''@''
      @ quoteMySQLString host) = grant_tokens username host g"
proof -
  have db: "database = CHR 0x60 # double (CHR 0x60) (Database g) @ [CHR 0x60]"
    using assms(1) by (simp add: quoteMySQLDatabaseIdentifier_def double_def split: if_splits)
  let ?rest = "''.* TO '' @ quoteMySQLString username @ ''@'' @ quoteMySQLString host"
  have "lex ?rest = [Punct (CHR ''.''), Punct (CHR ''*''), Word ''TO''] @ account_tokens username host"
    using lex_account [of "[]" username host] by (simp add: lex_keywords lex_punct word_char_def is_digit_def)
  moreover have "lex (database @ ?rest) = Ident (Database g) # lex ?rest"
    using lex_ident [of ?rest "Database g"] by (simp add: db)
  ultimately have "lex ('' ON '' @ database @ ?rest)
      = [Word ''ON'', Ident (Database g), Punct (CHR ''.''), Punct (CHR ''*''), Word ''TO''] @ account_tokens username host"
    by (simp add: lex_keywords)
  then show ?thesis
    using lex_privileges [OF assms(2), of "''ON '' @ database @ ?rest"] by (simp add: lex_keywords grant_tokens_def)
qed

lemma lex_grant_loop:
  "grant_loop (quoteMySQLString username) (quoteMySQLString host) grants statements = Inr result \<Longrightarrow>
     map lex result = map lex statements @ map (grant_tokens username host) grants"
proof (induction grants arbitrary: statements)
  case (Cons g grants)
  then show ?case using lex_grant [of g _ _ username host] by (force split: sum.splits option.splits)
qed simp

section \<open>Facts about hosts\<close>

definition host_char :: "byte \<Rightarrow> bool" where
  "host_char c \<longleftrightarrow> isASCIIAlphaNumeric c \<or> c \<in> {CHR ''.'', CHR '':'', CHR ''-''}"

lemma split_byte_chars: "c \<in> set s \<Longrightarrow> c \<noteq> sep \<Longrightarrow> \<exists>part \<in> set (split_byte sep s). c \<in> set part"
  by (induction s) (auto split: list.splits)

lemma digit_host_char: "is_digit c \<Longrightarrow> host_char c"
  by (auto simp: is_digit_def host_char_def isASCIIAlphaNumeric_def)

lemma hex_host_char: "is_hex c \<Longrightarrow> host_char c"
  by (auto simp: is_hex_def hex_val_def host_char_def isASCIIAlphaNumeric_def Let_def split: if_splits)

lemma ipv4_host_chars: "ipv4_text s \<Longrightarrow> c \<in> set s \<Longrightarrow> host_char c"
proof (cases "c = CHR ''.''")
  case False
  assume "ipv4_text s" "c \<in> set s"
  with False split_byte_chars [of c s "CHR ''.''"] show ?thesis
    by (auto simp: ipv4_text_def octet_def list_all_iff Let_def intro: digit_host_char)
qed (simp add: host_char_def)

lemma ipv6_host_chars: "ipv6_loop i ellipsis s \<Longrightarrow> c \<in> set s \<Longrightarrow> host_char c"
proof (induction i ellipsis s rule: ipv6_loop.induct)
  case (1 i ellipsis s)
  let ?rest = "dropWhile is_hex s"
  have "c \<in> set (takeWhile is_hex s) \<or> c \<in> set ?rest"
    using "1.prems"(2) by (metis Un_iff set_append takeWhile_dropWhile_id)
  then consider "is_hex c" | "c \<in> set ?rest" by (auto dest: set_takeWhileD)
  then show ?case
  proof cases
    case 2
    obtain d r where rest: "?rest = d # r" using 2 by (cases ?rest) auto
    show ?thesis
    proof (cases "16 \<le> i \<or> takeWhile is_hex s = [] \<or> 4 < length (takeWhile is_hex s) \<or> d = CHR ''.''")
      case True
      with "1.prems" rest show ?thesis
        by (auto simp: ipv6_loop.simps [of i ellipsis s] Let_def intro: ipv4_host_chars split: if_splits)
    next
      case False
      with "1.prems" rest obtain e t where "d = CHR '':''" "r = e # t"
        by (cases r) (auto simp: ipv6_loop.simps [of i ellipsis s] Let_def split: if_splits)
      moreover have "host_char (CHR '':'')" by (simp add: host_char_def)
      ultimately show ?thesis using 1 2 rest False
        by (auto simp: ipv6_loop.simps [of i ellipsis s] Let_def split: if_splits)
    qed
  qed (rule hex_host_char)
qed

lemma label_loop_chars: "label_loop labels = None \<Longrightarrow> label \<in> set labels \<Longrightarrow> c \<in> set label \<Longrightarrow> host_char c"
  by (induction labels) (auto simp: host_char_def list_all_iff split: if_splits)

lemma ParseIP_chars:
  assumes "ParseIP h" "c \<in> set h"
  shows "host_char c"
proof (cases "take 2 h = ''::''")
  case True
  then have "h = CHR '':'' # CHR '':'' # drop 2 h" by (metis append_take_drop_id append_Cons append_Nil)
  with assms(2) have "c = CHR '':'' \<or> c \<in> set (drop 2 h)" by (metis set_ConsD)
  with assms True show ?thesis
    by (auto simp: ParseIP_def host_char_def split: if_splits option.splits dest: ipv6_host_chars ipv4_host_chars)
next
  case False
  with assms show ?thesis
    by (auto simp: ParseIP_def split: if_splits option.splits dest: ipv6_host_chars ipv4_host_chars)
qed

lemma accepted_host_chars: "validateMySQLAccountHost h = None \<Longrightarrow> c \<in> set h \<Longrightarrow> host_char c"
proof -
  assume h: "validateMySQLAccountHost h = None" and c: "c \<in> set h"
  show ?thesis
  proof (cases "ParseIP h \<or> c = CHR ''.''")
    case True
    with c show ?thesis by (auto simp: host_char_def dest: ParseIP_chars)
  next
    case False
    with h have "label_loop (split_byte (CHR ''.'') h) = None"
      by (auto simp: validateMySQLAccountHost_def split: if_splits)
    with False c show ?thesis using split_byte_chars [of c h "CHR ''.''"] label_loop_chars by blast
  qed
qed

section \<open>Facts about execution\<close>











lemma mysql_login_digest:
  assumes "me_sha1 env p1 = me_sha1 env p2" "me_sha256 env p1 = me_sha256 env p2"
  shows "mysql_login env ctx username p1 mode handshake False q conn = mysql_login env ctx username p2 mode handshake False q conn"
proof -
  let ?o = "\<lambda>p. \<lparr>auth_Password = p, auth_VerifiedTLS = False, auth_MaxPacketBytes = maxMySQLAuthPacketBytes\<rparr>"
  have loop: "auth_loop (me_sha1 env) (me_sha256 env) ctx (?o p1) c = auth_loop (me_sha1 env) (me_sha256 env) ctx (?o p2) c" for c
    using auth_loop_digest [of "me_sha1 env" p1 p2 "me_sha256 env" "?o []" ctx c] assms by simp
  have digest: "BuildAuthResponse (me_sha1 env) (me_sha256 env) plugin p1 salt = BuildAuthResponse (me_sha1 env) (me_sha256 env) plugin p2 salt" for plugin salt
    using BuildAuthResponse_digest [of "me_sha1 env" p1 p2 "me_sha256 env"] assms by simp
  show ?thesis
    unfolding mysql_login_def BuildHandshakeResponse41_def ContinueAuthentication_def LoginOptions.select_convs
      AuthenticationOptions.select_convs digest loop ..
qed

section \<open>Facts about rows\<close>

text \<open>A column as a server sends it: one byte for NULL, otherwise its length as a length-encoded
  integer and then its bytes.\<close>

definition lenenc_int :: "nat \<Rightarrow> bytes" where
  "lenenc_int n =
     (if n < 251 then [byte_of n]
      else if n < 2 ^ 16 then CHR 0xFC # le_bytes 2 n
      else if n < 2 ^ 24 then CHR 0xFD # le_bytes 3 n
      else CHR 0xFE # le_bytes 8 n)"

fun column_bytes :: "string option \<Rightarrow> bytes" where
  "column_bytes None = [CHR 0xFB]"
| "column_bytes (Some v) = lenenc_int (length v) @ v"

definition column_text :: "string option \<Rightarrow> string" where
  "column_text v = (case v of None \<Rightarrow> [] | Some t \<Rightarrow> t)"

lemma or_push_word: "a < 2 ^ k \<Longrightarrow> (of_nat a OR push_bit k (of_nat b) :: u64) = of_nat (a + 2 ^ k * b)"
  by (metis of_nat_or_eq of_nat_push_bit or_push_bit)

lemma readLenEncInt_layouts:
  "byte_val c < 251 \<Longrightarrow> readLenEncInt (c # rest) = (of_nat (byte_val c), 1)"
  "readLenEncInt (CHR 0xFC # a # b # rest) = (of_nat (byte_val a + 256 * byte_val b), 3)"
  "readLenEncInt (CHR 0xFD # a # b # c # rest) = (of_nat (byte_val a + 256 * byte_val b + 65536 * byte_val c), 4)"
  "length bs = 8 \<Longrightarrow> readLenEncInt (CHR 0xFE # bs @ rest) = (of_nat (le_val bs), 9)"
proof -
  show "readLenEncInt (c # rest) = (of_nat (byte_val c), 1)" if "byte_val c < 251"
  proof -
    from that have "c \<noteq> CHR 0xFC" "c \<noteq> CHR 0xFD" "c \<noteq> CHR 0xFE" by auto
    with that show ?thesis by (simp add: readLenEncInt_def)
  qed
  have ab: "(of_nat (byte_val a) OR push_bit 8 (of_nat (byte_val b)) :: u64) = of_nat (byte_val a + 256 * byte_val b)"
    using or_push_word [of "byte_val a" 8 "byte_val b"] by simp
  then show "readLenEncInt (CHR 0xFC # a # b # rest) = (of_nat (byte_val a + 256 * byte_val b), 3)"
    by (simp add: readLenEncInt_def)
  have "byte_val a + 256 * byte_val b < 2 ^ 16" using byte_val_lt [of a] byte_val_lt [of b] by (simp del: byte_val_lt)
  from or_push_word [OF this, of "byte_val c"] ab
  show "readLenEncInt (CHR 0xFD # a # b # c # rest) = (of_nat (byte_val a + 256 * byte_val b + 65536 * byte_val c), 4)"
    by (simp add: readLenEncInt_def)
  show "readLenEncInt (CHR 0xFE # bs @ rest) = (of_nat (le_val bs), 9)" if "length bs = 8"
    using that by (simp add: readLenEncInt_def)
qed
lemma readLenEncInt_lenenc:
  assumes "n < 2 ^ 64"
  shows "readLenEncInt (lenenc_int n @ rest) = (of_nat n, length (lenenc_int n))"
proof -
  consider "n < 251" | "\<not> n < 251" "n < 2 ^ 16" | "\<not> n < 251" "\<not> n < 2 ^ 16" "n < 2 ^ 24" | "\<not> n < 2 ^ 24" by linarith
  then show ?thesis
  proof cases
    case 1
    then show ?thesis by (simp add: lenenc_int_def readLenEncInt_layouts)
  next
    case 2
    then have "n mod 256 + 256 * (n div 256 mod 256) = n" by simp
    then have "(of_nat (n mod 256 + 256 * (n div 256 mod 256)) :: u64) = of_nat n" by (rule arg_cong)
    with 2 show ?thesis by (simp add: lenenc_int_def readLenEncInt_layouts numeral_2_eq_2 del: of_nat_add of_nat_mult)
  next
    case 3
    have "n mod 256 + 256 * (n div 256 mod 256) + 65536 * (n div 256 div 256 mod 256) = le_val (le_bytes 3 n)"
      by (simp add: numeral_3_eq_3)
    also have "\<dots> = n" using 3 by (simp add: le_val_le_bytes)
    finally have "(of_nat (n mod 256 + 256 * (n div 256 mod 256) + 65536 * (n div 256 div 256 mod 256)) :: u64) = of_nat n"
      by (rule arg_cong)
    with 3 show ?thesis by (simp add: lenenc_int_def readLenEncInt_layouts numeral_3_eq_3 del: of_nat_add of_nat_mult)
  next
    case 4
    have "le_val (le_bytes 8 n) = n" using assms by (simp add: le_val_le_bytes)
    with 4 readLenEncInt_layouts(4) [of "le_bytes 8 n" rest] show ?thesis by (simp add: lenenc_int_def)
  qed
qed

lemma sint_u64: "m < 2 ^ 63 \<Longrightarrow> sint (of_nat m :: u64) = int m"
  by (simp add: signed_of_nat signed_take_bit_int_eq_self)

lemma lenenc_head: "\<exists>c cs. lenenc_int n = c # cs \<and> c \<noteq> CHR 0xFB"
proof (cases "n < 251")
  case True
  then have "byte_of n \<noteq> CHR 0xFB" by (simp add: char_of_eq_iff take_bit_eq_mod)
  with True show ?thesis by (simp add: lenenc_int_def)
qed (auto simp: lenenc_int_def)

lemma row_loop_column:
  assumes "position + length (column_bytes (Some v)) < 2 ^ 63"
  shows "row_loop position (column_bytes (Some v) @ rest)
    = map_option ((#) v) (row_loop (position + length (column_bytes (Some v))) rest)"
proof -
  let ?k = "length (lenenc_int (length v))"
  obtain c cs where h: "lenenc_int (length v) = c # cs" "c \<noteq> CHR 0xFB" using lenenc_head by blast
  have r: "readLenEncInt (c # cs @ v @ rest) = (of_nat (length v), ?k)"
    using readLenEncInt_lenenc [of "length v" "v @ rest"] assms h(1) by simp
  have stop: "sint (of_nat (Suc (position + length cs)) + of_nat (length v) :: u64) = int (Suc (position + length cs + length v))"
    using sint_u64 [of "Suc (position + length cs + length v)"] assms h(1) by (simp add: add.assoc)
  show ?thesis
    by (subst row_loop.simps) (simp add: h r stop Let_def add.assoc del: of_nat_add of_nat_Suc)
qed

lemma row_loop_columns:
  "position + length (concat (map column_bytes columns)) < 2 ^ 63 \<Longrightarrow>
     row_loop position (concat (map column_bytes columns)) = Some (map column_text columns)"
proof (induction columns arbitrary: position)
  case Nil
  then show ?case by (simp add: row_loop.simps)
next
  case (Cons v columns)
  show ?case
  proof (cases v)
    case None
    with Cons show ?thesis by (simp add: row_loop.simps [of position] column_text_def)
  next
    case (Some t)
    with Cons row_loop_column [of position t "concat (map column_bytes columns)"] show ?thesis
      by (simp add: column_text_def add.assoc)
  qed
qed

lemma row_loop_wraps:
  assumes "length bs = 8" "2 ^ 63 \<le> le_val bs" "le_val bs < 2 ^ 64 - (position + 9)" "position + 9 < 2 ^ 63"
  shows "row_loop position (CHR 0xFE # bs @ rest) = None"
proof -
  let ?w = "of_nat (position + 9) + of_nat (le_val bs) :: u64"
  have m: "position + 9 + le_val bs < 2 ^ 64" using assms(3) by simp
  have "(position + 9 + le_val bs) div 2 ^ 63 = 1" using assms(2) m by (intro div_nat_eqI) simp_all
  then have "bit (position + 9 + le_val bs) 63" by (simp add: bit_iff_odd)
  then have "bit (int (position + 9 + le_val bs)) 63" by (simp add: bit_of_nat_iff del: of_nat_add)
  then have "sint ?w < 0"
    by (simp flip: of_nat_add add: signed_of_nat signed_take_bit_negative_iff)
  moreover have "readLenEncInt (CHR 0xFE # bs @ rest) = (of_nat (le_val bs), 9)"
    using assms(1) by (rule readLenEncInt_layouts)
  ultimately show ?thesis by (subst row_loop.simps) (simp add: Let_def)
qed

section \<open>Properties\<close>

text \<open>
  C31. No injection: when statements are built for a user name, password, host and grants, a server that
  reads them under the mode the first one sets sees exactly the intended tokens.  The name, the
  password and the host are whole string tokens and every database is one identifier, whatever
  quotes, backslashes or other bytes they hold; the host has only letters, digits, dots, colons and
  hyphens, so it is no pattern.
\<close>

theorem provision_statements_exact:
  assumes "buildMySQLProvisionStatements username password host grants = Inr statements"
  shows "map lex statements = mode_tokens # create_tokens username password host # map (grant_tokens username host) grants
    \<and> list_all host_char host \<and> grants \<noteq> [] \<and> length grants \<le> 128"
proof -
  obtain grantStatements where v: "validateMySQLAccountHost host = None"
    and g: "grant_loop (quoteMySQLString username) (quoteMySQLString host) grants [mysqlNoBackslashEscapesSQL] = Inr grantStatements"
    and n: "grants \<noteq> []" "length grants \<le> 128"
    and s: "statements = [mysqlNoBackslashEscapesSQL, ''CREATE USER '' @ quoteMySQLString username @ ''@'' @ quoteMySQLString host
        @ '' IDENTIFIED BY '' @ quoteMySQLString password] @ tl grantStatements"
    using assms
    by (auto simp: buildMySQLProvisionStatements_def buildMySQLCreateStatements_def buildMySQLGrantStatements_def
        split: sum.splits option.splits if_splits)
  from lex_grant_loop [OF g] have "map lex grantStatements = mode_tokens # map (grant_tokens username host) grants"
    by (simp add: lex_mode)
  then have "map lex (tl grantStatements) = map (grant_tokens username host) grants" by (simp add: map_tl)
  with n s show ?thesis
    using accepted_host_chars [OF v] lex_create [of username host password] by (simp add: lex_mode list_all_iff)
qed

definition awkward_name :: string where "awkward_name = ''o'' @ [CHR 0x27] @ ''neil''"
definition awkward_password :: string where "awkward_password = [CHR 0x27, CHR 0x5C] @ '' OR 1=1 -- ''"

theorem provision_statements_exact_witness:
  "map lex (projr (buildMySQLProvisionStatements awkward_name awkward_password ''10.0.0.7'' [\<lparr>Database = ''shop'', Privilege = ''read''\<rparr>]))
   = [mode_tokens, create_tokens awkward_name awkward_password ''10.0.0.7'',
      grant_tokens awkward_name ''10.0.0.7'' \<lparr>Database = ''shop'', Privilege = ''read''\<rparr>]"
proof -
  let ?b = "buildMySQLProvisionStatements awkward_name awkward_password ''10.0.0.7'' [\<lparr>Database = ''shop'', Privilege = ''read''\<rparr>]"
  have "\<not> isl ?b" by code_simp
  then have "?b = Inr (projr ?b)" by simp
  from provision_statements_exact [OF this] show ?thesis by simp
qed



definition sample_greeting :: bytes where
  "sample_greeting = packet_bytes \<lparr>Sequence = NUL,
     Payload = [CHR 0x0A] @ ''8'' @ [NUL, NUL, NUL, NUL, NUL] @ ''saltsalt'' @ [NUL, NUL, CHR 0x82]\<rparr>"

definition ok_packet :: bytes where
  "ok_packet = packet_bytes \<lparr>Sequence = CHR 0x01, Payload = [NUL]\<rparr>"

definition sample_environment :: mysql_environment where
  "sample_environment = \<lparr>me_sha1 = (\<lambda>_. []), me_sha256 = (\<lambda>_. []),
     me_dial = (\<lambda>_. Some \<lparr>rx = sample_greeting @ ok_packet @ ok_packet @ ok_packet, tx = [], wplan = [], deadline_fails = False\<rparr>),
     me_handshake = (\<lambda>_ _. Inl ''unused''), me_cancelled = None\<rparr>"

definition sample_instance :: grouped_row where
  "sample_instance = \<lparr>row_ID = ''i'', row_GroupName = [], row_ActiveMarker = Some 1, row_Status = ''active'',
     row_Protocol = ''mysql'', row_TLSMode = []\<rparr>"










text \<open>
  Without verified TLS the administrator's password leaves the gateway only through its digests: two
  passwords with the same digests give the same connection attempt, byte for byte, with every server.
\<close>

theorem mysqlConnect_no_cleartext:
  assumes "\<And>c secured verified. me_handshake env inst c = Inr (secured, verified) \<Longrightarrow> \<not> verified"
    and "me_sha1 env p1 = me_sha1 env p2" "me_sha256 env p1 = me_sha256 env p2"
  shows "mysqlConnect env ctx inst username p1 = mysqlConnect env ctx inst username p2"
proof -
  have "secure_transport env ctx inst mode handshake conn = (Inr (verified, q), conn') \<Longrightarrow> \<not> verified" for mode handshake conn verified q conn'
    using assms(1) by (auto simp: secure_transport_def split: if_splits prod.splits option.splits sum.splits)
  moreover have "mysql_login env ctx username p1 mode handshake False q conn = mysql_login env ctx username p2 mode handshake False q conn" for mode handshake q conn
    using assms(2,3) by (rule mysql_login_digest)
  ultimately show ?thesis
    by (fastforce simp: mysqlConnect_def split: option.splits prod.splits sum.splits)
qed

theorem mysqlConnect_no_cleartext_witness:
  "mysqlConnect sample_environment live_context sample_instance ''root'' ''pw'' = mysqlConnect sample_environment live_context sample_instance ''root'' ''other''"
  by (rule mysqlConnect_no_cleartext) (simp_all add: sample_environment_def)

text \<open>
  Rows are read back: a row a server sends, with NULL columns and columns of any length, is parsed
  into its columns, NULL as the empty text.
\<close>

theorem text_row_roundtrip:
  assumes "length (concat (map column_bytes columns)) < 2 ^ 63"
  shows "parseMySQLTextRow (concat (map column_bytes columns)) = Some (map column_text columns)"
  using assms by (simp add: parseMySQLTextRow_def row_loop_columns)

theorem text_row_roundtrip_witness:
  "parseMySQLTextRow (concat (map column_bytes [Some ''shop'', None, Some []])) = Some (map column_text [Some ''shop'', None, Some []])"
  by (rule text_row_roundtrip) (simp add: lenenc_int_def)

text \<open>
  C33. A hostile server can crash the reader: a column whose announced length wraps in a signed 64-bit
  integer makes the slice bounds cross and the slice expression panic, for any bytes that follow.
\<close>

theorem text_row_panics:
  assumes "length bs = 8" "2 ^ 63 \<le> le_val bs" "le_val bs < 2 ^ 64 - 9"
  shows "parseMySQLTextRow (CHR 0xFE # bs @ rest) = None"
  using assms row_loop_wraps [of bs 0 rest] by (simp add: parseMySQLTextRow_def)

theorem text_row_panics_witness:
  "parseMySQLTextRow (CHR 0xFE # [NUL, NUL, NUL, NUL, NUL, NUL, NUL, CHR 0x80] @ []) = None"
  by (rule text_row_panics) simp_all








end
