(* ===== verification/Provision_Saga.thy ===== *)
theory Provision_Saga
  imports Provision_Store Mysql_Provision "HOL-Library.List_Lexorder" "HOL-Library.Char_ord" "HOL-Library.Product_Lexorder"
begin

text \<open>
  The service that creates, repairs and removes managed accounts
  (\<open>internal/service/db_provision_saga.go\<close>, \<open>db_provision_orchestrator.go\<close>,
  \<open>db_provision_idempotency.go\<close>, \<open>db_provision_access.go\<close>, \<open>db_provision_reconcile.go\<close> and
  \<open>db_deprovision.go\<close>).

  Every function takes and returns the world of the store.  What the account provisioner answers and
  what it does on the server comes from the script.  Parameters: the digest of an instance's
  connection fields, the digest of a canonical request and the JSON text of grants.  Logging is left
  out.
\<close>

section \<open>Options\<close>

record service_options =
  so_CleanupTimeout :: int
  so_LeaseDuration :: int
  so_ReconcileStaleAfter :: int
  so_WorkerID :: string

definition NewDatabaseProvisioningService :: "service_options \<Rightarrow> service_options" where
  "NewDatabaseProvisioningService options =
     (let options = (if so_CleanupTimeout options \<le> 0 then options\<lparr>so_CleanupTimeout := 10000000000\<rparr> else options);
          options = (if so_LeaseDuration options \<le> so_CleanupTimeout options
                     then options\<lparr>so_LeaseDuration := 3 * so_CleanupTimeout options\<rparr> else options);
          options = (if so_ReconcileStaleAfter options \<le> 0 then options\<lparr>so_ReconcileStaleAfter := 30000000000\<rparr> else options) in
      if so_WorkerID options = [] then options\<lparr>so_WorkerID := ''database-provisioner''\<rparr> else options)"

definition provisioningOperationAlphabet :: string where
  "provisioningOperationAlphabet = ''abcdefghijklmnopqrstuvwxyz0123456789''"

definition provisioningPasswordAlphabet :: string where
  "provisioningPasswordAlphabet =
     ''abcdefghijklmnopqrstuvwxyzABCDEFGHIJKLMNOPQRSTUVWXYZ0123456789!#$%&()*+,-./:;<=>?@[]^_''"

text \<open>\<open>draw i\<close> is the i-th draw of \<open>crypto/rand.Int\<close>, which returns a number below the bound or an
  error.\<close>

fun random_loop :: "(nat \<Rightarrow> nat option) \<Rightarrow> string \<Rightarrow> nat \<Rightarrow> nat \<Rightarrow> string option" where
  "random_loop draw alphabet index 0 = Some []"
| "random_loop draw alphabet index (Suc n) =
     (case draw index of None \<Rightarrow> None
      | Some value \<Rightarrow> map_option ((#) (alphabet ! (value mod length alphabet))) (random_loop draw alphabet (Suc index) n))"

definition randomProvisioningString :: "(nat \<Rightarrow> nat option) \<Rightarrow> nat \<Rightarrow> string \<Rightarrow> string option" where
  "randomProvisioningString draw n alphabet =
     (if n = 0 \<or> alphabet = [] then None else random_loop draw alphabet 0 n)"

definition randomString :: "nat \<Rightarrow> string \<Rightarrow> world \<Rightarrow> string option \<times> world" where
  "randomString n alphabet w = (case take_event w of (e, w) \<Rightarrow> (randomProvisioningString (ev_draws e) n alphabet, w))"

section \<open>Checks\<close>

definition validateProvisioningAdministratorForNewUse :: "db_instance \<Rightarrow> db_account \<Rightarrow> int \<Rightarrow> bool" where
  "validateProvisioningAdministratorForNewUse inst admin now \<longleftrightarrow>
     in_Status inst = ''active'' \<and> da_Status admin = ''active'' \<and> in_Protocol inst = ''mysql''
     \<and> \<not> not_before now (da_ExpiresAt admin) \<and> da_Password admin \<noteq> []"

definition validateProvisioningAdministratorForRecovery :: "db_instance \<Rightarrow> db_account \<Rightarrow> bool" where
  "validateProvisioningAdministratorForRecovery inst admin \<longleftrightarrow>
     in_Status inst = ''active'' \<and> da_Status admin = ''active'' \<and> in_Protocol inst = ''mysql'' \<and> da_Password admin \<noteq> []"

definition operationOwnsUpstreamIdentity :: "operation \<Rightarrow> bool" where
  "operationOwnsUpstreamIdentity o1 \<longleftrightarrow>
     (let token = trim_prefix ''jmo_'' (op_ID o1) in
      token \<noteq> op_ID o1 \<and> length token = 20 \<and> op_Username o1 = ''jm_'' @ token)"

definition managedAccountMatchesOperation :: "db_account \<Rightarrow> operation \<Rightarrow> bool" where
  "managedAccountMatchesOperation a o1 \<longleftrightarrow>
     da_Managed a \<and> (case da_OperationID a of None \<Rightarrow> [] | Some i \<Rightarrow> i) = op_ID o1 \<and> da_Username a = op_Username o1
     \<and> da_UpstreamHost a = op_Host o1 \<and> operationOwnsUpstreamIdentity o1"

section \<open>Requests\<close>

record provision_request =
  pr_InstanceID :: string
  pr_AdminAccountID :: string
  pr_Grants :: "DBGrant list"
  pr_Group :: string
  pr_Remark :: string
  pr_ExpiresAt :: "int option"
  pr_ActorID :: string
  pr_IdempotencyKey :: string

record canonical_request =
  cr_ActorID :: string
  cr_InstanceID :: string
  cr_AdminAccountID :: string
  cr_Grants :: "DBGrant list"
  cr_Group :: string
  cr_Remark :: string
  cr_ExpiresAt :: "int option"

record provision_digests =
  pd_proof :: "db_instance \<Rightarrow> string"
  pd_hash :: "canonical_request \<Rightarrow> string"
  pd_json :: "DBGrant list \<Rightarrow> string"

definition key_char :: "byte \<Rightarrow> bool" where
  "key_char c \<longleftrightarrow> isASCIIAlphaNumeric c \<or> c \<in> set ''-_.:''"

definition ValidateDatabaseProvisioningIdempotencyKey :: "string \<Rightarrow> string option" where
  "ValidateDatabaseProvisioningIdempotencyKey value =
     (let key = TrimSpace value in
      if length key < 16 \<or> length key > 128 then None
      else if \<not> list_all key_char key then None
      else Some key)"

definition normalizeDatabaseProvisioningIdempotencyKey :: "string \<Rightarrow> string option" where
  "normalizeDatabaseProvisioningIdempotencyKey value =
     (if TrimSpace value = [] then Some [] else ValidateDatabaseProvisioningIdempotencyKey value)"

definition canonical_grants :: "DBGrant list \<Rightarrow> DBGrant list" where
  "canonical_grants grants =
     remdups_adj (sort_key (\<lambda>g. (Database g, Privilege g))
       (map (\<lambda>g. \<lparr>Database = TrimSpace (Database g), Privilege = TrimSpace (Privilege g)\<rparr>) grants))"

definition canonicalProvisioningRequestHash ::
    "provision_digests \<Rightarrow> provision_request \<Rightarrow> (string \<times> DBGrant list) option" where
  "canonicalProvisioningRequestHash digests request =
     (let actorID = TrimSpace (pr_ActorID request) in
      if actorID = [] then None
      else let grants = canonical_grants (pr_Grants request) in
        Some (pd_hash digests \<lparr>cr_ActorID = actorID, cr_InstanceID = TrimSpace (pr_InstanceID request),
          cr_AdminAccountID = TrimSpace (pr_AdminAccountID request), cr_Grants = grants,
          cr_Group = TrimSpace (pr_Group request), cr_Remark = TrimSpace (pr_Remark request),
          cr_ExpiresAt = pr_ExpiresAt request\<rparr>, grants))"

section \<open>Contexts, leases and side effects\<close>

definition context_cancelled :: "world \<Rightarrow> bool \<times> world" where
  "context_cancelled w = (case take_event w of (e, w) \<Rightarrow> (ev_cancelled e, w))"

definition transitionDetached :: "operation \<Rightarrow> transition \<Rightarrow> world \<Rightarrow> (operation \<times> bool \<times> bool) \<times> world" where
  "transitionDetached o1 tr w = TransitionDatabaseProvisioningOperation (Fence o1) tr w"

abbreviation move :: "stage \<Rightarrow> cleanup_status \<Rightarrow> string \<Rightarrow> bool \<Rightarrow> bool \<Rightarrow> transition" where
  "move s c reason attempt release \<equiv>
     \<lparr>tr_Stage = s, tr_CleanupStatus = c, tr_LastError = reason, tr_IncrementAttempt = attempt, tr_ReleaseLease = release\<rparr>"

definition sideEffectTimeout :: "service_options \<Rightarrow> int \<Rightarrow> int option" where
  "sideEffectTimeout options remaining =
     (if remaining \<le> 1 \<or> so_LeaseDuration options \<le> 1 then None
      else
      let margin = so_CleanupTimeout options;
          margin = (if margin \<le> 0 \<or> margin \<ge> remaining then remaining div 4 else margin);
          timeout = remaining - margin in
      if timeout \<le> 0 \<or> timeout \<ge> remaining then None
      else
      let timeout = (if timeout \<ge> so_LeaseDuration options then so_LeaseDuration options - 1 else timeout) in
      if timeout > 0 \<and> timeout < remaining \<and> timeout < so_LeaseDuration options then Some timeout else None)"

definition sideEffectDeadline :: "service_options \<Rightarrow> int \<Rightarrow> int \<Rightarrow> int option" where
  "sideEffectDeadline options renewStartedAt remaining =
     (case sideEffectTimeout options remaining of None \<Rightarrow> None | Some timeout \<Rightarrow> Some (renewStartedAt + timeout))"

text \<open>The renewed operation and the deadline of the context it may act in.\<close>

definition renewForSideEffect :: "service_options \<Rightarrow> operation \<Rightarrow> world \<Rightarrow> (operation \<times> int) option \<times> world" where
  "renewForSideEffect options o1 w =
     (case context_cancelled w of
        (True, w) \<Rightarrow> (None, w)
      | (False, w) \<Rightarrow>
          let renewStartedAt = clock w in
          (case RenewDatabaseProvisioningOperation (Fence o1)
                  \<lparr>le_Owner = op_LeaseOwner o1, le_Token = op_LeaseToken o1, le_Duration = so_LeaseDuration options\<rparr> w of
             ((renewed, window, ok, err), w) \<Rightarrow>
               if err \<or> \<not> ok then (None, w)
               else (case sideEffectDeadline options renewStartedAt window of None \<Rightarrow> (None, w)
                     | Some deadline \<Rightarrow>
                         (case context_cancelled w of (cancelled, w) \<Rightarrow>
                            if cancelled \<or> deadline \<le> clock w then (None, w) else (Some (renewed, deadline), w)))))"

definition expired :: "int \<Rightarrow> world \<Rightarrow> bool \<times> world" where
  "expired deadline w = (case context_cancelled w of (cancelled, w) \<Rightarrow> (cancelled \<or> deadline \<le> clock w, w))"

definition identity :: "string \<Rightarrow> operation \<Rightarrow> string \<times> string \<times> string" where
  "identity instanceID o1 = (instanceID, op_Username o1, op_Host o1)"

definition CreateAccount :: "db_instance \<Rightarrow> operation \<Rightarrow> world \<Rightarrow> (create_disposition \<times> bool) \<times> world" where
  "CreateAccount inst o1 w =
     (case take_event w of (e, w) \<Rightarrow>
        (case ev_create e of (disposition, err, applied) \<Rightarrow>
           ((disposition, err),
            if applied then w\<lparr>upstream := identity (in_ID inst) o1 # upstream w\<rparr> else w)))"

definition GrantAccount :: "world \<Rightarrow> bool \<times> world" where
  "GrantAccount w = (case take_event w of (e, w) \<Rightarrow> (ev_grantFails e, w))"

definition DropAccount :: "db_instance \<Rightarrow> operation \<Rightarrow> world \<Rightarrow> bool \<times> world" where
  "DropAccount inst o1 w =
     (case take_event w of (e, w) \<Rightarrow>
        (case ev_drop e of (err, dropped) \<Rightarrow>
           (err, if dropped then w\<lparr>upstream := filter (\<lambda>u. u \<noteq> identity (in_ID inst) o1) (upstream w)\<rparr> else w)))"

section \<open>Compensation\<close>

definition discardNotCreatedOperation :: "operation \<Rightarrow> world \<Rightarrow> world" where
  "discardNotCreatedOperation o1 w = snd (transitionDetached o1 (move StageNotCreated CleanupNone [] False True) w)"

definition persistCleanupFailure :: "operation \<Rightarrow> world \<Rightarrow> world" where
  "persistCleanupFailure o1 w =
     snd (transitionDetached o1 (move StageCleanupRequired CleanupFailed ProvisioningErrorCleanupFailed False True) w)"

definition deferCleanupForReconcile :: "operation \<Rightarrow> string \<Rightarrow> world \<Rightarrow> world" where
  "deferCleanupForReconcile o1 reason w =
     snd (transitionDetached o1 (move StageCleanupRequired CleanupRequired reason False True) w)"

definition releaseActivationForReconcile :: "operation \<Rightarrow> world \<Rightarrow> world" where
  "releaseActivationForReconcile o1 w =
     snd (transitionDetached o1 (move StageActivationPending CleanupNone ProvisioningErrorActivationFailed True True) w)"

datatype provision_failure =
    ProvisioningFailed
  | ProvisioningCleanupRequired
  | InvalidProvisioningRequest
  | ProvisioningIdempotencyConflict
  | ProvisioningInProgress
  | ProvisioningRandom

text \<open>The last part of \<open>cleanupOperation\<close>, once the operation is being cleaned up: drop the account
  and record it.\<close>

definition cleanup_drop ::
    "service_options \<Rightarrow> db_instance \<Rightarrow> string \<Rightarrow> operation \<Rightarrow> world \<Rightarrow> provision_failure \<times> world" where
  "cleanup_drop options inst reason o1 w =
     (case renewForSideEffect options o1 w of
        (None, w) \<Rightarrow> (ProvisioningCleanupRequired, w)
      | (Some (updated, deadline), w) \<Rightarrow>
        (case expired deadline w of
           (True, w) \<Rightarrow> (ProvisioningCleanupRequired, w)
         | (False, w) \<Rightarrow>
           (case DropAccount inst updated w of
              (True, w) \<Rightarrow> (ProvisioningCleanupRequired, persistCleanupFailure updated w)
            | (False, w) \<Rightarrow>
              (case transitionDetached updated (move StageNotCreated CleanupNone reason False True) w of
                 ((_, ok, err), w) \<Rightarrow>
                   (if err \<or> \<not> ok then ProvisioningCleanupRequired else ProvisioningFailed, w)))))"

definition cleanupOperation ::
    "service_options \<Rightarrow> operation \<Rightarrow> db_instance \<Rightarrow> string \<Rightarrow> world \<Rightarrow> provision_failure \<times> world" where
  "cleanupOperation options o1 inst reason w =
     (if \<not> operationOwnsUpstreamIdentity o1 then (ProvisioningCleanupRequired, w)
      else
      (case transitionDetached o1 (move StageCleanupRequired CleanupRequired reason False False) w of
         ((updated, ok, err), w) \<Rightarrow>
           if err \<or> \<not> ok then (ProvisioningCleanupRequired, w)
           else
           (case transitionDetached updated (move StageCleanupInProgress CleanupInProgress reason True False) w of
              ((updated, ok, err), w) \<Rightarrow>
                if err \<or> \<not> ok then (ProvisioningCleanupRequired, w)
                else cleanup_drop options inst reason updated w)))"

definition cleanupUncertainCreate ::
    "service_options \<Rightarrow> operation \<Rightarrow> db_instance \<Rightarrow> world \<Rightarrow> provision_failure \<times> world" where
  "cleanupUncertainCreate options o1 inst w =
     (case transitionDetached o1 (move StageCreateUncertain CleanupRequired ProvisioningErrorCreateUncertain False False) w of
        ((o1, ok, err), w) \<Rightarrow>
          if err \<or> \<not> ok then (ProvisioningCleanupRequired, w)
          else cleanupOperation options o1 inst ProvisioningErrorCreateUncertain w)"

section \<open>Provisioning\<close>

type_synonym provision_result = "provision_failure + db_account \<times> string"

fun activate_attempts :: "nat \<Rightarrow> operation \<Rightarrow> world \<Rightarrow> db_account option \<times> world" where
  "activate_attempts 0 o1 w = (None, w)"
| "activate_attempts (Suc n) o1 w =
     (case ActivateDatabaseProvisioningOperation (Fence o1) w of
        ((Some a, False), w) \<Rightarrow> (Some a, w)
      | ((_, _), w) \<Rightarrow> activate_attempts n o1 w)"

definition activateDetached :: "operation \<Rightarrow> world \<Rightarrow> db_account option \<times> world" where
  "activateDetached o1 w = activate_attempts 2 o1 w"

definition provision_activation :: "operation \<Rightarrow> world \<Rightarrow> provision_result \<times> world" where
  "provision_activation o1 w =
     (case transitionDetached o1 (move StageActivationPending CleanupNone [] False False) w of
        ((o1, ok, err), w) \<Rightarrow>
          if err \<or> \<not> ok then (Inl ProvisioningFailed, w)
          else (case activateDetached o1 w of
                  (None, w) \<Rightarrow> (Inl ProvisioningFailed, releaseActivationForReconcile o1 w)
                | (Some a, w) \<Rightarrow> (Inr (a, op_ID o1), w)))"

definition provision_grants :: "service_options \<Rightarrow> db_instance \<Rightarrow> operation \<Rightarrow> world \<Rightarrow> provision_result \<times> world" where
  "provision_grants options inst o1 w =
     (case renewForSideEffect options o1 w of
        (None, w) \<Rightarrow> (Inl ProvisioningFailed, deferCleanupForReconcile o1 ProvisioningErrorGrantFailed w)
      | (Some (renewed, deadline), w) \<Rightarrow>
        (case expired deadline w of
           (True, w) \<Rightarrow> (Inl ProvisioningFailed, deferCleanupForReconcile renewed ProvisioningErrorGrantFailed w)
         | (False, w) \<Rightarrow>
           (case GrantAccount w of
              (True, w) \<Rightarrow>
                (case cleanupOperation options renewed inst ProvisioningErrorGrantFailed w of (f, w) \<Rightarrow> (Inl f, w))
            | (False, w) \<Rightarrow> provision_activation renewed w)))"

definition provision_created :: "service_options \<Rightarrow> db_instance \<Rightarrow> operation \<Rightarrow> world \<Rightarrow> provision_result \<times> world" where
  "provision_created options inst o1 w =
     (case transitionDetached o1 (move StageUpstreamCreated CleanupNone [] False False) w of
        ((o1, ok, err), w) \<Rightarrow>
          if err \<or> \<not> ok then
            (case cleanupOperation options o1 inst ProvisioningErrorGrantFailed w of (f, w) \<Rightarrow> (Inl f, w))
          else
          (case transitionDetached o1 (move StageGrantStarted CleanupNone [] False False) w of
             ((o1, ok, err), w) \<Rightarrow>
               if err \<or> \<not> ok then
                 (case cleanupOperation options o1 inst ProvisioningErrorGrantFailed w of (f, w) \<Rightarrow> (Inl f, w))
               else provision_grants options inst o1 w))"

definition provision_create :: "service_options \<Rightarrow> db_instance \<Rightarrow> operation \<Rightarrow> world \<Rightarrow> provision_result \<times> world" where
  "provision_create options inst o1 w =
     (case transitionDetached o1 (move StageCreateStarted CleanupNone [] True False) w of
        ((o1, ok, err), w) \<Rightarrow>
          if err \<or> \<not> ok then (Inl ProvisioningFailed, w)
          else
          (case renewForSideEffect options o1 w of
             (None, w) \<Rightarrow> (Inl ProvisioningFailed, w)
           | (Some (o1, deadline), w) \<Rightarrow>
             (case expired deadline w of
                (True, w) \<Rightarrow> (Inl ProvisioningFailed, w)
              | (False, w) \<Rightarrow>
                (case CreateAccount inst o1 w of
                   ((disposition, err), w) \<Rightarrow>
                     if disposition \<in> {CreateNotSent, CreateNotCreated} then
                       (Inl ProvisioningFailed, discardNotCreatedOperation o1 w)
                     else if disposition = CreateMayBeApplied \<or> err then
                       (case cleanupUncertainCreate options o1 inst w of (f, w) \<Rightarrow> (Inl f, w))
                     else provision_created options inst o1 w))))"

definition idempotentProvisioningResult :: "operation \<Rightarrow> world \<Rightarrow> provision_result \<times> world" where
  "idempotentProvisioningResult o1 w =
     (case op_Stage o1 of
        StageActiveManaged \<Rightarrow>
          (case ProvisionedDatabaseAccountByOperation (op_ID o1) w of
             ((Some a, False), w) \<Rightarrow> (Inr (a, op_ID o1), w)
           | ((_, _), w) \<Rightarrow> (Inl ProvisioningFailed, w))
      | StageCleanupRequired \<Rightarrow> (Inl ProvisioningCleanupRequired, w)
      | StageCleanupInProgress \<Rightarrow> (Inl ProvisioningCleanupRequired, w)
      | StageCreateUncertain \<Rightarrow> (Inl ProvisioningCleanupRequired, w)
      | StageNotCreated \<Rightarrow> (Inl ProvisioningFailed, w)
      | _ \<Rightarrow> (Inl ProvisioningInProgress, w))"

text \<open>From the stored operation on; \<open>created\<close> is whether this request stored it.  The flag in the
  result is what the audit entry will say: only a newly provisioned account is a success there.\<close>

definition provision_stored ::
    "service_options \<Rightarrow> db_instance \<Rightarrow> operation \<Rightarrow> bool \<Rightarrow> create_error option \<Rightarrow> world \<Rightarrow> (provision_result \<times> bool) \<times> world" where
  "provision_stored options inst o1 created err w =
     (case err of
        Some CreateConflict \<Rightarrow> ((Inl ProvisioningIdempotencyConflict, False), w)
      | Some _ \<Rightarrow> ((Inl ProvisioningFailed, False), w)
      | None \<Rightarrow>
          if \<not> created then (case idempotentProvisioningResult o1 w of (r, w) \<Rightarrow> ((r, False), w))
          else (case context_cancelled w of
                  (True, w) \<Rightarrow> ((Inl ProvisioningFailed, False), discardNotCreatedOperation o1 w)
                | (False, w) \<Rightarrow> (case provision_create options inst o1 w of (r, w) \<Rightarrow> ((r, \<not> isl r), w))))"

text \<open>The operation that is stored for a request.\<close>

definition request_input ::
    "service_options \<Rightarrow> provision_digests \<Rightarrow> provision_request \<Rightarrow> string \<Rightarrow> string \<Rightarrow> db_instance \<Rightarrow> db_account \<Rightarrow>
     string \<Rightarrow> string \<Rightarrow> string \<Rightarrow> string \<Rightarrow> operation_input" where
  "request_input options digests request key requestHash inst admin accountHost token password leaseToken =
     \<lparr>oi_ID = ''jmo_'' @ token, oi_InstanceID = pr_InstanceID request, oi_AdminAccountID = pr_AdminAccountID request,
      oi_Username = ''jm_'' @ token, oi_Password = password, oi_Host = accountHost,
      oi_GrantsJSON = pd_json digests (pr_Grants request), oi_Group = pr_Group request, oi_Remark = pr_Remark request,
      oi_ExpiresAt = pr_ExpiresAt request, oi_ActorID = pr_ActorID request, oi_IdempotencyKey = key,
      oi_RequestHash = requestHash,
      oi_Lease = \<lparr>le_Owner = so_WorkerID options, le_Token = leaseToken, le_Duration = so_LeaseDuration options\<rparr>,
      oi_AdministratorUsername = da_Username admin, oi_AdministratorPassword = da_Password admin,
      oi_InstanceProof = pd_proof digests inst\<rparr>"

definition provision_submit ::
    "service_options \<Rightarrow> provision_digests \<Rightarrow> db_instance \<Rightarrow> string \<Rightarrow> operation_input \<Rightarrow> world \<Rightarrow> (provision_result \<times> bool) \<times> world" where
  "provision_submit options digests inst key input w =
     (if key = [] then
        (case CreateDatabaseProvisioningOperation (pd_proof digests) input w of
           ((o1, err), w) \<Rightarrow> provision_stored options inst o1 True (if err then Some CreateFailed else None) w)
      else
        (case CreateOrGetDatabaseProvisioningOperation (pd_proof digests) input w of
           ((o1, created, err), w) \<Rightarrow> provision_stored options inst o1 created err w))"

text \<open>From the audit entry on: the host, the random names, validation and the stored operation.\<close>

definition provision_audited ::
    "service_options \<Rightarrow> provision_digests \<Rightarrow> provision_request \<Rightarrow> string \<Rightarrow> string \<Rightarrow> db_instance \<Rightarrow> db_account \<Rightarrow>
     world \<Rightarrow> (provision_result \<times> bool) \<times> world" where
  "provision_audited options digests request key requestHash inst admin w =
     (case context_cancelled w of
        (True, w) \<Rightarrow> ((Inl ProvisioningFailed, False), w)
      | (False, w) \<Rightarrow>
        (case take_event w of (e, w) \<Rightarrow>
          (case ev_host e of None \<Rightarrow> ((Inl ProvisioningFailed, False), w)
           | Some accountHost \<Rightarrow>
             (case randomString 20 provisioningOperationAlphabet w of
                (None, w) \<Rightarrow> ((Inl ProvisioningRandom, False), w)
              | (Some token, w) \<Rightarrow>
                (case randomString 32 provisioningPasswordAlphabet w of
                   (None, w) \<Rightarrow> ((Inl ProvisioningRandom, False), w)
                 | (Some password, w) \<Rightarrow>
                   (case randomString 20 provisioningOperationAlphabet w of
                      (None, w) \<Rightarrow> ((Inl ProvisioningRandom, False), w)
                    | (Some leaseToken, w) \<Rightarrow>
                        if ValidateMySQLProvisioning (''jm_'' @ token) password accountHost (pr_Grants request) \<noteq> None
                        then ((Inl InvalidProvisioningRequest, False), w)
                        else provision_submit options digests inst key
                          (request_input options digests request key requestHash inst admin accountHost token password leaseToken) w))))))"

text \<open>From the administrator's credentials on; the audit entry is completed whatever happens.\<close>

definition provision_new ::
    "service_options \<Rightarrow> provision_digests \<Rightarrow> provision_request \<Rightarrow> string \<Rightarrow> string \<Rightarrow> world \<Rightarrow> provision_result \<times> world" where
  "provision_new options digests request key requestHash w =
     (case DatabaseProvisioningAdmin (pr_InstanceID request) (pr_AdminAccountID request) w of
        (None, w) \<Rightarrow> (Inl ProvisioningFailed, w)
      | (Some (inst, admin), w) \<Rightarrow>
        if \<not> validateProvisioningAdministratorForNewUse inst admin (clock w) then (Inl ProvisioningFailed, w)
        else
        (case BeginDatabaseProvisioningAudit (pr_ActorID request) (pr_InstanceID request) ''provision_account'' w of
           (None, w) \<Rightarrow> (Inl ProvisioningFailed, w)
         | (Some auditID, w) \<Rightarrow>
             (case provision_audited options digests request key requestHash inst admin w of
                ((r, ok), w) \<Rightarrow> (r, CompleteDatabaseProvisioningAudit auditID (if ok then ''success'' else ''failure'') w))))"

definition Provision ::
    "service_options \<Rightarrow> provision_digests \<Rightarrow> provision_request \<Rightarrow> world \<Rightarrow> provision_result \<times> world" where
  "Provision options digests request w =
     (let request = request\<lparr>pr_InstanceID := TrimSpace (pr_InstanceID request),
                            pr_AdminAccountID := TrimSpace (pr_AdminAccountID request)\<rparr> in
      case normalizeDatabaseProvisioningIdempotencyKey (pr_IdempotencyKey request) of
        None \<Rightarrow> (Inl InvalidProvisioningRequest, w)
      | Some key \<Rightarrow>
          if key = [] then provision_new options digests request key [] w
          else
          (case canonicalProvisioningRequestHash digests request of
             None \<Rightarrow> (Inl InvalidProvisioningRequest, w)
           | Some (requestHash, grants) \<Rightarrow>
             (case DatabaseProvisioningOperationByIdempotency (pr_ActorID request) key w of
                ((_, True), w) \<Rightarrow> (Inl ProvisioningFailed, w)
              | ((Some o1, False), w) \<Rightarrow>
                  if op_RequestHash o1 \<noteq> requestHash then (Inl ProvisioningIdempotencyConflict, w)
                  else idempotentProvisioningResult o1 w
              | ((None, False), w) \<Rightarrow>
                  provision_new options digests (request\<lparr>pr_Grants := grants\<rparr>) key requestHash w)))"

section \<open>Removal\<close>

definition deferDropUncertain :: "operation \<Rightarrow> world \<Rightarrow> world" where
  "deferDropUncertain o1 w =
     snd (transitionDetached o1 (move StageDropUncertain CleanupRequired ProvisioningErrorCleanupFailed False True) w)"

datatype deprovision_failure =
    DeprovisionFailed
  | DeprovisionInProgress
  | DatabaseAccountNotManaged

text \<open>The last part of \<open>runDeprovision\<close>: drop the account on the server, then remove it locally.\<close>

definition deprovision_drop ::
    "service_options \<Rightarrow> string \<Rightarrow> db_instance \<Rightarrow> operation \<Rightarrow> world \<Rightarrow> deprovision_failure option \<times> world" where
  "deprovision_drop options accountID inst o1 w =
     (case renewForSideEffect options o1 w of
        (None, w) \<Rightarrow> (Some DeprovisionFailed, deferDropUncertain o1 w)
      | (Some (renewed, deadline), w) \<Rightarrow>
        (case expired deadline w of
           (True, w) \<Rightarrow> (Some DeprovisionFailed, deferDropUncertain o1 w)
         | (False, w) \<Rightarrow>
           (case DropAccount inst renewed w of
              (True, w) \<Rightarrow> (Some DeprovisionFailed, deferDropUncertain renewed w)
            | (False, w) \<Rightarrow>
              (case CompleteDatabaseDeprovision (Fence renewed) accountID w of
                 ((completed, err), w) \<Rightarrow>
                   if err \<or> \<not> completed then (Some DeprovisionFailed, deferDropUncertain renewed w)
                   else (None, w)))))"

definition runDeprovision ::
    "service_options \<Rightarrow> string \<Rightarrow> db_account \<Rightarrow> operation \<Rightarrow> world \<Rightarrow> deprovision_failure option \<times> world" where
  "runDeprovision options accountID a o1 w =
     (if \<not> managedAccountMatchesOperation a o1 \<or> validateMySQLAccountHost (op_Host o1) \<noteq> None then (Some DeprovisionFailed, w)
      else
      (case DatabaseProvisioningAdmin (op_InstanceID o1) (op_AdminAccountID o1) w of
         (None, w) \<Rightarrow> (Some DeprovisionFailed, deferDropUncertain o1 w)
       | (Some (inst, admin), w) \<Rightarrow>
           if \<not> validateProvisioningAdministratorForRecovery inst admin then (Some DeprovisionFailed, deferDropUncertain o1 w)
           else if op_Stage o1 \<noteq> StageDropStarted then
             (case transitionDetached o1 (move StageDropStarted CleanupInProgress [] True False) w of
                ((o1, ok, err), w) \<Rightarrow>
                  if err \<or> \<not> ok then (Some DeprovisionInProgress, w)
                  else deprovision_drop options accountID inst o1 w)
           else if op_CleanupStatus o1 \<noteq> CleanupInProgress then (Some DeprovisionInProgress, w)
           else deprovision_drop options accountID inst o1 w))"

definition Deprovision :: "service_options \<Rightarrow> string \<Rightarrow> world \<Rightarrow> deprovision_failure option \<times> world" where
  "Deprovision options accountID w =
     (case context_cancelled w of
        (True, w) \<Rightarrow> (Some DeprovisionFailed, w)
      | (False, w) \<Rightarrow>
        (case randomString 20 provisioningOperationAlphabet w of
           (None, w) \<Rightarrow> (Some DeprovisionFailed, w)
         | (Some token, w) \<Rightarrow>
           (case BeginDatabaseDeprovision accountID
                   \<lparr>le_Owner = so_WorkerID options, le_Token = token, le_Duration = so_LeaseDuration options\<rparr> w of
              ((o1, managed, err), w) \<Rightarrow>
                if err then (Some DeprovisionFailed, w)
                else if \<not> managed then (Some DatabaseAccountNotManaged, w)
                else
                (case ProvisionedDatabaseAccountByOperation (op_ID o1) w of
                   ((Some a, False), w) \<Rightarrow>
                     if \<not> managedAccountMatchesOperation a o1 then (Some DeprovisionFailed, w)
                     else if op_Stage o1 \<noteq> StageDeprovisionRequested then (Some DeprovisionInProgress, w)
                     else runDeprovision options accountID a o1 w
                 | ((_, _), w) \<Rightarrow> (Some DeprovisionFailed, w)))))"

definition reconcileDeprovision :: "service_options \<Rightarrow> operation \<Rightarrow> world \<Rightarrow> bool \<times> world" where
  "reconcileDeprovision options o1 w =
     (case ProvisionedDatabaseAccountByOperation (op_ID o1) w of
        ((Some a, False), w) \<Rightarrow>
          if \<not> managedAccountMatchesOperation a o1 then (False, w)
          else (case runDeprovision options (da_ID a) a o1 w of (r, w) \<Rightarrow> (r = None, w))
      | ((_, _), w) \<Rightarrow> (False, w))"

section \<open>Reconciliation\<close>

definition claimForReconcile :: "service_options \<Rightarrow> operation \<Rightarrow> world \<Rightarrow> (operation \<times> bool \<times> bool) \<times> world" where
  "claimForReconcile options candidate w =
     (case randomString 20 provisioningOperationAlphabet w of
        (None, w) \<Rightarrow> ((zero_operation, False, True), w)
      | (Some token, w) \<Rightarrow>
        (case ClaimDatabaseProvisioningOperation (Fence candidate)
                \<lparr>le_Owner = so_WorkerID options, le_Token = token, le_Duration = so_LeaseDuration options\<rparr> w of
           ((claimed, _, ok, err), w) \<Rightarrow> if err then ((zero_operation, False, True), w) else ((claimed, ok, False), w)))"

definition finalizeNotCreatedOperation :: "operation \<Rightarrow> string \<Rightarrow> world \<Rightarrow> (bool \<times> bool) \<times> world" where
  "finalizeNotCreatedOperation o1 reason w =
     (case TransitionDatabaseProvisioningOperation (Fence o1) (move StageNotCreated CleanupNone reason False True) w of
        ((_, ok, err), w) \<Rightarrow> ((ok, err), w))"

definition databaseProvisioningStageRequiresCleanup :: "stage \<Rightarrow> bool" where
  "databaseProvisioningStageRequiresCleanup s \<longleftrightarrow>
     s \<in> {StageCreateStarted, StageCreateUncertain, StageUpstreamCreated, StageGrantStarted, StageCleanupRequired,
          StageCleanupInProgress}"

text \<open>The last part of \<open>reconcileCleanup\<close>, from the transition on.\<close>

definition reconcile_drop :: "service_options \<Rightarrow> db_instance \<Rightarrow> nat \<Rightarrow> operation \<Rightarrow> world \<Rightarrow> bool \<times> world" where
  "reconcile_drop options inst auditID o1 w =
     (case transitionDetached o1 (move StageCleanupInProgress CleanupInProgress (op_LastError o1) True False) w of
        ((o1, ok, err), w) \<Rightarrow>
          if err \<or> \<not> ok then (False, CompleteDatabaseProvisioningAudit auditID ''failure'' w)
          else
          (case renewForSideEffect options o1 w of
             (None, w) \<Rightarrow> (False, CompleteDatabaseProvisioningAudit auditID ''failure'' w)
           | (Some (o1, deadline), w) \<Rightarrow>
             (case expired deadline w of
                (True, w) \<Rightarrow> (False, CompleteDatabaseProvisioningAudit auditID ''failure'' w)
              | (False, w) \<Rightarrow>
                (case DropAccount inst o1 w of
                   (True, w) \<Rightarrow> (False, persistCleanupFailure o1 (CompleteDatabaseProvisioningAudit auditID ''failure'' w))
                 | (False, w) \<Rightarrow>
                   (case finalizeNotCreatedOperation o1 (op_LastError o1) (CompleteDatabaseProvisioningAudit auditID ''success'' w) of
                      ((finalized, err), w) \<Rightarrow>
                        if err \<or> \<not> finalized then (False, persistCleanupFailure o1 w) else (True, w))))))"

definition reconcileCleanup :: "service_options \<Rightarrow> operation \<Rightarrow> world \<Rightarrow> bool \<times> world" where
  "reconcileCleanup options o1 w =
     (if \<not> operationOwnsUpstreamIdentity o1 then (False, persistCleanupFailure o1 w)
      else
      (case DatabaseProvisioningAdmin (op_InstanceID o1) (op_AdminAccountID o1) w of
         (None, w) \<Rightarrow> (False, persistCleanupFailure o1 w)
       | (Some (inst, admin), w) \<Rightarrow>
           if \<not> validateProvisioningAdministratorForRecovery inst admin then (False, persistCleanupFailure o1 w)
           else
           (case BeginDatabaseProvisioningAudit ''system'' (op_InstanceID o1) ''reconcile_cleanup'' w of
              (None, w) \<Rightarrow> (False, persistCleanupFailure o1 w)
            | (Some auditID, w) \<Rightarrow> reconcile_drop options inst auditID o1 w)))"

record reconcile_result =
  rr_Scanned :: nat
  rr_Claimed :: nat
  rr_Cleaned :: nat
  rr_Activated :: nat
  rr_DeletedReserved :: nat
  rr_ClaimSkipped :: nat
  rr_Failed :: nat

abbreviation failed :: "reconcile_result \<Rightarrow> reconcile_result" where
  "failed r \<equiv> r\<lparr>rr_Failed := rr_Failed r + 1\<rparr>"

abbreviation cleaned :: "reconcile_result \<Rightarrow> reconcile_result" where
  "cleaned r \<equiv> r\<lparr>rr_Cleaned := rr_Cleaned r + 1\<rparr>"

text \<open>What one claimed operation gets, by its stage.\<close>

definition reconcile_claimed :: "service_options \<Rightarrow> operation \<Rightarrow> reconcile_result \<Rightarrow> world \<Rightarrow> reconcile_result \<times> world" where
  "reconcile_claimed options claimed r w =
     (if op_Stage claimed = StageReserved then
        (case finalizeNotCreatedOperation claimed [] w of ((finalized, err), w) \<Rightarrow>
           (if err \<or> \<not> finalized then failed r else r\<lparr>rr_DeletedReserved := rr_DeletedReserved r + 1\<rparr>, w))
      else if op_Stage claimed = StageActivationPending then
        (case activateDetached claimed w of
           (Some a, w) \<Rightarrow>
             if da_Status a \<noteq> ''active'' then (failed r, releaseActivationForReconcile claimed w)
             else (r\<lparr>rr_Activated := rr_Activated r + 1\<rparr>, w)
         | (None, w) \<Rightarrow> (failed r, releaseActivationForReconcile claimed w))
      else if op_Stage claimed \<in> {StageDeprovisionRequested, StageDropStarted, StageDropUncertain} then
        (case reconcileDeprovision options claimed w of (ok, w) \<Rightarrow> (if ok then cleaned r else failed r, w))
      else if \<not> databaseProvisioningStageRequiresCleanup (op_Stage claimed) then (failed r, w)
      else (case reconcileCleanup options claimed w of (ok, w) \<Rightarrow> (if ok then cleaned r else failed r, w)))"

text \<open>The loop; the flag is whether the context ended it early.\<close>

fun reconcile_loop ::
    "service_options \<Rightarrow> operation list \<Rightarrow> reconcile_result \<Rightarrow> world \<Rightarrow> (reconcile_result \<times> bool) \<times> world" where
  "reconcile_loop options [] r w = ((r, False), w)"
| "reconcile_loop options (candidate # candidates) r w =
     (case context_cancelled w of
        (True, w) \<Rightarrow> ((r, True), w)
      | (False, w) \<Rightarrow>
        (case claimForReconcile options candidate w of
           ((claimed, ok, err), w) \<Rightarrow>
             if err then reconcile_loop options candidates (failed r) w
             else if \<not> ok then reconcile_loop options candidates (r\<lparr>rr_ClaimSkipped := rr_ClaimSkipped r + 1\<rparr>) w
             else (case reconcile_claimed options claimed (r\<lparr>rr_Claimed := rr_Claimed r + 1\<rparr>) w of
                     (r, w) \<Rightarrow> reconcile_loop options candidates r w)))"

definition no_results :: reconcile_result where
  "no_results = \<lparr>rr_Scanned = 0, rr_Claimed = 0, rr_Cleaned = 0, rr_Activated = 0, rr_DeletedReserved = 0, rr_ClaimSkipped = 0,
     rr_Failed = 0\<rparr>"

definition Reconcile :: "service_options \<Rightarrow> int \<Rightarrow> world \<Rightarrow> (reconcile_result \<times> bool) \<times> world" where
  "Reconcile options limit w =
     (case ListExecutableDatabaseProvisioningOperations (so_ReconcileStaleAfter options) limit w of
        (None, w) \<Rightarrow> ((no_results, True), w)
      | (Some candidates, w) \<Rightarrow>
          reconcile_loop options candidates (no_results\<lparr>rr_Scanned := length candidates\<rparr>) w)"

text \<open>\<open>RunReconciler\<close>: a round at once and one at every tick of the timer until the context ends; \<open>ticks\<close>
  is how many ticks come before that.\<close>

fun reconcile_rounds :: "service_options \<Rightarrow> int \<Rightarrow> nat \<Rightarrow> world \<Rightarrow> world" where
  "reconcile_rounds options batchSize 0 w = w"
| "reconcile_rounds options batchSize (Suc n) w = (case Reconcile options batchSize w of (_, w) \<Rightarrow> reconcile_rounds options batchSize n w)"

definition RunReconciler :: "service_options \<Rightarrow> int \<Rightarrow> int \<Rightarrow> nat \<Rightarrow> world \<Rightarrow> bool \<times> world" where
  "RunReconciler options interval batchSize ticks w =
     (if interval \<le> 0 \<or> batchSize \<le> 0 then (False, w)
      else (True, reconcile_rounds options batchSize (Suc ticks) w))"

section \<open>Listing databases\<close>

record list_request =
  lr_InstanceID :: string
  lr_AdminAccountID :: string
  lr_ActorID :: string

definition ListDatabases :: "list_request \<Rightarrow> world \<Rightarrow> string list option \<times> world" where
  "ListDatabases request w =
     (let instanceID = TrimSpace (lr_InstanceID request); adminAccountID = TrimSpace (lr_AdminAccountID request) in
      case DatabaseProvisioningAdmin instanceID adminAccountID w of
        (None, w) \<Rightarrow> (None, w)
      | (Some (inst, admin), w) \<Rightarrow>
          if \<not> validateProvisioningAdministratorForNewUse inst admin (clock w) then (None, w)
          else
          (case BeginDatabaseProvisioningAudit (lr_ActorID request) instanceID ''list_databases'' w of
             (None, w) \<Rightarrow> (None, w)
           | (Some auditID, w) \<Rightarrow>
             (case take_event w of (e, w) \<Rightarrow>
                (ev_databases e,
                 CompleteDatabaseProvisioningAudit auditID (if ev_databases e = None then ''failure'' else ''success'') w))))"

end
