(* ===== verification/Provision_Facts.thy ===== *)
theory Provision_Facts
  imports Provision_Saga
begin

text \<open>
  What the provisioning service guarantees: the invariant of the world, that every call of the store
  keeps it under the condition it needs, and that the sagas meet those conditions.
\<close>

section \<open>The invariant\<close>

definition identity_of :: "operation \<Rightarrow> string \<times> string \<times> string" where
  "identity_of o1 = (op_InstanceID o1, op_Username o1, op_Host o1)"

text \<open>Stages in which an account may exist on the server, and stages in which it does.\<close>

definition may_exist :: "stage \<Rightarrow> bool" where
  "may_exist s \<longleftrightarrow> s \<notin> {NoStage, StageReserved, StageNotCreated}"

definition must_exist :: "stage \<Rightarrow> bool" where
  "must_exist s \<longleftrightarrow> s \<in> {StageUpstreamCreated, StageGrantStarted, StageActivationPending, StageActiveManaged, StageDeprovisionRequested}"

text \<open>What the provisioner promises: an account that was not sent or was refused does not exist, one
  that was applied does, and a drop without an error leaves no account.\<close>

definition honest_event :: "event \<Rightarrow> bool" where
  "honest_event e \<longleftrightarrow>
     (case ev_create e of (disposition, err, applied) \<Rightarrow>
        (disposition \<in> {CreateNotSent, CreateNotCreated} \<longrightarrow> \<not> applied)
        \<and> (disposition = CreateApplied \<and> \<not> err \<longrightarrow> applied))
     \<and> (case ev_drop e of (err, dropped) \<Rightarrow> \<not> err \<longrightarrow> dropped)"

definition well_named :: "operation \<Rightarrow> bool" where
  "well_named o1 \<longleftrightarrow> validProvisioningIdentity (op_ID o1) (op_Username o1) \<and> TrimSpace (op_ID o1) = op_ID o1
     \<and> TrimSpace (op_Username o1) = op_Username o1 \<and> TrimSpace (op_InstanceID o1) = op_InstanceID o1"

definition tracked :: "world \<Rightarrow> bool" where
  "tracked w \<longleftrightarrow> (\<forall>u \<in> set (upstream w). \<exists>o1 \<in> set (operations (db w)). op_Active o1 \<and> identity_of o1 = u \<and> may_exist (op_Stage o1))"

definition backed :: "world \<Rightarrow> bool" where
  "backed w \<longleftrightarrow> (\<forall>o1 \<in> set (operations (db w)). op_Active o1 \<and> must_exist (op_Stage o1) \<longrightarrow> identity_of o1 \<in> set (upstream w))"

definition linked :: "world \<Rightarrow> bool" where
  "linked w \<longleftrightarrow> (\<forall>a \<in> set (accounts (db w)). \<forall>i. da_Active a \<and> da_OperationID a = Some i \<longrightarrow>
     (\<exists>o1 \<in> set (operations (db w)). op_ID o1 = i \<and> (da_InstanceID a, da_Username a, da_UpstreamHost a) = identity_of o1))"

definition world_inv :: "world \<Rightarrow> bool" where
  "world_inv w \<longleftrightarrow> distinct (map op_ID (operations (db w))) \<and> list_all well_named (operations (db w))
     \<and> tracked w \<and> backed w \<and> linked w \<and> (\<forall>n. honest_event (script w n))"

text \<open>\<open>quiet\<close>: the servers and the identities of the operations are as before.\<close>

definition names :: "world \<Rightarrow> (string \<times> string \<times> string \<times> string) list" where
  "names w = map (\<lambda>o1. (op_ID o1, identity_of o1)) (operations (db w))"

definition quiet :: "world \<Rightarrow> world \<Rightarrow> bool" where
  "quiet w w' \<longleftrightarrow> upstream w' = upstream w \<and> script w' = script w \<and> names w' = names w"

definition absent :: "string \<Rightarrow> world \<Rightarrow> bool" where
  "absent i w \<longleftrightarrow> (\<forall>u. (i, u) \<in> set (names w) \<longrightarrow> u \<notin> set (upstream w))"

definition present :: "string \<Rightarrow> world \<Rightarrow> bool" where
  "present i w \<longleftrightarrow> (\<forall>u. (i, u) \<in> set (names w) \<longrightarrow> u \<in> set (upstream w))"

definition homed :: "db_instance \<Rightarrow> string \<Rightarrow> world \<Rightarrow> bool" where
  "homed inst i w \<longleftrightarrow> (\<forall>u. (i, u) \<in> set (names w) \<longrightarrow> fst u = in_ID inst)"

lemma quiet_refl [simp]: "quiet w w"
  by (simp add: quiet_def)

lemma quiet_trans: "quiet w1 w2 \<Longrightarrow> quiet w2 w3 \<Longrightarrow> quiet w1 w3"
  by (simp add: quiet_def)

lemma quiet_keeps:
  "quiet w w' \<Longrightarrow> absent i w' = absent i w" "quiet w w' \<Longrightarrow> present i w' = present i w"
  "quiet w w' \<Longrightarrow> homed inst i w' = homed inst i w"
  by (simp_all add: quiet_def absent_def present_def homed_def)

lemma names_mem: "o1 \<in> set (operations (db w)) \<Longrightarrow> (op_ID o1, identity_of o1) \<in> set (names w)"
  by (auto simp: names_def)

lemma same_id: "distinct (map f xs) \<Longrightarrow> x \<in> set xs \<Longrightarrow> y \<in> set xs \<Longrightarrow> f x = f y \<Longrightarrow> x = y"
  by (auto simp: distinct_map dest: inj_onD)

text \<open>A name determines its operation.\<close>

lemma valid_identity_id:
  assumes "well_named o1"
  shows "op_ID o1 = ''jmo_'' @ drop 3 (op_Username o1)" "op_ID o1 \<noteq> []"
proof -
  let ?t = "trim_prefix ''jmo_'' (op_ID o1)"
  have t: "?t \<noteq> op_ID o1" "op_Username o1 = ''jm_'' @ ?t"
    using assms by (auto simp: well_named_def validProvisioningIdentity_def Let_def split: if_splits)
  then have "op_ID o1 = ''jmo_'' @ ?t"
    by (simp add: trim_prefix_def split: if_splits) (metis append_take_drop_id append_Cons append_Nil)
  with t(2) show "op_ID o1 = ''jmo_'' @ drop 3 (op_Username o1)" by simp
  then show "op_ID o1 \<noteq> []" by simp
qed

lemma identity_row:
  assumes "world_inv w" "o1 \<in> set (operations (db w))" "o2 \<in> set (operations (db w))" "identity_of o1 = identity_of o2"
  shows "o1 = o2"
proof -
  have "well_named o1" "well_named o2" using assms by (auto simp: world_inv_def list_all_iff)
  then have "op_ID o1 = op_ID o2"
    using assms(4) valid_identity_id(1) by (simp add: identity_of_def)
  then show ?thesis using assms by (auto simp: world_inv_def intro: same_id [of op_ID])
qed

lemma id_row:
  "world_inv w \<Longrightarrow> o1 \<in> set (operations (db w)) \<Longrightarrow> o2 \<in> set (operations (db w)) \<Longrightarrow> op_ID o1 = op_ID o2 \<Longrightarrow> o1 = o2"
  by (auto simp: world_inv_def intro: same_id [of op_ID])

lemma tracked_row:
  assumes "world_inv w" "o1 \<in> set (operations (db w))" "identity_of o1 \<in> set (upstream w)"
  shows "op_Active o1 \<and> may_exist (op_Stage o1)"
proof -
  obtain o2 where "o2 \<in> set (operations (db w))" "op_Active o2" "identity_of o2 = identity_of o1" "may_exist (op_Stage o2)"
    using assms by (auto simp: world_inv_def tracked_def)
  with identity_row [OF assms(1), of o2 o1] assms(2) show ?thesis by simp
qed

lemma not_may_exist_absent:
  assumes "world_inv w" "o1 \<in> set (operations (db w))" "\<not> may_exist (op_Stage o1)"
  shows "identity_of o1 \<notin> set (upstream w)"
  using tracked_row assms by blast

section \<open>Events, reads and writes\<close>

lemma world_inv_cong:
  "db w' = db w \<Longrightarrow> upstream w' = upstream w \<Longrightarrow> script w' = script w \<Longrightarrow> world_inv w' = world_inv w"
  by (simp add: world_inv_def tracked_def backed_def linked_def)

lemma quiet_cong: "db w' = db w \<Longrightarrow> upstream w' = upstream w \<Longrightarrow> script w' = script w \<Longrightarrow> quiet w w'"
  by (simp add: quiet_def names_def)

definition still :: "world \<Rightarrow> world \<Rightarrow> bool" where
  "still w w' \<longleftrightarrow> db w' = db w \<and> upstream w' = upstream w \<and> script w' = script w \<and> clock w \<le> clock w'"

lemma still_keeps: "still w w' \<Longrightarrow> world_inv w' = world_inv w" "still w w' \<Longrightarrow> quiet w w'" "still w w' \<Longrightarrow> db w' = db w"
  unfolding still_def by (rule world_inv_cong quiet_cong; simp)+ simp

lemma still_trans: "still w1 w2 \<Longrightarrow> still w2 w3 \<Longrightarrow> still w1 w3"
  by (simp add: still_def)

lemma take_event_still: "take_event w = (e, w') \<Longrightarrow> still w w'"
  by (auto simp: still_def take_event_def Let_def)

lemma take_event_script: "take_event w = (e, w') \<Longrightarrow> e = script w (position w)"
  by (auto simp: take_event_def Let_def)

lemma db_read_still: "db_read query zero w = (r, w') \<Longrightarrow> still w w'"
  by (auto simp: db_read_def intro: take_event_still split: prod.splits if_splits)

lemma db_read_value: "db_read query zero w = ((r, False), w') \<Longrightarrow> r = query (clock w') (db w')"
  by (auto simp: db_read_def split: prod.splits if_splits)

lemma context_cancelled_still: "context_cancelled w = (c, w') \<Longrightarrow> still w w'"
  by (auto simp: context_cancelled_def intro: take_event_still split: prod.splits)

lemma expired_still: "expired t w = (c, w') \<Longrightarrow> still w w'"
  by (auto simp: expired_def dest: context_cancelled_still split: prod.splits)

lemma randomString_still: "randomString n alphabet w = (r, w') \<Longrightarrow> still w w'"
  by (auto simp: randomString_def intro: take_event_still split: prod.splits)

lemma GrantAccount_still: "GrantAccount w = (r, w') \<Longrightarrow> still w w'"
  by (auto simp: GrantAccount_def intro: take_event_still split: prod.splits)

lemma audit_still:
  "BeginDatabaseProvisioningAudit actor inst kind w = (r, w') \<Longrightarrow> still w w'"
  "still w (CompleteDatabaseProvisioningAudit i result w)"
  by (auto simp: BeginDatabaseProvisioningAudit_def CompleteDatabaseProvisioningAudit_def take_event_def still_def Let_def
      split: prod.splits if_splits)

lemma DatabaseProvisioningOperation_still: "DatabaseProvisioningOperation i w = (r, w') \<Longrightarrow> still w w'"
  by (auto simp: DatabaseProvisioningOperation_def dest!: db_read_still split: prod.splits option.splits bool.splits)

lemma find_SomeD2: "find P xs = Some x \<Longrightarrow> x \<in> set xs \<and> P x"
  by (induction xs) (auto split: if_splits)

lemma DatabaseProvisioningOperation_row:
  assumes "DatabaseProvisioningOperation i w = ((o1, False), w')"
  shows "o1 \<in> set (operations (db w)) \<and> op_Active o1 \<and> op_ID o1 = TrimSpace i"
proof -
  obtain w1 where r: "db_read (\<lambda>_. find_operation (TrimSpace i)) None w = ((Some o1, False), w1)"
    using assms by (auto simp: DatabaseProvisioningOperation_def split: prod.splits option.splits bool.splits)
  from db_read_value [OF r] db_read_still [OF r] show ?thesis
    by (auto simp: still_def find_operation_def dest: find_SomeD2 [OF sym])
qed

section \<open>Updates of rows\<close>

definition keeps_names :: "(operation \<Rightarrow> operation) \<Rightarrow> bool" where
  "keeps_names f \<longleftrightarrow> (\<forall>o1. op_ID (f o1) = op_ID o1 \<and> identity_of (f o1) = identity_of o1)"

text \<open>A row may change when no existing account loses its operation and no operation promises an
  account that does not exist.\<close>

definition may_change :: "world \<Rightarrow> operation \<Rightarrow> operation \<Rightarrow> bool" where
  "may_change w o1 o2 \<longleftrightarrow>
     (identity_of o1 \<in> set (upstream w) \<longrightarrow> op_Active o2 \<and> may_exist (op_Stage o2))
     \<and> (op_Active o2 \<and> must_exist (op_Stage o2) \<longrightarrow> identity_of o1 \<in> set (upstream w))"

lemma well_named_cong: "op_ID o2 = op_ID o1 \<Longrightarrow> identity_of o2 = identity_of o1 \<Longrightarrow> well_named o2 = well_named o1"
  by (simp add: well_named_def identity_of_def)

lemma rows_changed_inv:
  assumes inv: "world_inv w" and names: "keeps_names g"
    and ok: "\<And>o1. o1 \<in> set (operations (db w)) \<Longrightarrow> may_change w o1 (g o1)"
    and new: "db w' = (db w)\<lparr>operations := map g (operations (db w))\<rparr>" "upstream w' = upstream w" "script w' = script w"
  shows "world_inv w'" "quiet w w'"
proof -
  have g: "op_ID (g o1) = op_ID o1" "identity_of (g o1) = identity_of o1" for o1 using names by (simp_all add: keeps_names_def)
  then have wn: "well_named (g o1) = well_named o1" for o1 by (intro well_named_cong)
  have "distinct (map op_ID (map g (operations (db w))))" "list_all well_named (map g (operations (db w)))"
    using inv g wn by (simp_all add: world_inv_def comp_def list_all_iff)
  moreover have "tracked w'"
  proof -
    have "\<exists>o1 \<in> set (operations (db w)). op_Active (g o1) \<and> identity_of o1 = u \<and> may_exist (op_Stage (g o1))"
      if u: "u \<in> set (upstream w)" for u
    proof -
      obtain o1 where o: "o1 \<in> set (operations (db w))" "identity_of o1 = u"
        using inv u by (auto simp: world_inv_def tracked_def)
      with ok [OF o(1)] u show ?thesis by (auto simp: may_change_def)
    qed
    then show ?thesis using new g by (auto simp: tracked_def)
  qed
  moreover have "backed w'" using new g ok by (auto simp: backed_def may_change_def)
  moreover have "linked w'" using inv new g by (fastforce simp: world_inv_def linked_def)
  ultimately show "world_inv w'" using inv new by (simp add: world_inv_def)
  show "quiet w w'" using new g by (simp add: quiet_def names_def)
qed

lemma unchanged_may: "world_inv w \<Longrightarrow> o1 \<in> set (operations (db w)) \<Longrightarrow> may_change w o1 o1"
  using tracked_row by (auto simp: may_change_def world_inv_def backed_def)

lemma update_where_inv:
  assumes inv: "world_inv w" and names: "keeps_names f"
    and ok: "\<And>o1. o1 \<in> set (operations (db w)) \<Longrightarrow> op_Active o1 \<Longrightarrow> cond o1 \<Longrightarrow> may_change w o1 (f o1)"
    and new: "db w' = snd (update_where cond f (db w))" "upstream w' = upstream w" "script w' = script w"
  shows "world_inv w'" "quiet w w'"
proof -
  let ?g = "\<lambda>o1. if op_Active o1 \<and> cond o1 then f o1 else o1"
  have g: "keeps_names ?g" using names by (simp add: keeps_names_def)
  have "may_change w o1 (?g o1)" if "o1 \<in> set (operations (db w))" for o1
    using ok unchanged_may [OF inv] that by simp
  moreover have "db w' = (db w)\<lparr>operations := map ?g (operations (db w))\<rparr>" using new(1) by (simp add: update_where_def)
  ultimately show "world_inv w'" "quiet w w'"
    using rows_changed_inv [OF inv g] new(2,3) by blast+
qed

lemma keeps_names_changes [simp]:
  "keeps_names (apply_transition tr now)" "keeps_names (apply_lease l now t)" "keeps_names (apply_activation now)"
  "keeps_names (\<lambda>o1. o1\<lparr>op_Active := False, op_UpdatedAt := now\<rparr>)"
  "keeps_names (\<lambda>o1. (apply_lease l now t o1)\<lparr>op_Stage := s, op_CleanupStatus := c\<rparr>)"
  by (simp_all add: keeps_names_def apply_transition_def apply_lease_def apply_activation_def identity_of_def Let_def)

lemma changed_fields [simp]:
  "op_Stage (apply_transition tr now o1) = tr_Stage tr" "op_Active (apply_transition tr now o1) = op_Active o1"
  "op_CleanupStatus (apply_transition tr now o1) = tr_CleanupStatus tr"
  "op_ID (apply_transition tr now o1) = op_ID o1" "identity_of (apply_transition tr now o1) = identity_of o1"
  "op_Stage (apply_lease l now t o1) = op_Stage o1" "op_Active (apply_lease l now t o1) = op_Active o1"
  "op_CleanupStatus (apply_lease l now t o1) = op_CleanupStatus o1"
  "op_ID (apply_lease l now t o1) = op_ID o1" "identity_of (apply_lease l now t o1) = identity_of o1"
  "op_LeaseExpiresAt (apply_lease l now t o1) = Some t"
  "op_Stage (apply_activation now o1) = StageActiveManaged" "op_Active (apply_activation now o1) = op_Active o1"
  "op_ID (apply_activation now o1) = op_ID o1" "identity_of (apply_activation now o1) = identity_of o1"
  by (simp_all add: apply_transition_def apply_lease_def apply_activation_def identity_of_def Let_def)

section \<open>Transitions\<close>

lemma fence_fields:
  "provisioningFenceCondition f o1 \<Longrightarrow> fe_ID f = op_ID o1 \<and> fe_Stage f = op_Stage o1 \<and> fe_CleanupStatus f = op_CleanupStatus o1"
  by (auto simp: provisioningFenceCondition_def Fence_def)

lemma Fence_simps [simp]: "fe_ID (Fence o1) = op_ID o1" "fe_Stage (Fence o1) = op_Stage o1" "fe_CleanupStatus (Fence o1) = op_CleanupStatus o1"
  by (simp_all add: Fence_def)

text \<open>What a transition needs: an account that exists before the stage says so, and none before the
  operation is given up.\<close>

definition transition_allowed :: "fence \<Rightarrow> stage \<Rightarrow> world \<Rightarrow> bool" where
  "transition_allowed f s w \<longleftrightarrow>
     (s = StageUpstreamCreated \<longrightarrow> present (fe_ID f) w)
     \<and> (s = StageNotCreated \<and> fe_Stage f \<notin> {StageReserved, StageNotCreated} \<longrightarrow> absent (fe_ID f) w)"

lemma transition_may_change:
  assumes inv: "world_inv w" and o: "o1 \<in> set (operations (db w))" "op_Active o1" "provisioningFenceCondition f o1"
    and valid: "validProvisioningTransition (fe_Stage f) (tr_Stage tr) c" and allowed: "transition_allowed f (tr_Stage tr) w"
  shows "may_change w o1 (apply_transition tr now o1)"
proof -
  have f: "fe_ID f = op_ID o1" "fe_Stage f = op_Stage o1" using fence_fields [OF o(3)] by simp_all
  have nm: "(op_ID o1, identity_of o1) \<in> set (names w)" using o(1) by (rule names_mem)
  have backed: "must_exist (op_Stage o1) \<Longrightarrow> identity_of o1 \<in> set (upstream w)"
    using inv o by (auto simp: world_inv_def backed_def)
  have free: "\<not> may_exist (op_Stage o1) \<Longrightarrow> identity_of o1 \<notin> set (upstream w)"
    using not_may_exist_absent [OF inv o(1)] by blast
  have "present (op_ID o1) w \<Longrightarrow> identity_of o1 \<in> set (upstream w)" "absent (op_ID o1) w \<Longrightarrow> identity_of o1 \<notin> set (upstream w)"
    using nm unfolding present_def absent_def by blast+
  then show ?thesis
    using valid allowed f backed free o(2)
    by (cases "tr_Stage tr") (auto simp: may_change_def validProvisioningTransition_def transition_allowed_def
        may_exist_def must_exist_def)
qed

lemma nested_pair: obtains a b c where "x = ((a, b), c)"
  by (metis surj_pair)

lemma db_write_cases:
  assumes "db_write body zero w = ((r, err), w')"
  obtains (unchanged) "still w w'" "err" "r = zero"
    | (changed) e w1 r' d where "take_event w = (e, w1)" "body e (clock w1) (db w) = Some (r', d)" "w' = w1\<lparr>db := d\<rparr>"
        "\<not> err \<Longrightarrow> r = r'" "err \<Longrightarrow> r = zero"
proof -
  obtain e w1 where t: "take_event w = (e, w1)" by fastforce
  have "still w w1" using t by (rule take_event_still)
  then have d: "db w1 = db w" by (simp add: still_def)
  show thesis
  proof (cases "ev_fate e = Fails \<or> body e (clock w1) (db w) = None")
    case True
    with assms t d \<open>still w w1\<close> show ?thesis
      by (intro unchanged) (auto simp: db_write_def split: if_splits option.splits prod.splits)
  next
    case False
    then obtain r' d' where "body e (clock w1) (db w) = Some (r', d')" by auto
    moreover from this have "w' = w1\<lparr>db := d'\<rparr>" "\<not> err \<Longrightarrow> r = r'" "err \<Longrightarrow> r = zero"
      using assms t d False by (auto simp: db_write_def split: if_splits)
    ultimately show ?thesis using t changed by blast
  qed
qed

lemma transition_inv:
  assumes "TransitionDatabaseProvisioningOperation f tr w = ((o1, ok, err), w')" "world_inv w"
    and "transition_allowed f (tr_Stage tr) w"
  shows "world_inv w' \<and> quiet w w'
    \<and> (ok \<longrightarrow> \<not> err \<and> o1 \<in> set (operations (db w')) \<and> op_Active o1 \<and> op_ID o1 = fe_ID f \<and> op_Stage o1 = tr_Stage tr)"
proof (cases "validProvisioningTransition (fe_Stage f) (tr_Stage tr) (tr_CleanupStatus tr) \<and> safeProvisioningErrorCode (tr_LastError tr)")
  case False
  with assms show ?thesis by (auto simp: TransitionDatabaseProvisioningOperation_def)
next
  case True
  let ?cond = "\<lambda>now o1. provisioningFenceCondition f o1 \<and> validLeaseCondition now o1"
  let ?body = "\<lambda>(e :: event) now d. Some (update_where (?cond now) (apply_transition tr now) d)"
  obtain affected err1 w1 where wr: "db_write ?body False w = ((affected, err1), w1)" by (rule nested_pair)
  note run = assms(1) [unfolded TransitionDatabaseProvisioningOperation_def, simplified True simp_thms if_False, unfolded wr, simplified]
  from wr show ?thesis
  proof (cases rule: db_write_cases)
    case unchanged
    with run assms(2) still_keeps show ?thesis by auto
  next
    case (changed e v hit d)
    have v: "still w v" using changed(1) by (rule take_event_still)
    have hit: "hit = list_ex (\<lambda>o1. op_Active o1 \<and> ?cond (clock v) o1) (operations (db w))"
      and d: "d = snd (update_where (?cond (clock v)) (apply_transition tr (clock v)) (db w))"
      using changed(2) by (auto simp: update_where_def)
    have may: "may_change w o1 (apply_transition tr (clock v) o1)"
      if "o1 \<in> set (operations (db w))" "op_Active o1" "?cond (clock v) o1" for o1
      using transition_may_change [OF assms(2) that(1,2)] that(3) True assms(3) by blast
    have "db w1 = d" "upstream w1 = upstream w" "script w1 = script w" using changed(3) v by (simp_all add: still_def)
    note inv1 = update_where_inv(1) [OF assms(2) keeps_names_changes(1) may this(1) [unfolded d] this(2,3)]
      and q1 = update_where_inv(2) [OF assms(2) keeps_names_changes(1) may this(1) [unfolded d] this(2,3)]
    show ?thesis
    proof (cases "err1 \<or> \<not> affected")
      case True
      with run inv1 q1 show ?thesis by (cases err1) auto
    next
      case False
      obtain x err2 w2 where rx: "DatabaseProvisioningOperation (fe_ID f) w1 = ((x, err2), w2)" by (rule nested_pair)
      have eqs: "x = o1" "ok = (\<not> err2)" "err = err2" "w2 = w'" using run False by (auto simp: rx)
      note rd = rx [unfolded eqs(1,4)] and res = eqs(2,3)
      have st: "still w1 w'" using rd by (rule DatabaseProvisioningOperation_still)
      have "o1 \<in> set (operations (db w1)) \<and> op_Active o1 \<and> op_ID o1 = fe_ID f \<and> op_Stage o1 = tr_Stage tr" if ok
      proof -
        from False changed hit obtain o0 where o0: "o0 \<in> set (operations (db w))" "op_Active o0" "?cond (clock v) o0"
          by (auto simp: list_ex_iff)
        have id0: "op_ID o0 = fe_ID f" "TrimSpace (op_ID o0) = op_ID o0"
          using fence_fields o0 assms(2) by (auto simp: world_inv_def list_all_iff well_named_def)
        let ?n = "apply_transition tr (clock v) o0"
        have n: "?n \<in> set (operations (db w1))"
          using o0 d changed(3) by (auto simp: update_where_def image_iff intro!: bexI [of _ o0])
        have "o1 \<in> set (operations (db w1))" "op_Active o1" "op_ID o1 = op_ID o0"
          using DatabaseProvisioningOperation_row rd res that id0 by fastforce+
        then have "o1 = ?n" using id_row [OF inv1 _ n] by simp
        with n id0 o0 show ?thesis by simp
      qed
      with inv1 q1 st still_keeps [OF st] res show ?thesis by (auto intro: quiet_trans)
    qed
  qed
qed

section \<open>Leases\<close>

text \<open>A lease update changes no stage; a renewal that succeeds returns the row as it now is, and the
  window is no longer than what is left of the lease at the moment of the update.\<close>

lemma lease_inv:
  assumes "updateProvisioningLease f l claim w = ((o1, window, ok, err), w')" "world_inv w"
  shows "world_inv w' \<and> quiet w w'
    \<and> (ok \<longrightarrow> \<not> err \<and> o1 \<in> set (operations (db w')) \<and> op_Active o1 \<and> op_ID o1 = fe_ID f \<and> op_Stage o1 = fe_Stage f
        \<and> op_CleanupStatus o1 = fe_CleanupStatus f
        \<and> (\<exists>t. op_LeaseExpiresAt o1 = Some t \<and> clock w + window \<le> t \<and> clock w + le_Duration l \<le> t))"
proof -
  obtain r err1 w1 where wr: "db_write (lease_body f l claim) None w = ((r, err1), w1)" by (rule nested_pair)
  note run = assms(1) [unfolded updateProvisioningLease_def wr, simplified]
  have w1: "w' = w1" and res: "ok \<longrightarrow> \<not> err1 \<and> r = Some (o1, window) \<and> \<not> err"
    using run by (auto split: bool.splits option.splits)
  from wr show ?thesis
  proof (cases rule: db_write_cases)
    case unchanged
    with w1 res assms(2) still_keeps show ?thesis by auto
  next
    case (changed e v r' d)
    have v: "still w v" using changed(1) by (rule take_event_still)
    obtain expiresAt where t: "leaseExpiryExpression (le_Duration l) (clock v) = Some expiresAt"
      using changed(2) by (auto simp: lease_body_def split: option.splits)
    obtain hit d' where u: "update_where (lease_condition f claim (clock v)) (apply_lease l (clock v) expiresAt) (db w) = (hit, d')" by fastforce
    have dd: "d = d'" and out: "\<And>y. r' = Some y \<Longrightarrow> hit \<and> find_operation (fe_ID f) d' = Some (fst y)
        \<and> leaseWindow (clock v + int (ev_delay e)) (fst y) (le_Duration l) = Some (snd y)"
      using changed(2) t u by (auto simp: lease_body_def split: bool.splits option.splits)
    have d: "d = snd (update_where (lease_condition f claim (clock v)) (apply_lease l (clock v) expiresAt) (db w))"
      by (simp add: u dd)
    have fence: "lease_condition f claim (clock v) o1 \<Longrightarrow> fe_ID f = op_ID o1 \<and> fe_Stage f = op_Stage o1 \<and> fe_CleanupStatus f = op_CleanupStatus o1" for o1
      using fence_fields by (simp add: lease_condition_def)
    have hit: "hit = list_ex (\<lambda>o1. op_Active o1 \<and> lease_condition f claim (clock v) o1) (operations (db w))"
      using u by (simp add: update_where_def)
    have may: "may_change w o1 (apply_lease l (clock v) expiresAt o1)"
      if "o1 \<in> set (operations (db w))" "op_Active o1" "lease_condition f claim (clock v) o1" for o1
      using unchanged_may [OF assms(2) that(1)] by (simp add: may_change_def)
    have "db w1 = d" "upstream w1 = upstream w" "script w1 = script w" using changed(3) v by (simp_all add: still_def)
    note inv1 = update_where_inv(1) [OF assms(2) keeps_names_changes(2) may this(1) [unfolded d] this(2,3)]
      and q1 = update_where_inv(2) [OF assms(2) keeps_names_changes(2) may this(1) [unfolded d] this(2,3)]
    have "o1 \<in> set (operations (db w1)) \<and> op_Active o1 \<and> op_ID o1 = fe_ID f \<and> op_Stage o1 = fe_Stage f
        \<and> op_CleanupStatus o1 = fe_CleanupStatus f
        \<and> (\<exists>t. op_LeaseExpiresAt o1 = Some t \<and> clock w + window \<le> t \<and> clock w + le_Duration l \<le> t)" if ok
    proof -
      have r': "r' = Some (o1, window)" using res changed(4) that by simp
      have find: "find_operation (fe_ID f) d = Some o1"
        and win: "leaseWindow (clock v + int (ev_delay e)) o1 (le_Duration l) = Some window" and hit
        using out [OF r'] dd by simp_all
      obtain o0 where o0: "o0 \<in> set (operations (db w))" "op_Active o0" "lease_condition f claim (clock v) o0"
        using \<open>hit\<close> hit by (auto simp: list_ex_iff)
      let ?n = "apply_lease l (clock v) expiresAt o0"
      have n: "?n \<in> set (operations (db w1))"
        using o0 d changed(3) by (auto simp: update_where_def image_iff intro!: bexI [of _ o0])
      have o1: "o1 \<in> set (operations (db w1))" "op_Active o1" "op_ID o1 = fe_ID f"
        using find changed(3) by (auto simp: find_operation_def dest: find_SomeD2)
      then have "o1 = ?n" using id_row [OF inv1 _ n] o0 fence [of o0] by simp
      moreover have "expiresAt = clock v + le_Duration l" using t by (auto simp: leaseExpiryExpression_def split: if_splits)
      moreover have "clock w \<le> clock v" using v by (simp add: still_def)
      ultimately show ?thesis
        using o1 o0 win fence [of o0] by (auto simp: leaseWindow_def split: if_splits)
    qed
    with w1 res inv1 q1 show ?thesis by simp
  qed
qed

lemma renewForSideEffect_inv:
  assumes "renewForSideEffect options o1 w = (r, w')" "world_inv w"
  shows "world_inv w' \<and> quiet w w'
    \<and> (\<forall>o2 deadline. r = Some (o2, deadline) \<longrightarrow> o2 \<in> set (operations (db w')) \<and> op_Active o2 \<and> op_ID o2 = op_ID o1
        \<and> op_Stage o2 = op_Stage o1 \<and> op_CleanupStatus o2 = op_CleanupStatus o1
        \<and> (\<exists>t. op_LeaseExpiresAt o2 = Some t \<and> deadline < t \<and> clock w' < deadline))"
proof -
  let ?l = "\<lparr>le_Owner = op_LeaseOwner o1, le_Token = op_LeaseToken o1, le_Duration = so_LeaseDuration options\<rparr>"
  obtain c w1 where c: "context_cancelled w = (c, w1)" by fastforce
  have s1: "still w w1" using c by (rule context_cancelled_still)
  note inv1 = assms(2) [folded still_keeps(1) [OF s1]] and q1 = still_keeps(2) [OF s1]
  show ?thesis
  proof (cases c)
    case True
    with assms c inv1 q1 show ?thesis by (auto simp: renewForSideEffect_def)
  next
    case False
    obtain o2 window ok err w2 where rn: "RenewDatabaseProvisioningOperation (Fence o1) ?l w1 = ((o2, window, ok, err), w2)"
      by (metis surj_pair)
    have rn_cases: "(w2 = w1 \<and> \<not> ok) \<or> updateProvisioningLease (Fence o1) (trim_lease ?l) False w1 = ((o2, window, ok, err), w2)"
      using rn by (auto simp: RenewDatabaseProvisioningOperation_def Let_def split: if_splits)
    then have lease: "world_inv w2 \<and> quiet w1 w2
      \<and> (ok \<longrightarrow> o2 \<in> set (operations (db w2)) \<and> op_Active o2 \<and> op_ID o2 = op_ID o1 \<and> op_Stage o2 = op_Stage o1
        \<and> op_CleanupStatus o2 = op_CleanupStatus o1 \<and> (\<exists>t. op_LeaseExpiresAt o2 = Some t \<and> clock w1 + window \<le> t))"
      using lease_inv [OF _ inv1] inv1 by fastforce
    have run: "(if err \<or> \<not> ok then (None, w2)
        else case sideEffectDeadline options (clock w1) window of None \<Rightarrow> (None, w2)
          | Some deadline \<Rightarrow> (case context_cancelled w2 of (cancelled, w) \<Rightarrow>
              if cancelled \<or> deadline \<le> clock w then (None, w) else (Some (o2, deadline), w))) = (r, w')"
      using assms(1) c False rn by (simp add: renewForSideEffect_def Let_def)
    show ?thesis
    proof (cases "err \<or> \<not> ok \<or> sideEffectDeadline options (clock w1) window = None")
      case True
      with run lease q1 show ?thesis by (auto intro: quiet_trans split: if_splits)
    next
      case False
      then obtain deadline where dl: "sideEffectDeadline options (clock w1) window = Some deadline" by auto
      obtain c2 w3 where c2: "context_cancelled w2 = (c2, w3)" by fastforce
      have s3: "still w2 w3" using c2 by (rule context_cancelled_still)
      have "deadline < clock w1 + window"
        using dl by (auto simp: sideEffectDeadline_def sideEffectTimeout_def Let_def split: option.splits if_splits)
      with run False dl c2 lease q1 s3 still_keeps [OF s3] show ?thesis
        by (auto intro: quiet_trans split: if_splits)
    qed
  qed
qed

section \<open>Side effects\<close>

lemma detached_inv:
  assumes "transitionDetached o1 tr w = ((o2, ok, err), w')" "world_inv w" "transition_allowed (Fence o1) (tr_Stage tr) w"
  shows "world_inv w' \<and> quiet w w'
    \<and> (ok \<longrightarrow> \<not> err \<and> o2 \<in> set (operations (db w')) \<and> op_Active o2 \<and> op_ID o2 = op_ID o1 \<and> op_Stage o2 = tr_Stage tr)"
  using transition_inv [of "Fence o1" tr w o2 ok err w'] assms by (simp add: transitionDetached_def)

lemma honest_taken: "world_inv w \<Longrightarrow> take_event w = (e, w') \<Longrightarrow> honest_event e"
  using take_event_script [of w e w'] by (auto simp: world_inv_def)

lemma row_name_only:
  assumes "world_inv w" "o1 \<in> set (operations (db w))" "(op_ID o1, u) \<in> set (names w)"
  shows "u = identity_of o1"
  using assms id_row [OF assms(1,2)] by (auto simp: names_def)

lemma homed_identity:
  assumes "homed inst (op_ID o1) w" "o1 \<in> set (operations (db w))"
  shows "identity (in_ID inst) o1 = identity_of o1"
proof -
  have "fst (identity_of o1) = in_ID inst" using assms(1) names_mem [OF assms(2)] unfolding homed_def by blast
  then show ?thesis by (simp add: identity_def identity_of_def)
qed

lemma CreateAccount_inv:
  assumes run: "CreateAccount inst o1 w = ((disposition, err), w')" and inv: "world_inv w"
    and o: "o1 \<in> set (operations (db w))" "op_Active o1" "may_exist (op_Stage o1)" "homed inst (op_ID o1) w" "absent (op_ID o1) w"
  shows "world_inv w' \<and> db w' = db w \<and> (disposition \<in> {CreateNotSent, CreateNotCreated} \<longrightarrow> absent (op_ID o1) w')
    \<and> (disposition = CreateApplied \<and> \<not> err \<longrightarrow> present (op_ID o1) w')"
proof -
  obtain e w1 where t: "take_event w = (e, w1)" by fastforce
  have s1: "still w w1" using t by (rule take_event_still)
  obtain applied where c: "ev_create e = (disposition, err, applied)"
    and w': "w' = (if applied then w1\<lparr>upstream := identity_of o1 # upstream w1\<rparr> else w1)"
    using run t homed_identity [OF o(4,1)] by (auto simp: CreateAccount_def split: prod.splits)
  have h: "disposition \<in> {CreateNotSent, CreateNotCreated} \<Longrightarrow> \<not> applied" "disposition = CreateApplied \<Longrightarrow> \<not> err \<Longrightarrow> applied"
    using honest_taken [OF inv t] c by (auto simp: honest_event_def)
  show ?thesis
  proof (cases applied)
    case False
    with w' s1 still_keeps [OF s1] inv quiet_keeps(1) [OF still_keeps(2) [OF s1]] o(5) h(2) show ?thesis by auto
  next
    case True
    have up: "upstream w' = identity_of o1 # upstream w" "db w' = db w" "script w' = script w"
      using True w' s1 by (simp_all add: still_def)
    then have nm: "names w' = names w" by (simp add: names_def)
    have "present (op_ID o1) w'"
      using row_name_only [OF inv o(1)] up(1) nm by (simp add: present_def)
    moreover have "world_inv w'"
      using inv up o by (auto simp: world_inv_def tracked_def backed_def linked_def)
    ultimately show ?thesis using h(1) True up(2) by auto
  qed
qed

lemma DropAccount_inv:
  assumes run: "DropAccount inst o1 w = (err, w')" and inv: "world_inv w"
    and o: "o1 \<in> set (operations (db w))" "\<not> must_exist (op_Stage o1)" "homed inst (op_ID o1) w"
  shows "world_inv w' \<and> db w' = db w \<and> (\<not> err \<longrightarrow> absent (op_ID o1) w')"
proof -
  obtain e w1 where t: "take_event w = (e, w1)" by fastforce
  have s1: "still w w1" using t by (rule take_event_still)
  obtain dropped where c: "ev_drop e = (err, dropped)"
    and w': "w' = (if dropped then w1\<lparr>upstream := filter (\<lambda>u. u \<noteq> identity_of o1) (upstream w1)\<rparr> else w1)"
    using run t homed_identity [OF o(3,1)] by (auto simp: DropAccount_def split: prod.splits)
  have h: "\<not> err \<Longrightarrow> dropped" using honest_taken [OF inv t] c by (auto simp: honest_event_def)
  show ?thesis
  proof (cases dropped)
    case False
    with w' s1 still_keeps [OF s1] inv h show ?thesis by auto
  next
    case True
    have up: "upstream w' = filter (\<lambda>u. u \<noteq> identity_of o1) (upstream w)" "db w' = db w" "script w' = script w"
      using True w' s1 by (simp_all add: still_def)
    then have nm: "names w' = names w" by (simp add: names_def)
    have "absent (op_ID o1) w'" using row_name_only [OF inv o(1)] up(1) nm by (auto simp: absent_def)
    moreover have "identity_of o2 \<noteq> identity_of o1" if "o2 \<in> set (operations (db w))" "must_exist (op_Stage o2)" for o2
      using identity_row [OF inv that(1) o(1)] o(2) that(2) by auto
    then have "world_inv w'"
      using inv up by (auto simp: world_inv_def tracked_def backed_def linked_def)
    ultimately show ?thesis using up(2) by simp
  qed
qed

lemma quiet_absent: "quiet w w' \<Longrightarrow> absent i w \<Longrightarrow> absent i w'"
  and quiet_present: "quiet w w' \<Longrightarrow> present i w \<Longrightarrow> present i w'"
  and quiet_homed: "quiet w w' \<Longrightarrow> homed inst i w \<Longrightarrow> homed inst i w'"
  by (auto simp: quiet_def absent_def present_def homed_def)

lemma db_names: "db w' = db w \<Longrightarrow> names w' = names w"
  by (simp add: names_def)

lemma db_homed: "db w' = db w \<Longrightarrow> homed inst i w' = homed inst i w"
  by (simp add: homed_def names_def)

lemma transition_free [simp]:
  "s \<notin> {StageUpstreamCreated, StageNotCreated} \<Longrightarrow> transition_allowed f s w"
  "present (fe_ID f) w \<Longrightarrow> transition_allowed f StageUpstreamCreated w"
  "absent (fe_ID f) w \<Longrightarrow> transition_allowed f StageNotCreated w"
  "fe_Stage f = StageReserved \<Longrightarrow> transition_allowed f StageNotCreated w"
  by (simp_all add: transition_allowed_def)

section \<open>Compensation\<close>

lemma detached_snd:
  assumes "world_inv w" "transition_allowed (Fence o1) (tr_Stage tr) w"
  shows "world_inv (snd (transitionDetached o1 tr w))" "quiet w (snd (transitionDetached o1 tr w))"
proof -
  obtain a b c w' where t: "transitionDetached o1 tr w = ((a, b, c), w')" by (metis surj_pair)
  from detached_inv [OF t assms] t show "world_inv (snd (transitionDetached o1 tr w))" "quiet w (snd (transitionDetached o1 tr w))"
    by simp_all
qed

lemma compensation_inv:
  assumes "world_inv w"
  shows "world_inv (persistCleanupFailure o1 w)" "world_inv (deferCleanupForReconcile o1 reason w)"
    "world_inv (releaseActivationForReconcile o1 w)" "world_inv (deferDropUncertain o1 w)"
    "absent (op_ID o1) w \<or> op_Stage o1 = StageReserved \<Longrightarrow> world_inv (discardNotCreatedOperation o1 w)"
  unfolding persistCleanupFailure_def deferCleanupForReconcile_def releaseActivationForReconcile_def deferDropUncertain_def
    discardNotCreatedOperation_def
  by (rule detached_snd [OF assms]; auto)+

lemma cleanup_drop_inv:
  assumes run: "cleanup_drop options inst reason o1 w = (r, w')" and inv: "world_inv w"
    and o: "homed inst (op_ID o1) w" "op_Stage o1 = StageCleanupInProgress"
  shows "world_inv w'"
proof -
  obtain x w1 where rn: "renewForSideEffect options o1 w = (x, w1)" by fastforce
  note n1 = renewForSideEffect_inv [OF rn inv]
  show ?thesis
  proof (cases x)
    case None
    with run rn n1 show ?thesis by (auto simp: cleanup_drop_def)
  next
    case (Some y)
    obtain o2 deadline where x: "x = Some (o2, deadline)" using Some by (cases y) auto
    have o2: "o2 \<in> set (operations (db w1))" "op_ID o2 = op_ID o1" "op_Stage o2 = StageCleanupInProgress"
      using n1 x o(2) by auto
    obtain c w2 where ex: "expired deadline w1 = (c, w2)" by fastforce
    have s2: "still w1 w2" using ex by (rule expired_still)
    have inv2: "world_inv w2" using still_keeps(1) [OF s2] n1 by simp
    have h2: "homed inst (op_ID o2) w2"
      using o(1) o2(2) quiet_homed [OF quiet_trans] n1 still_keeps(2) [OF s2] by metis
    obtain err w3 where dr: "DropAccount inst o2 w2 = (err, w3)" by fastforce
    have d: "world_inv w3 \<and> db w3 = db w2 \<and> (\<not> err \<longrightarrow> absent (op_ID o2) w3)"
      using DropAccount_inv [OF dr inv2 _ _ h2] o2 s2 by (simp add: still_def must_exist_def)
    show ?thesis
    proof (cases "c \<or> err")
      case True
      with run rn x ex dr inv2 d show ?thesis
        by (auto simp: cleanup_drop_def split: bool.splits intro: compensation_inv(1))
    next
      case False
      obtain a b e w4 where tr: "transitionDetached o2 (move StageNotCreated CleanupNone reason False True) w3 = ((a, b, e), w4)"
        by (metis surj_pair)
      have "w' = w4" using run rn x ex dr tr False by (simp add: cleanup_drop_def)
      with detached_inv [OF tr] d False show ?thesis by simp
    qed
  qed
qed

lemma cleanupOperation_inv:
  assumes run: "cleanupOperation options o1 inst reason w = (r, w')" and inv: "world_inv w" and home: "homed inst (op_ID o1) w"
  shows "world_inv w'"
proof (cases "operationOwnsUpstreamIdentity o1")
  case False
  with run inv show ?thesis by (simp add: cleanupOperation_def)
next
  case True
  obtain o2 ok err w1 where t1: "transitionDetached o1 (move StageCleanupRequired CleanupRequired reason False False) w = ((o2, ok, err), w1)"
    by (metis surj_pair)
  note n1 = detached_inv [OF t1 inv]
  obtain o3 ok3 err3 w2 where t2: "transitionDetached o2 (move StageCleanupInProgress CleanupInProgress reason True False) w1 = ((o3, ok3, err3), w2)"
    by (metis surj_pair)
  have n2: "world_inv w2 \<and> quiet w1 w2 \<and> (ok3 \<longrightarrow> op_ID o3 = op_ID o2 \<and> op_Stage o3 = StageCleanupInProgress)"
    using detached_inv [OF t2] n1 by simp
  show ?thesis
  proof (cases "err \<or> \<not> ok \<or> err3 \<or> \<not> ok3")
    case True
    with run t1 t2 n1 n2 \<open>operationOwnsUpstreamIdentity o1\<close> show ?thesis
      by (auto simp: cleanupOperation_def split: if_splits)
  next
    case False
    have "cleanup_drop options inst reason o3 w2 = (r, w')"
      using run t1 t2 True False by (simp add: cleanupOperation_def)
    moreover have "homed inst (op_ID o3) w2"
      using home n1 n2 False quiet_homed by (metis Fence_simps(1) transition.select_convs(1) transition_free(1) insert_iff empty_iff stage.distinct)
    ultimately show ?thesis using n2 False by (auto intro: cleanup_drop_inv)
  qed
qed

section \<open>Activation\<close>

text \<open>An account is delivered when it is an active row for the active operation, which says that it is
  managed, and it exists on the server under the name of that row.\<close>

definition delivered :: "string \<Rightarrow> db_account \<Rightarrow> world \<Rightarrow> bool" where
  "delivered i a w \<longleftrightarrow> a \<in> set (accounts (db w)) \<and> da_Active a \<and> da_OperationID a = Some i
     \<and> (\<exists>o1 \<in> set (operations (db w)). op_ID o1 = i \<and> op_Active o1 \<and> op_Stage o1 = StageActiveManaged)
     \<and> (da_InstanceID a, da_Username a, da_UpstreamHost a) \<in> set (upstream w)"

lemma delivered_intro:
  assumes inv: "world_inv w" and a: "a \<in> set (accounts (db w))" "da_Active a" "da_OperationID a = Some (op_ID o1)"
    and o: "o1 \<in> set (operations (db w))" "op_Active o1" "op_Stage o1 = StageActiveManaged"
  shows "delivered (op_ID o1) a w"
proof -
  have "identity_of o1 \<in> set (upstream w)" using inv o by (auto simp: world_inv_def backed_def must_exist_def)
  moreover obtain o2 where o2: "o2 \<in> set (operations (db w))" "op_ID o2 = op_ID o1"
      "(da_InstanceID a, da_Username a, da_UpstreamHost a) = identity_of o2"
    using inv a unfolding world_inv_def linked_def by metis
  moreover have "o2 = o1" using id_row [OF inv o2(1) o(1) o2(2)] .
  ultimately show ?thesis using a o by (auto simp: delivered_def)
qed

lemma activate_rows:
  assumes "activateDatabaseProvisioningOperation f now d = Some d'"
  shows "d' = snd (update_where (\<lambda>o1. provisioningFenceCondition f o1 \<and> validLeaseCondition now o1) (apply_activation now) d)"
    and "\<exists>o1 \<in> set (operations d). op_Active o1 \<and> provisioningFenceCondition f o1 \<and> validLeaseCondition now o1"
  using assms by (auto simp: activateDatabaseProvisioningOperation_def update_where_def list_ex_iff split: if_splits)

text \<open>The second part of an activation: the stage.\<close>

lemma activation_stage_inv:
  assumes inv: "world_inv w" and act: "activateDatabaseProvisioningOperation f now (db w) = Some d'" and stage: "fe_Stage f = StageActivationPending"
    and new: "db w' = d'" "upstream w' = upstream w" "script w' = script w"
    and a: "a \<in> set (accounts (db w))" "da_Active a" "da_OperationID a = Some (fe_ID f)"
  shows "world_inv w' \<and> quiet w w' \<and> delivered (fe_ID f) a w'"
proof -
  let ?cond = "\<lambda>o1. provisioningFenceCondition f o1 \<and> validLeaseCondition now o1"
  have d': "db w' = snd (update_where ?cond (apply_activation now) (db w))" using activate_rows(1) [OF act] new(1) by simp
  have may: "may_change w o1 (apply_activation now o1)" if "o1 \<in> set (operations (db w))" "op_Active o1" "?cond o1" for o1
    using unchanged_may [OF inv that(1)] that fence_fields [of f o1] stage by (simp add: may_change_def may_exist_def must_exist_def)
  have inv': "world_inv w'" and q: "quiet w w'"
    using update_where_inv [OF inv keeps_names_changes(3) may d' new(2,3)] by simp_all
  obtain o0 where o0: "o0 \<in> set (operations (db w))" "op_Active o0" "?cond o0" using activate_rows(2) [OF act] by auto
  have n: "apply_activation now o0 \<in> set (operations (db w'))"
    using o0 d' by (auto simp: update_where_def image_iff intro!: bexI [of _ o0])
  have "accounts (db w') = accounts (db w)" using d' by (simp add: update_where_def)
  then have "delivered (op_ID (apply_activation now o0)) a w'"
    using delivered_intro [OF inv' _ a(2) _ n] a o0 fence_fields [of f o0] by simp
  with inv' q show ?thesis using fence_fields [of f o0] o0 by simp
qed

lemma account_added_inv:
  assumes inv: "world_inv w" and o: "o1 \<in> set (operations (db w))"
  shows "world_inv (w\<lparr>db := (db w)\<lparr>accounts := accounts (db w) @ [account_of o1 i n q]\<rparr>\<rparr>)"
    and "quiet w (w\<lparr>db := (db w)\<lparr>accounts := accounts (db w) @ [account_of o1 i n q]\<rparr>\<rparr>)"
proof -
  let ?a = "account_of o1 i n q"
  have "linked (w\<lparr>db := (db w)\<lparr>accounts := accounts (db w) @ [?a]\<rparr>\<rparr>)"
    using inv o by (auto simp: world_inv_def linked_def account_of_def identity_of_def)
  then show "world_inv (w\<lparr>db := (db w)\<lparr>accounts := accounts (db w) @ [?a]\<rparr>\<rparr>)"
    using inv by (simp add: world_inv_def tracked_def backed_def)
  show "quiet w (w\<lparr>db := (db w)\<lparr>accounts := accounts (db w) @ [?a]\<rparr>\<rparr>)" by (simp add: quiet_def names_def)
qed

lemma activation_body_inv:
  assumes inv: "world_inv w" and body: "activation_body f e now (db w) = Some (r, d')" and stage: "fe_Stage f = StageActivationPending"
    and new: "db w' = d'" "upstream w' = upstream w" "script w' = script w"
  shows "world_inv w' \<and> quiet w w' \<and> (\<forall>a. r = Some a \<longrightarrow> delivered (fe_ID f) a w')"
proof (cases "find (\<lambda>o1. op_Active o1 \<and> provisioningFenceCondition f o1 \<and> validLeaseCondition now o1) (operations (db w))")
  case None
  with body have "r = None" "d' = db w" by (auto simp: activation_body_def)
  with inv new show ?thesis using world_inv_cong [of w' w] quiet_cong [of w' w] by simp
next
  case (Some o1)
  have o1: "o1 \<in> set (operations (db w))" "op_ID o1 = fe_ID f"
    using find_SomeD2 [OF Some] fence_fields [of f o1] by auto
  show ?thesis
  proof (cases "find (\<lambda>a. activeDatabaseAccountScope (db w) a \<and> da_OperationID a = Some (fe_ID f)) (accounts (db w))")
    case (Some a)
    have a: "a \<in> set (accounts (db w))" "da_Active a" "da_OperationID a = Some (fe_ID f)"
      using find_SomeD2 [OF Some] by (auto simp: activeDatabaseAccountScope_def)
    have "r = Some a" "activateDatabaseProvisioningOperation f now (db w) = Some d'"
      using body \<open>find _ (operations (db w)) = Some o1\<close> Some by (auto simp: activation_body_def split: if_splits)
    with activation_stage_inv [OF inv _ stage new a] show ?thesis by simp
  next
    case None
    obtain name where act: "r = Some (account_of o1 (ev_fresh e 10) name (ev_seq e))"
        "activateDatabaseProvisioningOperation f now ((db w)\<lparr>accounts := accounts (db w) @ [account_of o1 (ev_fresh e 10) name (ev_seq e)]\<rparr>) = Some d'"
      using body Some None by (auto simp: activation_body_def Let_def split: if_splits option.splits)
    let ?a = "account_of o1 (ev_fresh e 10) name (ev_seq e)"
    let ?w = "w\<lparr>db := (db w)\<lparr>accounts := accounts (db w) @ [?a]\<rparr>\<rparr>"
    have i: "world_inv ?w" "quiet w ?w" using account_added_inv [OF inv o1(1)] by simp_all
    have "world_inv w' \<and> quiet ?w w' \<and> delivered (fe_ID f) ?a w'"
      by (rule activation_stage_inv [OF i(1) _ stage new(1)]) (use act new o1 in \<open>simp_all add: account_of_def\<close>)
    then show ?thesis using act(1) quiet_trans [OF i(2)] by simp
  qed
qed

lemma Activate_inv:
  assumes run: "ActivateDatabaseProvisioningOperation f w = ((r, err), w')" and inv: "world_inv w"
  shows "world_inv w' \<and> quiet w w' \<and> (\<forall>a. r = Some a \<and> \<not> err \<longrightarrow> delivered (fe_ID f) a w')"
proof (cases "fe_Stage f = StageActivationPending \<and> fe_CleanupStatus f = CleanupNone")
  case False
  with run inv show ?thesis by (auto simp: ActivateDatabaseProvisioningOperation_def)
next
  case True
  then have "db_write (activation_body f) None w = ((r, err), w')" using run by (simp add: ActivateDatabaseProvisioningOperation_def)
  then show ?thesis
  proof (cases rule: db_write_cases)
    case unchanged
    with inv still_keeps show ?thesis by auto
  next
    case (changed e v r' d)
    have v: "still w v" using changed(1) by (rule take_event_still)
    have "world_inv w' \<and> quiet w w' \<and> (\<forall>a. r' = Some a \<longrightarrow> delivered (fe_ID f) a w')"
      by (rule activation_body_inv [OF inv changed(2)]) (use True changed(3) v in \<open>simp_all add: still_def\<close>)
    with changed(4) show ?thesis by auto
  qed
qed

lemma activate_attempts_inv:
  "activate_attempts n o1 w = (r, w') \<Longrightarrow> world_inv w \<Longrightarrow>
     world_inv w' \<and> (\<forall>a. r = Some a \<longrightarrow> delivered (op_ID o1) a w')"
proof (induction n arbitrary: w)
  case (Suc n)
  obtain x err w1 where a: "ActivateDatabaseProvisioningOperation (Fence o1) w = ((x, err), w1)" by (rule nested_pair)
  note i = Activate_inv [OF a Suc.prems(2)]
  show ?case
  proof (cases "x \<noteq> None \<and> \<not> err")
    case True
    with Suc.prems(1) a i show ?thesis by (auto split: option.splits bool.splits)
  next
    case False
    then have "activate_attempts n o1 w1 = (r, w')" using Suc.prems(1) a by (auto split: option.splits bool.splits)
    with Suc.IH i show ?thesis by blast
  qed
qed simp

section \<open>Provisioning\<close>

lemma provision_activation_inv:
  assumes run: "provision_activation o1 w = (r, w')" and inv: "world_inv w"
  shows "world_inv w' \<and> (\<forall>a i. r = Inr (a, i) \<longrightarrow> delivered i a w')"
proof -
  obtain o2 ok err w1 where t: "transitionDetached o1 (move StageActivationPending CleanupNone [] False False) w = ((o2, ok, err), w1)"
    by (metis surj_pair)
  note n = detached_inv [OF t inv]
  obtain x w2 where a: "activateDetached o2 w1 = (x, w2)" by fastforce
  have i: "world_inv w2 \<and> (\<forall>a. x = Some a \<longrightarrow> delivered (op_ID o2) a w2)"
    using a activate_attempts_inv [of 2 o2 w1] n by (simp add: activateDetached_def)
  show ?thesis
    using run t a n i compensation_inv(3)
    by (auto simp: provision_activation_def split: if_splits option.splits)
qed

lemma cleaned_up_inv:
  assumes "(case cleanupOperation options o1 inst reason w of (f, w) \<Rightarrow> (Inl f, w)) = (r, w')" "world_inv w" "homed inst (op_ID o1) w"
  shows "world_inv w' \<and> isl r"
  using assms cleanupOperation_inv by (cases "cleanupOperation options o1 inst reason w") auto

lemma provision_grants_inv:
  assumes run: "provision_grants options inst o1 w = (r, w')" and inv: "world_inv w" and home: "homed inst (op_ID o1) w"
  shows "world_inv w' \<and> (\<forall>a i. r = Inr (a, i) \<longrightarrow> delivered i a w')"
proof -
  obtain x w1 where rn: "renewForSideEffect options o1 w = (x, w1)" by fastforce
  note n1 = renewForSideEffect_inv [OF rn inv]
  show ?thesis
  proof (cases x)
    case None
    with run rn n1 show ?thesis by (auto simp: provision_grants_def intro: compensation_inv)
  next
    case (Some y)
    obtain o2 deadline where x: "x = Some (o2, deadline)" using Some by (cases y) auto
    obtain c w2 where ex: "expired deadline w1 = (c, w2)" by fastforce
    obtain g w3 where gr: "GrantAccount w2 = (g, w3)" by fastforce
    have s: "still w1 w2" "still w2 w3" using expired_still [OF ex] GrantAccount_still [OF gr] by simp_all
    have inv3: "world_inv w2" "world_inv w3" using n1 still_keeps(1) [OF s(1)] still_keeps(1) [OF s(2)] by simp_all
    have "quiet w w3" using n1 s still_keeps(2) quiet_trans by blast
    moreover have "op_ID o2 = op_ID o1" using n1 x by blast
    ultimately have h3: "homed inst (op_ID o2) w3" using quiet_homed [OF _ home] by simp
    show ?thesis
    proof (cases c)
      case True
      with run rn x ex have "r = Inl ProvisioningFailed" "w' = deferCleanupForReconcile o2 ProvisioningErrorGrantFailed w2"
        by (simp_all add: provision_grants_def)
      then show ?thesis using compensation_inv(2) [OF inv3(1)] by simp
    next
      case go: False
      show ?thesis
      proof (cases g)
        case True
        with run rn x ex gr go have "(case cleanupOperation options o2 inst ProvisioningErrorGrantFailed w3 of (f, w) \<Rightarrow> (Inl f, w)) = (r, w')"
          by (simp add: provision_grants_def)
        from cleaned_up_inv [OF this inv3(2) h3] show ?thesis by auto
      next
        case False
        with run rn x ex gr go have "provision_activation o2 w3 = (r, w')" by (simp add: provision_grants_def)
        then show ?thesis using inv3(2) by (rule provision_activation_inv)
      qed
    qed
  qed
qed

lemma no_row_homed: "world_inv w \<Longrightarrow> homed inst [] w"
  using valid_identity_id(2) by (fastforce simp: homed_def names_def world_inv_def list_all_iff)

lemma DatabaseProvisioningOperation_err: "DatabaseProvisioningOperation i w = ((o1, True), w') \<Longrightarrow> o1 = zero_operation"
  by (auto simp: DatabaseProvisioningOperation_def split: prod.splits option.splits bool.splits)

lemma transition_failed:
  assumes "transitionDetached o1 tr w = ((o2, ok, err), w')" "err \<or> \<not> ok"
  shows "op_ID o2 = []"
proof -
  have "o2 = zero_operation"
    using assms by (auto simp: transitionDetached_def TransitionDatabaseProvisioningOperation_def
        split: if_splits prod.splits bool.splits dest!: DatabaseProvisioningOperation_err)
  then show ?thesis by (simp add: zero_operation_def)
qed

lemma provision_created_inv:
  assumes run: "provision_created options inst o1 w = (r, w')" and inv: "world_inv w" and home: "homed inst (op_ID o1) w"
    and there: "present (op_ID o1) w"
  shows "world_inv w' \<and> (\<forall>a i. r = Inr (a, i) \<longrightarrow> delivered i a w')"
proof -
  obtain o2 ok err w1 where t1: "transitionDetached o1 (move StageUpstreamCreated CleanupNone [] False False) w = ((o2, ok, err), w1)"
    by (metis surj_pair)
  have n1: "world_inv w1 \<and> quiet w w1 \<and> (ok \<longrightarrow> op_ID o2 = op_ID o1)" using detached_inv [OF t1 inv] there by simp
  show ?thesis
  proof (cases "err \<or> \<not> ok")
    case True
    have "homed inst (op_ID o2) w1" using transition_failed [OF t1 True] no_row_homed n1 by simp
    then show ?thesis using run t1 True cleaned_up_inv n1 by (fastforce simp: provision_created_def)
  next
    case ok1: False
    obtain o3 ok3 err3 w2 where t2: "transitionDetached o2 (move StageGrantStarted CleanupNone [] False False) w1 = ((o3, ok3, err3), w2)"
      by (metis surj_pair)
    have n2: "world_inv w2 \<and> quiet w1 w2 \<and> (ok3 \<longrightarrow> op_ID o3 = op_ID o2)" using detached_inv [OF t2] n1 by simp
    have h: "homed inst (op_ID o1) w2" using quiet_homed [OF quiet_trans] n1 n2 home by blast
    show ?thesis
    proof (cases "err3 \<or> \<not> ok3")
      case True
      have "homed inst (op_ID o3) w2" using transition_failed [OF t2 True] no_row_homed n2 by simp
      then show ?thesis using run t1 t2 ok1 True cleaned_up_inv n2 by (fastforce simp: provision_created_def)
    next
      case False
      then have "provision_grants options inst o3 w2 = (r, w')" using run t1 t2 ok1 by (simp add: provision_created_def)
      moreover have "homed inst (op_ID o3) w2" using h n1 n2 ok1 False by simp
      ultimately show ?thesis using provision_grants_inv n2 by blast
    qed
  qed
qed

lemma cleanupUncertainCreate_inv:
  assumes run: "(case cleanupUncertainCreate options o1 inst w of (f, w) \<Rightarrow> (Inl f, w)) = (r, w')" and inv: "world_inv w"
    and home: "homed inst (op_ID o1) w"
  shows "world_inv w' \<and> isl r"
proof -
  obtain o2 ok err w1 where t1: "transitionDetached o1
      (move StageCreateUncertain CleanupRequired ProvisioningErrorCreateUncertain False False) w = ((o2, ok, err), w1)"
    by (metis surj_pair)
  have n1: "world_inv w1 \<and> quiet w w1 \<and> (ok \<longrightarrow> op_ID o2 = op_ID o1)" using detached_inv [OF t1 inv] by simp
  show ?thesis
  proof (cases "err \<or> \<not> ok")
    case True
    with run t1 n1 show ?thesis by (auto simp: cleanupUncertainCreate_def)
  next
    case False
    then have "homed inst (op_ID o2) w1" using n1 home quiet_homed by metis
    with run t1 n1 False show ?thesis
      using cleaned_up_inv [of options o2 inst ProvisioningErrorCreateUncertain w1 r w'] by (simp add: cleanupUncertainCreate_def)
  qed
qed

lemma provision_create_inv:
  assumes run: "provision_create options inst o1 w = (r, w')" and inv: "world_inv w" and home: "homed inst (op_ID o1) w"
    and none: "absent (op_ID o1) w"
  shows "world_inv w' \<and> (\<forall>a i. r = Inr (a, i) \<longrightarrow> delivered i a w')"
proof -
  obtain o2 ok err w1 where t1: "transitionDetached o1 (move StageCreateStarted CleanupNone [] True False) w = ((o2, ok, err), w1)"
    by (metis surj_pair)
  have n1: "world_inv w1 \<and> quiet w w1 \<and> (ok \<longrightarrow> op_ID o2 = op_ID o1 \<and> op_Stage o2 = StageCreateStarted)"
    using detached_inv [OF t1 inv] by simp
  obtain x w2 where rn: "renewForSideEffect options o2 w1 = (x, w2)" by fastforce
  have n2: "world_inv w2" "quiet w1 w2" using renewForSideEffect_inv [OF rn] n1 by blast+
  show ?thesis
  proof (cases "err \<or> \<not> ok \<or> x = None")
    case True
    with run t1 rn n1 n2 show ?thesis by (auto simp: provision_create_def split: if_splits)
  next
    case False
    then obtain o3 deadline where x: "x = Some (o3, deadline)" by auto
    have o3: "o3 \<in> set (operations (db w2))" "op_Active o3" "op_ID o3 = op_ID o1" "op_Stage o3 = StageCreateStarted"
      using renewForSideEffect_inv [OF rn] n1 x False by auto
    obtain c w3 where ex: "expired deadline w2 = (c, w3)" by fastforce
    have s3: "still w2 w3" using expired_still [OF ex] .
    have inv3: "world_inv w3" using n2 still_keeps(1) [OF s3] by simp
    have q3: "quiet w w3" using n1 n2 s3 still_keeps(2) quiet_trans by blast
    obtain disposition err4 w4 where cr: "CreateAccount inst o3 w3 = ((disposition, err4), w4)" by (rule nested_pair)
    have n4: "world_inv w4 \<and> db w4 = db w3 \<and> (disposition \<in> {CreateNotSent, CreateNotCreated} \<longrightarrow> absent (op_ID o3) w4)
        \<and> (disposition = CreateApplied \<and> \<not> err4 \<longrightarrow> present (op_ID o3) w4)"
      by (rule CreateAccount_inv [OF cr inv3])
         (use o3 s3 quiet_homed [OF q3 home] quiet_absent [OF q3 none] in \<open>simp_all add: still_def may_exist_def\<close>)
    have h4: "homed inst (op_ID o3) w4" using n4 db_homed quiet_homed [OF q3 home] o3(3) by metis
    show ?thesis
    proof (cases c)
      case True
      with run t1 rn x ex False inv3 show ?thesis by (auto simp: provision_create_def)
    next
      case go: False
      have step: "(if disposition \<in> {CreateNotSent, CreateNotCreated} then (Inl ProvisioningFailed, discardNotCreatedOperation o3 w4)
          else if disposition = CreateMayBeApplied \<or> err4 then
            (case cleanupUncertainCreate options o3 inst w4 of (f, w) \<Rightarrow> (Inl f, w))
          else provision_created options inst o3 w4) = (r, w')"
        using run t1 rn x ex cr False go by (simp add: provision_create_def)
      consider "disposition \<in> {CreateNotSent, CreateNotCreated}"
        | "disposition \<notin> {CreateNotSent, CreateNotCreated}" "disposition = CreateMayBeApplied \<or> err4"
        | "disposition = CreateApplied" "\<not> err4" by (cases disposition) auto
      then show ?thesis
      proof cases
        case 1
        then have "(Inl ProvisioningFailed, discardNotCreatedOperation o3 w4) = (r, w')" using step by auto
        with n4 1 show ?thesis by (auto intro: compensation_inv(5))
      next
        case 2
        then have "(case cleanupUncertainCreate options o3 inst w4 of (f, w) \<Rightarrow> (Inl f, w)) = (r, w')" using step by auto
        from cleanupUncertainCreate_inv [OF this] n4 h4 show ?thesis by auto
      next
        case 3
        then have "provision_created options inst o3 w4 = (r, w')" using step by auto
        then show ?thesis using provision_created_inv n4 h4 3 by blast
      qed
    qed
  qed
qed

section \<open>New operations\<close>

lemma new_operation_fields [simp]:
  "op_ID (new_operation input now) = oi_ID input" "op_Active (new_operation input now)"
  "op_Stage (new_operation input now) = StageReserved"
  "identity_of (new_operation input now) = (oi_InstanceID input, oi_Username input, oi_Host input)"
  "op_Username (new_operation input now) = oi_Username input" "op_InstanceID (new_operation input now) = oi_InstanceID input"
  by (simp_all add: new_operation_def identity_of_def)

lemma added_inv:
  assumes inv: "world_inv w" and n: "well_named n" "op_Active n" "op_Stage n = StageReserved" "\<not> insert_conflict n (db w)"
    and new: "db w' = (db w)\<lparr>operations := operations (db w) @ [n]\<rparr>" "upstream w' = upstream w" "script w' = script w"
  shows "world_inv w' \<and> absent (op_ID n) w'"
proof -
  have fresh: "op_ID n \<notin> op_ID ` set (operations (db w))" using n(4) by (auto simp: insert_conflict_def list_ex_iff)
  have free: "identity_of n \<notin> set (upstream w)"
  proof
    assume "identity_of n \<in> set (upstream w)"
    then obtain o2 where "o2 \<in> set (operations (db w))" "op_Active o2" "identity_of o2 = identity_of n"
      using inv by (auto simp: world_inv_def tracked_def)
    with n(4) show False by (auto simp: insert_conflict_def list_ex_iff identity_of_def)
  qed
  have "tracked w'" "backed w'" "linked w'"
    using inv new n(3) free by (auto simp: world_inv_def tracked_def backed_def linked_def must_exist_def)
  then have "world_inv w'" using inv new n(1) fresh by (simp add: world_inv_def)
  moreover have "absent (op_ID n) w'" using free fresh new by (auto simp: absent_def names_def image_iff)
  ultimately show ?thesis by simp
qed

lemma CreateOperation_inv:
  assumes run: "CreateDatabaseProvisioningOperation proof_of input w = ((o1, err), w')" and inv: "world_inv w"
  shows "world_inv w' \<and> (\<not> err \<longrightarrow> o1 \<in> set (operations (db w')) \<and> op_Active o1 \<and> op_Stage o1 = StageReserved \<and> absent (op_ID o1) w'
    \<and> op_InstanceID o1 = TrimSpace (oi_InstanceID input))"
proof (cases "\<not> input_ok (trim_input input) \<or> leaseExpiryExpression (le_Duration (oi_Lease (trim_input input))) 0 = None")
  case True
  with run inv show ?thesis by (auto simp: CreateDatabaseProvisioningOperation_def Let_def)
next
  case False
  let ?i = "trim_input input"
  obtain r e w1 where wr: "db_write (create_body proof_of ?i) None w = ((r, e), w1)" by (rule nested_pair)
  have w1: "w' = w1" and res: "\<not> err \<Longrightarrow> \<not> e \<and> r = Some o1"
    using run wr False by (auto simp: CreateDatabaseProvisioningOperation_def Let_def split: option.splits bool.splits)
  from wr show ?thesis
  proof (cases rule: db_write_cases)
    case unchanged
    with w1 res inv still_keeps show ?thesis by auto
  next
    case (changed ev v r' d)
    have v: "still w v" using changed(1) by (rule take_event_still)
    let ?n = "new_operation ?i (clock v)"
    have b: "r' = Some ?n" "d = (db w)\<lparr>operations := operations (db w) @ [?n]\<rparr>" "\<not> insert_conflict ?n (db w)"
      using changed(2) by (auto simp: create_body_def split: option.splits if_splits)
    have "well_named ?n"
      using False by (auto simp: well_named_def input_ok_def trim_input_def TrimSpace_idem new_operation_def)
    then have "world_inv w1 \<and> absent (op_ID ?n) w1"
      by (rule added_inv [OF inv]) (use b changed(3) v in \<open>simp_all add: still_def\<close>)
    moreover have "?n \<in> set (operations (db w1))" using b changed(3) by simp
    moreover have "\<not> err \<Longrightarrow> o1 = ?n" using res changed(4) b(1) by simp
    ultimately show ?thesis using w1 by (simp add: trim_input_def)
  qed
qed

lemma read_find:
  assumes "db_read (\<lambda>_ d. find (P d) (table d)) None w = ((x, err), w')"
  shows "still w w' \<and> (\<forall>y. x = Some y \<and> \<not> err \<longrightarrow> y \<in> set (table (db w')) \<and> P (db w') y)"
proof (cases err)
  case False
  then have "x = find (P (db w')) (table (db w'))" using db_read_value [of "\<lambda>_ d. find (P d) (table d)" None w x w'] assms by simp
  then show ?thesis using db_read_still [OF assms] find_SomeD2 [of "P (db w')" "table (db w')"] by auto
qed (simp add: db_read_still [OF assms])

lemma ByIdempotency_row:
  assumes "DatabaseProvisioningOperationByIdempotency actor key w = ((x, err), w')"
  shows "still w w' \<and> (\<forall>o1. x = Some o1 \<and> \<not> err \<longrightarrow> o1 \<in> set (operations (db w')) \<and> op_Active o1)"
  using read_find [OF assms [unfolded DatabaseProvisioningOperationByIdempotency_def]] by simp

lemma CreateOrGet_inv:
  assumes run: "CreateOrGetDatabaseProvisioningOperation proof_of input w = ((o1, created, err), w')" and inv: "world_inv w"
  shows "world_inv w' \<and> (err = None \<longrightarrow> o1 \<in> set (operations (db w')) \<and> op_Active o1
    \<and> (created \<longrightarrow> op_Stage o1 = StageReserved \<and> absent (op_ID o1) w' \<and> op_InstanceID o1 = TrimSpace (oi_InstanceID input)))"
proof -
  obtain x e w1 where r1: "DatabaseProvisioningOperationByIdempotency (oi_ActorID input) (oi_IdempotencyKey input) w = ((x, e), w1)"
    by (rule nested_pair)
  note n1 = ByIdempotency_row [OF r1]
  have inv1: "world_inv w1" using n1 still_keeps(1) inv by blast
  obtain o2 e2 w2 where c2: "CreateDatabaseProvisioningOperation proof_of input w1 = ((o2, e2), w2)" by (rule nested_pair)
  note n2 = CreateOperation_inv [OF c2 inv1]
  obtain y e3 w3 where r3: "DatabaseProvisioningOperationByIdempotency (oi_ActorID input) (oi_IdempotencyKey input) w2 = ((y, e3), w3)"
    by (rule nested_pair)
  note n3 = ByIdempotency_row [OF r3]
  have inv3: "world_inv w3" using n3 still_keeps(1) n2 by blast
  show ?thesis
    using run inv inv1 inv3 n1 n2 n3 r1 c2 r3
    by (auto simp: CreateOrGetDatabaseProvisioningOperation_def split: if_splits bool.splits option.splits)
qed

lemma ByOperation_row:
  assumes "ProvisionedDatabaseAccountByOperation i w = ((x, err), w')"
  shows "still w w' \<and> (\<forall>a. x = Some a \<and> \<not> err \<longrightarrow> a \<in> set (accounts (db w')) \<and> da_Active a \<and> da_OperationID a = Some (TrimSpace i))"
  using read_find [OF assms [unfolded ProvisionedDatabaseAccountByOperation_def]] by (simp add: activeDatabaseAccountScope_def)

lemma idempotent_inv:
  assumes run: "idempotentProvisioningResult o1 w = (r, w')" and inv: "world_inv w"
    and o: "o1 \<in> set (operations (db w))" "op_Active o1"
  shows "world_inv w' \<and> (\<forall>a i. r = Inr (a, i) \<longrightarrow> delivered i a w')"
proof (cases "op_Stage o1 = StageActiveManaged")
  case False
  with run inv show ?thesis by (auto simp: idempotentProvisioningResult_def split: stage.splits)
next
  case True
  obtain x e w1 where r1: "ProvisionedDatabaseAccountByOperation (op_ID o1) w = ((x, e), w1)" by (rule nested_pair)
  note n1 = ByOperation_row [OF r1]
  have w1: "w' = w1" using run r1 True by (auto simp: idempotentProvisioningResult_def split: option.splits bool.splits)
  have inv1: "world_inv w1" and d1: "db w1 = db w" using n1 still_keeps(1,3) inv by blast+
  have "TrimSpace (op_ID o1) = op_ID o1" using inv o by (auto simp: world_inv_def list_all_iff well_named_def)
  then have "delivered (op_ID o1) a w1" if "x = Some a" "\<not> e" for a
    using delivered_intro [OF inv1, of a o1] n1 that o True d1 by simp
  with run r1 True inv1 w1 show ?thesis
    by (auto simp: idempotentProvisioningResult_def split: option.splits bool.splits)
qed

lemma provision_stored_inv:
  assumes run: "provision_stored options inst o1 created err w = ((r, ok), w')" and inv: "world_inv w"
    and o: "err = None \<Longrightarrow> o1 \<in> set (operations (db w)) \<and> op_Active o1
      \<and> (created \<longrightarrow> op_Stage o1 = StageReserved \<and> absent (op_ID o1) w \<and> homed inst (op_ID o1) w)"
  shows "world_inv w' \<and> (\<forall>a i. r = Inr (a, i) \<longrightarrow> delivered i a w')"
proof (cases err)
  case (Some e)
  with run inv show ?thesis by (auto simp: provision_stored_def split: create_error.splits)
next
  case None
  show ?thesis
  proof (cases created)
    case False
    then have "idempotentProvisioningResult o1 w = (r, w')" using run None by (auto simp: provision_stored_def split: prod.splits)
    then show ?thesis using idempotent_inv inv o None by blast
  next
    case True
    obtain c w1 where cc: "context_cancelled w = (c, w1)" by fastforce
    have s1: "still w w1" using cc by (rule context_cancelled_still)
    have inv1: "world_inv w1" using still_keeps(1) [OF s1] inv by simp
    have f: "op_Stage o1 = StageReserved" "absent (op_ID o1) w1" "homed inst (op_ID o1) w1"
      using o [OF None] True quiet_absent quiet_homed still_keeps(2) [OF s1] by blast+
    show ?thesis
    proof (cases c)
      case True
      with run None \<open>created\<close> cc have "r = Inl ProvisioningFailed" "w' = discardNotCreatedOperation o1 w1"
        by (simp_all add: provision_stored_def)
      then show ?thesis using compensation_inv(5) [OF inv1, of o1] f by simp
    next
      case False
      then have "provision_create options inst o1 w1 = (r, w')"
        using run None True cc by (auto simp: provision_stored_def split: prod.splits)
      then show ?thesis using provision_create_inv inv1 f by blast
    qed
  qed
qed

lemma Admin_row:
  assumes "DatabaseProvisioningAdmin instanceID accountID w = (r, w')"
  shows "still w w' \<and> (\<forall>inst admin. r = Some (inst, admin) \<longrightarrow> in_ID inst = TrimSpace instanceID)"
proof (cases "TrimSpace instanceID = [] \<or> TrimSpace accountID = []")
  case True
  with assms show ?thesis by (auto simp: DatabaseProvisioningAdmin_def still_def)
next
  case False
  obtain x err w1 where rd: "db_read (\<lambda>_ d. lockProvisioningAdministrator instanceID accountID d) None w = ((x, err), w1)"
    by (rule nested_pair)
  have n: "still w w1" "\<And>a. x = Some a \<Longrightarrow> \<not> err \<Longrightarrow> da_InstanceID a = TrimSpace instanceID"
    using read_find [OF rd [unfolded lockProvisioningAdministrator_def]] by auto
  moreover have "w' = w1"
    using assms False rd by (auto simp: DatabaseProvisioningAdmin_def split: option.splits bool.splits)
  moreover have "in_ID inst = TrimSpace instanceID" if "r = Some (inst, admin)" for inst admin
    using assms False rd that n(2)
    by (auto simp: DatabaseProvisioningAdmin_def find_instance_def split: option.splits bool.splits dest!: find_SomeD2)
  ultimately show ?thesis by blast
qed

lemma row_homed:
  assumes "world_inv w" "o1 \<in> set (operations (db w))" "in_ID inst = op_InstanceID o1"
  shows "homed inst (op_ID o1) w"
  using row_name_only [OF assms(1,2)] assms(3) by (auto simp: homed_def identity_of_def)

lemma provision_submit_inv:
  assumes run: "provision_submit options digests inst key input w = ((r, ok), w')" and inv: "world_inv w"
    and inst: "in_ID inst = TrimSpace (oi_InstanceID input)"
  shows "world_inv w' \<and> (\<forall>a i. r = Inr (a, i) \<longrightarrow> delivered i a w')"
proof -
  obtain o1 err w6 where c1: "CreateDatabaseProvisioningOperation (pd_proof digests) input w = ((o1, err), w6)" by (rule nested_pair)
  obtain o2 created err2 w7 where c2: "CreateOrGetDatabaseProvisioningOperation (pd_proof digests) input w = ((o2, created, err2), w7)"
    by (metis surj_pair)
  note n1 = CreateOperation_inv [OF c1 inv] and n2 = CreateOrGet_inv [OF c2 inv]
  consider "provision_stored options inst o1 True (if err then Some CreateFailed else None) w6 = ((r, ok), w')"
    | "provision_stored options inst o2 created err2 w7 = ((r, ok), w')"
    using run c1 c2 by (cases "key = []") (simp_all add: provision_submit_def)
  then show ?thesis
  proof cases
    case 1
    then show ?thesis
      by (rule provision_stored_inv) (use n1 inst row_homed [of w6 o1 inst] in \<open>auto split: if_splits\<close>)
  next
    case 2
    then show ?thesis
      by (rule provision_stored_inv) (use n2 inst row_homed [of w7 o2 inst] in auto)
  qed
qed

lemma provision_audited_inv:
  assumes run: "provision_audited options digests request key requestHash inst admin w = ((r, ok), w')" and inv: "world_inv w"
    and inst: "in_ID inst = TrimSpace (pr_InstanceID request)"
  shows "world_inv w' \<and> (\<forall>a i. r = Inr (a, i) \<longrightarrow> delivered i a w')"
proof -
  obtain c w1 where c: "context_cancelled w = (c, w1)" by fastforce
  obtain e w2 where e: "take_event w1 = (e, w2)" by fastforce
  obtain t1 w3 where t1: "randomString 20 provisioningOperationAlphabet w2 = (t1, w3)" by fastforce
  obtain t2 w4 where t2: "randomString 32 provisioningPasswordAlphabet w3 = (t2, w4)" by fastforce
  obtain t3 w5 where t3: "randomString 20 provisioningOperationAlphabet w4 = (t3, w5)" by fastforce
  have st: "still w w1" "still w w2" "still w w3" "still w w4" "still w w5"
    using context_cancelled_still [OF c] take_event_still [OF e] randomString_still [OF t1] randomString_still [OF t2]
      randomString_still [OF t3] by (auto simp: still_def)
  have invs: "world_inv w1" "world_inv w2" "world_inv w3" "world_inv w4" "world_inv w5"
    using inv still_keeps(1) [OF st(1)] still_keeps(1) [OF st(2)] still_keeps(1) [OF st(3)] still_keeps(1) [OF st(4)]
      still_keeps(1) [OF st(5)] by simp_all
  have "(isl r \<and> w' \<in> {w1, w2, w3, w4, w5}) \<or> (\<exists>input. provision_submit options digests inst key input w5 = ((r, ok), w')
      \<and> oi_InstanceID input = pr_InstanceID request)"
    using run c e t1 t2 t3
    by (cases c; cases "ev_host e"; cases t1; cases t2; cases t3)
       (auto simp: provision_audited_def request_input_def split: if_splits)
  then show ?thesis using invs inst provision_submit_inv [OF _ invs(5)] by (elim disjE exE conjE) auto
qed

lemma delivered_cong: "db w' = db w \<Longrightarrow> upstream w' = upstream w \<Longrightarrow> delivered i a w' = delivered i a w"
  by (simp add: delivered_def)

lemma provision_new_inv:
  assumes run: "provision_new options digests request key requestHash w = (r, w')" and inv: "world_inv w"
  shows "world_inv w' \<and> (\<forall>a i. r = Inr (a, i) \<longrightarrow> delivered i a w')"
proof -
  obtain x w1 where a: "DatabaseProvisioningAdmin (pr_InstanceID request) (pr_AdminAccountID request) w = (x, w1)" by fastforce
  note n1 = Admin_row [OF a]
  have inv1: "world_inv w1" using n1 still_keeps(1) inv by blast
  obtain y w2 where b: "BeginDatabaseProvisioningAudit (pr_ActorID request) (pr_InstanceID request) ''provision_account'' w1 = (y, w2)"
    by fastforce
  have inv2: "world_inv w2" using audit_still(1) [OF b] still_keeps(1) inv1 by blast
  show ?thesis
  proof (cases "x = None \<or> y = None \<or> \<not> (case x of Some (inst, admin) \<Rightarrow> validateProvisioningAdministratorForNewUse inst admin (clock w1))")
    case True
    with run a b inv1 inv2 show ?thesis by (auto simp: provision_new_def split: option.splits if_splits prod.splits)
  next
    case False
    then obtain inst admin auditID where s: "x = Some (inst, admin)" "y = Some auditID" by auto
    obtain r1 ok w3 where p: "provision_audited options digests request key requestHash inst admin w2 = ((r1, ok), w3)" by (rule nested_pair)
    have n3: "world_inv w3 \<and> (\<forall>a i. r1 = Inr (a, i) \<longrightarrow> delivered i a w3)"
      using provision_audited_inv [OF p inv2] n1 s by blast
    have w': "r = r1" "w' = CompleteDatabaseProvisioningAudit auditID (if ok then ''success'' else ''failure'') w3"
      using run a b False s p by (simp_all add: provision_new_def)
    have s3: "still w3 w'" unfolding w'(2) by (rule audit_still(2))
    then show ?thesis using n3 w'(1) still_keeps(1) [OF s3] delivered_cong [of w' w3] by (simp add: still_def)
  qed
qed

lemma Provision_inv:
  assumes run: "Provision options digests request w = (r, w')" and inv: "world_inv w"
  shows "world_inv w' \<and> (\<forall>a i. r = Inr (a, i) \<longrightarrow> delivered i a w')"
proof -
  let ?request = "request\<lparr>pr_InstanceID := TrimSpace (pr_InstanceID request), pr_AdminAccountID := TrimSpace (pr_AdminAccountID request)\<rparr>"
  show ?thesis
  proof (cases "normalizeDatabaseProvisioningIdempotencyKey (pr_IdempotencyKey ?request)")
    case None
    with run inv show ?thesis by (auto simp: Provision_def Let_def)
  next
    case (Some key)
    obtain x err w1 where b: "DatabaseProvisioningOperationByIdempotency (pr_ActorID ?request) key w = ((x, err), w1)" by (rule nested_pair)
    note n1 = ByIdempotency_row [OF b]
    have inv1: "world_inv w1" using n1 still_keeps(1) inv by blast
    consider "world_inv w'" "isl r"
      | req hash where "provision_new options digests req key hash w = (r, w')"
      | req hash where "provision_new options digests req key hash w1 = (r, w')"
      | o1 where "x = Some o1" "\<not> err" "idempotentProvisioningResult o1 w1 = (r, w')"
      using run inv Some b inv1
      by (auto simp: Provision_def Let_def split: if_splits option.splits prod.splits bool.splits)
    then show ?thesis
      using inv inv1 n1 by cases (auto dest: provision_new_inv idempotent_inv)
  qed
qed

section \<open>Removal\<close>

lemma Begin_inv:
  assumes run: "BeginDatabaseDeprovision accountID l w = ((o1, managed, err), w')" and inv: "world_inv w"
  shows "world_inv w' \<and> (op_ID o1 = [] \<or> o1 \<in> set (operations (db w')))"
proof (cases "TrimSpace accountID = [] \<or> \<not> lease_ok (trim_lease l) \<or> leaseExpiryExpression (le_Duration (trim_lease l)) 0 = None")
  case True
  with run inv show ?thesis by (auto simp: BeginDatabaseDeprovision_def Let_def zero_operation_def)
next
  case False
  obtain r e w1 where wr: "db_write (begin_body (TrimSpace accountID) (trim_lease l)) (False, None) w = ((r, e), w1)" by (rule nested_pair)
  have w1: "w' = w1" and res: "o1 = zero_operation \<or> (\<not> e \<and> snd r = Some o1)"
    using run wr False by (auto simp: BeginDatabaseDeprovision_def Let_def split: option.splits bool.splits prod.splits)
  have z: "op_ID zero_operation = []" by (simp add: zero_operation_def)
  from wr show ?thesis
  proof (cases rule: db_write_cases)
    case unchanged
    with w1 res inv still_keeps z show ?thesis by auto
  next
    case (changed ev v r' d)
    have v: "still w v" using changed(1) by (rule take_event_still)
    have same: "db w1 = d" "upstream w1 = upstream w" "script w1 = script w" using changed(3) v by (simp_all add: still_def)
    show ?thesis
    proof (cases "d = db w \<and> snd r' = None")
      case True
      then have "world_inv w1" using same world_inv_cong [of w1 w] inv by simp
      with w1 res z changed(4) True show ?thesis by auto
    next
      case False
      note body = changed(2) [unfolded begin_body_def]
      obtain a where a: "find (\<lambda>a. activeDatabaseAccountScope (db w) a \<and> da_ID a = TrimSpace accountID) (accounts (db w)) = Some a"
        "\<not> (\<not> da_Managed a \<or> TrimSpace (case da_OperationID a of None \<Rightarrow> [] | Some i \<Rightarrow> i) = [])"
        using body False by (auto split: option.split_asm if_split_asm)
      note body = body [unfolded a(1) option.case if_not_P [OF a(2)]]
      obtain current where c: "find (\<lambda>o1. op_Active o1 \<and> op_ID o1 = the (da_OperationID a) \<and> op_InstanceID o1 = da_InstanceID a)
          (operations (db w)) = Some current"
        using body by (cases "find (\<lambda>o1. op_Active o1 \<and> op_ID o1 = the (da_OperationID a) \<and> op_InstanceID o1 = da_InstanceID a)
          (operations (db w))") simp_all
      note body = body [unfolded c option.case]
      let ?take = "\<lambda>o1. (apply_lease (trim_lease l) (clock v) (clock v + le_Duration (trim_lease l)) o1)
               \<lparr>op_Stage := StageDeprovisionRequested, op_CleanupStatus := CleanupNone\<rparr>"
      obtain hit d' where uw: "update_where (\<lambda>o1. provisioningFenceCondition (Fence current) o1 \<and> expiredOrUnsetLeaseCondition (clock v) o1)
          ?take (db w) = (hit, d')" by fastforce
      have cur: "current \<in> set (operations (db w))" "op_Stage current = StageActiveManaged"
        using find_SomeD2 [OF c] body by (simp_all split: if_split_asm)
      have "d = d' \<and> (snd r' = None \<or> snd r' = find_operation (op_ID current) d)"
        using body uw by (cases hit) (auto split: if_split_asm)
      then have d: "d = d'" and f: "snd r' = None \<or> snd r' = find_operation (op_ID current) d" by blast+
      have u: "d = snd (update_where (\<lambda>o1. provisioningFenceCondition (Fence current) o1 \<and> expiredOrUnsetLeaseCondition (clock v) o1)
          ?take (db w))" using uw d by simp
      have may: "may_change w o1 ((apply_lease (trim_lease l) (clock v) (clock v + le_Duration (trim_lease l)) o1)
               \<lparr>op_Stage := StageDeprovisionRequested, op_CleanupStatus := CleanupNone\<rparr>)"
        if "o1 \<in> set (operations (db w))" "op_Active o1"
          "provisioningFenceCondition (Fence current) o1 \<and> expiredOrUnsetLeaseCondition (clock v) o1" for o1
        using unchanged_may [OF inv that(1)] that(2,3) cur(2) fence_fields [of "Fence current" o1]
        by (simp add: may_change_def may_exist_def must_exist_def)
      have "world_inv w1"
        by (rule update_where_inv(1) [OF inv keeps_names_changes(5) may]) (use same u in simp_all)
      moreover have "snd r' = Some o1 \<Longrightarrow> o1 \<in> set (operations (db w1))"
        using f same find_SomeD2 [of _ "operations (db w1)" o1] unfolding find_operation_def by (metis option.distinct(1))
      ultimately show ?thesis using w1 res z changed(4) by auto
    qed
  qed
qed

lemma Complete_inv:
  assumes run: "CompleteDatabaseDeprovision f accountID w = ((completed, err), w')" and inv: "world_inv w" and gone: "absent (fe_ID f) w"
  shows "world_inv w'"
proof (cases "fe_Stage f \<noteq> StageDropStarted \<or> fe_CleanupStatus f \<noteq> CleanupInProgress")
  case True
  with run inv show ?thesis by (auto simp: CompleteDatabaseDeprovision_def)
next
  case False
  then have "db_write (complete_body f accountID) False w = ((completed, err), w')" using run by (auto simp: CompleteDatabaseDeprovision_def)
  then show ?thesis
  proof (cases rule: db_write_cases)
    case unchanged
    with inv still_keeps show ?thesis by auto
  next
    case (changed ev v r' d)
    have v: "still w v" using changed(1) by (rule take_event_still)
    have same: "db w' = d" "upstream w' = upstream w" "script w' = script w" using changed(3) v by (simp_all add: still_def)
    let ?gone = "\<lambda>b. if da_ID b = TrimSpace accountID \<and> da_Active b then b\<lparr>da_Active := False, da_Status := ''disabled''\<rparr> else b"
    let ?w = "w\<lparr>db := (db w)\<lparr>accounts := map ?gone (accounts (db w))\<rparr>\<rparr>"
    let ?cond = "\<lambda>o1. provisioningFenceCondition f o1 \<and> validLeaseCondition (clock v) o1"
    show ?thesis
    proof (cases "d = db w")
      case True
      then show ?thesis using same world_inv_cong [of w' w] inv by simp
    next
      case False
      have d: "d = snd (update_where ?cond (\<lambda>o1. o1\<lparr>op_Active := False, op_UpdatedAt := clock v\<rparr>) (db ?w))"
        using changed(2) False by (auto simp: complete_body_def update_where_def split: option.splits if_splits)
      have inv0: "world_inv ?w"
      proof -
        have "linked ?w" using inv by (fastforce simp: world_inv_def linked_def split: if_splits)
        then show ?thesis using inv by (simp add: world_inv_def tracked_def backed_def)
      qed
      have may: "may_change ?w o1 (o1\<lparr>op_Active := False, op_UpdatedAt := clock v\<rparr>)"
        if "o1 \<in> set (operations (db ?w))" "op_Active o1" "?cond o1" for o1
      proof -
        have "o1 \<in> set (operations (db w))" "op_ID o1 = fe_ID f" using that fence_fields [of f o1] by simp_all
        then have "identity_of o1 \<notin> set (upstream w)" using gone names_mem [of o1 w] unfolding absent_def by metis
        then show ?thesis by (simp add: may_change_def)
      qed
      show ?thesis
        by (rule update_where_inv(1) [OF inv0 keeps_names_changes(4) may]) (use same d in simp_all)
    qed
  qed
qed

lemma deprovision_drop_inv:
  assumes run: "deprovision_drop options accountID inst o1 w = (r, w')" and inv: "world_inv w"
    and o: "homed inst (op_ID o1) w" "op_Stage o1 = StageDropStarted"
  shows "world_inv w'"
proof -
  obtain x w1 where rn: "renewForSideEffect options o1 w = (x, w1)" by fastforce
  note n1 = renewForSideEffect_inv [OF rn inv]
  show ?thesis
  proof (cases x)
    case None
    with run rn n1 show ?thesis by (auto simp: deprovision_drop_def intro: compensation_inv)
  next
    case (Some y)
    obtain o2 deadline where x: "x = Some (o2, deadline)" using Some by (cases y) auto
    have o2: "o2 \<in> set (operations (db w1))" "op_ID o2 = op_ID o1" "op_Stage o2 = StageDropStarted" using n1 x o(2) by auto
    obtain c w2 where ex: "expired deadline w1 = (c, w2)" by fastforce
    have s2: "still w1 w2" using ex by (rule expired_still)
    have inv2: "world_inv w2" using still_keeps(1) [OF s2] n1 by simp
    have q2: "quiet w w2" using n1 still_keeps(2) [OF s2] quiet_trans by blast
    have h2: "homed inst (op_ID o2) w2" using quiet_homed [OF q2 o(1)] o2(2) by simp
    obtain err w3 where dr: "DropAccount inst o2 w2 = (err, w3)" by fastforce
    have d: "world_inv w3 \<and> db w3 = db w2 \<and> (\<not> err \<longrightarrow> absent (op_ID o2) w3)"
      using DropAccount_inv [OF dr inv2 _ _ h2] o2 s2 by (simp add: still_def must_exist_def)
    obtain fin e w4 where cm: "CompleteDatabaseDeprovision (Fence o2) accountID w3 = ((fin, e), w4)" by (rule nested_pair)
    consider "w' = deferDropUncertain o1 w2" | "w' = deferDropUncertain o2 w3"
      | "\<not> err" "w' = w4" | "\<not> err" "w' = deferDropUncertain o2 w4"
      using run rn x ex dr cm by (cases c; cases err) (auto simp: deprovision_drop_def split: if_splits)
    then show ?thesis
    proof cases
      case 1
      then show ?thesis using compensation_inv(4) [OF inv2] by simp
    next
      case 2
      then show ?thesis using compensation_inv(4) d by simp
    next
      case 3
      then show ?thesis using Complete_inv [OF cm] d by simp
    next
      case 4
      then show ?thesis using compensation_inv(4) [OF Complete_inv [OF cm]] d by simp
    qed
  qed
qed

lemma runDeprovision_inv:
  assumes run: "runDeprovision options accountID a o1 w = (r, w')" and inv: "world_inv w" and o: "o1 \<in> set (operations (db w))"
  shows "world_inv w'"
proof (cases "\<not> managedAccountMatchesOperation a o1 \<or> validateMySQLAccountHost (op_Host o1) \<noteq> None")
  case True
  with run inv show ?thesis by (auto simp: runDeprovision_def)
next
  case False
  obtain x w1 where ad: "DatabaseProvisioningAdmin (op_InstanceID o1) (op_AdminAccountID o1) w = (x, w1)" by fastforce
  note n1 = Admin_row [OF ad]
  have inv1: "world_inv w1" and d1: "db w1 = db w" using n1 still_keeps(1,3) inv by blast+
  show ?thesis
  proof (cases x)
    case None
    with run ad False inv1 show ?thesis by (auto simp: runDeprovision_def intro: compensation_inv)
  next
    case (Some y)
    obtain inst admin where x: "x = Some (inst, admin)" using Some by (cases y) auto
    have "op_InstanceID o1 = TrimSpace (op_InstanceID o1)" using inv o by (auto simp: world_inv_def list_all_iff well_named_def)
    then have h1: "homed inst (op_ID o1) w1" using row_homed [OF inv1, of o1 inst] o d1 n1 x by simp
    obtain o2 ok err w2 where t: "transitionDetached o1 (move StageDropStarted CleanupInProgress [] True False) w1 = ((o2, ok, err), w2)"
      by (metis surj_pair)
    have n2: "world_inv w2 \<and> quiet w1 w2 \<and> (ok \<longrightarrow> op_ID o2 = op_ID o1 \<and> op_Stage o2 = StageDropStarted)"
      using detached_inv [OF t inv1] by simp
    consider "w' = deferDropUncertain o1 w1" | "w' = w1" | "w' = w2"
      | "ok" "deprovision_drop options accountID inst o2 w2 = (r, w')"
      | "op_Stage o1 = StageDropStarted" "deprovision_drop options accountID inst o1 w1 = (r, w')"
      using run ad False x t by (auto simp: runDeprovision_def split: if_splits)
    then show ?thesis
    proof cases
      case 1
      then show ?thesis using compensation_inv(4) [OF inv1] by simp
    next
      case 4
      then show ?thesis using deprovision_drop_inv n2 quiet_homed h1 by metis
    next
      case 5
      then show ?thesis using deprovision_drop_inv inv1 h1 by blast
    qed (use inv1 n2 in simp_all)
  qed
qed

lemma Deprovision_inv:
  assumes run: "Deprovision options accountID w = (r, w')" and inv: "world_inv w"
  shows "world_inv w'"
proof -
  obtain c w1 where c: "context_cancelled w = (c, w1)" by fastforce
  obtain t w2 where t: "randomString 20 provisioningOperationAlphabet w1 = (t, w2)" by fastforce
  have inv12: "world_inv w1" "world_inv w2"
    using context_cancelled_still [OF c] randomString_still [OF t] still_keeps(1) inv by blast+
  show ?thesis
  proof (cases "c \<or> t = None")
    case True
    with run c t inv12 show ?thesis by (auto simp: Deprovision_def split: bool.splits option.splits)
  next
    case False
    then obtain token where tok: "\<not> c" "t = Some token" by auto
    obtain o1 managed err w3 where b: "BeginDatabaseDeprovision accountID
        \<lparr>le_Owner = so_WorkerID options, le_Token = token, le_Duration = so_LeaseDuration options\<rparr> w2 = ((o1, managed, err), w3)"
      by (metis surj_pair)
    note n3 = Begin_inv [OF b inv12(2)]
    obtain x e w4 where a: "ProvisionedDatabaseAccountByOperation (op_ID o1) w3 = ((x, e), w4)" by (rule nested_pair)
    note n4 = ByOperation_row [OF a]
    have inv4: "world_inv w4" and d4: "db w4 = db w3" using n4 still_keeps(1,3) n3 by blast+
    consider "w' = w3" | "w' = w4" | y where "x = Some y" "managedAccountMatchesOperation y o1" "runDeprovision options accountID y o1 w4 = (r, w')"
      using run c t tok b a by (auto simp: Deprovision_def split: if_splits option.splits bool.splits)
    then show ?thesis
    proof cases
      case 3
      then have "op_ID o1 \<noteq> []"
        by (auto simp: managedAccountMatchesOperation_def operationOwnsUpstreamIdentity_def trim_prefix_def Let_def)
      with 3 n3 inv4 d4 show ?thesis using runDeprovision_inv by simp
    qed (use n3 inv4 in simp_all)
  qed
qed

end
