(* ===== verification/Provision_System.thy ===== *)
theory Provision_System
  imports Provision_Facts
begin

text \<open>
  The provisioning service as a system: the reconciler keeps the invariant, a step relation of the
  service's calls with the invariant of its reachable worlds, and what the calls deliver.
\<close>

section \<open>Reconciliation\<close>

lemma reconcileDeprovision_inv:
  assumes run: "reconcileDeprovision options o1 w = (r, w')" and inv: "world_inv w" and o: "o1 \<in> set (operations (db w))"
  shows "world_inv w'"
proof -
  obtain x e w1 where a: "ProvisionedDatabaseAccountByOperation (op_ID o1) w = ((x, e), w1)" by (rule nested_pair)
  note n = ByOperation_row [OF a]
  have inv1: "world_inv w1" and o1: "o1 \<in> set (operations (db w1))" using n still_keeps(1,3) inv o by metis+
  consider "w' = w1" | y s where "runDeprovision options (da_ID y) y o1 w1 = (s, w')"
    using run a by (cases x; cases e) (auto simp: reconcileDeprovision_def split: if_splits prod.splits)
  then show ?thesis using inv1 o1 by cases (auto intro: runDeprovision_inv)
qed

lemma claim_inv:
  assumes run: "claimForReconcile options c w = ((o1, ok, err), w')" and inv: "world_inv w"
  shows "world_inv w' \<and> quiet w w' \<and> (ok \<longrightarrow> o1 \<in> set (operations (db w')) \<and> op_Active o1 \<and> op_ID o1 = op_ID c \<and> op_Stage o1 = op_Stage c)"
proof -
  obtain t w1 where t: "randomString 20 provisioningOperationAlphabet w = (t, w1)" by fastforce
  have s: "still w w1" using t by (rule randomString_still)
  show ?thesis
  proof (cases t)
    case None
    with run t s still_keeps inv show ?thesis by (auto simp: claimForReconcile_def)
  next
    case (Some token)
    let ?l = "\<lparr>le_Owner = so_WorkerID options, le_Token = token, le_Duration = so_LeaseDuration options\<rparr>"
    obtain o2 window ok2 err2 w2 where c: "ClaimDatabaseProvisioningOperation (Fence c) ?l w1 = ((o2, window, ok2, err2), w2)"
      by (metis surj_pair)
    have n: "world_inv w2 \<and> quiet w1 w2 \<and> (ok2 \<longrightarrow> o2 \<in> set (operations (db w2)) \<and> op_Active o2 \<and> op_ID o2 = op_ID c \<and> op_Stage o2 = op_Stage c)"
      using lease_inv [of "Fence c" _ True w1 o2 window ok2 err2 w2] c still_keeps(1) [OF s] inv
      by (auto simp: ClaimDatabaseProvisioningOperation_def Let_def split: if_splits)
    show ?thesis
      using run t Some c n quiet_trans [OF still_keeps(2) [OF s]] by (auto simp: claimForReconcile_def split: if_splits)
  qed
qed

lemma finalize_inv:
  assumes run: "finalizeNotCreatedOperation o1 reason w = ((ok, err), w')" and inv: "world_inv w"
    and gone: "absent (op_ID o1) w \<or> op_Stage o1 = StageReserved"
  shows "world_inv w' \<and> quiet w w'"
proof -
  obtain o2 ok2 err2 w1 where t: "TransitionDatabaseProvisioningOperation (Fence o1) (move StageNotCreated CleanupNone reason False True) w
      = ((o2, ok2, err2), w1)" by (metis surj_pair)
  have "transition_allowed (Fence o1) StageNotCreated w" using gone by auto
  with transition_inv [OF t inv] run t show ?thesis by (simp add: finalizeNotCreatedOperation_def)
qed

lemma reconcile_drop_inv:
  assumes run: "reconcile_drop options inst auditID o1 w = (r, w')" and inv: "world_inv w" and home: "homed inst (op_ID o1) w"
  shows "world_inv w'"
proof -
  let ?close = "\<lambda>result w. CompleteDatabaseProvisioningAudit auditID result w"
  have keep: "world_inv (?close result v) = world_inv v" for result v using still_keeps(1) [OF audit_still(2)] .
  obtain o2 ok err w1 where t: "transitionDetached o1 (move StageCleanupInProgress CleanupInProgress (op_LastError o1) True False) w
      = ((o2, ok, err), w1)" by (metis surj_pair)
  have n1: "world_inv w1 \<and> quiet w w1 \<and> (ok \<longrightarrow> op_ID o2 = op_ID o1 \<and> op_Stage o2 = StageCleanupInProgress)"
    using detached_inv [OF t inv] by simp
  obtain x w2 where rn: "renewForSideEffect options o2 w1 = (x, w2)" by fastforce
  have n2: "world_inv w2 \<and> quiet w1 w2" using renewForSideEffect_inv [OF rn] n1 by blast
  show ?thesis
  proof (cases "err \<or> \<not> ok \<or> x = None")
    case True
    with run t rn n1 n2 keep show ?thesis by (auto simp: reconcile_drop_def split: if_splits)
  next
    case False
    then obtain o3 deadline where ok: "\<not> err" "ok" and x: "x = Some (o3, deadline)" by auto
    have o3: "o3 \<in> set (operations (db w2))" "op_ID o3 = op_ID o1" "op_Stage o3 = StageCleanupInProgress"
      using renewForSideEffect_inv [OF rn] n1 ok x by auto
    obtain c w3 where ex: "expired deadline w2 = (c, w3)" by fastforce
    have s3: "still w2 w3" using ex by (rule expired_still)
    have inv3: "world_inv w3" using still_keeps(1) [OF s3] n2 by simp
    have q3: "quiet w w3" using n1 n2 still_keeps(2) [OF s3] quiet_trans by metis
    have h3: "homed inst (op_ID o3) w3" using quiet_homed [OF q3 home] o3(2) by simp
    obtain e w4 where dr: "DropAccount inst o3 w3 = (e, w4)" by fastforce
    have d: "world_inv w4 \<and> db w4 = db w3 \<and> (\<not> e \<longrightarrow> absent (op_ID o3) w4)"
      using DropAccount_inv [OF dr inv3 _ _ h3] o3 s3 by (simp add: still_def must_exist_def)
    obtain fin e5 w5 where f: "finalizeNotCreatedOperation o3 (op_LastError o3) (?close ''success'' w4) = ((fin, e5), w5)" by (rule nested_pair)
    have n5: "world_inv w5" if "\<not> e"
      using finalize_inv [OF f] d that keep quiet_absent [OF still_keeps(2) [OF audit_still(2)]] by blast
    consider "w' = ?close ''failure'' w3" | "w' = persistCleanupFailure o3 (?close ''failure'' w4)"
      | "\<not> e" "w' = persistCleanupFailure o3 w5" | "\<not> e" "w' = w5"
      using run t rn ok x ex dr f by (cases c; cases e) (auto simp: reconcile_drop_def split: if_splits)
    then show ?thesis
    proof cases
      case 2
      then show ?thesis using compensation_inv(1) keep d by simp
    next
      case 3
      then show ?thesis using compensation_inv(1) n5 by simp
    qed (use inv3 n5 keep in simp_all)
  qed
qed

lemma reconcileCleanup_inv:
  assumes run: "reconcileCleanup options o1 w = (r, w')" and inv: "world_inv w" and o: "o1 \<in> set (operations (db w))"
  shows "world_inv w'"
proof (cases "operationOwnsUpstreamIdentity o1")
  case False
  with run inv show ?thesis by (auto simp: reconcileCleanup_def intro: compensation_inv)
next
  case True
  obtain x w1 where ad: "DatabaseProvisioningAdmin (op_InstanceID o1) (op_AdminAccountID o1) w = (x, w1)" by fastforce
  note n1 = Admin_row [OF ad]
  have inv1: "world_inv w1" and d1: "db w1 = db w" using n1 still_keeps(1,3) inv by blast+
  show ?thesis
  proof (cases "\<exists>inst admin. x = Some (inst, admin) \<and> validateProvisioningAdministratorForRecovery inst admin")
    case False
    then have "w' = persistCleanupFailure o1 w1"
      using run ad \<open>operationOwnsUpstreamIdentity o1\<close> by (auto simp: reconcileCleanup_def split: option.splits prod.splits if_splits)
    then show ?thesis using compensation_inv(1) [OF inv1] by simp
  next
    case True
    then obtain inst admin where x: "x = Some (inst, admin)" "validateProvisioningAdministratorForRecovery inst admin" by blast
    obtain i w2 where b: "BeginDatabaseProvisioningAudit ''system'' (op_InstanceID o1) ''reconcile_cleanup'' w1 = (i, w2)" by fastforce
    have s2: "still w1 w2" using b by (rule audit_still)
    have inv2: "world_inv w2" and d2: "db w2 = db w" using still_keeps [OF s2] inv1 d1 by simp_all
    have "op_InstanceID o1 = TrimSpace (op_InstanceID o1)" using inv o by (auto simp: world_inv_def list_all_iff well_named_def)
    then have h2: "homed inst (op_ID o1) w2" using row_homed [OF inv2, of o1 inst] o d2 n1 x by simp
    show ?thesis
      using run ad \<open>operationOwnsUpstreamIdentity o1\<close> x b inv2 h2 reconcile_drop_inv compensation_inv(1) [OF inv2]
      by (cases i) (auto simp: reconcileCleanup_def)
  qed
qed

lemma reconcile_claimed_inv:
  assumes run: "reconcile_claimed options o1 r w = (r', w')" and inv: "world_inv w" and o: "o1 \<in> set (operations (db w))"
  shows "world_inv w'"
proof -
  obtain fin e w1 where f: "finalizeNotCreatedOperation o1 [] w = ((fin, e), w1)" by (rule nested_pair)
  obtain x w2 where a: "activateDetached o1 w = (x, w2)" by fastforce
  have n2: "world_inv w2" using a activate_attempts_inv [of 2 o1 w] inv by (simp add: activateDetached_def)
  obtain y w3 where d: "reconcileDeprovision options o1 w = (y, w3)" by fastforce
  obtain z w4 where c: "reconcileCleanup options o1 w = (z, w4)" by fastforce
  have n: "world_inv w3" "world_inv w4" using reconcileDeprovision_inv [OF d inv o] reconcileCleanup_inv [OF c inv o] .
  consider "op_Stage o1 = StageReserved" "w' = w1" | "w' = w2" | "w' = releaseActivationForReconcile o1 w2" | "w' = w3" | "w' = w" | "w' = w4"
    using run f a d c by (auto simp: reconcile_claimed_def split: if_splits option.splits)
  then show ?thesis
  proof cases
    case 1
    then show ?thesis using finalize_inv [OF f inv] by simp
  next
    case 3
    then show ?thesis using compensation_inv(3) [OF n2] by simp
  qed (use inv n2 n in simp_all)
qed

lemma reconcile_loop_inv:
  "reconcile_loop options os r w = (x, w') \<Longrightarrow> world_inv w \<Longrightarrow> world_inv w'"
proof (induction os arbitrary: r w)
  case (Cons c os)
  obtain stop w1 where c: "context_cancelled w = (stop, w1)" by fastforce
  have inv1: "world_inv w1" using still_keeps(1) [OF context_cancelled_still [OF c]] Cons.prems(2) by simp
  obtain o1 ok err w2 where cl: "claimForReconcile options c w1 = ((o1, ok, err), w2)" by (metis surj_pair)
  note n2 = claim_inv [OF cl inv1]
  obtain r3 w3 where rc: "reconcile_claimed options o1 (r\<lparr>rr_Claimed := rr_Claimed r + 1\<rparr>) w2 = (r3, w3)" by fastforce
  have n3: "ok \<Longrightarrow> world_inv w3" using reconcile_claimed_inv [OF rc] n2 by blast
  show ?case
    using Cons.prems(1) c cl rc inv1 n2 n3 Cons.IH by (cases stop) (auto split: if_splits)
qed simp

lemma Reconcile_inv:
  assumes run: "Reconcile options limit w = (x, w')" and inv: "world_inv w"
  shows "world_inv w'"
proof -
  obtain c w1 where l: "ListExecutableDatabaseProvisioningOperations (so_ReconcileStaleAfter options) limit w = (c, w1)" by fastforce
  have "still w w1"
    using l by (auto simp: ListExecutableDatabaseProvisioningOperations_def still_def split: if_splits prod.splits bool.splits
        dest!: db_read_still)
  then have "world_inv w1" using still_keeps(1) inv by blast
  then show ?thesis using run l by (cases c) (auto simp: Reconcile_def dest: reconcile_loop_inv)
qed

lemma ListDatabases_inv:
  assumes run: "ListDatabases request w = (r, w')" and inv: "world_inv w"
  shows "world_inv w'"
proof -
  obtain x w1 where ad: "DatabaseProvisioningAdmin (TrimSpace (lr_InstanceID request)) (TrimSpace (lr_AdminAccountID request)) w = (x, w1)"
    by fastforce
  obtain i w2 where b: "BeginDatabaseProvisioningAudit (lr_ActorID request) (TrimSpace (lr_InstanceID request)) ''list_databases'' w1 = (i, w2)"
    by fastforce
  obtain e w3 where t: "take_event w2 = (e, w3)" by fastforce
  have 1: "world_inv w1" using still_keeps(1) Admin_row [OF ad] inv by blast
  then have 2: "world_inv w2" using still_keeps(1) [OF audit_still(1) [OF b]] by simp
  then have "world_inv w3" using still_keeps(1) [OF take_event_still [OF t]] by simp
  then have 3: "world_inv (CompleteDatabaseProvisioningAudit j result w3)" for j result
    using still_keeps(1) [OF audit_still(2)] by blast
  show ?thesis
    using run ad b t 1 2 3 by (cases x; cases i) (auto simp: ListDatabases_def Let_def split: if_splits)
qed

lemma reconcile_rounds_inv: "world_inv w \<Longrightarrow> world_inv (reconcile_rounds options batchSize rounds w)"
proof (induction rounds arbitrary: w)
  case (Suc n)
  obtain x w1 where r: "Reconcile options batchSize w = (x, w1)" by fastforce
  with Suc.IH [of w1] Reconcile_inv [OF r Suc.prems] show ?case by simp
qed simp

lemma RunReconciler_inv:
  assumes "RunReconciler options interval batchSize ticks w = (ok, w')" "world_inv w"
  shows "world_inv w'"
  using assms reconcile_rounds_inv [of w options batchSize "Suc ticks"] by (simp add: RunReconciler_def split: if_splits)

section \<open>The system\<close>

text \<open>Calls of the service follow each other in any order, with any request, options and script of
  events, and the clock may advance between them.  At the start nothing was provisioned.\<close>

inductive saga_step :: "world \<Rightarrow> world \<Rightarrow> bool" where
  provision: "Provision options digests request w = (r, w') \<Longrightarrow> saga_step w w'"
| deprovision: "Deprovision options accountID w = (e, w') \<Longrightarrow> saga_step w w'"
| reconcile: "Reconcile options limit w = (x, w') \<Longrightarrow> saga_step w w'"
| reconciler: "RunReconciler options interval batchSize ticks w = (ok, w') \<Longrightarrow> saga_step w w'"
| databases: "ListDatabases listing w = (ds, w') \<Longrightarrow> saga_step w w'"
| wait: "saga_step w (w\<lparr>clock := clock w + int n\<rparr>)"

definition saga_init :: "world \<Rightarrow> bool" where
  "saga_init w \<longleftrightarrow> operations (db w) = [] \<and> upstream w = [] \<and> (\<forall>a \<in> set (accounts (db w)). da_OperationID a = None)
     \<and> (\<forall>n. honest_event (script w n))"

interpretation saga: guarded_system saga_init saga_step world_inv
proof unfold_locales
  fix w assume "saga_init w"
  then show "world_inv w" by (auto simp: saga_init_def world_inv_def tracked_def backed_def linked_def)
next
  fix w w' assume inv: "world_inv w" and "saga_step w w'"
  from this(2) show "world_inv w'"
  proof cases
    case (wait n)
    then show ?thesis using world_inv_cong [of w' w] inv by simp
  qed (use inv in \<open>auto dest: Provision_inv Deprovision_inv Reconcile_inv RunReconciler_inv ListDatabases_inv\<close>)
qed


section \<open>What the service guarantees\<close>


text \<open>A world before anything was provisioned: one instance with its administrator, and a script in
  which every call works and takes a nanosecond.\<close>

definition sample_event :: event where
  "sample_event = \<lparr>ev_elapsed = 1, ev_fate = Works, ev_delay = 0, ev_cancelled = False, ev_draws = (\<lambda>_. Some 0),
     ev_fresh = (\<lambda>n. replicate n CHR ''f''), ev_seq = 7, ev_host = Some ''10.0.0.5'', ev_databases = Some [''shop''], ev_create = (CreateApplied, False, True),
     ev_grantFails = False, ev_drop = (False, True)\<rparr>"

definition sample_administrator :: db_account where
  "sample_administrator = \<lparr>da_ID = ''acc1'', da_InstanceID = ''db1'', da_UniqueName = ''root'', da_Username = ''root'', da_Password = ''pw'',
     da_Group = [], da_Remark = [], da_ExpiresAt = None, da_Status = ''active'', da_Managed = False, da_UpstreamHost = [],
     da_ResourceSeq = 1, da_OperationID = None, da_Active = True\<rparr>"

definition sample_world :: world where
  "sample_world = \<lparr>db = \<lparr>operations = [], accounts = [sample_administrator],
       instances = [\<lparr>in_ID = ''db1'', in_Status = ''active'', in_Protocol = ''mysql'', in_Active = True\<rparr>]\<rparr>,
     upstream = [], audits = [], clock = 0, script = (\<lambda>_. sample_event), position = 0\<rparr>"

definition sample_options :: service_options where
  "sample_options = NewDatabaseProvisioningService
     \<lparr>so_CleanupTimeout = 0, so_LeaseDuration = 0, so_ReconcileStaleAfter = 0, so_WorkerID = []\<rparr>"

definition sample_digests :: provision_digests where
  "sample_digests = \<lparr>pd_proof = (\<lambda>_. replicate 64 CHR ''a''), pd_hash = (\<lambda>_. replicate 64 CHR ''b''), pd_json = (\<lambda>_. ''[]'')\<rparr>"

definition sample_request :: provision_request where
  "sample_request = \<lparr>pr_InstanceID = ''db1'', pr_AdminAccountID = ''acc1'', pr_Grants = [\<lparr>Database = ''shop'', Privilege = ''read''\<rparr>],
     pr_Group = [], pr_Remark = [], pr_ExpiresAt = None, pr_ActorID = ''alice'', pr_IdempotencyKey = ''0123456789abcdef''\<rparr>"

lemma sample_init: "saga_init sample_world"
  by (simp add: saga_init_def sample_world_def sample_administrator_def honest_event_def sample_event_def)

definition sample_run :: "provision_result \<times> world" where
  "sample_run = Provision sample_options sample_digests sample_request sample_world"

lemma sample_run_succeeds: "\<not> isl (fst sample_run)"
  by code_simp



section \<open>Fences\<close>












section \<open>Options and deadlines\<close>



section \<open>A key is used once\<close>

lemma provision_replay:
  assumes run: "Provision options digests request w = (r, w')"
    and key: "normalizeDatabaseProvisioningIdempotencyKey (pr_IdempotencyKey request) = Some key" "key \<noteq> []"
    and used: "o1 \<in> set (operations (db w))" "op_Active o1" "op_ActorID o1 = TrimSpace (pr_ActorID request)"
      "op_IdempotencyKey o1 = Some (TrimSpace key)"
  shows "db w' = db w \<and> upstream w' = upstream w \<and> audits w' = audits w
    \<and> (\<forall>a i. r = Inr (a, i) \<longrightarrow> a \<in> set (accounts (db w)) \<and> da_OperationID a = Some (TrimSpace i))"
proof -
  let ?request = "request\<lparr>pr_InstanceID := TrimSpace (pr_InstanceID request), pr_AdminAccountID := TrimSpace (pr_AdminAccountID request)\<rparr>"
  let ?here = "\<lambda>o1. op_Active o1 \<and> op_ActorID o1 = TrimSpace (pr_ActorID request) \<and> op_IdempotencyKey o1 = Some (TrimSpace key)"
  obtain x err w1 where b: "DatabaseProvisioningOperationByIdempotency (pr_ActorID ?request) key w = ((x, err), w1)" by (rule nested_pair)
  have s1: "db w1 = db w" "upstream w1 = upstream w" "audits w1 = audits w"
    and hit: "err \<or> (\<exists>o2. x = Some o2)"
    using b used find_None_iff [of ?here "operations (db w)"]
    by (auto simp: DatabaseProvisioningOperationByIdempotency_def db_read_def take_event_def Let_def split: if_splits)
  show ?thesis
  proof (cases "err \<or> canonicalProvisioningRequestHash digests ?request = None")
    case True
    with run key b s1 show ?thesis by (auto simp: Provision_def Let_def split: option.splits)
  next
    case False
    then obtain o2 h where o2: "\<not> err" "x = Some o2" and h: "canonicalProvisioningRequestHash digests ?request = Some h" using hit by auto
    obtain a e w2 where acc: "ProvisionedDatabaseAccountByOperation (op_ID o2) w1 = ((a, e), w2)" by (rule nested_pair)
    have s2: "db w2 = db w1" "upstream w2 = upstream w1" "audits w2 = audits w1"
      using acc by (auto simp: ProvisionedDatabaseAccountByOperation_def db_read_def take_event_def Let_def split: if_splits)
    have row: "\<forall>y. a = Some y \<and> \<not> e \<longrightarrow> y \<in> set (accounts (db w)) \<and> da_OperationID y = Some (TrimSpace (op_ID o2))"
      using ByOperation_row [OF acc] s1 s2 by simp
    consider "isl r" "w' = w1" | "idempotentProvisioningResult o2 w1 = (r, w')"
      using run key b o2 h by (cases h) (auto simp: Provision_def Let_def split: if_splits)
    then show ?thesis
    proof cases
      case 2
      then show ?thesis using s1 s2 row acc
        by (cases "op_Stage o2"; cases a; cases e) (auto simp: idempotentProvisioningResult_def)
    qed (use s1 in auto)
  qed
qed


section \<open>Properties\<close>



text \<open>C13. A successful provisioning delivers: the returned account is an active row linked to the
  returned operation, that operation is active and managed, and the account exists on the server
  under the name and host of the row.\<close>

theorem provision_delivers:
  assumes "saga_init w" "saga_step\<^sup>*\<^sup>* w w1" "Provision options digests request w1 = (Inr (a, i), w')"
  shows "a \<in> set (accounts (db w')) \<and> da_Active a \<and> da_OperationID a = Some i
     \<and> (\<exists>o1 \<in> set (operations (db w')). op_ID o1 = i \<and> op_Active o1 \<and> op_Stage o1 = StageActiveManaged)
     \<and> (da_InstanceID a, da_Username a, da_UpstreamHost a) \<in> set (upstream w')"
  using Provision_inv [OF assms(3) saga.reachable_inv [OF assms(1,2)]] by (simp add: delivered_def)

theorem provision_delivers_witness:
  "\<exists>a i w'. Provision sample_options sample_digests sample_request sample_world = (Inr (a, i), w')
     \<and> a \<in> set (accounts (db w')) \<and> (da_InstanceID a, da_Username a, da_UpstreamHost a) \<in> set (upstream w')"
proof -
  obtain a i w' where run: "Provision sample_options sample_digests sample_request sample_world = (Inr (a, i), w')"
    using sample_run_succeeds by (cases sample_run; cases "fst sample_run") (auto simp: sample_run_def)
  from provision_delivers [OF sample_init rtranclp.rtrancl_refl run] run show ?thesis by blast
qed


definition sample_operation :: operation where
  "sample_operation = zero_operation\<lparr>op_ID := ''jmo_'' @ replicate 20 CHR ''a'', op_Username := ''jm_'' @ replicate 20 CHR ''a'',
     op_InstanceID := ''db1'', op_Host := ''10.0.0.5'', op_Stage := StageReserved, op_CleanupStatus := CleanupNone, op_Revision := 1,
     op_LeaseOwner := ''w'', op_LeaseToken := ''t'', op_LeaseExpiresAt := Some 100, op_Active := True,
     op_ActorID := ''alice'', op_IdempotencyKey := Some ''0123456789abcdef''\<rparr>"

definition sample_stored :: world where
  "sample_stored = sample_world\<lparr>db := (db sample_world)\<lparr>operations := [sample_operation]\<rparr>\<rparr>"

lemma sample_stored_inv: "world_inv sample_stored"
proof -
  have "well_named sample_operation" by code_simp
  then show ?thesis
    by (simp add: world_inv_def tracked_def backed_def linked_def sample_stored_def sample_world_def sample_administrator_def
        honest_event_def sample_event_def sample_operation_def must_exist_def)
qed


text \<open>C15. A side effect on a server runs inside the lease: when the renewal before it succeeds, the
  row carries the renewed lease, and the deadline of the context in which the effect runs lies ahead
  and strictly before the lease expires.\<close>

theorem side_effect_within_lease:
  assumes "renewForSideEffect options o1 w = (Some (o2, deadline), w')" "world_inv w"
  shows "o2 \<in> set (operations (db w')) \<and> op_Active o2 \<and> op_ID o2 = op_ID o1 \<and> op_Stage o2 = op_Stage o1
    \<and> (\<exists>t. op_LeaseExpiresAt o2 = Some t \<and> clock w' < deadline \<and> deadline < t)"
  using renewForSideEffect_inv [OF assms] by blast

theorem side_effect_within_lease_witness:
  "\<exists>o2 deadline w' t. renewForSideEffect sample_options sample_operation sample_stored = (Some (o2, deadline), w')
     \<and> op_LeaseExpiresAt o2 = Some t \<and> clock w' < deadline \<and> deadline < t"
proof -
  have "fst (renewForSideEffect sample_options sample_operation sample_stored) \<noteq> None" by code_simp
  then obtain o2 deadline w' where run: "renewForSideEffect sample_options sample_operation sample_stored = (Some (o2, deadline), w')"
    by (metis surj_pair fst_conv option.exhaust)
  from side_effect_within_lease [OF run sample_stored_inv] run show ?thesis by blast
qed



text \<open>C17. An idempotency key is used once: a request whose actor and key already have an active
  operation changes neither the stored rows nor the servers nor the audit log, and if it answers with
  an account, that account is a stored one.\<close>

theorem provision_idempotent:
  assumes "Provision options digests request w = (r, w')"
    and "normalizeDatabaseProvisioningIdempotencyKey (pr_IdempotencyKey request) = Some key" "key \<noteq> []"
    and "o1 \<in> set (operations (db w))" "op_Active o1" "op_ActorID o1 = TrimSpace (pr_ActorID request)"
      "op_IdempotencyKey o1 = Some (TrimSpace key)"
  shows "db w' = db w \<and> upstream w' = upstream w \<and> audits w' = audits w
    \<and> (\<forall>a i. r = Inr (a, i) \<longrightarrow> a \<in> set (accounts (db w)) \<and> da_OperationID a = Some (TrimSpace i))"
  using provision_replay [OF assms] .

theorem provision_idempotent_witness:
  "db (snd (Provision sample_options sample_digests sample_request sample_stored)) = db sample_stored
   \<and> upstream (snd (Provision sample_options sample_digests sample_request sample_stored)) = []"
proof -
  have "normalizeDatabaseProvisioningIdempotencyKey (pr_IdempotencyKey sample_request) = Some ''0123456789abcdef''"
    "op_ActorID sample_operation = TrimSpace (pr_ActorID sample_request)"
    "op_IdempotencyKey sample_operation = Some (TrimSpace ''0123456789abcdef'')" by code_simp+
  from provision_idempotent [OF prod.collapse [symmetric] this(1) _ _ _ this(2,3)] show ?thesis
    by (simp add: sample_stored_def sample_operation_def sample_world_def)
qed

end
