(* ===== verification/Utf8.thy ===== *)
theory Utf8
  imports Prelude
begin

text \<open>
  UTF-8 as Go's \<open>unicode/utf8\<close> sees it.  A code point is represented by its encoding;
  \<open>rune_len s\<close> is the number of bytes of the encoding that \<open>s\<close> starts with, and 0 when \<open>s\<close> is empty
  or starts with an invalid sequence (overlong forms, surrogates, values above U+10FFFF, stray or
  missing continuation bytes), for which Go reports \<open>RuneError\<close> with width 1.
\<close>

definition in_range :: "nat \<Rightarrow> nat \<Rightarrow> byte \<Rightarrow> bool" where
  "in_range lo hi c \<longleftrightarrow> lo \<le> byte_val c \<and> byte_val c \<le> hi"

definition rune_len :: "bytes \<Rightarrow> nat" where
  "rune_len s =
     (case s of [] \<Rightarrow> 0
      | a # s1 \<Rightarrow>
        if byte_val a < 0x80 then 1
        else (case s1 of [] \<Rightarrow> 0
          | b # s2 \<Rightarrow>
            if in_range 0xC2 0xDF a then (if in_range 0x80 0xBF b then 2 else 0)
            else (case s2 of [] \<Rightarrow> 0
              | c # s3 \<Rightarrow>
                if in_range 0xE0 0xEF a then
                  (if in_range (if byte_val a = 0xE0 then 0xA0 else 0x80) (if byte_val a = 0xED then 0x9F else 0xBF) b
                      \<and> in_range 0x80 0xBF c then 3 else 0)
                else (case s3 of [] \<Rightarrow> 0
                  | d # s4 \<Rightarrow>
                    if in_range 0xF0 0xF4 a then
                      (if in_range (if byte_val a = 0xF0 then 0x90 else 0x80) (if byte_val a = 0xF4 then 0x8F else 0xBF) b
                          \<and> in_range 0x80 0xBF c \<and> in_range 0x80 0xBF d then 4 else 0)
                    else 0))))"

lemma rune_len_le: "rune_len s \<le> length s"
  by (auto simp: rune_len_def split: list.splits)

lemma rune_len_take: "rune_len s \<noteq> 0 \<Longrightarrow> rune_len (take (rune_len s) s @ t) = rune_len s"
proof -
  assume nz: "rune_len s \<noteq> 0"
  then obtain a s1 where s: "s = a # s1" by (cases s) (simp_all add: rune_len_def)
  show ?thesis
  proof (cases "byte_val a < 0x80")
    case True
    with s show ?thesis by (simp add: rune_len_def)
  next
    case a: False
    with nz s obtain b s2 where s1: "s1 = b # s2" by (cases s1) (simp_all add: rune_len_def)
    show ?thesis
    proof (cases "in_range 0xC2 0xDF a")
      case True
      with nz a s s1 show ?thesis by (simp add: rune_len_def split: if_splits)
    next
      case b: False
      with a nz s s1 obtain c s3 where s2: "s2 = c # s3" by (cases s2) (simp_all add: rune_len_def)
      show ?thesis
      proof (cases "in_range 0xE0 0xEF a")
        case True
        with nz a b s s1 s2 show ?thesis by (simp add: rune_len_def split: if_splits)
      next
        case c: False
        with a b nz s s1 s2 obtain d s4 where "s3 = d # s4" by (cases s3) (simp_all add: rune_len_def)
        with nz a b c s s1 s2 show ?thesis by (simp add: rune_len_def split: if_splits)
      qed
    qed
  qed
qed

lemma rune_len_append: "rune_len s \<noteq> 0 \<Longrightarrow> rune_len (s @ t) = rune_len s"
  using rune_len_take [of s "drop (rune_len s) s @ t"] by (metis append_assoc append_take_drop_id)

text \<open>\<open>runes s\<close> is the list of the code points of a valid text, \<open>None\<close> for an invalid one:
  \<open>utf8.Valid\<close> and \<open>utf8.RuneCount\<close> in one function.\<close>

function runes :: "bytes \<Rightarrow> bytes list option" where
  "runes s =
     (if s = [] then Some []
      else if rune_len s = 0 then None
      else map_option ((#) (take (rune_len s) s)) (runes (drop (rune_len s) s)))"
  by pat_completeness auto
termination
  by (relation "measure length") auto

declare runes.simps [simp del]

definition utf8_valid :: "bytes \<Rightarrow> bool" where
  "utf8_valid s \<longleftrightarrow> runes s \<noteq> None"

definition rune_count :: "bytes \<Rightarrow> nat" where
  "rune_count s = length (the (runes s))"

lemma runes_Nil [simp]: "runes [] = Some []"
  by (simp add: runes.simps)

lemma concat_runes: "runes s = Some rs \<Longrightarrow> concat rs = s"
proof (induction s arbitrary: rs rule: runes.induct)
  case (1 s)
  show ?case
  proof (cases "s = []")
    case True
    with "1.prems" show ?thesis by simp
  next
    case False
    with "1.prems" obtain rs' where "rune_len s \<noteq> 0" "rs = take (rune_len s) s # rs'"
        "runes (drop (rune_len s) s) = Some rs'"
      by (auto simp: runes.simps [of s] split: if_splits)
    with 1 False show ?thesis by simp
  qed
qed

lemma utf8_valid_Nil [simp]: "utf8_valid []"
  by (simp add: utf8_valid_def)

end
