(* ===== verification/Redis_Wire.thy ===== *)
theory Redis_Wire
  imports Go_Encoding Go_Text Utf8
begin

text \<open>
  The Redis protocol as the gateway reads and writes it (\<open>internal/server/dbproxy/redis_resp_number.go\<close>,
  \<open>redis.go\<close>, \<open>redis_hello.go\<close> and \<open>redis_observer_resp.go\<close>).

  A reader takes the bytes the peer still delivers and returns what is left of them.  Whether
  \<open>strconv.ParseFloat\<close> accepts a text is a parameter.
\<close>

section \<open>Numbers\<close>

definition MaxInt64 :: int where "MaxInt64 = 9223372036854775807"

fun unsigned_loop :: "int \<Rightarrow> int \<Rightarrow> bytes \<Rightarrow> int option" where
  "unsigned_loop maximum v [] = Some v"
| "unsigned_loop maximum v (digit # ds) =
     (if \<not> is_digit digit then None
      else let number = int (byte_val digit) - 48 in
        if v > (MaxInt64 - number) div 10 then None
        else let v = v * 10 + number in
          if v > maximum then None else unsigned_loop maximum v ds)"

definition parseCanonicalRESPUnsigned :: "bytes \<Rightarrow> int \<Rightarrow> int option" where
  "parseCanonicalRESPUnsigned s maximum =
     (if s = [] \<or> (length s > 1 \<and> s ! 0 = CHR ''0'') then None else unsigned_loop maximum 0 s)"

definition parseCanonicalRESPNumber :: "bytes \<Rightarrow> int option" where
  "parseCanonicalRESPNumber s = parseCanonicalRESPUnsigned s MaxInt64"

definition parseCanonicalRESPNullable :: "bytes \<Rightarrow> int \<Rightarrow> int option" where
  "parseCanonicalRESPNullable s maximum =
     (if s = ''-1'' then Some (- 1) else parseCanonicalRESPUnsigned s maximum)"

definition parseCanonicalRESPNullableNumber :: "bytes \<Rightarrow> int option" where
  "parseCanonicalRESPNullableNumber s = parseCanonicalRESPNullable s MaxInt64"

section \<open>Commands of a client that logs in\<close>

definition maxRESPAuthLineBytes :: nat where "maxRESPAuthLineBytes = 1024"
definition maxRESPAuthArguments :: int where "maxRESPAuthArguments = 16"
definition maxRESPAuthBulkBytes :: int where "maxRESPAuthBulkBytes = 16 * 1024"
definition maxRESPAuthCommandLen :: int where "maxRESPAuthCommandLen = 64 * 1024"

datatype resp_error =
    RespEOF
  | LineLimit
  | LineTerminator
  | FirstLine
  | ExpectedArray
  | ArrayLength
  | ExpectedBulk
  | BulkLength
  | CommandLimit
  | BulkTerminator

fun auth_line :: "bytes \<Rightarrow> bytes \<Rightarrow> (resp_error + bytes) \<times> bytes" where
  "auth_line line [] = (Inl (if length line \<ge> maxRESPAuthLineBytes then LineLimit else RespEOF), [])"
| "auth_line line (b # rest) =
     (if length line \<ge> maxRESPAuthLineBytes then (Inl LineLimit, b # rest)
      else if line \<noteq> [] \<and> last line = CR \<and> b \<noteq> LF then (Inl LineTerminator, rest)
      else let line = line @ [b] in
        if b = LF then
          (if length line < 2 \<or> line ! (length line - 2) \<noteq> CR then (Inl LineTerminator, rest)
           else (Inr (take (length line - 2) line), rest))
        else auth_line line rest)"

definition readRESPAuthLine :: "bytes \<Rightarrow> (resp_error + bytes) \<times> bytes" where
  "readRESPAuthLine input = auth_line [] input"

definition readRESPLine :: "bytes \<Rightarrow> (resp_error + bytes) \<times> bytes" where
  "readRESPLine input = readRESPAuthLine input"

text \<open>The arguments of a command: the list of arguments, the raw bytes, and what is left.\<close>

fun auth_args :: "nat \<Rightarrow> int \<Rightarrow> bytes \<Rightarrow> bytes \<Rightarrow> (resp_error + string list \<times> bytes) \<times> bytes" where
  "auth_args 0 total_len raw_bytes input = (Inr ([], raw_bytes), input)"
| "auth_args (Suc n) total_len raw_bytes input =
     (case readRESPAuthLine input of
        (Inl e, input) \<Rightarrow> (Inl e, input)
      | (Inr argLine, input) \<Rightarrow>
          if argLine = [] \<or> argLine ! 0 \<noteq> CHR ''$'' then (Inl ExpectedBulk, input)
          else
          (case parseCanonicalRESPUnsigned (drop 1 argLine) maxRESPAuthBulkBytes of
             None \<Rightarrow> (Inl BulkLength, input)
           | Some argLen \<Rightarrow>
               if total_len > maxRESPAuthCommandLen - int (length argLine) - argLen - 4 then (Inl CommandLimit, input)
               else
               (case read_full (nat argLen + 2) input of
                  None \<Rightarrow> (Inl RespEOF, [])
                | Some (argValue, input) \<Rightarrow>
                    if argValue ! nat argLen \<noteq> CR \<or> argValue ! (nat argLen + 1) \<noteq> LF then (Inl BulkTerminator, input)
                    else
                    (case auth_args n (total_len + int (length argLine) + argLen + 4)
                            (raw_bytes @ argLine @ [CR, LF] @ argValue) input of
                       (Inl e, input) \<Rightarrow> (Inl e, input)
                     | (Inr (args, raw_bytes), input) \<Rightarrow> (Inr (take (nat argLen) argValue # args, raw_bytes), input)))))"

text \<open>The result: the command's name, its arguments and its raw bytes.\<close>

definition readRESPAuthCommand ::
    "bytes \<Rightarrow> bool \<Rightarrow> bytes \<Rightarrow> (resp_error + string \<times> string list \<times> bytes) \<times> bytes" where
  "readRESPAuthCommand firstLine includeRaw input =
     (if firstLine = [] \<or> firstLine ! 0 \<noteq> CHR ''*'' then (Inl ExpectedArray, input)
      else
      (case parseCanonicalRESPUnsigned (drop 1 firstLine) maxRESPAuthArguments of
         None \<Rightarrow> (Inl ArrayLength, input)
       | Some countValue \<Rightarrow>
           if countValue \<le> 0 then (Inl ArrayLength, input)
           else
           (case auth_args (nat countValue) (int (length firstLine) + 2) (firstLine @ [CR, LF]) input of
              (Inl e, input) \<Rightarrow> (Inl e, input)
            | (Inr (args, raw_bytes), input) \<Rightarrow>
                (Inr (ToUpper (args ! 0), args, if includeRaw then raw_bytes else []), input))))"

definition readRESPCommand :: "bytes \<Rightarrow> (resp_error + string \<times> string list \<times> bytes) \<times> bytes" where
  "readRESPCommand input =
     (case readRESPAuthLine input of
        (Inl e, input) \<Rightarrow> (Inl e, input)
      | (Inr line, input) \<Rightarrow> readRESPAuthCommand line True input)"

fun first_line :: "bytes \<Rightarrow> bytes \<Rightarrow> (resp_error + bytes) \<times> bytes" where
  "first_line line [] = (Inl (if length line \<ge> maxRESPAuthLineBytes then LineLimit else RespEOF), [])"
| "first_line line (b # rest) =
     (if length line \<ge> maxRESPAuthLineBytes then (Inl LineLimit, b # rest)
      else if b = LF then (Inr (line @ [b]), rest) else first_line (line @ [b]) rest)"

definition readRESPCommandFromBuf :: "bytes \<Rightarrow> byte \<Rightarrow> (resp_error + string \<times> string list \<times> bytes) \<times> bytes" where
  "readRESPCommandFromBuf input firstByte =
     (case first_line [firstByte] input of
        (Inl e, input) \<Rightarrow> (Inl e, input)
      | (Inr line, input) \<Rightarrow>
          if length line < 3 \<or> line ! (length line - 2) \<noteq> CR then (Inl FirstLine, input)
          else readRESPAuthCommand (take (length line - 2) line) False input)"

definition encodeRedisCommand :: "string list \<Rightarrow> bytes" where
  "encodeRedisCommand parts =
     ''*'' @ itoa (length parts) @ [CR, LF]
     @ concat (map (\<lambda>part. ''$'' @ itoa (length part) @ [CR, LF] @ part @ [CR, LF]) parts)"

section \<open>The first command\<close>

record redisInitialAuthentication =
  ia_username :: string
  ia_password :: string
  ia_helloVersion :: nat
  ia_clientName :: string

datatype redisInitialAuthenticationError =
    InitialInvalid
  | InitialRequired
  | InitialUnsupportedProtocol

function hello_loop ::
    "string list \<Rightarrow> redisInitialAuthentication \<Rightarrow> bool \<Rightarrow> bool \<Rightarrow>
     redisInitialAuthenticationError + redisInitialAuthentication \<times> bool" where
  "hello_loop args request seenAuth seenSetName =
     (if args = [] then Inr (request, seenAuth)
      else if ToUpper (args ! 0) = ''AUTH'' then
        (if seenAuth \<or> 2 \<ge> length args then Inl InitialInvalid
         else hello_loop (drop 3 args) (request\<lparr>ia_username := args ! 1, ia_password := args ! 2\<rparr>) True seenSetName)
      else if ToUpper (args ! 0) = ''SETNAME'' then
        (if seenSetName \<or> 1 \<ge> length args \<or> args ! 1 = [] then Inl InitialInvalid
         else hello_loop (drop 2 args) (request\<lparr>ia_clientName := args ! 1\<rparr>) seenAuth True)
      else Inl InitialInvalid)"
  by pat_completeness auto
termination
  by (relation "measure (\<lambda>(args, request, seenAuth, seenSetName). length args)") auto

declare hello_loop.simps [simp del]

definition parseRedisInitialHello :: "string list \<Rightarrow> redisInitialAuthenticationError + redisInitialAuthentication" where
  "parseRedisInitialHello args =
     (if length args < 2 \<or> (args ! 1 \<noteq> ''2'' \<and> args ! 1 \<noteq> ''3'') then Inl InitialUnsupportedProtocol
      else
      (case hello_loop (drop 2 args)
              \<lparr>ia_username = [], ia_password = [], ia_helloVersion = byte_val (args ! 1 ! 0) - 48, ia_clientName = []\<rparr> False False of
         Inl e \<Rightarrow> Inl e
       | Inr (request, seenAuth) \<Rightarrow> if \<not> seenAuth then Inl InitialRequired else Inr request))"

definition parseRedisInitialAuthentication ::
    "string \<Rightarrow> string list \<Rightarrow> redisInitialAuthenticationError + redisInitialAuthentication" where
  "parseRedisInitialAuthentication command args =
     (if command = ''AUTH'' then
        (if length args \<noteq> 3 then Inl InitialInvalid
         else Inr \<lparr>ia_username = args ! 1, ia_password = args ! 2, ia_helloVersion = 0, ia_clientName = []\<rparr>)
      else if command = ''HELLO'' then parseRedisInitialHello args
      else Inl InitialRequired)"

section \<open>Frames of a server\<close>

definition maxRedisObserverBufferBytes :: nat where "maxRedisObserverBufferBytes = 64 * 1024"
definition maxRedisObserverArrayElements :: int where "maxRedisObserverArrayElements = 4096"
definition maxRedisObserverNestingDepth :: nat where "maxRedisObserverNestingDepth = 32"
definition maxRedisObserverLineBytes :: nat where "maxRedisObserverLineBytes = 1024"

datatype redisRESPStatus = RespIncomplete | RespMalformed | RespLimitExceeded

text \<open>A length is a number, or the status that is not \<open>redisRESPComplete\<close>.\<close>

fun line_end :: "bytes \<Rightarrow> nat \<Rightarrow> redisRESPStatus + nat" where
  "line_end [] index = Inl RespIncomplete"
| "line_end (v # rest) index =
     (if v = CR then
        (if index > maxRedisObserverLineBytes then Inl RespLimitExceeded
         else case rest of [] \<Rightarrow> Inl RespIncomplete | n # _ \<Rightarrow> if n \<noteq> LF then Inl RespMalformed else Inr index)
      else if v = LF then Inl RespMalformed
      else if index \<ge> maxRedisObserverLineBytes then Inl RespLimitExceeded
      else line_end rest (Suc index))"

definition redisRESPLineEnd :: "bytes \<Rightarrow> redisRESPStatus + nat" where
  "redisRESPLineEnd s = line_end s 0"

definition redisRESPAggregateElementCount :: "byte \<Rightarrow> int \<Rightarrow> int option" where
  "redisRESPAggregateElementCount p count =
     (if count < 0 then None
      else if p \<in> set ''*~>'' then Some count
      else if p = CHR ''%'' then (if count > maxRedisObserverArrayElements div 2 then None else Some (count * 2))
      else if p = CHR ''|'' then (if count > (maxRedisObserverArrayElements - 1) div 2 then None else Some (count * 2 + 1))
      else None)"

definition validRedisRESPBigNumber :: "bytes \<Rightarrow> bool" where
  "validRedisRESPBigNumber v =
     (let ds = (if v \<noteq> [] \<and> (v ! 0 = CHR ''-'' \<or> v ! 0 = CHR ''+'') then drop 1 v else v) in
      ds \<noteq> [] \<and> list_all is_digit ds)"

definition validRedisRESPDouble :: "(string \<Rightarrow> bool) \<Rightarrow> bytes \<Rightarrow> bool" where
  "validRedisRESPDouble parse_float v \<longleftrightarrow>
     ToLower v \<in> {''inf'', ''+inf'', ''-inf'', ''nan''} \<or> parse_float v"

definition redisRESPBulkLength :: "bytes \<Rightarrow> byte \<Rightarrow> redisRESPStatus + nat" where
  "redisRESPBulkLength s p =
     (case redisRESPLineEnd s of Inl e \<Rightarrow> Inl e
      | Inr lineEnd \<Rightarrow>
        (case (if p = CHR ''$'' then parseCanonicalRESPNullableNumber (drop 1 (take lineEnd s))
               else parseCanonicalRESPNumber (drop 1 (take lineEnd s))) of
           None \<Rightarrow> Inl RespMalformed
         | Some valueLength \<Rightarrow>
             let headerLength = lineEnd + 2 in
             if valueLength = -1 then Inr headerLength
             else if valueLength > int maxRedisObserverBufferBytes - int headerLength - 2 then Inl RespLimitExceeded
             else let len = headerLength + nat valueLength + 2 in
               if length s < len then Inl RespIncomplete
               else if s ! (len - 2) \<noteq> CR \<or> s ! (len - 1) \<noteq> LF then Inl RespMalformed
               else if p = CHR ''='' \<and> (valueLength < 4 \<or> s ! (headerLength + 3) \<noteq> CHR '':'') then Inl RespMalformed
               else Inr len))"

text \<open>The loop over the elements of an aggregate; \<open>value_length\<close> gives the length of one element.\<close>

fun items_loop :: "(bytes \<Rightarrow> redisRESPStatus + nat) \<Rightarrow> nat \<Rightarrow> nat \<Rightarrow> bytes \<Rightarrow> redisRESPStatus + nat" where
  "items_loop value_length 0 position s = Inr position"
| "items_loop value_length (Suc n) position s =
     (case value_length (drop position s) of Inl e \<Rightarrow> Inl e
      | Inr len \<Rightarrow>
          if position + len > maxRedisObserverBufferBytes then Inl RespLimitExceeded
          else items_loop value_length n (position + len) s)"

definition redisRESPAggregateLength :: "(bytes \<Rightarrow> redisRESPStatus + nat) \<Rightarrow> bytes \<Rightarrow> redisRESPStatus + nat" where
  "redisRESPAggregateLength value_length s =
     (case redisRESPLineEnd s of Inl e \<Rightarrow> Inl e
      | Inr lineEnd \<Rightarrow>
        (case parseCanonicalRESPNullableNumber (drop 1 (take lineEnd s)) of None \<Rightarrow> Inl RespMalformed
         | Some count \<Rightarrow>
             let position = lineEnd + 2 in
             if count = -1 then (if s ! 0 \<noteq> CHR ''*'' then Inl RespMalformed else Inr position)
             else
             (case redisRESPAggregateElementCount (s ! 0) count of None \<Rightarrow> Inl RespLimitExceeded
              | Some elementCount \<Rightarrow>
                  if elementCount > maxRedisObserverArrayElements then Inl RespLimitExceeded
                  else items_loop value_length (nat elementCount) position s)))"

text \<open>The first argument is how many levels of nesting are left: 33 less the depth.\<close>

fun value_length :: "(string \<Rightarrow> bool) \<Rightarrow> nat \<Rightarrow> bytes \<Rightarrow> redisRESPStatus + nat" where
  "value_length parse_float 0 s = (if s = [] then Inl RespIncomplete else Inl RespLimitExceeded)"
| "value_length parse_float (Suc levels) s =
     (if s = [] then Inl RespIncomplete
      else let p = s ! 0 in
      if p \<in> set ''+-'' then map_sum id (\<lambda>i. i + 2) (redisRESPLineEnd s)
      else if p = CHR '':'' then
        (case redisRESPLineEnd s of Inl e \<Rightarrow> Inl e
         | Inr lineEnd \<Rightarrow> if Atoi (drop 1 (take lineEnd s)) = None then Inl RespMalformed else Inr (lineEnd + 2))
      else if p = CHR ''_'' then
        (if length s < 3 then Inl RespIncomplete
         else if s ! 1 \<noteq> CR \<or> s ! 2 \<noteq> LF then Inl RespMalformed else Inr 3)
      else if p = CHR ''#'' then
        (if length s < 4 then Inl RespIncomplete
         else if s ! 1 \<notin> set ''tf'' \<or> s ! 2 \<noteq> CR \<or> s ! 3 \<noteq> LF then Inl RespMalformed else Inr 4)
      else if p \<in> set '',('' then
        (case redisRESPLineEnd s of Inl e \<Rightarrow> Inl e
         | Inr lineEnd \<Rightarrow>
             if p = CHR '','' then
               (if \<not> validRedisRESPDouble parse_float (drop 1 (take lineEnd s)) then Inl RespMalformed else Inr (lineEnd + 2))
             else if \<not> validRedisRESPBigNumber (drop 1 (take lineEnd s)) then Inl RespMalformed
             else Inr (lineEnd + 2))
      else if p \<in> set ''$!='' then redisRESPBulkLength s p
      else if p \<in> set ''*~>%|'' then redisRESPAggregateLength (value_length parse_float levels) s
      else Inl RespMalformed)"

definition redisRESPValueLength :: "(string \<Rightarrow> bool) \<Rightarrow> bytes \<Rightarrow> nat \<Rightarrow> redisRESPStatus + nat" where
  "redisRESPValueLength parse_float s depth = value_length parse_float (maxRedisObserverNestingDepth + 1 - depth) s"

definition redisRESPFrameLength :: "(string \<Rightarrow> bool) \<Rightarrow> bytes \<Rightarrow> redisRESPStatus + nat" where
  "redisRESPFrameLength parse_float s =
     (case redisRESPValueLength parse_float s 0 of Inl e \<Rightarrow> Inl e
      | Inr len \<Rightarrow> if len > maxRedisObserverBufferBytes then Inl RespLimitExceeded else Inr len)"

datatype handshake_error = HandshakeEOF | HandshakeMalformed | HandshakeLimit

fun handshake_loop :: "(string \<Rightarrow> bool) \<Rightarrow> bytes \<Rightarrow> bytes \<Rightarrow> (handshake_error + bytes) \<times> bytes" where
  "handshake_loop parse_float frame [] =
     (Inl (if length frame > maxRedisObserverBufferBytes then HandshakeLimit else HandshakeEOF), [])"
| "handshake_loop parse_float frame (b # rest) =
     (if length frame > maxRedisObserverBufferBytes then (Inl HandshakeLimit, b # rest)
      else let frame = frame @ [b] in
        case redisRESPFrameLength parse_float frame of
          Inr _ \<Rightarrow> (Inr frame, rest)
        | Inl RespMalformed \<Rightarrow> (Inl HandshakeMalformed, rest)
        | Inl RespLimitExceeded \<Rightarrow> (Inl HandshakeLimit, rest)
        | Inl RespIncomplete \<Rightarrow> handshake_loop parse_float frame rest)"

definition readRedisHandshakeFrame :: "(string \<Rightarrow> bool) \<Rightarrow> bytes \<Rightarrow> (handshake_error + bytes) \<times> bytes" where
  "readRedisHandshakeFrame parse_float input = handshake_loop parse_float [] input"

section \<open>Facts about numbers\<close>

lemma digit_range: "is_digit d \<Longrightarrow> 0 \<le> int (byte_val d) - 48 \<and> int (byte_val d) - 48 \<le> 9"
  by (simp add: is_digit_def)

text \<open>The overflow guard is exact.\<close>

lemma overflow_guard:
  fixes v number :: int
  shows "v > (MaxInt64 - number) div 10 \<longleftrightarrow> v * 10 + number > MaxInt64"
  unfolding MaxInt64_def by linarith

definition dec_from :: "int \<Rightarrow> bytes \<Rightarrow> int" where
  "dec_from v ds = foldl (\<lambda>v d. v * 10 + (int (byte_val d) - 48)) v ds"

lemma dec_from_simps [simp]: "dec_from v [] = v" "dec_from v (d # ds) = dec_from (v * 10 + (int (byte_val d) - 48)) ds"
  by (simp_all add: dec_from_def)

lemma dec_from_ge: "list_all is_digit ds \<Longrightarrow> 0 \<le> v \<Longrightarrow> v \<le> dec_from v ds"
proof (induction ds arbitrary: v)
  case (Cons d ds)
  have "0 \<le> int (byte_val d) - 48" using Cons.prems digit_range [of d] by simp
  then show ?case using Cons.IH [of "v * 10 + (int (byte_val d) - 48)"] Cons.prems by simp
qed simp

lemma unsigned_loop_exact:
  assumes "0 \<le> v" "v \<le> maximum" "maximum \<le> MaxInt64"
  shows "unsigned_loop maximum v ds = (if list_all is_digit ds \<and> dec_from v ds \<le> maximum then Some (dec_from v ds) else None)"
  using assms
proof (induction ds arbitrary: v)
  case (Cons d ds)
  let ?v = "v * 10 + (int (byte_val d) - 48)"
  show ?case
  proof (cases "is_digit d \<and> ?v \<le> maximum")
    case True
    then have "0 \<le> ?v" using Cons.prems digit_range [of d] by simp
    with True Cons.IH [of ?v] Cons.prems show ?thesis
      using overflow_guard [of "int (byte_val d) - 48" v] by (simp add: Let_def)
  next
    case False
    have "\<not> (list_all is_digit (d # ds) \<and> dec_from v (d # ds) \<le> maximum)"
    proof
      assume a: "list_all is_digit (d # ds) \<and> dec_from v (d # ds) \<le> maximum"
      then have "?v \<le> dec_from v (d # ds)" using dec_from_ge [of ds ?v] Cons.prems digit_range [of d] by simp
      with a False show False by simp
    qed
    with False show ?thesis by (auto simp: Let_def)
  qed
qed simp

lemma dec_from_dec_val: "list_all is_digit ds \<Longrightarrow> dec_from 0 ds = int (dec_val ds)"
proof (induction ds rule: rev_induct)
  case (snoc d ds)
  then have "48 \<le> byte_val d" by (simp add: is_digit_def)
  with snoc show ?case by (simp add: dec_from_def int_ops of_nat_diff)
qed simp

lemma canonical_itoa:
  "ds \<noteq> [] \<Longrightarrow> list_all is_digit ds \<Longrightarrow> \<not> (length ds > 1 \<and> ds ! 0 = CHR ''0'') \<Longrightarrow> itoa (dec_val ds) = ds"
proof (induction ds rule: rev_induct)
  case (snoc d ds)
  obtain n where d: "d = byte_of (48 + n)" "n < 10" "byte_val d = 48 + n"
  proof
    show "d = byte_of (48 + (byte_val d - 48))" "byte_val d - 48 < 10" "byte_val d = 48 + (byte_val d - 48)"
      using snoc.prems by (auto simp: is_digit_def)
  qed
  show ?case
  proof (cases "ds = []")
    case True
    with d show ?thesis by (simp add: itoa.simps dec_val_def)
  next
    case False
    have ih: "itoa (dec_val ds) = ds"
      using snoc False by (auto simp: nth_append)
    have "dec_val ds \<noteq> 0"
    proof
      assume "dec_val ds = 0"
      then have "ds = [byte_of 48]" using ih by (simp add: itoa.simps)
      moreover have "byte_of 48 = CHR ''0''" by code_simp
      ultimately show False using snoc.prems by simp
    qed
    then show ?thesis using d ih by (simp add: itoa.simps [of "dec_val ds * 10 + n"])
  qed
qed simp

lemma resp_number:
  assumes "0 \<le> maximum" "maximum \<le> MaxInt64"
  shows "parseCanonicalRESPUnsigned s maximum = Some v \<longleftrightarrow> 0 \<le> v \<and> v \<le> maximum \<and> s = itoa (nat v)"
proof
  assume "parseCanonicalRESPUnsigned s maximum = Some v"
  then have s: "s \<noteq> []" "\<not> (length s > 1 \<and> s ! 0 = CHR ''0'')" "unsigned_loop maximum 0 s = Some v"
    by (auto simp: parseCanonicalRESPUnsigned_def split: if_splits)
  then have "list_all is_digit s" "v = int (dec_val s)" "v \<le> maximum"
    using unsigned_loop_exact [of 0 maximum s] assms dec_from_dec_val by (auto split: if_splits)
  with canonical_itoa s show "0 \<le> v \<and> v \<le> maximum \<and> s = itoa (nat v)" by simp
next
  assume r: "0 \<le> v \<and> v \<le> maximum \<and> s = itoa (nat v)"
  have d: "list_all is_digit (itoa (nat v))" using itoa_digits by (simp add: list_all_iff)
  have "\<not> (length s > 1 \<and> s ! 0 = CHR ''0'')" using r itoa_canonical [of "nat v"] by (simp add: hd_conv_nth)
  then show "parseCanonicalRESPUnsigned s maximum = Some v"
    using r d unsigned_loop_exact [of 0 maximum s] assms dec_from_dec_val [OF d]
    by (simp add: parseCanonicalRESPUnsigned_def)
qed

section \<open>Facts about commands\<close>

lemma itoa_no_newline: "CR \<notin> set (itoa n)" "LF \<notin> set (itoa n)"
  using itoa_digits [of n] by (auto simp: is_digit_def)

lemma auth_line_text:
  assumes "CR \<notin> set t" "LF \<notin> set t" "length line + length t + 2 \<le> maxRESPAuthLineBytes" "line = [] \<or> last line \<noteq> CR"
  shows "auth_line line (t @ CR # LF # rest) = (Inr (line @ t), rest)"
  using assms
proof (induction t arbitrary: line)
  case Nil
  then show ?case by (auto simp: Let_def nth_append)
next
  case (Cons b t)
  then have "auth_line (line @ [b]) (t @ CR # LF # rest) = (Inr ((line @ [b]) @ t), rest)" by (intro Cons.IH) auto
  with Cons.prems show ?case by (auto simp: Let_def)
qed

lemma readRESPAuthLine_text:
  "CR \<notin> set t \<Longrightarrow> LF \<notin> set t \<Longrightarrow> length t + 2 \<le> maxRESPAuthLineBytes \<Longrightarrow>
   readRESPAuthLine (t @ CR # LF # rest) = (Inr t, rest)"
  unfolding readRESPAuthLine_def using auth_line_text [of t "[]"] by simp

lemma number_line:
  assumes "c \<noteq> CR" "c \<noteq> LF" "n < 10 ^ 6"
  shows "readRESPAuthLine (c # itoa n @ CR # LF # rest) = (Inr (c # itoa n), rest)"
  using readRESPAuthLine_text [of "c # itoa n" rest] itoa_no_newline [of n] length_itoa [OF assms(3)] assms
  by (simp add: maxRESPAuthLineBytes_def)

definition part_bytes :: "string \<Rightarrow> bytes" where
  "part_bytes part = ''$'' @ itoa (length part) @ [CR, LF] @ part @ [CR, LF]"

lemma auth_args_parts:
  assumes "\<forall>p \<in> set parts. length p \<le> 16384"
    and "total_len + int (length (concat (map part_bytes parts))) \<le> maxRESPAuthCommandLen" 
  shows "auth_args (length parts) total_len raw_bytes (concat (map part_bytes parts) @ rest)
    = (Inr (parts, raw_bytes @ concat (map part_bytes parts)), rest)"
  using assms
proof (induction parts arbitrary: total_len raw_bytes)
  case (Cons p parts)
  let ?more = "concat (map part_bytes parts) @ rest"
  let ?line = "CHR ''$'' # itoa (length p)"
  have line: "readRESPAuthLine (part_bytes p @ ?more) = (Inr ?line, p @ CR # LF # ?more)"
    using number_line [of "CHR ''$''" "length p" "p @ CR # LF # ?more"] Cons.prems(1) by (simp add: part_bytes_def)
  have num: "parseCanonicalRESPUnsigned (itoa (length p)) maxRESPAuthBulkBytes = Some (int (length p))"
    using resp_number [of maxRESPAuthBulkBytes] Cons.prems(1) by (simp add: maxRESPAuthBulkBytes_def MaxInt64_def)
  have rd: "read_full (length p + 2) (p @ CR # LF # ?more) = Some (p @ [CR, LF], ?more)"
    by (simp add: read_full_def)
  have pb: "part_bytes p = ?line @ [CR, LF] @ p @ [CR, LF]" by (simp add: part_bytes_def)
  have rec: "auth_args (length parts) (total_len + int (length ?line) + int (length p) + 4)
      (raw_bytes @ ?line @ [CR, LF] @ p @ [CR, LF]) ?more
      = (Inr (parts, (raw_bytes @ part_bytes p) @ concat (map part_bytes parts)), rest)"
    unfolding pb [symmetric] using Cons.prems by (intro Cons.IH) (auto simp: part_bytes_def)
  have room: "\<not> total_len > maxRESPAuthCommandLen - int (length ?line) - int (length p) - 4"
    using Cons.prems(2) by (simp add: part_bytes_def)
  have "auth_args (Suc (length parts)) total_len raw_bytes (part_bytes p @ ?more)
      = (Inr (p # parts, (raw_bytes @ part_bytes p) @ concat (map part_bytes parts)), rest)"
    unfolding auth_args.simps line using num rd rec room by (simp add: nth_append)
  then show ?case by simp
qed simp

definition command_fits :: "string list \<Rightarrow> bool" where
  "command_fits parts \<longleftrightarrow> parts \<noteq> [] \<and> length parts \<le> 16 \<and> (\<forall>p \<in> set parts. length p \<le> 16384)
     \<and> length (encodeRedisCommand parts) \<le> 65536"

lemma encode_parts: "encodeRedisCommand parts = ''*'' @ itoa (length parts) @ [CR, LF] @ concat (map part_bytes parts)"
  by (simp add: encodeRedisCommand_def part_bytes_def [abs_def])

lemma read_command:
  assumes "command_fits parts"
  shows "readRESPAuthCommand (CHR ''*'' # itoa (length parts)) includeRaw (concat (map part_bytes parts) @ rest)
    = (Inr (ToUpper (parts ! 0), parts, if includeRaw then encodeRedisCommand parts else []), rest)"
proof -
  have num: "parseCanonicalRESPUnsigned (itoa (length parts)) maxRESPAuthArguments = Some (int (length parts))"
    using resp_number [of maxRESPAuthArguments] assms by (simp add: command_fits_def maxRESPAuthArguments_def MaxInt64_def)
  have "auth_args (length parts) (int (length (CHR ''*'' # itoa (length parts))) + 2) ((CHR ''*'' # itoa (length parts)) @ [CR, LF])
      (concat (map part_bytes parts) @ rest)
    = (Inr (parts, ((CHR ''*'' # itoa (length parts)) @ [CR, LF]) @ concat (map part_bytes parts)), rest)"
    using assms by (intro auth_args_parts) (auto simp: command_fits_def encode_parts maxRESPAuthCommandLen_def)
  with num assms show ?thesis
    by (simp add: readRESPAuthCommand_def command_fits_def encode_parts)
qed

lemma readRESPCommand_encode:
  assumes "command_fits parts"
  shows "readRESPCommand (encodeRedisCommand parts @ rest) = (Inr (ToUpper (parts ! 0), parts, encodeRedisCommand parts), rest)"
proof -
  have "length parts < 10 ^ 6" using assms by (simp add: command_fits_def)
  then show ?thesis
    using number_line [of "CHR ''*''" "length parts" "concat (map part_bytes parts) @ rest"] read_command [OF assms, of True rest]
    by (simp add: readRESPCommand_def encode_parts)
qed

lemma first_line_text:
  "LF \<notin> set t \<Longrightarrow> length line + length t < maxRESPAuthLineBytes \<Longrightarrow>
   first_line line (t @ LF # rest) = (Inr (line @ t @ [LF]), rest)"
  by (induction t arbitrary: line) auto

lemma readRESPCommandFromBuf_encode:
  assumes "command_fits parts"
  shows "readRESPCommandFromBuf (tl (encodeRedisCommand parts) @ rest) (CHR ''*'') = (Inr (ToUpper (parts ! 0), parts, []), rest)"
proof -
  let ?n = "itoa (length parts)"
  have "length parts < 10 ^ 6" using assms by (simp add: command_fits_def)
  then have len: "length ?n \<le> 6" using length_itoa [of "length parts" 6] by simp
  have "first_line (''*'') ((?n @ [CR]) @ LF # concat (map part_bytes parts) @ rest)
      = (Inr (''*'' @ (?n @ [CR]) @ [LF]), concat (map part_bytes parts) @ rest)"
    using itoa_no_newline(2) [of "length parts"] len by (intro first_line_text) (auto simp: maxRESPAuthLineBytes_def)
  then show ?thesis
    using read_command [OF assms, of False rest]
    by (simp add: readRESPCommandFromBuf_def encode_parts nth_append)
qed

section \<open>Facts about frames\<close>

text \<open>A length function is self-delimiting when the bytes it counts decide its answer: it never looks
  further, and what follows does not change it.\<close>

definition self_delimiting :: "(bytes \<Rightarrow> redisRESPStatus + nat) \<Rightarrow> bool" where
  "self_delimiting f \<longleftrightarrow> (\<forall>s n t. f s = Inr n \<longrightarrow> 0 < n \<and> n \<le> length s \<and> f (take n s @ t) = Inr n)"

lemma self_delimitingD:
  assumes "self_delimiting f" "f s = Inr n"
  shows "0 < n" "n \<le> length s" "f (take n s @ t) = Inr n"
  using assms unfolding self_delimiting_def by blast+

lemma line_end_bounds:
  "line_end s i = Inr k \<Longrightarrow> i \<le> k \<and> k + 2 \<le> i + length s \<and> (\<forall>m t. k + 2 \<le> i + m \<longrightarrow> line_end (take m s @ t) i = Inr k)"
proof (induction s i rule: line_end.induct)
  case (2 v rest i)
  show ?case
  proof (cases "v = CR")
    case True
    then obtain r where r: "rest = LF # r" and k: "k = i" "\<not> i > maxRedisObserverLineBytes"
      using "2.prems" by (auto split: if_splits list.splits)
    have "line_end (take m (v # rest) @ t) i = Inr k" if m: "k + 2 \<le> i + m" for m t
    proof -
      obtain j where "m = Suc (Suc j)" using m k by (metis add_2_eq_Suc add_le_cancel_left le_Suc_ex plus_nat.simps(2))
      with True r k show ?thesis by simp
    qed
    with True r k show ?thesis by simp
  next
    case False
    with "2.prems" have f: "v \<noteq> LF" "\<not> i \<ge> maxRedisObserverLineBytes" and rec: "line_end rest (Suc i) = Inr k"
      by (auto split: if_splits)
    note ih = "2.IH" [OF False f rec]
    have "line_end (take m (v # rest) @ t) i = Inr k" if m: "k + 2 \<le> i + m" for m t
    proof -
      obtain j where j: "m = Suc j" using m ih by (cases m) auto
      have "line_end (take j rest @ t) (Suc i) = Inr k" using ih m j by simp
      with False f j show ?thesis by simp
    qed
    with ih show ?thesis by simp
  qed
qed simp

lemma lineEnd_stable:
  assumes "redisRESPLineEnd s = Inr k"
  shows "k + 2 \<le> length s" "k + 2 \<le> n \<Longrightarrow> redisRESPLineEnd (take n s @ t) = Inr k"
    "k + 2 \<le> n \<Longrightarrow> take k (take n s @ t) = take k s"
  using line_end_bounds [OF assms [unfolded redisRESPLineEnd_def]] by (auto simp: redisRESPLineEnd_def min_def)

lemma take_nth_same: "i < n \<Longrightarrow> n \<le> length s \<Longrightarrow> (take n s @ t) ! i = s ! i"
  by (simp add: nth_append)

lemma bulk_delimiting: "self_delimiting (\<lambda>s. redisRESPBulkLength s p)"
  unfolding self_delimiting_def
proof (intro allI impI)
  fix s n t assume run: "redisRESPBulkLength s p = Inr n"
  obtain k where k: "redisRESPLineEnd s = Inr k" using run by (auto simp: redisRESPBulkLength_def split: sum.splits)
  note st = lineEnd_stable [OF k]
  obtain v where v: "(if p = CHR ''$'' then parseCanonicalRESPNullableNumber (drop 1 (take k s))
       else parseCanonicalRESPNumber (drop 1 (take k s))) = Some v"
    using run k by (auto simp: redisRESPBulkLength_def split: option.splits)
  have "k + 2 \<le> n \<and> n \<le> length s"
    using run [unfolded redisRESPBulkLength_def k sum.case v option.case Let_def] st(1) by (auto split: if_splits)
  then have n: "k + 2 \<le> n" "n \<le> length s" by auto
  have "redisRESPBulkLength (take n s @ t) p = Inr n"
    using run [unfolded redisRESPBulkLength_def k sum.case v option.case Let_def] n
    unfolding redisRESPBulkLength_def st(2) [OF n(1)] sum.case st(3) [OF n(1)] v option.case Let_def
    by (auto simp: nth_append split: if_splits)
  with n show "0 < n \<and> n \<le> length s \<and> redisRESPBulkLength (take n s @ t) p = Inr n" by simp
qed

lemma drop_take_split:
  assumes "i + len \<le> n" "n \<le> length s"
  shows "\<exists>u. drop i (take n s @ t) = take len (drop i s) @ u"
proof -
  have "drop i (take n s @ t) = take (n - i) (drop i s) @ t" using assms by (simp add: drop_take)
  also have "take (n - i) (drop i s) = take len (drop i s) @ drop len (take (n - i) (drop i s))"
    using assms append_take_drop_id [of len "take (n - i) (drop i s)"] by (simp add: min_absorb1)
  finally show ?thesis by auto
qed

lemma items_delimiting:
  assumes "self_delimiting f"
  shows "items_loop f m i s = Inr n \<Longrightarrow> i \<le> length s \<Longrightarrow>
    i \<le> n \<and> n \<le> length s \<and> (\<forall>t. items_loop f m i (take n s @ t) = Inr n)"
proof (induction m arbitrary: i)
  case (Suc m)
  obtain len where len: "f (drop i s) = Inr len" "\<not> i + len > maxRedisObserverBufferBytes"
    and rec: "items_loop f m (i + len) s = Inr n"
    using Suc.prems(1) by (auto split: sum.splits if_splits)
  note d = self_delimitingD [OF assms len(1)]
  have "i + len \<le> length s" using d(2) Suc.prems(2) by simp
  note ih = Suc.IH [OF rec this]
  have "f (drop i (take n s @ t)) = Inr len" for t
  proof -
    obtain u where "drop i (take n s @ t) = take len (drop i s) @ u" using drop_take_split ih by blast
    then show ?thesis using d(3) by simp
  qed
  with ih len(2) d(1) show ?case by auto
qed simp

lemma aggregate_delimiting:
  assumes "self_delimiting f"
  shows "self_delimiting (redisRESPAggregateLength f)"
  unfolding self_delimiting_def
proof (intro allI impI)
  fix s n t assume run: "redisRESPAggregateLength f s = Inr n"
  obtain k where k: "redisRESPLineEnd s = Inr k" using run by (auto simp: redisRESPAggregateLength_def split: sum.splits)
  note st = lineEnd_stable [OF k]
  obtain c where c: "parseCanonicalRESPNullableNumber (drop 1 (take k s)) = Some c"
    using run k by (auto simp: redisRESPAggregateLength_def split: option.splits)
  note body = run [unfolded redisRESPAggregateLength_def k sum.case c option.case Let_def]
  have n: "k + 2 \<le> n" "n \<le> length s"
    using body st(1) items_delimiting [OF assms, of _ "k + 2" s n] by (auto split: if_splits option.splits)
  have same: "(take n s @ t) ! 0 = s ! 0" using n by (simp add: nth_append)
  have loop: "items_loop f m (k + 2) s = Inr n \<Longrightarrow> items_loop f m (k + 2) (take n s @ t) = Inr n" for m
    using items_delimiting [OF assms] st(1) by blast
  have "redisRESPAggregateLength f (take n s @ t) = Inr n"
    using body loop unfolding redisRESPAggregateLength_def st(2) [OF n(1)] sum.case st(3) [OF n(1)] c option.case Let_def same
    by (auto split: if_splits option.splits)
  with n show "0 < n \<and> n \<le> length s \<and> redisRESPAggregateLength f (take n s @ t) = Inr n" by simp
qed

text \<open>Values that are one line, with a test on the text between the prefix and its end.\<close>

lemma line_delimiting:
  "self_delimiting (\<lambda>s. case redisRESPLineEnd s of Inl e \<Rightarrow> Inl e
     | Inr k \<Rightarrow> if Q (drop 1 (take k s)) then Inl RespMalformed else Inr (k + 2))"
  unfolding self_delimiting_def
proof (intro allI impI)
  fix s n t assume run: "(case redisRESPLineEnd s of Inl e \<Rightarrow> Inl e
     | Inr k \<Rightarrow> if Q (drop 1 (take k s)) then Inl RespMalformed else Inr (k + 2)) = Inr n"
  then obtain k where k: "redisRESPLineEnd s = Inr k" "\<not> Q (drop 1 (take k s))" "n = k + 2"
    by (auto split: sum.splits if_splits)
  note st = lineEnd_stable(1) [OF k(1)] lineEnd_stable(2,3) [OF k(1), of n t]
  from k st show "0 < n \<and> n \<le> length s \<and> (case redisRESPLineEnd (take n s @ t) of Inl e \<Rightarrow> Inl e
     | Inr k \<Rightarrow> if Q (drop 1 (take k (take n s @ t))) then Inl RespMalformed else Inr (k + 2)) = Inr n"
    by simp
qed

text \<open>What a value is, by its first byte.\<close>

abbreviation one_line :: "(bytes \<Rightarrow> bool) \<Rightarrow> bytes \<Rightarrow> redisRESPStatus + nat" where
  "one_line Q s \<equiv> case redisRESPLineEnd s of Inl e \<Rightarrow> Inl e
     | Inr k \<Rightarrow> if Q (drop 1 (take k s)) then Inl RespMalformed else Inr (k + 2)"

lemma value_plus: "s ! 0 = p \<Longrightarrow> p \<in> set ''+-'' \<Longrightarrow> s \<noteq> [] \<Longrightarrow> value_length parse_float (Suc l) s = one_line (\<lambda>_. False) s"
  by (simp split: sum.splits)

lemma value_number: "s ! 0 = CHR '':'' \<Longrightarrow> s \<noteq> [] \<Longrightarrow> value_length parse_float (Suc l) s = one_line (\<lambda>v. Atoi v = None) s"
  by simp

lemma value_double:
  "s ! 0 = CHR '','' \<Longrightarrow> s \<noteq> [] \<Longrightarrow> value_length parse_float (Suc l) s = one_line (\<lambda>v. \<not> validRedisRESPDouble parse_float v) s"
  by (simp split: sum.splits)

lemma value_big:
  "s ! 0 = CHR ''('' \<Longrightarrow> s \<noteq> [] \<Longrightarrow> value_length parse_float (Suc l) s = one_line (\<lambda>v. \<not> validRedisRESPBigNumber v) s"
  by (simp split: sum.splits)

lemma value_bulk:
  "s ! 0 = CHR ''$'' \<Longrightarrow> s \<noteq> [] \<Longrightarrow> value_length parse_float (Suc l) s = redisRESPBulkLength s (CHR ''$'')"
  "s ! 0 = CHR ''!'' \<Longrightarrow> s \<noteq> [] \<Longrightarrow> value_length parse_float (Suc l) s = redisRESPBulkLength s (CHR ''!'')"
  "s ! 0 = CHR ''='' \<Longrightarrow> s \<noteq> [] \<Longrightarrow> value_length parse_float (Suc l) s = redisRESPBulkLength s (CHR ''='')"
  by simp_all

lemma value_aggregate:
  "s ! 0 = CHR ''*'' \<Longrightarrow> s \<noteq> [] \<Longrightarrow> value_length parse_float (Suc l) s = redisRESPAggregateLength (value_length parse_float l) s"
  "s ! 0 = CHR ''~'' \<Longrightarrow> s \<noteq> [] \<Longrightarrow> value_length parse_float (Suc l) s = redisRESPAggregateLength (value_length parse_float l) s"
  "s ! 0 = CHR ''>'' \<Longrightarrow> s \<noteq> [] \<Longrightarrow> value_length parse_float (Suc l) s = redisRESPAggregateLength (value_length parse_float l) s"
  "s ! 0 = CHR ''%'' \<Longrightarrow> s \<noteq> [] \<Longrightarrow> value_length parse_float (Suc l) s = redisRESPAggregateLength (value_length parse_float l) s"
  "s ! 0 = CHR ''|'' \<Longrightarrow> s \<noteq> [] \<Longrightarrow> value_length parse_float (Suc l) s = redisRESPAggregateLength (value_length parse_float l) s"
  by simp_all

lemma value_null:
  "s ! 0 = CHR ''_'' \<Longrightarrow> s \<noteq> [] \<Longrightarrow> value_length parse_float (Suc l) s =
     (if length s < 3 then Inl RespIncomplete else if s ! 1 \<noteq> CR \<or> s ! 2 \<noteq> LF then Inl RespMalformed else Inr 3)"
  by simp

lemma value_boolean:
  "s ! 0 = CHR ''#'' \<Longrightarrow> s \<noteq> [] \<Longrightarrow> value_length parse_float (Suc l) s =
     (if length s < 4 then Inl RespIncomplete
      else if s ! 1 \<notin> set ''tf'' \<or> s ! 2 \<noteq> CR \<or> s ! 3 \<noteq> LF then Inl RespMalformed else Inr 4)"
  by simp

lemma value_other:
  "s \<noteq> [] \<Longrightarrow> s ! 0 \<notin> set ''+-:_#,($!=*~>%|'' \<Longrightarrow> value_length parse_float (Suc l) s = Inl RespMalformed"
  by simp

lemma null_delimiting:
  "self_delimiting (\<lambda>s. if length s < 3 then Inl RespIncomplete else if s ! 1 \<noteq> CR \<or> s ! 2 \<noteq> LF then Inl RespMalformed else Inr 3)"
  by (auto simp: self_delimiting_def nth_append split: if_splits)

lemma boolean_delimiting:
  "self_delimiting (\<lambda>s. if length s < 4 then Inl RespIncomplete
      else if s ! 1 \<notin> set ''tf'' \<or> s ! 2 \<noteq> CR \<or> s ! 3 \<noteq> LF then Inl RespMalformed else Inr 4)"
  by (auto simp: self_delimiting_def nth_append split: if_splits)

lemma by_prefix:
  assumes "f s = Inr n" "s \<noteq> []" "self_delimiting g" "\<And>u. u ! 0 = s ! 0 \<Longrightarrow> u \<noteq> [] \<Longrightarrow> f u = g u"
  shows "0 < n \<and> n \<le> length s \<and> f (take n s @ t) = Inr n"
proof -
  have "g s = Inr n" using assms by simp
  note d = self_delimitingD [OF assms(3) this]
  have "take n s @ t \<noteq> []" "(take n s @ t) ! 0 = s ! 0" using d(1,2) assms(2) by (auto simp: nth_append)
  with assms(4) d show ?thesis by simp
qed

lemma value_empty [simp]: "value_length parse_float levels [] = Inl RespIncomplete"
  by (cases levels) simp_all

declare value_length.simps(2) [simp del]

lemma value_delimiting: "self_delimiting (value_length parse_float levels)"
proof (induction levels)
  case 0
  then show ?case by (auto simp: self_delimiting_def split: if_splits)
next
  case (Suc levels)
  show ?case unfolding self_delimiting_def
  proof (intro allI impI)
    fix s n t assume run: "value_length parse_float (Suc levels) s = Inr n"
    have s: "s \<noteq> []" using run by (auto simp: value_length.simps)
    note keep = by_prefix [of "value_length parse_float (Suc levels)" s n, OF run s]
    have "s ! 0 \<in> set ''+-:_#,($!=*~>%|''" using run value_other [OF s] by (metis Inl_Inr_False)
    then consider "s ! 0 \<in> set ''+-''" | "s ! 0 = CHR '':''" | "s ! 0 = CHR ''_''" | "s ! 0 = CHR ''#''" | "s ! 0 = CHR '',''"
      | "s ! 0 = CHR ''(''" | "s ! 0 \<in> set ''$!=''" | "s ! 0 \<in> set ''*~>%|''" by auto
    then show "0 < n \<and> n \<le> length s \<and> value_length parse_float (Suc levels) (take n s @ t) = Inr n"
    proof cases
      case 1
      show ?thesis by (rule keep [OF line_delimiting]) (rule value_plus [OF _ 1])
    next
      case 2
      show ?thesis by (rule keep [OF line_delimiting]) (rule value_number, simp_all add: 2)
    next
      case 3
      show ?thesis by (rule keep [OF null_delimiting]) (rule value_null, simp_all add: 3)
    next
      case 4
      show ?thesis by (rule keep [OF boolean_delimiting]) (rule value_boolean, simp_all add: 4)
    next
      case 5
      show ?thesis by (rule keep [OF line_delimiting]) (rule value_double, simp_all add: 5)
    next
      case 6
      show ?thesis by (rule keep [OF line_delimiting]) (rule value_big, simp_all add: 6)
    next
      case 7
      show ?thesis by (rule keep [OF bulk_delimiting [of "s ! 0"]]) (use 7 value_bulk in force)
    next
      case 8
      show ?thesis by (rule keep [OF aggregate_delimiting [OF Suc.IH]]) (use 8 value_aggregate in force)
    qed
  qed
qed

lemma frame_delimiting: "self_delimiting (redisRESPFrameLength parse_float)"
  unfolding self_delimiting_def
proof (intro allI impI)
  fix s n t assume "redisRESPFrameLength parse_float s = Inr n"
  then have v: "value_length parse_float 33 s = Inr n" "\<not> n > maxRedisObserverBufferBytes"
    by (auto simp: redisRESPFrameLength_def redisRESPValueLength_def maxRedisObserverNestingDepth_def split: sum.splits if_splits)
  note d = self_delimitingD [OF value_delimiting v(1)]
  then show "0 < n \<and> n \<le> length s \<and> redisRESPFrameLength parse_float (take n s @ t) = Inr n"
    using v(2) d(3) [of t]
    by (simp add: redisRESPFrameLength_def redisRESPValueLength_def maxRedisObserverNestingDepth_def del: value_length.simps)
qed

lemma handshake_exact:
  assumes "handshake_loop parse_float frame input = (Inr f, rest)"
    and "\<forall>m \<le> length frame. \<not> isl (redisRESPFrameLength parse_float (take m frame)) \<longrightarrow> False"
  shows "frame @ input = f @ rest \<and> redisRESPFrameLength parse_float f = Inr (length f)"
  using assms
proof (induction parse_float frame input rule: handshake_loop.induct)
  case (2 parse_float frame b input)
  let ?f = "frame @ [b]"
  show ?case
  proof (cases "redisRESPFrameLength parse_float ?f")
    case (Inr n)
    then have r: "f = ?f" "rest = input" using "2.prems"(1) by (auto simp: Let_def split: if_splits)
    have n: "0 < n" "n \<le> length ?f" using self_delimitingD [OF frame_delimiting Inr] by auto
    have "n = length ?f"
    proof (rule ccontr)
      assume "n \<noteq> length ?f"
      then have le: "n \<le> length frame" using n by simp
      have "redisRESPFrameLength parse_float (take n ?f @ []) = Inr n" using self_delimitingD(3) [OF frame_delimiting Inr] .
      then have "redisRESPFrameLength parse_float (take n frame) = Inr n" using le by simp
      then show False using "2.prems"(2) le by (metis sum.disc(2))
    qed
    with Inr r show ?thesis by simp
  next
    case (Inl e)
    then have e: "e = RespIncomplete" and g: "\<not> length frame > maxRedisObserverBufferBytes"
      and rec: "handshake_loop parse_float ?f input = (Inr f, rest)"
      using "2.prems"(1) by (cases e; auto simp: Let_def split: if_splits)+
    have "\<forall>m \<le> length ?f. \<not> isl (redisRESPFrameLength parse_float (take m ?f)) \<longrightarrow> False"
      using "2.prems"(2) Inl by (auto simp: le_Suc_eq)
    then show ?thesis using "2.IH" [OF g refl Inl e rec] by simp
  qed
qed simp

section \<open>Commands as a wire format\<close>

lemma auth_line_consumes: "auth_line line input = (r, rest) \<Longrightarrow> length rest \<le> length input \<and> (\<not> isl r \<longrightarrow> length rest < length input)"
proof (induction line input rule: auth_line.induct)
  case (2 line b input)
  show ?case
  proof (cases "length line \<ge> maxRESPAuthLineBytes \<or> (line \<noteq> [] \<and> last line = CR \<and> b \<noteq> LF) \<or> b = LF")
    case True
    with "2.prems" show ?thesis by (auto simp: Let_def split: if_splits)
  next
    case False
    then have "auth_line (line @ [b]) input = (r, rest)" using "2.prems" by (auto simp: Let_def split: if_splits)
    with "2.IH" [OF _ _ refl] False show ?thesis by fastforce
  qed
qed auto

lemma read_line_consumes: "readRESPAuthLine input = (Inr l, rest) \<Longrightarrow> length rest < length input"
  using auth_line_consumes [of "[]" input "Inr l" rest] by (simp add: readRESPAuthLine_def)

lemma read_full_rest: "read_full n s = Some (a, r) \<Longrightarrow> length r \<le> length s"
  by (auto simp: read_full_def split: if_splits)

lemma auth_args_consumes: "auth_args n total_len raw_bytes input = (Inr x, rest) \<Longrightarrow> length rest \<le> length input"
proof (induction n arbitrary: total_len raw_bytes input x)
  case (Suc n)
  obtain l i1 where l: "readRESPAuthLine input = (Inr l, i1)"
    using Suc.prems by (cases "readRESPAuthLine input"; cases "fst (readRESPAuthLine input)") auto
  obtain len v i2 where rd: "parseCanonicalRESPUnsigned (drop 1 l) maxRESPAuthBulkBytes = Some len"
      "read_full (nat len + 2) i1 = Some (v, i2)"
    using Suc.prems l by (auto split: if_splits option.splits prod.splits)
  obtain y where "auth_args n (total_len + int (length l) + len + 4) (raw_bytes @ l @ [CR, LF] @ v) i2 = (Inr y, rest)"
    using Suc.prems l rd by (auto split: if_splits prod.splits sum.splits)
  from Suc.IH [OF this] read_line_consumes [OF l] read_full_rest [OF rd(2)] show ?case by simp
qed simp

definition command_read :: "bytes \<Rightarrow> (string list \<times> bytes) option" where
  "command_read s = (case readRESPCommand s of (Inl _, _) \<Rightarrow> None | (Inr (_, args, _), rest) \<Rightarrow> Some (args, rest))"

lemma command_read_consumes:
  assumes "command_read s = Some (args, rest)"
  shows "length rest < length s"
proof -
  obtain l i1 where l: "readRESPAuthLine s = (Inr l, i1)"
    using assms by (cases "readRESPAuthLine s"; cases "fst (readRESPAuthLine s)") (auto simp: command_read_def readRESPCommand_def)
  obtain n x where "auth_args n (int (length l) + 2) (l @ [CR, LF]) i1 = (Inr x, rest)"
    using assms l by (auto simp: command_read_def readRESPCommand_def readRESPAuthCommand_def
        split: if_splits option.splits prod.splits sum.splits)
  from auth_args_consumes [OF this] read_line_consumes [OF l] show ?thesis by simp
qed

interpretation redis_commands: codec encodeRedisCommand command_read command_fits
proof unfold_locales
  fix parts rest assume "command_fits parts"
  then show "command_read (encodeRedisCommand parts @ rest) = Some (parts, rest)"
    by (simp add: command_read_def readRESPCommand_encode)
qed (rule command_read_consumes)

section \<open>Properties\<close>

text \<open>The number parser accepts exactly the canonical decimal texts: for a maximum within 63 bits it
  returns a value precisely when the text is how that value is written and the value is not above the
  maximum; leading zeros, signs, empty texts and values that overflow are refused.\<close>

theorem resp_number_exact:
  assumes "0 \<le> maximum" "maximum \<le> MaxInt64"
  shows "parseCanonicalRESPUnsigned s maximum = Some v \<longleftrightarrow> 0 \<le> v \<and> v \<le> maximum \<and> s = itoa (nat v)"
  by (rule resp_number [OF assms])

theorem resp_number_exact_witness:
  "parseCanonicalRESPUnsigned ''9223372036854775807'' MaxInt64 = Some MaxInt64
   \<longleftrightarrow> 0 \<le> MaxInt64 \<and> MaxInt64 \<le> MaxInt64 \<and> ''9223372036854775807'' = itoa (nat MaxInt64)"
  using resp_number_exact [of MaxInt64 "''9223372036854775807''" MaxInt64] by (simp add: MaxInt64_def)

text \<open>C11. Commands come back as they were sent: an encoded command of at most 16 arguments of at most
  16384 bytes, 65536 bytes in all, is read back as those arguments, whatever bytes they contain, both by
  the reader that starts at the array and by the one that continues after its first byte, and the rest of
  the stream is left; a sequence of such encodings is cut in one way only.\<close>

theorem redis_command_roundtrip:
  assumes "command_fits parts" "\<forall>c \<in> set commands. command_fits c" "\<forall>c \<in> set others. command_fits c"
  shows "readRESPCommand (encodeRedisCommand parts @ rest) = (Inr (ToUpper (parts ! 0), parts, encodeRedisCommand parts), rest)
    \<and> readRESPCommandFromBuf (tl (encodeRedisCommand parts) @ rest) (CHR ''*'') = (Inr (ToUpper (parts ! 0), parts, []), rest)
    \<and> (concat (map encodeRedisCommand commands) = concat (map encodeRedisCommand others) \<longrightarrow> commands = others)"
  using readRESPCommand_encode [OF assms(1)] readRESPCommandFromBuf_encode [OF assms(1)]
    redis_commands.concat_enc_inj [OF assms(2,3)] by simp

theorem redis_command_roundtrip_witness:
  "readRESPCommandFromBuf (tl (encodeRedisCommand [''auth'', ''R000000001'', [CR, LF, CHR ''$'']]) @ ''*'') (CHR ''*'')
     = (Inr (''AUTH'', [''auth'', ''R000000001'', [CR, LF, CHR ''$'']], []), ''*'')"
proof -
  let ?parts = "[''auth'', ''R000000001'', [CR, LF, CHR ''$'']]"
  have "command_fits ?parts" by (simp add: command_fits_def encodeRedisCommand_def itoa.simps)
  moreover have "ToUpper ''auth'' = ''AUTH''" by code_simp
  ultimately show ?thesis using redis_command_roundtrip [of ?parts "[]" "[]" "''*''"] by simp
qed

text \<open>The answer to HELLO is read as one value exactly: when the reader returns a frame, it is a
  prefix of what the server sent, it is a complete value of its own length, at most 65536 bytes, and no
  continuation of the stream would have given it another length.\<close>

theorem redis_hello_frame_exact:
  assumes "readRedisHandshakeFrame parse_float input = (Inr f, rest)"
  shows "input = f @ rest \<and> f \<noteq> [] \<and> length f \<le> 65536
    \<and> (\<forall>more. redisRESPFrameLength parse_float (f @ more) = Inr (length f))"
proof -
  have "redisRESPFrameLength parse_float [] = Inl RespIncomplete"
    by (simp add: redisRESPFrameLength_def redisRESPValueLength_def maxRedisObserverNestingDepth_def)
  then have h: "input = f @ rest" "redisRESPFrameLength parse_float f = Inr (length f)"
    using handshake_exact [of parse_float "[]" input f rest] assms by (simp_all add: readRedisHandshakeFrame_def)
  have "length f \<le> 65536" using h(2)
    by (auto simp: redisRESPFrameLength_def maxRedisObserverBufferBytes_def split: sum.splits if_splits)
  with h self_delimitingD [OF frame_delimiting h(2)] show ?thesis by auto
qed

lemma null_frame:
  assumes "u = ''_'' \<or> u = [CHR ''_'', CR] \<or> u = [CHR ''_'', CR, LF]"
  shows "redisRESPFrameLength parse_float u = (if length u < 3 then Inl RespIncomplete else Inr 3)"
proof -
  have "value_length parse_float (Suc 32) u = (if length u < 3 then Inl RespIncomplete else Inr 3)"
    using assms value_null [of u parse_float 32] by auto
  then show ?thesis
    by (simp add: redisRESPFrameLength_def redisRESPValueLength_def maxRedisObserverNestingDepth_def maxRedisObserverBufferBytes_def)
qed

theorem redis_hello_frame_exact_witness:
  "redisRESPFrameLength (\<lambda>_. False) ([CHR ''_'', CR, LF] @ ''+later'') = Inr 3"
proof -
  have "readRedisHandshakeFrame (\<lambda>_. False) ([CHR ''_'', CR, LF] @ ''+'') = (Inr [CHR ''_'', CR, LF], ''+'')"
    by (simp add: readRedisHandshakeFrame_def null_frame maxRedisObserverBufferBytes_def)
  from redis_hello_frame_exact [OF this] show ?thesis by (metis length_Cons list.size(3) numeral_3_eq_3)
qed

end
