(* ===== verification/Redis_Policy.thy ===== *)
theory Redis_Policy
  imports Redis_Wire
begin

text \<open>
  Which Redis commands a client may send after the login, and what the audit trail says about them
  (\<open>internal/server/dbproxy/redis_command_policy.go\<close> and \<open>redis_audit.go\<close>).
\<close>

section \<open>Names\<close>

definition is_letter :: "byte \<Rightarrow> bool" where
  "is_letter c \<longleftrightarrow> 65 \<le> byte_val c \<and> byte_val c \<le> 90 \<or> 97 \<le> byte_val c \<and> byte_val c \<le> 122"

definition validRedisCommandName :: "string \<Rightarrow> bool" where
  "validRedisCommandName command \<longleftrightarrow>
     command \<noteq> [] \<and> length command \<le> 32 \<and> utf8_valid command \<and> list_all is_letter command"

definition upperRedisCommand :: "string \<Rightarrow> string" where
  "upperRedisCommand v = (if \<not> validRedisCommandName v then [] else ToUpper v)"

definition allowedRedisPostAuthCommands :: "string list" where
  "allowedRedisPostAuthCommands =
    [''APPEND'', ''ASKING'', ''BITCOUNT'', ''BITFIELD'', ''BITFIELD_RO'', ''BITOP'', ''BITPOS'', ''BLMOVE'',
     ''BLMPOP'', ''BLPOP'', ''BRPOP'', ''BRPOPLPUSH'', ''BZPOPMAX'', ''BZPOPMIN'', ''COPY'', ''DBSIZE'', ''DECR'',
     ''DECRBY'', ''DEL'', ''DISCARD'', ''DUMP'', ''ECHO'', ''EVAL'', ''EVALSHA'', ''EXEC'', ''EXISTS'', ''EXPIRE'',
     ''EXPIREAT'', ''EXPIRETIME'', ''FCALL'', ''FCALL_RO'', ''GEOADD'', ''GEODIST'', ''GEOHASH'', ''GEOPOS'',
     ''GEOSEARCH'', ''GEOSEARCHSTORE'', ''GEORADIUS'', ''GEORADIUSBYMEMBER'', ''GET'', ''GETBIT'', ''GETDEL'',
     ''GETEX'', ''GETRANGE'', ''GETSET'', ''HDEL'', ''HEXISTS'', ''HEXPIRE'', ''HEXPIREAT'', ''HEXPIRETIME'',
     ''HGET'', ''HGETALL'', ''HGETDEL'', ''HGETEX'', ''HINCRBY'', ''HINCRBYFLOAT'', ''HKEYS'', ''HLEN'', ''HMGET'',
     ''HMSET'', ''HPERSIST'', ''HPEXPIRE'', ''HPEXPIREAT'', ''HPEXPIRETIME'', ''HPTTL'', ''HRANDFIELD'', ''HSCAN'',
     ''HSET'', ''HSETEX'', ''HSETNX'', ''HSTRLEN'', ''HTTL'', ''HVALS'', ''INCR'', ''INCRBY'', ''INCRBYFLOAT'',
     ''INFO'', ''KEYS'', ''LASTSAVE'', ''LCS'', ''LINDEX'', ''LINSERT'', ''LLEN'', ''LMOVE'', ''LMPOP'', ''LPOP'',
     ''LPOS'', ''LPUSH'', ''LPUSHX'', ''LRANGE'', ''LREM'', ''LSET'', ''LTRIM'', ''MGET'', ''MOVE'', ''MSET'',
     ''MSETNX'', ''MULTI'', ''OBJECT'', ''PERSIST'', ''PEXPIRE'', ''PEXPIREAT'', ''PEXPIRETIME'', ''PFADD'',
     ''PFCOUNT'', ''PFMERGE'', ''PING'', ''PSETEX'', ''PTTL'', ''PUBLISH'', ''QUIT'', ''RANDOMKEY'', ''READONLY'',
     ''READWRITE'', ''RENAME'', ''RENAMENX'', ''RESTORE'', ''RPOP'', ''RPOPLPUSH'', ''RPUSH'', ''RPUSHX'',
     ''SADD'', ''SCAN'', ''SCARD'', ''SDIFF'', ''SDIFFSTORE'', ''SET'', ''SETBIT'', ''SETEX'', ''SETNX'',
     ''SETRANGE'', ''SINTER'', ''SINTERCARD'', ''SINTERSTORE'', ''SISMEMBER'', ''SMEMBERS'', ''SMISMEMBER'',
     ''SMOVE'', ''SORT'', ''SORT_RO'', ''SPOP'', ''SRANDMEMBER'', ''SREM'', ''SSCAN'', ''STRLEN'', ''SUNION'',
     ''SUNIONSTORE'', ''TIME'', ''TOUCH'', ''TTL'', ''TYPE'', ''UNLINK'', ''UNWATCH'', ''WAIT'', ''WATCH'',
     ''XACK'', ''XADD'', ''XAUTOCLAIM'', ''XCLAIM'', ''XDEL'', ''XGROUP'', ''XINFO'', ''XLEN'', ''XPENDING'',
     ''XRANGE'', ''XREAD'', ''XREADGROUP'', ''XREVRANGE'', ''XSETID'', ''XTRIM'', ''ZADD'', ''ZCARD'', ''ZCOUNT'',
     ''ZDIFF'', ''ZDIFFSTORE'', ''ZINCRBY'', ''ZINTER'', ''ZINTERCARD'', ''ZINTERSTORE'', ''ZLEXCOUNT'', ''ZMPOP'',
     ''ZMSCORE'', ''ZPOPMAX'', ''ZPOPMIN'', ''ZRANDMEMBER'', ''ZRANGE'', ''ZRANGEBYLEX'', ''ZRANGEBYSCORE'',
     ''ZRANGESTORE'', ''ZRANK'', ''ZREM'', ''ZREMRANGEBYLEX'', ''ZREMRANGEBYRANK'', ''ZREMRANGEBYSCORE'',
     ''ZREVRANGE'', ''ZREVRANK'', ''ZSCAN'', ''ZSCORE'', ''ZUNION'', ''ZUNIONSTORE'', ''COMMAND'', ''SELECT'',
     ''HELLO'', ''CLIENT'', ''SUBSCRIBE'', ''PSUBSCRIBE'', ''SSUBSCRIBE'', ''UNSUBSCRIBE'', ''PUNSUBSCRIBE'',
     ''SUNSUBSCRIBE'']"

definition redisAuditNoKey :: "string \<Rightarrow> bool" where
  "redisAuditNoKey command \<longleftrightarrow> command \<in> set
    [''ASKING'', ''COMMAND'', ''DBSIZE'', ''DISCARD'', ''ECHO'', ''EXEC'', ''INFO'', ''KEYS'', ''LASTSAVE'',
     ''MULTI'', ''PING'', ''QUIT'', ''RANDOMKEY'', ''READONLY'', ''READWRITE'', ''SCAN'', ''SELECT'', ''TIME'',
     ''UNWATCH'', ''WAIT'', ''HELLO'', ''CLIENT'', ''SUBSCRIBE'', ''PSUBSCRIBE'', ''SSUBSCRIBE'', ''UNSUBSCRIBE'',
     ''PUNSUBSCRIBE'', ''SUNSUBSCRIBE'']"

definition redisAuditHasFirstKey :: "string \<Rightarrow> bool" where
  "redisAuditHasFirstKey command \<longleftrightarrow> command \<in> set
    [''APPEND'', ''DECR'', ''DECRBY'', ''DEL'', ''DUMP'', ''EXISTS'', ''BITCOUNT'', ''BITFIELD'', ''BITFIELD_RO'',
     ''BITPOS'', ''BLMOVE'', ''BLPOP'', ''BRPOP'', ''BRPOPLPUSH'', ''BZPOPMAX'', ''BZPOPMIN'', ''COPY'',
     ''EXPIRE'', ''EXPIREAT'', ''EXPIRETIME'', ''GET'', ''GETBIT'', ''GETDEL'', ''GETEX'', ''GETRANGE'',
     ''GETSET'', ''HDEL'', ''HEXISTS'', ''HGET'', ''HGETALL'', ''HEXPIRE'', ''HEXPIREAT'', ''HEXPIRETIME'',
     ''HGETDEL'', ''HGETEX'', ''HINCRBY'', ''HINCRBYFLOAT'', ''HKEYS'', ''HLEN'', ''HMGET'', ''HMSET'',
     ''HPERSIST'', ''HPEXPIRE'', ''HPEXPIREAT'', ''HPEXPIRETIME'', ''HPTTL'', ''HRANDFIELD'', ''HSCAN'', ''HSET'',
     ''HSETEX'', ''HSETNX'', ''HSTRLEN'', ''HTTL'', ''HVALS'', ''INCR'', ''INCRBY'', ''INCRBYFLOAT'', ''LINDEX'',
     ''LINSERT'', ''LLEN'', ''LCS'', ''LMOVE'', ''LPOP'', ''LPOS'', ''LPUSH'', ''LPUSHX'', ''LRANGE'', ''LREM'',
     ''LSET'', ''LTRIM'', ''MGET'', ''MOVE'', ''MSET'', ''MSETNX'', ''PERSIST'', ''PEXPIRE'', ''PEXPIREAT'',
     ''PEXPIRETIME'', ''PFADD'', ''PFCOUNT'', ''PFMERGE'', ''PUBLISH'', ''PSETEX'', ''PTTL'', ''RENAME'',
     ''RENAMENX'', ''RESTORE'', ''RPOP'', ''RPOPLPUSH'', ''RPUSH'', ''RPUSHX'', ''SADD'', ''SCARD'', ''SDIFF'',
     ''SDIFFSTORE'', ''SET'', ''SETEX'', ''SETBIT'', ''SETNX'', ''SETRANGE'', ''SINTER'', ''SINTERSTORE'',
     ''SISMEMBER'', ''SMEMBERS'', ''SMISMEMBER'', ''SMOVE'', ''SPOP'', ''SRANDMEMBER'', ''SREM'', ''SORT'',
     ''SORT_RO'', ''SSCAN'', ''STRLEN'', ''SUNION'', ''SUNIONSTORE'', ''TOUCH'', ''TTL'', ''TYPE'', ''UNLINK'',
     ''WATCH'', ''XACK'', ''XADD'', ''XAUTOCLAIM'', ''XCLAIM'', ''XDEL'', ''XLEN'', ''XPENDING'', ''XRANGE'',
     ''XREVRANGE'', ''XSETID'', ''XTRIM'', ''GEOADD'', ''GEODIST'', ''GEOHASH'', ''GEOPOS'', ''GEOSEARCH'',
     ''GEOSEARCHSTORE'', ''GEORADIUS'', ''GEORADIUSBYMEMBER'', ''ZADD'', ''ZCARD'', ''ZCOUNT'', ''ZINCRBY'',
     ''ZLEXCOUNT'', ''ZPOPMAX'', ''ZPOPMIN'', ''ZMSCORE'', ''ZRANDMEMBER'', ''ZRANGE'', ''ZRANGEBYLEX'',
     ''ZRANGEBYSCORE'', ''ZRANGESTORE'', ''ZRANK'', ''ZREM'', ''ZREMRANGEBYLEX'', ''ZREMRANGEBYRANK'',
     ''ZREMRANGEBYSCORE'', ''ZREVRANGE'', ''ZREVRANK'', ''ZSCAN'', ''ZSCORE'']"

definition redisCommandHasAuditSpec :: "string \<Rightarrow> bool" where
  "redisCommandHasAuditSpec command \<longleftrightarrow> redisAuditNoKey command \<or> redisAuditHasFirstKey command \<or> command \<in> set
    [''BITOP'', ''BLMPOP'', ''EVAL'', ''EVALSHA'', ''FCALL'', ''FCALL_RO'', ''LMPOP'', ''OBJECT'', ''SINTERCARD'',
     ''XGROUP'', ''XINFO'', ''XREAD'', ''XREADGROUP'', ''ZDIFF'', ''ZDIFFSTORE'', ''ZINTER'', ''ZINTERCARD'',
     ''ZINTERSTORE'', ''ZMPOP'', ''ZUNION'', ''ZUNIONSTORE'']"

definition isAllowedRedisPostAuthCommand :: "string \<Rightarrow> bool" where
  "isAllowedRedisPostAuthCommand command \<longleftrightarrow>
     command \<in> set allowedRedisPostAuthCommands \<and> redisCommandHasAuditSpec command"

definition isAllowedRedisClientCommand :: "string list \<Rightarrow> bool" where
  "isAllowedRedisClientCommand args =
     (if length args < 2 then False
      else let option = upperRedisCommand (args ! 1) in
        if option \<in> {''ID'', ''GETNAME'', ''INFO''} then length args = 2
        else if option = ''SETNAME'' then length args = 3 \<and> args ! 2 \<noteq> []
        else if option = ''SETINFO'' then
          length args = 4 \<and> (ToUpper (args ! 2) = ''LIB-NAME'' \<or> ToUpper (args ! 2) = ''LIB-VER'')
        else False)"

definition isAllowedRedisPostAuthCommandArgs :: "string list \<Rightarrow> bool" where
  "isAllowedRedisPostAuthCommandArgs args =
     (if args = [] then False
      else let command = upperRedisCommand (args ! 0) in
        if \<not> isAllowedRedisPostAuthCommand command then False
        else if command = ''HELLO'' then
          (if length args \<noteq> 2 \<and> length args \<noteq> 4 then False
           else if args ! 1 \<noteq> ''2'' \<and> args ! 1 \<noteq> ''3'' then False
           else length args = 2 \<or> (upperRedisCommand (args ! 2) = ''SETNAME'' \<and> args ! 3 \<noteq> []))
        else if command = ''CLIENT'' then isAllowedRedisClientCommand args
        else if command \<in> {''SUBSCRIBE'', ''PSUBSCRIBE'', ''SSUBSCRIBE''} then length args \<ge> 2
        else True)"

section \<open>Audit texts\<close>

definition redisAuditRedacted :: string where "redisAuditRedacted = ''[REDACTED]''"
definition maxRedisAuditKeyBytes :: nat where "maxRedisAuditKeyBytes = 256"

text \<open>A code point from its encoding, and the ranges of \<open>unicode.Cf\<close>.\<close>

definition code_point :: "bytes \<Rightarrow> int" where
  "code_point r =
     (case map (\<lambda>b. int (byte_val b)) r of
        [a] \<Rightarrow> a
      | [a, b] \<Rightarrow> (a - 192) * 64 + (b - 128)
      | [a, b, c] \<Rightarrow> ((a - 224) * 64 + (b - 128)) * 64 + (c - 128)
      | [a, b, c, d] \<Rightarrow> (((a - 240) * 64 + (b - 128)) * 64 + (c - 128)) * 64 + (d - 128)
      | _ \<Rightarrow> 0)"

definition format_ranges :: "(int \<times> int) list" where
  "format_ranges = [(0xAD, 0xAD), (0x600, 0x605), (0x61C, 0x61C), (0x6DD, 0x6DD), (0x70F, 0x70F), (0x890, 0x891),
     (0x8E2, 0x8E2), (0x180E, 0x180E), (0x200B, 0x200F), (0x202A, 0x202E), (0x2060, 0x2064), (0x2066, 0x206F),
     (0xFEFF, 0xFEFF), (0xFFF9, 0xFFFB), (0x110BD, 0x110BD), (0x110CD, 0x110CD), (0x13430, 0x1343F), (0x1BCA0, 0x1BCA3),
     (0x1D173, 0x1D17A), (0xE0001, 0xE0001), (0xE0020, 0xE007F)]"

definition hidden_rune :: "bytes \<Rightarrow> bool" where
  "hidden_rune r \<longleftrightarrow> r \<in> set space_encodings
     \<or> code_point r < 0x20 \<or> (0x7F \<le> code_point r \<and> code_point r < 0xA0)
     \<or> list_ex (\<lambda>(lo, hi). lo \<le> code_point r \<and> code_point r \<le> hi) format_ranges"

definition redisAuditKey :: "string \<Rightarrow> string" where
  "redisAuditKey key =
     (if key = [] \<or> length key > maxRedisAuditKeyBytes then redisAuditRedacted
      else case runes key of None \<Rightarrow> redisAuditRedacted
        | Some rs \<Rightarrow> if list_ex hidden_rune rs then redisAuditRedacted else key)"

definition with_key :: "string \<Rightarrow> string \<Rightarrow> string" where
  "with_key command key = command @ '' '' @ redisAuditKey key"

definition redacted :: "string \<Rightarrow> string" where
  "redacted text = text @ '' '' @ redisAuditRedacted"

text \<open>Each gives the text, or \<open>None\<close> when the arguments do not have the shape of the command.\<close>

definition redisAuditPrefixedCountedKeyCommand :: "string \<Rightarrow> string list \<Rightarrow> nat \<Rightarrow> nat \<Rightarrow> string option" where
  "redisAuditPrefixedCountedKeyCommand command args countIndex keyIndex =
     (if length args \<le> keyIndex then None
      else case parseCanonicalRESPNumber (args ! countIndex) of None \<Rightarrow> None
        | Some keyCount \<Rightarrow>
            if keyCount \<le> 0 \<or> keyCount > int (length args) - int keyIndex - 1 then None
            else let directionIndex = keyIndex + nat keyCount in
              if directionIndex \<ge> length args
                 \<or> (\<not> EqualFold (args ! directionIndex) ''LEFT'' \<and> \<not> EqualFold (args ! directionIndex) ''RIGHT'') then None
              else Some (redacted (with_key command (args ! keyIndex))))"

definition redisAuditObjectCommand :: "string list \<Rightarrow> string option" where
  "redisAuditObjectCommand args =
     (if length args = 2 \<and> EqualFold (args ! 1) ''HELP'' then Some (redacted ''OBJECT'')
      else if length args \<noteq> 3 then None
      else if ToUpper (args ! 1) \<in> {''ENCODING'', ''FREQ'', ''IDLETIME'', ''REFCOUNT''}
        then Some (redacted (with_key ''OBJECT'' (args ! 2)))
      else None)"

definition redisAuditXInfoCommand :: "string list \<Rightarrow> string option" where
  "redisAuditXInfoCommand args =
     (if length args = 2 \<and> EqualFold (args ! 1) ''HELP'' then Some (redacted ''XINFO'')
      else if length args < 3 then None
      else
        let sub = ToUpper (args ! 1);
            shape_ok =
              (if sub = ''CONSUMERS'' then length args = 4
               else if sub = ''GROUPS'' then length args = 3
               else if sub = ''STREAM'' then
                 length args = 3
                 \<or> (length args = 4 \<and> EqualFold (args ! 3) ''FULL'')
                 \<or> (length args = 6 \<and> EqualFold (args ! 3) ''FULL'' \<and> EqualFold (args ! 4) ''COUNT''
                    \<and> parseCanonicalRESPNumber (args ! 5) \<noteq> None)
               else False) in
        if shape_ok then Some (redacted (with_key ''XINFO'' (args ! 2))) else None)"

definition redisAuditCountedKeyCommand :: "string \<Rightarrow> string list \<Rightarrow> string option" where
  "redisAuditCountedKeyCommand command args =
     (if length args < 3 then None
      else case parseCanonicalRESPNumber (args ! 1) of None \<Rightarrow> None
        | Some keyCount \<Rightarrow>
            if keyCount \<le> 0 \<or> keyCount > int (length args) - 2 then None
            else Some (redacted (with_key command (args ! 2))))"

definition redisAuditDestinationCountedKeyCommand :: "string \<Rightarrow> string list \<Rightarrow> string option" where
  "redisAuditDestinationCountedKeyCommand command args =
     (if length args < 4 then None
      else case parseCanonicalRESPNumber (args ! 2) of None \<Rightarrow> None
        | Some keyCount \<Rightarrow>
            if keyCount \<le> 0 \<or> keyCount > int (length args) - 3 then None
            else Some (redacted (with_key command (args ! 1))))"

definition redisAuditEvalCommand :: "string \<Rightarrow> string list \<Rightarrow> string option" where
  "redisAuditEvalCommand command args =
     (if length args < 3 then None
      else case Atoi (args ! 2) of None \<Rightarrow> None
        | Some keyCount \<Rightarrow>
            if keyCount < 0 \<or> keyCount > int (length args) - 3 then None
            else Some (redacted (if keyCount > 0 then with_key command (args ! 3) else command)))"

definition redisAuditFunctionCommand :: "string \<Rightarrow> string list \<Rightarrow> string option" where
  "redisAuditFunctionCommand command args =
     (if length args < 3 then None
      else case Atoi (args ! 2) of None \<Rightarrow> None
        | Some keyCount \<Rightarrow>
            if keyCount < 0 \<or> keyCount > int (length args) - 3 then None
            else Some (redacted (if keyCount > 0 then with_key command (args ! 3) else command)))"

definition redisAuditBITOPCommand :: "string list \<Rightarrow> string option" where
  "redisAuditBITOPCommand args =
     (if length args < 4 then None
      else let sub = ToUpper (args ! 1) in
        if sub \<in> {''AND'', ''OR'', ''XOR''} \<or> (sub = ''NOT'' \<and> length args = 4)
        then Some (redacted (with_key ''BITOP'' (args ! 2))) else None)"

fun streams_index :: "string list \<Rightarrow> nat \<Rightarrow> nat option" where
  "streams_index [] index = None"
| "streams_index (a # rest) index = (if EqualFold a ''STREAMS'' then Some index else streams_index rest (Suc index))"

definition redisAuditXReadCommand :: "string \<Rightarrow> string list \<Rightarrow> string option" where
  "redisAuditXReadCommand command args =
     (case streams_index (drop 1 args) 1 of None \<Rightarrow> None
      | Some streams \<Rightarrow>
          let remaining = length args - streams - 1 in
          if remaining < 2 \<or> remaining mod 2 \<noteq> 0 then None
          else if command = ''XREADGROUP'' \<and> (length args < 7 \<or> \<not> EqualFold (args ! 1) ''GROUP'') then None
          else Some (redacted (with_key command (args ! (streams + 1)))))"

definition redisAuditXGroupCommand :: "string list \<Rightarrow> string option" where
  "redisAuditXGroupCommand args =
     (if length args < 4 then None
      else if ToUpper (args ! 1) \<in> {''CREATE'', ''CREATECONSUMER'', ''DELCONSUMER'', ''DESTROY'', ''SETID''}
        then Some (redacted (with_key ''XGROUP'' (args ! 2)))
      else None)"

definition redisAuditNoKeyCommand :: "string \<Rightarrow> string list \<Rightarrow> string option" where
  "redisAuditNoKeyCommand command args =
     (if (command = ''PING'' \<and> length args > 2) \<or> (command = ''SELECT'' \<and> length args \<noteq> 2) then None
      else if length args > 1 then Some (redacted command) else Some command)"

definition redisAuditCommandChecked :: "string list \<Rightarrow> string option" where
  "redisAuditCommandChecked args =
     (if args = [] then None
      else let command = ToUpper (args ! 0) in
        if command \<in> {''EVAL'', ''EVALSHA''} then redisAuditEvalCommand command args
        else if command \<in> {''FCALL'', ''FCALL_RO''} then redisAuditFunctionCommand command args
        else if command \<in> {''SINTERCARD'', ''ZINTER'', ''ZDIFF'', ''ZUNION'', ''ZINTERCARD''}
          then redisAuditCountedKeyCommand command args
        else if command \<in> {''ZINTERSTORE'', ''ZDIFFSTORE'', ''ZUNIONSTORE''}
          then redisAuditDestinationCountedKeyCommand command args
        else if command = ''BITOP'' then redisAuditBITOPCommand args
        else if command = ''BLMPOP'' then redisAuditPrefixedCountedKeyCommand command args 2 3
        else if command \<in> {''LMPOP'', ''ZMPOP''} then redisAuditPrefixedCountedKeyCommand command args 1 2
        else if command = ''OBJECT'' then redisAuditObjectCommand args
        else if command \<in> {''XREAD'', ''XREADGROUP''} then redisAuditXReadCommand command args
        else if command = ''XGROUP'' then redisAuditXGroupCommand args
        else if command = ''XINFO'' then redisAuditXInfoCommand args
        else if redisAuditNoKey command then redisAuditNoKeyCommand command args
        else if \<not> redisAuditHasFirstKey command \<or> length args < 2 then None
        else Some (if length args > 2 then redacted (with_key command (args ! 1)) else with_key command (args ! 1)))"

definition redisAuditCommand :: "string list \<Rightarrow> string" where
  "redisAuditCommand args = (case redisAuditCommandChecked args of None \<Rightarrow> [] | Some audit \<Rightarrow> audit)"

definition shouldRecordRedisCommand :: "string \<Rightarrow> bool" where
  "shouldRecordRedisCommand command \<longleftrightarrow>
     command \<notin> {''AUTH'', ''PING'', ''QUIT'', ''ECHO'', ''SELECT'', ''HELLO'', ''COMMAND'', ''CLIENT''}"

section \<open>Facts about audit texts\<close>




lemma streams_index_bounds: "streams_index xs k = Some i \<Longrightarrow> k \<le> i \<and> i < k + length xs"
  by (induction xs k rule: streams_index.induct) (auto split: if_splits)



















section \<open>Properties\<close>

lemma allowed_command:
  assumes "isAllowedRedisPostAuthCommandArgs args"
  shows "args \<noteq> []" "upperRedisCommand (args ! 0) \<in> set allowedRedisPostAuthCommands"
    "upperRedisCommand (args ! 0) = ToUpper (args ! 0)" "validRedisCommandName (args ! 0)"
proof -
  show a: "args \<noteq> []" "upperRedisCommand (args ! 0) \<in> set allowedRedisPostAuthCommands"
    using assms by (auto simp: isAllowedRedisPostAuthCommandArgs_def isAllowedRedisPostAuthCommand_def Let_def split: if_splits)
  have "[] \<notin> set allowedRedisPostAuthCommands" by code_simp
  then have "upperRedisCommand (args ! 0) \<noteq> []" using a(2) by auto
  then show "upperRedisCommand (args ! 0) = ToUpper (args ! 0)" "validRedisCommandName (args ! 0)"
    by (auto simp: upperRedisCommand_def split: if_splits)
qed








text \<open>Commands with an underscore are dead entries of the list: a command name consists of letters
  only, so BITFIELD_RO, FCALL_RO and SORT_RO are refused whatever their arguments are.\<close>

theorem redis_underscore_commands_refused:
  "list_all (\<lambda>command. command \<in> set allowedRedisPostAuthCommands \<and> \<not> isAllowedRedisPostAuthCommandArgs (command # arguments))
     [''BITFIELD_RO'', ''FCALL_RO'', ''SORT_RO'']"
proof -
  have "list_all (\<lambda>command. command \<in> set allowedRedisPostAuthCommands \<and> \<not> validRedisCommandName command)
      [''BITFIELD_RO'', ''FCALL_RO'', ''SORT_RO'']" by code_simp
  then show ?thesis using allowed_command(4) by (fastforce simp: list_all_iff)
qed

end
