(* ===== verification/Postgres_Wire.thy ===== *)
theory Postgres_Wire
  imports Net Go_Text Compact_Ids
begin

text \<open>
  The PostgreSQL messages of the gateway (\<open>internal/server/dbproxy/postgres_protocol.go\<close> and
  \<open>postgres_startup.go\<close>): the untyped startup message with its parameters, the typed messages that
  follow, the login the gateway builds for the upstream and the protocol negotiation answer.

  Lengths and codes are big-endian 32-bit words; \<open>int(uint32)\<close> is exact on the 64-bit platforms the
  program is built for, so a length is the natural number the four bytes denote.  MD5 is a parameter.
\<close>

section \<open>Messages\<close>

definition postgresProtocolVersion30 :: nat where "postgresProtocolVersion30 = 196608"
definition maxPostgresStartupMessageBytes :: nat where "maxPostgresStartupMessageBytes = 16 * 1024"
definition maxPostgresAuthMessageBytes :: nat where "maxPostgresAuthMessageBytes = 64 * 1024"
definition minPostgresStartupMessageBytes :: nat where "minPostgresStartupMessageBytes = 8"
definition postgresMessageLengthFieldBytes :: nat where "postgresMessageLengthFieldBytes = 4"
definition postgresTypedMessageHeaderBytes :: nat where "postgresTypedMessageHeaderBytes = 5"

lemmas pg_sizes =
  postgresProtocolVersion30_def maxPostgresStartupMessageBytes_def maxPostgresAuthMessageBytes_def
  minPostgresStartupMessageBytes_def postgresMessageLengthFieldBytes_def postgresTypedMessageHeaderBytes_def

record postgresWireMessage =
  pg_kind :: byte
  pg_payload :: bytes

record postgresStartupParameter =
  sp_name :: string
  sp_value :: string

record postgresStartup =
  protocolMinor :: nat
  parameters :: "postgresStartupParameter list"
  unsupportedOptions :: "string list"
  su_username :: string
  su_database :: string

datatype pg_error =
    PgReadHeader
  | PgReadBody
  | InvalidStartupLength nat
  | StartupLengthMismatch nat nat
  | UnsupportedProtocol nat
  | MissingFinalTerminator
  | DataAfterTerminator
  | KeyNotTerminated
  | ValueNotTerminated
  | EmptyParameterName
  | DuplicateUser
  | DuplicateDatabase
  | UserRequired
  | InvalidSizeLimitPg
  | InvalidMessageLength nat
  | UnexpectedMessageType byte
  | PasswordTerminatorMissing
  | PasswordEmbeddedTerminator
  | PayloadTooLarge nat
  | PgWrite string

definition raw_message :: "postgresWireMessage \<Rightarrow> bytes" where
  "raw_message m =
     [pg_kind m] @ be_bytes 4 (postgresMessageLengthFieldBytes + length (pg_payload m)) @ pg_payload m"

definition indexPostgresNUL :: "bytes \<Rightarrow> nat \<Rightarrow> nat option" where
  "indexPostgresNUL v start = map_option ((+) start) (index_byte NUL (drop start v))"

definition readPostgresStartupMessage :: "conn \<Rightarrow> byte \<Rightarrow> (pg_error + bytes) \<times> conn" where
  "readPostgresStartupMessage c firstByte =
     (case conn_read_full 3 c of (None, c1) \<Rightarrow> (Inl PgReadHeader, c1)
      | (Some rest, c1) \<Rightarrow>
        (let header = firstByte # rest; messageLength = be_val header in
         if messageLength < minPostgresStartupMessageBytes \<or> messageLength > maxPostgresStartupMessageBytes
         then (Inl (InvalidStartupLength messageLength), c1)
         else (case conn_read_full (messageLength - length header) c1 of (None, c2) \<Rightarrow> (Inl PgReadBody, c2)
           | (Some body, c2) \<Rightarrow> (Inr (header @ body), c2))))"

section \<open>The startup message\<close>

text \<open>The switch on a parameter's name.\<close>

definition note_parameter ::
    "string \<Rightarrow> string \<Rightarrow> postgresStartup \<Rightarrow> bool \<Rightarrow> bool \<Rightarrow> pg_error + (postgresStartup \<times> bool \<times> bool)" where
  "note_parameter key v startup sawUser sawDatabase =
     (let startup = startup\<lparr>parameters := parameters startup @ [\<lparr>sp_name = key, sp_value = v\<rparr>]\<rparr> in
      if key = ''user'' then
        (if sawUser then Inl DuplicateUser else Inr (startup\<lparr>su_username := v\<rparr>, True, sawDatabase))
      else if key = ''database'' then
        (if sawDatabase then Inl DuplicateDatabase else Inr (startup\<lparr>su_database := v\<rparr>, sawUser, True))
      else if take 5 key = ''_pq_.'' then
        Inr (startup\<lparr>unsupportedOptions := unsupportedOptions startup @ [key]\<rparr>, sawUser, sawDatabase)
      else Inr (startup, sawUser, sawDatabase))"

lemma indexPostgresNUL_bounds: "indexPostgresNUL v start = Some k \<Longrightarrow> start \<le> k \<and> k < length v"
  by (auto simp: indexPostgresNUL_def dest: index_byte_SomeD)

text \<open>The loop over the parameters; it ends with whether the final terminator was seen.\<close>

function parameter_loop ::
    "bytes \<Rightarrow> nat \<Rightarrow> postgresStartup \<Rightarrow> bool \<Rightarrow> bool \<Rightarrow> pg_error + (postgresStartup \<times> bool)" where
  "parameter_loop params position startup sawUser sawDatabase =
     (if position \<ge> length params then Inr (startup, False)
      else if params ! position = NUL then
        (if position \<noteq> length params - 1 then Inl DataAfterTerminator else Inr (startup, True))
      else
      (case indexPostgresNUL params position of None \<Rightarrow> Inl KeyNotTerminated
       | Some keyEnd \<Rightarrow>
         (case indexPostgresNUL params (keyEnd + 1) of None \<Rightarrow> Inl ValueNotTerminated
          | Some valueEnd \<Rightarrow>
            (let key = take (keyEnd - position) (drop position params);
                 v = take (valueEnd - (keyEnd + 1)) (drop (keyEnd + 1) params) in
             if key = [] then Inl EmptyParameterName
             else (case note_parameter key v startup sawUser sawDatabase of Inl e \<Rightarrow> Inl e
               | Inr (startup', sawUser', sawDatabase') \<Rightarrow>
                   parameter_loop params (valueEnd + 1) startup' sawUser' sawDatabase')))))"
  by pat_completeness auto
termination
  by (relation "measure (\<lambda>(params, position, startup, sawUser, sawDatabase). length params - position)")
     (auto dest!: indexPostgresNUL_bounds)

declare parameter_loop.simps [simp del]

definition parsePostgresStartup :: "bytes \<Rightarrow> pg_error + postgresStartup" where
  "parsePostgresStartup message =
     (if length message < minPostgresStartupMessageBytes \<or> length message > maxPostgresStartupMessageBytes
      then Inl (InvalidStartupLength (length message))
      else
      let declared = be_val (take 4 message) in
      if declared \<noteq> length message then Inl (StartupLengthMismatch declared (length message))
      else
      let protocol = be_val (take 4 (drop 4 message)) in
      if protocol div 2 ^ 16 \<noteq> postgresProtocolVersion30 div 2 ^ 16 then Inl (UnsupportedProtocol protocol)
      else
      let startup = \<lparr>protocolMinor = protocol mod 2 ^ 16, parameters = [], unsupportedOptions = [],
                     su_username = [], su_database = []\<rparr>;
          params = drop 8 message in
      if length params = 0 \<or> params ! (length params - 1) \<noteq> NUL then Inl MissingFinalTerminator
      else
      (case parameter_loop params 0 startup False False of Inl e \<Rightarrow> Inl e
       | Inr (startup, sawFinalTerminator) \<Rightarrow>
           if \<not> sawFinalTerminator then Inl MissingFinalTerminator
           else if su_username startup = [] then Inl UserRequired
           else Inr startup))"

definition parsePostgresStartupMessage :: "bytes \<Rightarrow> pg_error + (string \<times> string)" where
  "parsePostgresStartupMessage message =
     (case parsePostgresStartup message of Inl e \<Rightarrow> Inl e
      | Inr startup \<Rightarrow> Inr (su_username startup, su_database startup))"

section \<open>Typed messages\<close>

definition readPostgresMessage :: "conn \<Rightarrow> int \<Rightarrow> (pg_error + postgresWireMessage) \<times> conn" where
  "readPostgresMessage c maxMessageBytes =
     (if maxMessageBytes < int postgresMessageLengthFieldBytes then (Inl InvalidSizeLimitPg, c)
      else
      (case conn_read_full postgresTypedMessageHeaderBytes c of (None, c1) \<Rightarrow> (Inl PgReadHeader, c1)
       | (Some header, c1) \<Rightarrow>
         (let messageLength = be_val (drop 1 header) in
          if messageLength < postgresMessageLengthFieldBytes \<or> int messageLength > maxMessageBytes
          then (Inl (InvalidMessageLength messageLength), c1)
          else (case conn_read_full (messageLength - postgresMessageLengthFieldBytes) c1 of
                  (None, c2) \<Rightarrow> (Inl PgReadBody, c2)
                | (Some body, c2) \<Rightarrow> (Inr \<lparr>pg_kind = header ! 0, pg_payload = body\<rparr>, c2)))))"

definition readPostgresPasswordMessage :: "conn \<Rightarrow> (pg_error + string) \<times> conn" where
  "readPostgresPasswordMessage c =
     (case readPostgresMessage c (int maxPostgresAuthMessageBytes) of (Inl e, c1) \<Rightarrow> (Inl e, c1)
      | (Inr message, c1) \<Rightarrow>
        (let body = pg_payload message in
         if pg_kind message \<noteq> CHR ''p'' then (Inl (UnexpectedMessageType (pg_kind message)), c1)
         else if length body = 0 \<or> body ! (length body - 1) \<noteq> NUL then (Inl PasswordTerminatorMissing, c1)
         else if indexPostgresNUL body 0 \<noteq> Some (length body - 1) then (Inl PasswordEmbeddedTerminator, c1)
         else (Inr (take (length body - 1) body), c1)))"

definition writePostgresBytes :: "conn \<Rightarrow> bytes \<Rightarrow> pg_error option \<times> conn" where
  "writePostgresBytes c data = write_loop (\<lambda>_ e. PgWrite e) ''short write'' c data 0"

definition writePostgresMessage :: "conn \<Rightarrow> byte \<Rightarrow> bytes \<Rightarrow> pg_error option \<times> conn" where
  "writePostgresMessage c k body =
     (if length body > maxPostgresAuthMessageBytes - postgresMessageLengthFieldBytes
      then (Some (PayloadTooLarge (length body)), c)
      else writePostgresBytes c (raw_message \<lparr>pg_kind = k, pg_payload = body\<rparr>))"

definition writePostgresMessageTo :: "conn \<Rightarrow> byte \<Rightarrow> bytes \<Rightarrow> pg_error option \<times> conn" where
  "writePostgresMessageTo c k body = writePostgresBytes c (raw_message \<lparr>pg_kind = k, pg_payload = body\<rparr>)"

section \<open>Towards the upstream\<close>

definition BuildPostgresPasswordResponse :: "(bytes \<Rightarrow> bytes) \<Rightarrow> u32 \<Rightarrow> string \<Rightarrow> string \<Rightarrow> bytes \<Rightarrow> string" where
  "BuildPostgresPasswordResponse md5 authType username password salt =
     (if authType \<noteq> 5 then password
      else ''md5'' @ hex_encode (md5 (hex_encode (md5 (password @ username)) @ salt)))"

definition postgresUpstreamDatabase :: "string \<Rightarrow> string" where
  "postgresUpstreamDatabase clientDatabase =
     (if clientDatabase = [] then ''postgres''
      else (case ParseCompactUsername clientDatabase of Inr _ \<Rightarrow> ''postgres'' | Inl _ \<Rightarrow> clientDatabase))"

definition writePostgresStartupParameter :: "string \<Rightarrow> string \<Rightarrow> bytes" where
  "writePostgresStartupParameter name v = name @ [NUL] @ v @ [NUL]"

definition forwarded :: "postgresStartupParameter \<Rightarrow> bool" where
  "forwarded p \<longleftrightarrow> \<not> (sp_name p = ''user'' \<or> sp_name p = ''database'' \<or> take 5 (sp_name p) = ''_pq_.'')"

definition buildPostgresUpstreamStartupMessage :: "string \<Rightarrow> postgresStartup \<Rightarrow> bytes" where
  "buildPostgresUpstreamStartupMessage username startup =
     (let body = writePostgresStartupParameter ''user'' username
            @ writePostgresStartupParameter ''database'' (postgresUpstreamDatabase (su_database startup))
            @ concat (map (\<lambda>p. writePostgresStartupParameter (sp_name p) (sp_value p)) (filter forwarded (parameters startup)))
            @ [NUL] in
      be_bytes 4 (8 + length body) @ be_bytes 4 postgresProtocolVersion30 @ body)"

definition BuildPostgresUpstreamStartupMessage :: "string \<Rightarrow> string \<Rightarrow> bytes" where
  "BuildPostgresUpstreamStartupMessage username database =
     buildPostgresUpstreamStartupMessage username
       \<lparr>protocolMinor = 0, parameters = [\<lparr>sp_name = ''user'', sp_value = username\<rparr>, \<lparr>sp_name = ''database'', sp_value = database\<rparr>],
        unsupportedOptions = [], su_username = username, su_database = database\<rparr>"

definition postgresSupportedProtocolMinor :: nat where "postgresSupportedProtocolMinor = 0"

definition writePostgresProtocolNegotiation :: "postgresStartup \<Rightarrow> conn \<Rightarrow> pg_error option \<times> conn" where
  "writePostgresProtocolNegotiation clientMessage c =
     (if protocolMinor clientMessage \<le> postgresSupportedProtocolMinor \<and> length (unsupportedOptions clientMessage) = 0
      then (None, c)
      else writePostgresMessageTo c (CHR ''v'')
        (be_bytes 4 postgresSupportedProtocolMinor @ be_bytes 4 (length (unsupportedOptions clientMessage))
         @ concat (map (\<lambda>option. option @ [NUL]) (unsupportedOptions clientMessage))))"

definition shouldForwardPostgresAuthMessage :: "bytes \<Rightarrow> bool" where
  "shouldForwardPostgresAuthMessage msg =
     (if length msg < 9 \<or> msg ! 0 \<noteq> CHR ''R'' then True else be_val (take 4 (drop 5 msg)) = 0)"

section \<open>The parameter list is parsed exactly\<close>

definition param_bytes :: "postgresStartupParameter \<Rightarrow> bytes" where
  "param_bytes p = writePostgresStartupParameter (sp_name p) (sp_value p)"

definition param_ok :: "postgresStartupParameter \<Rightarrow> bool" where
  "param_ok p \<longleftrightarrow> sp_name p \<noteq> [] \<and> NUL \<notin> set (sp_name p) \<and> NUL \<notin> set (sp_value p)"

fun note_all :: "postgresStartupParameter list \<Rightarrow> postgresStartup \<Rightarrow> bool \<Rightarrow> bool \<Rightarrow> pg_error + postgresStartup" where
  "note_all [] startup sawUser sawDatabase = Inr startup"
| "note_all (p # ps) startup sawUser sawDatabase =
     (case note_parameter (sp_name p) (sp_value p) startup sawUser sawDatabase of Inl e \<Rightarrow> Inl e
      | Inr (startup', sawUser', sawDatabase') \<Rightarrow> note_all ps startup' sawUser' sawDatabase')"

lemma indexPostgresNUL_at: "drop start v = x @ NUL # y \<Longrightarrow> NUL \<notin> set x \<Longrightarrow> indexPostgresNUL v start = Some (start + length x)"
  by (simp add: indexPostgresNUL_def)

lemma indexPostgresNUL_split:
  "indexPostgresNUL v start = Some k \<Longrightarrow>
   drop start v = take (k - start) (drop start v) @ NUL # drop (k + 1) v \<and> NUL \<notin> set (take (k - start) (drop start v))"
proof -
  assume "indexPostgresNUL v start = Some k"
  then obtain j where j: "index_byte NUL (drop start v) = Some j" "k = start + j" by (auto simp: indexPostgresNUL_def)
  note f = index_byte_SomeD [OF j(1)]
  have "drop start v = take j (drop start v) @ drop start v ! j # drop (Suc j) (drop start v)"
    using f by (intro id_take_nth_drop) simp
  then show ?thesis using f j(2) by (auto simp: add.commute)
qed

lemma parameter_loop_complete:
  "list_all param_ok ps \<Longrightarrow> drop position params = concat (map param_bytes ps) @ [NUL] \<Longrightarrow>
   parameter_loop params position s u d = (case note_all ps s u d of Inl e \<Rightarrow> Inl e | Inr s' \<Rightarrow> Inr (s', True))"
proof (induction ps arbitrary: position s u d)
  case Nil
  then have d: "drop position params = [NUL]" by simp
  then have "length params - position = 1" by (metis length_drop length_Cons list.size(3) One_nat_def)
  moreover have "params ! position = NUL" using d by (metis hd_drop_conv_nth drop_eq_Nil linorder_not_less list.sel(1) list.discI)
  ultimately show ?case by (subst parameter_loop.simps) auto
next
  case (Cons p ps)
  let ?rest = "concat (map param_bytes ps) @ [NUL]"
  obtain c n where n: "sp_name p = c # n" using Cons.prems(1) by (cases "sp_name p") (auto simp: param_ok_def)
  have d: "drop position params = sp_name p @ NUL # sp_value p @ NUL # ?rest"
    using Cons.prems(2) by (simp add: param_bytes_def [of p] writePostgresStartupParameter_def)
  have ok: "NUL \<notin> set (sp_name p)" "NUL \<notin> set (sp_value p)" "list_all param_ok ps" using Cons.prems(1) by (auto simp: param_ok_def [of p])
  have lt: "position < length params" and c: "params ! position \<noteq> NUL"
    using drop_facts [of position params c] d n ok(1) by auto
  define keyEnd where "keyEnd = position + length (sp_name p)"
  define valueEnd where "valueEnd = keyEnd + 1 + length (sp_value p)"
  have k: "indexPostgresNUL params position = Some keyEnd"
    using indexPostgresNUL_at [OF d ok(1)] by (simp add: keyEnd_def)
  have d2: "drop (keyEnd + 1) params = sp_value p @ NUL # ?rest"
    using arg_cong [OF d, of "drop (length (sp_name p) + 1)"] by (simp add: keyEnd_def ac_simps)
  have v: "indexPostgresNUL params (keyEnd + 1) = Some valueEnd"
    using indexPostgresNUL_at [OF d2 ok(2)] by (simp add: valueEnd_def)
  have d3: "drop (valueEnd + 1) params = ?rest"
    using arg_cong [OF d2, of "drop (length (sp_value p) + 1)"] by (simp add: valueEnd_def ac_simps)
  have key: "take (keyEnd - position) (drop position params) = sp_name p" using d by (simp add: keyEnd_def)
  have val: "take (valueEnd - Suc keyEnd) (drop (Suc keyEnd) params) = sp_value p" using d2 by (simp add: valueEnd_def)
  show ?case
    using lt c k v n Cons.IH [OF ok(3) d3]
    by (simp add: parameter_loop.simps [of params position] key val Let_def del: drop_drop split: sum.split)
qed

lemma parameter_loop_sound:
  "parameter_loop params position s u d = Inr (s', True) \<Longrightarrow>
   \<exists>ps. list_all param_ok ps \<and> drop position params = concat (map param_bytes ps) @ [NUL] \<and> note_all ps s u d = Inr s'"
proof (induction params position s u d rule: parameter_loop.induct)
  case (1 params position s u d)
  have lt: "position < length params" using 1(2) by (simp add: parameter_loop.simps [of params position] split: if_splits)
  show ?case
  proof (cases "params ! position = NUL")
    case True
    with 1(2) lt have "position = length params - 1" "s' = s"
      by (simp_all add: parameter_loop.simps [of params position] split: if_splits)
    with True lt have "drop position params = [NUL]"
      by (metis Cons_nth_drop_Suc Suc_diff_1 drop_all length_greater_0_conv list.size(3) not_less_zero order_refl)
    with \<open>s' = s\<close> show ?thesis by (intro exI [of _ "[]"]) simp
  next
    case False
    with 1(2) lt obtain keyEnd valueEnd s1 u1 d1 where
      k: "indexPostgresNUL params position = Some keyEnd" and v: "indexPostgresNUL params (keyEnd + 1) = Some valueEnd"
      and ne: "take (keyEnd - position) (drop position params) \<noteq> []"
      and nt: "note_parameter (take (keyEnd - position) (drop position params))
          (take (valueEnd - (keyEnd + 1)) (drop (keyEnd + 1) params)) s u d = Inr (s1, u1, d1)"
      and rec: "parameter_loop params (valueEnd + 1) s1 u1 d1 = Inr (s', True)"
      by (auto simp: parameter_loop.simps [of params position] Let_def split: option.splits if_splits sum.splits prod.splits)
    define p where "p = \<lparr>sp_name = take (keyEnd - position) (drop position params),
        sp_value = take (valueEnd - (keyEnd + 1)) (drop (keyEnd + 1) params)\<rparr>"
    obtain ps where ps: "list_all param_ok ps" "drop (valueEnd + 1) params = concat (map param_bytes ps) @ [NUL]"
        "note_all ps s1 u1 d1 = Inr s'"
      using 1(1) [OF _ False k v refl refl ne nt refl refl rec] lt by auto
    have key: "drop position params = sp_name p @ NUL # drop (keyEnd + 1) params" "NUL \<notin> set (sp_name p)" "sp_name p \<noteq> []"
      using indexPostgresNUL_split [OF k] ne unfolding p_def postgresStartupParameter.select_convs by blast+
    have val: "drop (keyEnd + 1) params = sp_value p @ NUL # drop (valueEnd + 1) params" "NUL \<notin> set (sp_value p)"
      using indexPostgresNUL_split [OF v] unfolding p_def postgresStartupParameter.select_convs by blast+
    have "drop position params = param_bytes p @ concat (map param_bytes ps) @ [NUL]"
      unfolding key(1) val(1) ps(2) by (simp add: param_bytes_def [of p] writePostgresStartupParameter_def)
    moreover have "param_ok p" using key val by (simp add: param_ok_def)
    moreover have "note_all (p # ps) s u d = Inr s'" using nt ps(3) unfolding p_def by simp
    ultimately show ?thesis using ps(1) by (intro exI [of _ "p # ps"]) simp
  qed
qed

text \<open>What noting the parameters collects.\<close>

lemma note_parameter_fields:
  "note_parameter k v s u d = Inr (s', u', d') \<Longrightarrow>
   parameters s' = parameters s @ [\<lparr>sp_name = k, sp_value = v\<rparr>] \<and> protocolMinor s' = protocolMinor s
   \<and> (su_database s' = su_database s \<or> su_database s' = v) \<and> (su_username s' = su_username s \<or> su_username s' = v)"
  by (auto simp: note_parameter_def Let_def split: if_splits)

lemma note_all_fields:
  "note_all ps s u d = Inr s' \<Longrightarrow>
   parameters s' = parameters s @ ps \<and> protocolMinor s' = protocolMinor s
   \<and> su_database s' \<in> insert (su_database s) (sp_value ` set ps)"
proof (induction ps arbitrary: s u d)
  case (Cons p ps)
  then obtain s1 u1 d1 where n: "note_parameter (sp_name p) (sp_value p) s u d = Inr (s1, u1, d1)" "note_all ps s1 u1 d1 = Inr s'"
    by (auto split: sum.splits)
  from note_parameter_fields [OF n(1)] Cons.IH [OF n(2)] show ?case by auto
qed simp

lemma forwarded_names: "forwarded p \<Longrightarrow> sp_name p \<noteq> ''user'' \<and> sp_name p \<noteq> ''database'' \<and> take 5 (sp_name p) \<noteq> ''_pq_.''"
  by (simp add: forwarded_def)

lemma note_all_forwarded:
  "list_all forwarded ps \<Longrightarrow> note_all ps s u d = Inr (s\<lparr>parameters := parameters s @ ps\<rparr>)"
proof (induction ps arbitrary: s)
  case (Cons p ps)
  then have "note_parameter (sp_name p) (sp_value p) s u d = Inr (s\<lparr>parameters := parameters s @ [p]\<rparr>, u, d)"
    using forwarded_names [of p] by (simp add: note_parameter_def Let_def)
  with Cons show ?case by simp
qed simp

lemma note_all_upstream:
  assumes "list_all forwarded ps"
  shows "note_all (\<lparr>sp_name = ''user'', sp_value = user\<rparr> # \<lparr>sp_name = ''database'', sp_value = database\<rparr> # ps)
      \<lparr>protocolMinor = 0, parameters = [], unsupportedOptions = [], su_username = [], su_database = []\<rparr> False False
    = Inr \<lparr>protocolMinor = 0,
           parameters = [\<lparr>sp_name = ''user'', sp_value = user\<rparr>, \<lparr>sp_name = ''database'', sp_value = database\<rparr>] @ ps,
           unsupportedOptions = [], su_username = user, su_database = database\<rparr>"
  using note_all_forwarded [OF assms] by (simp add: note_parameter_def Let_def)

definition startup_bytes :: "nat \<Rightarrow> postgresStartupParameter list \<Rightarrow> bytes" where
  "startup_bytes minor ps =
     (let body = concat (map param_bytes ps) @ [NUL] in
      be_bytes 4 (8 + length body) @ be_bytes 4 (postgresProtocolVersion30 + minor) @ body)"

lemma parse_startup_bytes:
  assumes "list_all param_ok ps" "length (startup_bytes minor ps) \<le> maxPostgresStartupMessageBytes" "minor < 2 ^ 16"
  shows "parsePostgresStartup (startup_bytes minor ps) =
    (case note_all ps \<lparr>protocolMinor = minor, parameters = [], unsupportedOptions = [], su_username = [], su_database = []\<rparr> False False of
       Inl e \<Rightarrow> Inl e
     | Inr s \<Rightarrow> if su_username s = [] then Inl UserRequired else Inr s)"
proof -
  define body where "body = concat (map param_bytes ps) @ [NUL]"
  have b: "body \<noteq> []" "body ! (length body - 1) = NUL" by (simp_all add: body_def nth_append)
  have m: "startup_bytes minor ps = be_bytes 4 (8 + length body) @ be_bytes 4 (postgresProtocolVersion30 + minor) @ body"
    by (simp add: startup_bytes_def body_def Let_def)
  have len: "8 + length body \<le> 16 * 1024" using assms(2) m by (simp add: pg_sizes)
  have declared: "be_val (be_bytes 4 (8 + length body)) = 8 + length body"
    using len by (simp add: be_val_be_bytes)
  have protocol: "be_val (be_bytes 4 (196608 + minor)) = 196608 + minor"
    using assms(3) by (simp add: be_val_be_bytes)
  have minor: "minor < 65536" using assms(3) by simp
  have sum: "196608 + minor = minor + 3 * 65536" by simp
  have div: "(196608 + minor) div 65536 = 3" using minor by (intro div_nat_eqI) simp_all
  have mod: "(196608 + minor) mod 65536 = minor" unfolding sum using minor by (simp only: mod_mult_self1 mod_less)
  have loop: "parameter_loop body 0 s u d = (case note_all ps s u d of Inl e \<Rightarrow> Inl e | Inr s' \<Rightarrow> Inr (s', True))" for s u d
    by (rule parameter_loop_complete [OF assms(1)]) (simp add: body_def)
  show ?thesis
    unfolding parsePostgresStartup_def m
    using len declared protocol div mod b loop by (auto simp: pg_sizes Let_def split: sum.splits)
qed

lemma parse_startup_print:
  assumes "parsePostgresStartup message = Inr s"
  shows "message = startup_bytes (protocolMinor s) (parameters s)" "list_all param_ok (parameters s)"
    "NUL \<notin> set (su_database s)" "protocolMinor s < 2 ^ 16"
proof -
  define protocol where "protocol = be_val (take 4 (drop 4 message))"
  define start where "start = \<lparr>protocolMinor = protocol mod 2 ^ 16, parameters = [], unsupportedOptions = [],
      su_username = [], su_database = []\<rparr>"
  have f: "8 \<le> length message" "be_val (take 4 message) = length message" "protocol div 65536 = 3"
      "parameter_loop (drop 8 message) 0 start False False = Inr (s, True)"
    using assms unfolding parsePostgresStartup_def Let_def protocol_def [symmetric] start_def
    by (auto simp: pg_sizes split: if_splits sum.splits)
  obtain ps where ps: "list_all param_ok ps" "drop 8 message = concat (map param_bytes ps) @ [NUL]" "note_all ps start False False = Inr s"
    using parameter_loop_sound [OF f(4)] by auto
  note n = note_all_fields [OF ps(3)]
  have p: "parameters s = ps" "protocolMinor s = protocol mod 65536" using n by (simp_all add: start_def)
  have protocol: "protocol = 196608 + protocolMinor s" using f(3) p(2) div_mult_mod_eq [of protocol 65536] by simp
  have "message = take 4 message @ take 4 (drop 4 message) @ drop 8 message"
    by (metis append_take_drop_id drop_drop numeral_plus_numeral semiring_norm(2) semiring_norm(6) semiring_norm(8))
  moreover have "take 4 message = be_bytes 4 (length message)"
    using f(1,2) be_bytes_be_val [of "take 4 message" 4] by simp
  moreover have "take 4 (drop 4 message) = be_bytes 4 protocol"
    using f(1) be_bytes_be_val [of "take 4 (drop 4 message)" 4] by (simp add: protocol_def)
  moreover have "length message = 8 + length (drop 8 message)" using f(1) by simp
  ultimately show "message = startup_bytes (protocolMinor s) (parameters s)"
    unfolding startup_bytes_def Let_def p(1) ps(2) [symmetric] protocol postgresProtocolVersion30_def by metis
  show "list_all param_ok (parameters s)" "protocolMinor s < 2 ^ 16" using ps(1) p by simp_all
  show "NUL \<notin> set (su_database s)"
    using n ps(1) by (auto simp: start_def list_all_iff param_ok_def)
qed

section \<open>Typed messages are a codec\<close>

definition message_read :: "int \<Rightarrow> bytes \<Rightarrow> (postgresWireMessage \<times> bytes) option" where
  "message_read m s =
     (case readPostgresMessage \<lparr>rx = s, tx = [], wplan = [], deadline_fails = False\<rparr> m of
        (Inr message, c) \<Rightarrow> Some (message, rx c) | _ \<Rightarrow> None)"

definition message_fits :: "int \<Rightarrow> postgresWireMessage \<Rightarrow> bool" where
  "message_fits m message \<longleftrightarrow> int (4 + length (pg_payload message)) \<le> m \<and> 4 + length (pg_payload message) < 2 ^ 32"

interpretation pg_messages: codec raw_message "message_read m" "message_fits m" for m
proof
  fix x rest
  assume fits: "message_fits m x"
  let ?h = "pg_kind x # be_bytes 4 (4 + length (pg_payload x))"
  have rx: "raw_message x @ rest = ?h @ pg_payload x @ rest" by (simp add: raw_message_def pg_sizes)
  have h: "be_val (be_bytes 4 (4 + length (pg_payload x))) = 4 + length (pg_payload x)"
    using fits by (simp add: be_val_be_bytes message_fits_def)
  show "message_read m (raw_message x @ rest) = Some (x, rest)"
    using fits h unfolding message_read_def rx readPostgresMessage_def
    by (simp add: pg_sizes conn_read_full_def read_full_def message_fits_def)
next
  fix s x rest
  assume "message_read m s = Some (x, rest)"
  then show "length rest < length s"
    by (auto simp: message_read_def readPostgresMessage_def conn_read_full_def read_full_def pg_sizes Let_def
        split: prod.splits sum.splits if_splits option.splits)
qed

text \<open>What a client of these messages needs to know of reading and writing one.\<close>

lemma readPostgresMessage_raw:
  assumes "message_fits m message" "rx c = raw_message message @ rest"
  shows "readPostgresMessage c m = (Inr message, c\<lparr>rx := rest\<rparr>)"
proof -
  let ?h = "pg_kind message # be_bytes 4 (4 + length (pg_payload message))"
  have rx: "rx c = ?h @ pg_payload message @ rest" using assms(2) by (simp add: raw_message_def pg_sizes)
  have h: "be_val (be_bytes 4 (4 + length (pg_payload message))) = 4 + length (pg_payload message)"
    using assms(1) by (simp add: be_val_be_bytes message_fits_def)
  show ?thesis
    using assms(1) h rx unfolding readPostgresMessage_def
    by (simp add: pg_sizes conn_read_full_def read_full_def message_fits_def)
qed

lemma readPostgresMessage_Inr:
  assumes "readPostgresMessage c m = (Inr message, c')"
  shows "rx c = raw_message message @ rx c'" "c' = c\<lparr>rx := rx c'\<rparr>" "length (rx c') < length (rx c)"
proof -
  obtain header c1 where h: "conn_read_full 5 c = (Some header, c1)"
    using assms by (auto simp: readPostgresMessage_def pg_sizes split: if_splits prod.splits option.splits)
  define n where "n = be_val (drop 1 header)"
  have b: "conn_read_full (n - 4) c1 = (Some (pg_payload message), c')" "4 \<le> n" "pg_kind message = header ! 0"
    using assms h unfolding readPostgresMessage_def n_def
    by (auto simp: pg_sizes Let_def split: if_splits prod.splits option.splits)
  note f = conn_read_full_Some [OF h] conn_read_full_Some [OF b(1)]
  then obtain k l where header: "header = k # l" "length l = 4" by (cases header) auto
  have "l = be_bytes 4 (4 + length (pg_payload message))"
    using be_bytes_be_val [of l 4] header f b by (simp add: n_def)
  with f header b(3) show rx: "rx c = raw_message message @ rx c'" by (simp add: raw_message_def pg_sizes)
  from f show "c' = c\<lparr>rx := rx c'\<rparr>" by (metis conn.surjective conn.update_convs(1))
  from rx show "length (rx c') < length (rx c)" by (simp add: raw_message_def)
qed

lemma readPostgresMessage_suffix: "readPostgresMessage c m = (r, c') \<Longrightarrow> suffix (rx c') (rx c)"
  by (auto simp: readPostgresMessage_def Let_def split: if_splits prod.splits option.splits
      dest!: conn_read_full_suffix intro: suffix_order.trans)

lemma writePostgresBytes_None:
  "writePostgresBytes c data = (None, c') \<Longrightarrow> tx c' = tx c @ data"
  unfolding writePostgresBytes_def by (rule write_loop_None)

lemma writePostgresBytes_rx: "writePostgresBytes c data = (r, c') \<Longrightarrow> rx c' = rx c"
  unfolding writePostgresBytes_def by (rule write_loop_rx)

lemma writePostgresBytes_plain: "wplan c = [] \<Longrightarrow> writePostgresBytes c data = (None, c\<lparr>tx := tx c @ data\<rparr>)"
  unfolding writePostgresBytes_def by (rule write_loop_empty_plan)

lemma writePostgresMessage_None:
  "writePostgresMessage c k body = (None, c') \<Longrightarrow>
     tx c' = tx c @ raw_message \<lparr>pg_kind = k, pg_payload = body\<rparr> \<and> length body \<le> 65532"
  by (auto simp: writePostgresMessage_def pg_sizes split: if_splits dest: writePostgresBytes_None)

lemma writePostgresMessage_rx: "writePostgresMessage c k body = (r, c') \<Longrightarrow> rx c' = rx c"
  by (auto simp: writePostgresMessage_def split: if_splits dest: writePostgresBytes_rx)

lemma writePostgresMessage_plain:
  "wplan c = [] \<Longrightarrow> length body \<le> 65532 \<Longrightarrow>
     writePostgresMessage c k body = (None, c\<lparr>tx := tx c @ raw_message \<lparr>pg_kind = k, pg_payload = body\<rparr>\<rparr>)"
  by (simp add: writePostgresMessage_def pg_sizes writePostgresBytes_plain)

section \<open>Properties\<close>

lemma upstream_startup_bytes:
  "buildPostgresUpstreamStartupMessage user s = startup_bytes 0
     (\<lparr>sp_name = ''user'', sp_value = user\<rparr> # \<lparr>sp_name = ''database'', sp_value = postgresUpstreamDatabase (su_database s)\<rparr>
      # filter forwarded (parameters s))"
  by (simp add: buildPostgresUpstreamStartupMessage_def startup_bytes_def param_bytes_def [abs_def] Let_def)

lemma upstream_database_ok: "NUL \<notin> set database \<Longrightarrow> NUL \<notin> set (postgresUpstreamDatabase database)"
  by (auto simp: postgresUpstreamDatabase_def split: sum.split)

text \<open>
  What reaches the upstream of a client's startup message: the upstream reads the account's user
  name instead of the client's, the client's database (or \<open>postgres\<close> when the client gave none or a
  compact name), every other parameter the client sent, in order and unchanged, and none of the
  protocol options the gateway does not support; the protocol version is 3.0.
\<close>

theorem postgres_startup_forwarding:
  assumes "parsePostgresStartup message = Inr s"
    and "user \<noteq> []" "NUL \<notin> set user"
    and "length (buildPostgresUpstreamStartupMessage user s) \<le> maxPostgresStartupMessageBytes"
  shows "parsePostgresStartup (buildPostgresUpstreamStartupMessage user s) = Inr
    \<lparr>protocolMinor = 0,
     parameters = [\<lparr>sp_name = ''user'', sp_value = user\<rparr>,
                   \<lparr>sp_name = ''database'', sp_value = postgresUpstreamDatabase (su_database s)\<rparr>]
                  @ filter forwarded (parameters s),
     unsupportedOptions = [], su_username = user, su_database = postgresUpstreamDatabase (su_database s)\<rparr>"
proof -
  let ?db = "postgresUpstreamDatabase (su_database s)"
  let ?ps = "\<lparr>sp_name = ''user'', sp_value = user\<rparr> # \<lparr>sp_name = ''database'', sp_value = ?db\<rparr> # filter forwarded (parameters s)"
  have "list_all param_ok ?ps"
    using parse_startup_print(2,3) [OF assms(1)] assms(2,3) upstream_database_ok
    by (auto simp: list_all_iff param_ok_def)
  from parse_startup_bytes [OF this, of 0] assms(4)
  have "parsePostgresStartup (startup_bytes 0 ?ps) =
    (case note_all ?ps \<lparr>protocolMinor = 0, parameters = [], unsupportedOptions = [], su_username = [], su_database = []\<rparr> False False of
       Inl e \<Rightarrow> Inl e | Inr s \<Rightarrow> if su_username s = [] then Inl UserRequired else Inr s)"
    unfolding upstream_startup_bytes by simp
  also have "note_all ?ps \<lparr>protocolMinor = 0, parameters = [], unsupportedOptions = [], su_username = [], su_database = []\<rparr> False False
    = Inr \<lparr>protocolMinor = 0, parameters = [\<lparr>sp_name = ''user'', sp_value = user\<rparr>, \<lparr>sp_name = ''database'', sp_value = ?db\<rparr>]
        @ filter forwarded (parameters s), unsupportedOptions = [], su_username = user, su_database = ?db\<rparr>"
    by (rule note_all_upstream) (simp add: list_all_iff)
  finally show ?thesis unfolding upstream_startup_bytes using assms(2) by simp
qed

text \<open>
  The startup message is read without loss: an accepted message is exactly its length, its
  version 3 protocol number and the encoding of the parameters that were extracted, each with a
  non-empty name and no NUL byte, followed by the final terminator.
\<close>

theorem postgres_startup_exact:
  assumes "parsePostgresStartup message = Inr s"
  shows "message = startup_bytes (protocolMinor s) (parameters s) \<and> list_all param_ok (parameters s)
    \<and> protocolMinor s < 2 ^ 16"
  using parse_startup_print [OF assms] by simp

definition demo_startup :: bytes where
  "demo_startup = startup_bytes 0 [\<lparr>sp_name = ''user'', sp_value = ''D000100002''\<rparr>, \<lparr>sp_name = ''TimeZone'', sp_value = ''UTC''\<rparr>]"

definition demo_parsed :: postgresStartup where
  "demo_parsed = \<lparr>protocolMinor = 0,
     parameters = [\<lparr>sp_name = ''user'', sp_value = ''D000100002''\<rparr>, \<lparr>sp_name = ''TimeZone'', sp_value = ''UTC''\<rparr>],
     unsupportedOptions = [], su_username = ''D000100002'', su_database = []\<rparr>"

lemma demo_startup_parses: "parsePostgresStartup demo_startup = Inr demo_parsed"
  unfolding demo_startup_def
  by (subst parse_startup_bytes)
     (simp_all add: param_ok_def note_parameter_def Let_def demo_parsed_def startup_bytes_def param_bytes_def
        writePostgresStartupParameter_def pg_sizes)

theorem postgres_startup_exact_witness:
  "demo_startup = startup_bytes (protocolMinor demo_parsed) (parameters demo_parsed) \<and> list_all param_ok (parameters demo_parsed)
    \<and> protocolMinor demo_parsed < 2 ^ 16"
  by (rule postgres_startup_exact [OF demo_startup_parses])

theorem postgres_startup_forwarding_witness:
  "parsePostgresStartup (buildPostgresUpstreamStartupMessage ''app'' demo_parsed) = Inr
    \<lparr>protocolMinor = 0,
     parameters = [\<lparr>sp_name = ''user'', sp_value = ''app''\<rparr>,
                   \<lparr>sp_name = ''database'', sp_value = postgresUpstreamDatabase (su_database demo_parsed)\<rparr>]
                  @ filter forwarded (parameters demo_parsed),
     unsupportedOptions = [], su_username = ''app'', su_database = postgresUpstreamDatabase (su_database demo_parsed)\<rparr>"
  by (rule postgres_startup_forwarding [OF demo_startup_parses])
     (simp_all add: buildPostgresUpstreamStartupMessage_def demo_parsed_def postgresUpstreamDatabase_def
        writePostgresStartupParameter_def forwarded_def pg_sizes Let_def)

end
