(* ===== verification/Postgres_Scram.thy ===== *)
theory Postgres_Scram
  imports Postgres_Wire Go_Encoding
begin

text \<open>
  The SCRAM-SHA-256 client the gateway runs against a PostgreSQL upstream
  (\<open>internal/server/dbproxy/postgres_scram.go\<close>).  SHA-256 and the third-party SASLprep
  (\<open>github.com/xdg-go/stringprep\<close>, which may fail) are parameters; the keyed hash, the key derivation
  and the messages are the code's.
\<close>

section \<open>Primitives\<close>

definition postgresSCRAMSHA256 :: string where "postgresSCRAMSHA256 = ''SCRAM-SHA-256''"
definition minPostgresSCRAMIterations :: int where "minPostgresSCRAMIterations = 4096"
definition maxPostgresSCRAMIterations :: int where "maxPostgresSCRAMIterations = 1000000"
definition postgresSCRAMNonceBytes :: nat where "postgresSCRAMNonceBytes = 18"
definition maxPostgresSCRAMSaltBytes :: nat where "maxPostgresSCRAMSaltBytes = 1024"

definition HMACSHA256 :: "(bytes \<Rightarrow> bytes) \<Rightarrow> bytes \<Rightarrow> bytes \<Rightarrow> bytes" where
  "HMACSHA256 sha256 key data = hmac_sha256 sha256 key data"

definition SHA256Hash :: "(bytes \<Rightarrow> bytes) \<Rightarrow> bytes \<Rightarrow> bytes" where
  "SHA256Hash sha256 data = sha256 data"

fun XORBytes :: "bytes \<Rightarrow> bytes \<Rightarrow> bytes" where
  "XORBytes (a # left) (b # right) = byte_xor a b # XORBytes left right"
| "XORBytes left right = []"

text \<open>The inner loop of the key derivation, for the iterations that remain.\<close>

fun pbkdf2_iterate :: "(bytes \<Rightarrow> bytes) \<Rightarrow> nat \<Rightarrow> bytes \<Rightarrow> bytes \<Rightarrow> bytes" where
  "pbkdf2_iterate mac 0 current accumulator = accumulator"
| "pbkdf2_iterate mac (Suc n) current accumulator =
     (let current = mac current in pbkdf2_iterate mac n current (XORBytes accumulator current))"

definition PBKDF2Key :: "(bytes \<Rightarrow> bytes) \<Rightarrow> bytes \<Rightarrow> bytes \<Rightarrow> int \<Rightarrow> int \<Rightarrow> bytes" where
  "PBKDF2Key sha256 password salt iterations keyLength =
     (if iterations \<le> 0 \<or> keyLength \<le> 0 then []
      else
      let blocks = (nat keyLength + 32 - 1) div 32;
          one = (\<lambda>block. let current = HMACSHA256 sha256 password (salt @ be_bytes 4 block) in
                   pbkdf2_iterate (HMACSHA256 sha256 password) (nat iterations - 1) current current) in
      take (nat keyLength) (concat (map one [1..<blocks + 1])))"

definition normalizePostgresSCRAMPassword :: "(string \<Rightarrow> string option) \<Rightarrow> string \<Rightarrow> bytes" where
  "normalizePostgresSCRAMPassword prepare password =
     (case prepare password of None \<Rightarrow> password | Some normalized \<Rightarrow> normalized)"

definition escapePostgresSCRAMUsername :: "string \<Rightarrow> string" where
  "escapePostgresSCRAMUsername username =
     replace_byte (CHR '','') ''=2C'' (replace_byte (CHR ''='') ''=3D'' username)"

section \<open>Messages of the exchange\<close>

datatype scram_error =
    MechanismNotOffered
  | InvalidClientNonce
  | WriteInitial pg_error
  | ReadContinue pg_error
  | ExpectedContinue
  | ParseContinue
  | MandatoryExtension
  | ServerNonceMismatch
  | InvalidSalt
  | InvalidIterations
  | WriteFinal pg_error
  | ReadFinal pg_error
  | ExpectedFinal
  | ParseFinal
  | ServerRejected
  | MissingServerSignature
  | ServerSignatureMismatch
  | NonceUnavailable

text \<open>The scan of the mechanism list: \<open>position\<close> moves behind each terminator.\<close>

function mechanism_loop :: "bytes \<Rightarrow> string \<Rightarrow> nat \<Rightarrow> bool \<Rightarrow> bool" where
  "mechanism_loop body wanted position found =
     (if position < length body then
        (case indexPostgresNUL body position of None \<Rightarrow> False
         | Some end' \<Rightarrow>
           if end' = position then position = length body - 1 \<and> found
           else mechanism_loop body wanted (end' + 1) (found \<or> take (end' - position) (drop position body) = wanted))
      else False)"
  by pat_completeness auto
termination
  by (relation "measure (\<lambda>(body, wanted, position, found). length body - position)")
     (auto dest!: indexPostgresNUL_bounds)

declare mechanism_loop.simps [simp del]

definition postgresSCRAMMechanismOffered :: "bytes \<Rightarrow> string \<Rightarrow> bool" where
  "postgresSCRAMMechanismOffered body wanted =
     (if length body < 2 \<or> body ! (length body - 1) \<noteq> NUL then False else mechanism_loop body wanted 0 False)"

fun attribute_loop :: "string list \<Rightarrow> (string \<rightharpoonup> string) \<Rightarrow> (string \<rightharpoonup> string) option" where
  "attribute_loop [] attributes = Some attributes"
| "attribute_loop (item # items) attributes =
     (if length item < 3 \<or> item ! 1 \<noteq> CHR ''='' then None
      else if attributes (take 1 item) \<noteq> None then None
      else attribute_loop items (attributes(take 1 item \<mapsto> drop 2 item)))"

definition parsePostgresSCRAMAttributes :: "string \<Rightarrow> (string \<rightharpoonup> string) option" where
  "parsePostgresSCRAMAttributes message =
     (if message = [] then None else attribute_loop (split_byte (CHR '','') message) Map.empty)"

text \<open>Reading a key that a Go map does not hold gives the empty string.\<close>

definition attribute :: "(string \<rightharpoonup> string) \<Rightarrow> string \<Rightarrow> string" where
  "attribute m k = (case m k of None \<Rightarrow> [] | Some v \<Rightarrow> v)"

definition client_first_bare :: "string \<Rightarrow> string \<Rightarrow> string" where
  "client_first_bare username clientNonce = ''n='' @ escapePostgresSCRAMUsername username @ '',r='' @ clientNonce"

definition scram_initial :: "string \<Rightarrow> string \<Rightarrow> bytes" where
  "scram_initial username clientNonce =
     (let clientFirst = ''n,,'' @ client_first_bare username clientNonce in
      postgresSCRAMSHA256 @ [NUL] @ be_bytes 4 (length clientFirst) @ clientFirst)"

text \<open>The checks on the server's first message; the result is the text of the message, the combined
  nonce, the salt and the iteration count.\<close>

definition check_continue :: "postgresWireMessage \<Rightarrow> string \<Rightarrow> scram_error + (string \<times> string \<times> bytes \<times> int)" where
  "check_continue message clientNonce =
     (if pg_kind message \<noteq> CHR ''R'' \<or> length (pg_payload message) < 4
         \<or> be_val (take 4 (pg_payload message)) \<noteq> 11 then Inl ExpectedContinue
      else
      let serverFirst = drop 4 (pg_payload message) in
      case parsePostgresSCRAMAttributes serverFirst of None \<Rightarrow> Inl ParseContinue
      | Some attributes \<Rightarrow>
        if attributes ''m'' \<noteq> None then Inl MandatoryExtension
        else
        let combinedNonce = attribute attributes ''r'' in
        if \<not> prefix clientNonce combinedNonce \<or> length combinedNonce \<le> length clientNonce
        then Inl ServerNonceMismatch
        else
        (case base64_decode (attribute attributes ''s'') of None \<Rightarrow> Inl InvalidSalt
         | Some salt \<Rightarrow>
           if length salt = 0 \<or> length salt > maxPostgresSCRAMSaltBytes then Inl InvalidSalt
           else
           (case Atoi (attribute attributes ''i'') of None \<Rightarrow> Inl InvalidIterations
            | Some iterations \<Rightarrow>
              if iterations < minPostgresSCRAMIterations \<or> iterations > maxPostgresSCRAMIterations
              then Inl InvalidIterations
              else Inr (serverFirst, combinedNonce, salt, iterations))))"

definition final_without_proof :: "string \<Rightarrow> string" where
  "final_without_proof combinedNonce = ''c=biws,r='' @ combinedNonce"

definition auth_message :: "string \<Rightarrow> string \<Rightarrow> string \<Rightarrow> string \<Rightarrow> bytes" where
  "auth_message username clientNonce serverFirst combinedNonce =
     client_first_bare username clientNonce @ '','' @ serverFirst @ '','' @ final_without_proof combinedNonce"

definition client_proof :: "(bytes \<Rightarrow> bytes) \<Rightarrow> bytes \<Rightarrow> bytes \<Rightarrow> bytes" where
  "client_proof sha256 saltedPassword authMessage =
     (let clientKey = HMACSHA256 sha256 saltedPassword ''Client Key'';
          storedKey = SHA256Hash sha256 clientKey;
          clientSignature = HMACSHA256 sha256 storedKey authMessage in
      XORBytes clientKey clientSignature)"

definition server_signature :: "(bytes \<Rightarrow> bytes) \<Rightarrow> bytes \<Rightarrow> bytes \<Rightarrow> bytes" where
  "server_signature sha256 saltedPassword authMessage =
     HMACSHA256 sha256 (HMACSHA256 sha256 saltedPassword ''Server Key'') authMessage"

definition check_final :: "postgresWireMessage \<Rightarrow> bytes \<Rightarrow> scram_error option" where
  "check_final message expectedServerSignature =
     (if pg_kind message \<noteq> CHR ''R'' \<or> length (pg_payload message) < 4
         \<or> be_val (take 4 (pg_payload message)) \<noteq> 12 then Some ExpectedFinal
      else
      case parsePostgresSCRAMAttributes (drop 4 (pg_payload message)) of None \<Rightarrow> Some ParseFinal
      | Some attributes \<Rightarrow>
        if attributes ''e'' \<noteq> None then Some ServerRejected
        else
        (case attributes ''v'' of None \<Rightarrow> Some MissingServerSignature
         | Some encodedVerifier \<Rightarrow>
           if base64_decode encodedVerifier = Some expectedServerSignature then None
           else Some ServerSignatureMismatch))"

section \<open>The exchange\<close>

definition runPostgresSCRAMWithNonce ::
    "(bytes \<Rightarrow> bytes) \<Rightarrow> (string \<Rightarrow> string option) \<Rightarrow> conn \<Rightarrow> string \<Rightarrow> string \<Rightarrow> bytes \<Rightarrow> string
      \<Rightarrow> scram_error option \<times> conn" where
  "runPostgresSCRAMWithNonce sha256 prepare c username password offeredMechanisms clientNonce =
     (if \<not> postgresSCRAMMechanismOffered offeredMechanisms postgresSCRAMSHA256 then (Some MechanismNotOffered, c)
      else if clientNonce = [] \<or> CHR '','' \<in> set clientNonce \<or> NUL \<in> set clientNonce then (Some InvalidClientNonce, c)
      else
      (case writePostgresMessage c (CHR ''p'') (scram_initial username clientNonce) of
         (Some e, c1) \<Rightarrow> (Some (WriteInitial e), c1)
       | (None, c1) \<Rightarrow>
       (case readPostgresMessage c1 (int maxPostgresAuthMessageBytes) of (Inl e, c2) \<Rightarrow> (Some (ReadContinue e), c2)
        | (Inr continueMessage, c2) \<Rightarrow>
        (case check_continue continueMessage clientNonce of Inl e \<Rightarrow> (Some e, c2)
         | Inr (serverFirst, combinedNonce, salt, iterations) \<Rightarrow>
           let authMessage = auth_message username clientNonce serverFirst combinedNonce;
               saltedPassword = PBKDF2Key sha256 (normalizePostgresSCRAMPassword prepare password) salt iterations 32;
               clientFinal = final_without_proof combinedNonce @ '',p=''
                 @ base64_encode (client_proof sha256 saltedPassword authMessage) in
           (case writePostgresMessage c2 (CHR ''p'') clientFinal of (Some e, c3) \<Rightarrow> (Some (WriteFinal e), c3)
            | (None, c3) \<Rightarrow>
            (case readPostgresMessage c3 (int maxPostgresAuthMessageBytes) of (Inl e, c4) \<Rightarrow> (Some (ReadFinal e), c4)
             | (Inr finalMessage, c4) \<Rightarrow>
               (check_final finalMessage (server_signature sha256 saltedPassword authMessage), c4)))))))"

text \<open>\<open>rand.Read\<close> is the block of random bytes it returns, or none when it fails.\<close>

definition runPostgresSCRAM ::
    "(bytes \<Rightarrow> bytes) \<Rightarrow> (string \<Rightarrow> string option) \<Rightarrow> bytes option \<Rightarrow> conn \<Rightarrow> string \<Rightarrow> string \<Rightarrow> bytes
      \<Rightarrow> scram_error option \<times> conn" where
  "runPostgresSCRAM sha256 prepare random c username password offeredMechanisms =
     (case random of None \<Rightarrow> (Some NonceUnavailable, c)
      | Some nonceBytes \<Rightarrow>
          runPostgresSCRAMWithNonce sha256 prepare c username password offeredMechanisms
            (base64_raw_encode (take postgresSCRAMNonceBytes nonceBytes)))"

section \<open>Facts about the parts\<close>

lemma XORBytes_eq: "XORBytes left right = xor_bytes left right"
  by (induction left right rule: XORBytes.induct) (simp_all add: xor_bytes_def)

text \<open>The key derivation is the one of RFC 8018: the exclusive or of the iterated keyed hashes.\<close>

lemma pbkdf2_iterate_fold:
  "pbkdf2_iterate mac n current acc = foldl XORBytes acc (map (\<lambda>j. (mac ^^ j) current) [1..<Suc n])"
proof (induction n arbitrary: current acc)
  case (Suc n)
  have shift: "map (\<lambda>j. (mac ^^ j) (mac current)) [1..<Suc n] = map (\<lambda>j. (mac ^^ j) current) [2..<Suc (Suc n)]"
  proof -
    have "[2..<Suc (Suc n)] = map Suc [1..<Suc n]" by (simp add: map_Suc_upt numeral_2_eq_2 del: upt_Suc)
    then show ?thesis by (simp add: funpow_swap1 del: upt_Suc)
  qed
  have "[1..<Suc (Suc n)] = 1 # [2..<Suc (Suc n)]" by (subst upt_conv_Cons) (simp_all add: numeral_2_eq_2 del: upt_Suc)
  then show ?case using Suc [of "mac current" "XORBytes acc (mac current)"] by (simp add: Let_def shift [unfolded One_nat_def] del: upt_Suc)
qed simp

lemma PBKDF2Key_block:
  assumes "\<And>x. length (sha256 x) = 32" "0 < iterations"
  shows "PBKDF2Key sha256 password salt iterations 32 =
    foldl XORBytes (HMACSHA256 sha256 password (salt @ be_bytes 4 1))
      (map (\<lambda>j. (HMACSHA256 sha256 password ^^ j) (HMACSHA256 sha256 password (salt @ be_bytes 4 1))) [1..<nat iterations])"
proof -
  let ?u = "HMACSHA256 sha256 password (salt @ be_bytes 4 1)"
  have mac: "length (HMACSHA256 sha256 k d) = 32" for k d by (simp add: HMACSHA256_def hmac_sha256_def Let_def assms(1))
  have it: "length (pbkdf2_iterate (HMACSHA256 sha256 password) n cur acc) = 32" if "length acc = 32" for n cur acc
    using that by (induction n arbitrary: cur acc) (simp_all add: Let_def XORBytes_eq mac)
  have "PBKDF2Key sha256 password salt iterations 32 = pbkdf2_iterate (HMACSHA256 sha256 password) (nat iterations - 1) ?u ?u"
    using assms(2) it [of ?u] mac by (simp add: PBKDF2Key_def Let_def)
  moreover have "Suc (nat iterations - 1) = nat iterations" using assms(2) by simp
  ultimately show ?thesis by (simp only: pbkdf2_iterate_fold)
qed

lemma escape_no_comma: "CHR '','' \<notin> set (escapePostgresSCRAMUsername username)"
  using set_replace_byte [of "CHR '',''" "''=2C''" "replace_byte (CHR ''='') ''=3D'' username"]
  by (auto simp: escapePostgresSCRAMUsername_def)

lemma length_escape: "length (escapePostgresSCRAMUsername username) \<le> 9 * length username"
  using length_replace_byte [of "''=2C''" 3 "CHR '',''" "replace_byte (CHR ''='') ''=3D'' username"]
    length_replace_byte [of "''=3D''" 3 "CHR ''=''" username]
  by (simp add: escapePostgresSCRAMUsername_def)

lemma check_continue_Inr:
  assumes "check_continue message nonce = Inr (serverFirst, combined, salt, iterations)"
  shows "message = \<lparr>pg_kind = CHR ''R'', pg_payload = be_bytes 4 11 @ serverFirst\<rparr>"
    "strict_prefix nonce combined" "4096 \<le> iterations" "iterations \<le> 1000000" "salt \<noteq> []" "length salt \<le> 1024"
    "\<exists>attributes. parsePostgresSCRAMAttributes serverFirst = Some attributes \<and> attributes ''m'' = None
       \<and> attribute attributes ''r'' = combined \<and> base64_decode (attribute attributes ''s'') = Some salt
       \<and> Atoi (attribute attributes ''i'') = Some iterations"
proof -
  have f: "pg_kind message = CHR ''R''" "4 \<le> length (pg_payload message)" "be_val (take 4 (pg_payload message)) = 11"
      "serverFirst = drop 4 (pg_payload message)"
    using assms by (auto simp: check_continue_def Let_def split: if_splits option.splits)
  have "take 4 (pg_payload message) = be_bytes 4 11" using be_bytes_be_val [of "take 4 (pg_payload message)" 4] f by simp
  then have "pg_payload message = be_bytes 4 11 @ serverFirst" using f(4) by (metis append_take_drop_id)
  with f(1) show "message = \<lparr>pg_kind = CHR ''R'', pg_payload = be_bytes 4 11 @ serverFirst\<rparr>" by simp
  show "strict_prefix nonce combined" "4096 \<le> iterations" "iterations \<le> 1000000" "salt \<noteq> []" "length salt \<le> 1024"
    "\<exists>attributes. parsePostgresSCRAMAttributes serverFirst = Some attributes \<and> attributes ''m'' = None
       \<and> attribute attributes ''r'' = combined \<and> base64_decode (attribute attributes ''s'') = Some salt
       \<and> Atoi (attribute attributes ''i'') = Some iterations"
    using assms by (auto simp: check_continue_def Let_def minPostgresSCRAMIterations_def maxPostgresSCRAMIterations_def
        maxPostgresSCRAMSaltBytes_def strict_prefix_def split: if_splits option.splits)
qed

lemma check_final_None:
  assumes "check_final message expected = None"
  shows "\<exists>attributes v. parsePostgresSCRAMAttributes (drop 4 (pg_payload message)) = Some attributes
    \<and> attributes ''e'' = None \<and> attributes ''v'' = Some v \<and> base64_decode v = Some expected"
    "pg_kind message = CHR ''R''" "be_val (take 4 (pg_payload message)) = 12"
  using assms by (auto simp: check_final_def split: if_splits option.splits)

section \<open>The server of RFC 5802\<close>

text \<open>What an honest server stores and sends, and how it checks the client's last message.\<close>

definition server_first :: "string \<Rightarrow> string \<Rightarrow> bytes \<Rightarrow> nat \<Rightarrow> string" where
  "server_first nonce serverNonce salt iterations =
     ''r='' @ nonce @ serverNonce @ '',s='' @ base64_encode salt @ '',i='' @ itoa iterations"

definition server_accepts :: "(bytes \<Rightarrow> bytes) \<Rightarrow> bytes \<Rightarrow> bytes \<Rightarrow> string \<Rightarrow> bool" where
  "server_accepts sha256 storedKey authMessage clientFinal \<longleftrightarrow>
     (case parsePostgresSCRAMAttributes clientFinal of None \<Rightarrow> False
      | Some attributes \<Rightarrow> attributes ''c'' = Some ''biws'' \<and>
        (case base64_decode (attribute attributes ''p'') of None \<Rightarrow> False
         | Some proof' \<Rightarrow> sha256 (XORBytes proof' (HMACSHA256 sha256 storedKey authMessage)) = storedKey))"

lemma parse_three:
  assumes "CHR '','' \<notin> set x" "CHR '','' \<notin> set y" "CHR '','' \<notin> set z" "x \<noteq> []" "y \<noteq> []" "z \<noteq> []"
    and "distinct [a, b, c]" "CHR '','' \<notin> {a, b, c}"
  shows "parsePostgresSCRAMAttributes (a # CHR ''='' # x @ CHR '','' # b # CHR ''='' # y @ CHR '','' # c # CHR ''='' # z)
    = Some [[a] \<mapsto> x, [b] \<mapsto> y, [c] \<mapsto> z]"
proof -
  have "split_byte (CHR '','') ((a # CHR ''='' # x) @ CHR '','' # (b # CHR ''='' # y) @ CHR '','' # (c # CHR ''='' # z))
    = [a # CHR ''='' # x, b # CHR ''='' # y, c # CHR ''='' # z]"
    using assms by (subst split_byte_append, force, subst split_byte_append, force, subst split_byte_single) auto
  then show ?thesis using assms by (auto simp: parsePostgresSCRAMAttributes_def Suc_le_eq numeral_3_eq_3 not_less)
qed

lemma parse_one:
  assumes "CHR '','' \<notin> set x" "x \<noteq> []" "a \<noteq> CHR '',''"
  shows "parsePostgresSCRAMAttributes (a # CHR ''='' # x) = Some [[a] \<mapsto> x]"
proof -
  have "split_byte (CHR '','') (a # CHR ''='' # x) = [a # CHR ''='' # x]" using assms by (intro split_byte_single) auto
  then show ?thesis using assms by (auto simp: parsePostgresSCRAMAttributes_def Suc_le_eq numeral_3_eq_3 not_less)
qed

lemma itoa_no_comma: "CHR '','' \<notin> set (itoa n)"
  using itoa_digits [of n] by (auto simp: is_digit_def)

lemma check_continue_honest:
  assumes "CHR '','' \<notin> set nonce" "nonce \<noteq> []" "CHR '','' \<notin> set serverNonce" "serverNonce \<noteq> []"
    and "salt \<noteq> []" "length salt \<le> 1024" "4096 \<le> iterations" "iterations \<le> 1000000"
  shows "check_continue \<lparr>pg_kind = CHR ''R'', pg_payload = be_bytes 4 11 @ server_first nonce serverNonce salt iterations\<rparr> nonce
    = Inr (server_first nonce serverNonce salt iterations, nonce @ serverNonce, salt, int iterations)"
proof -
  have "parsePostgresSCRAMAttributes (server_first nonce serverNonce salt iterations)
    = Some [''r'' \<mapsto> nonce @ serverNonce, ''s'' \<mapsto> base64_encode salt, ''i'' \<mapsto> itoa iterations]"
    using assms parse_three [of "nonce @ serverNonce" "base64_encode salt" "itoa iterations" "CHR ''r''" "CHR ''s''" "CHR ''i''"]
    by (simp add: server_first_def base64_encode_clean itoa_no_comma)
  moreover have "Atoi (itoa iterations) = Some (int iterations)" using assms(8) by (intro Atoi_itoa) simp
  moreover have "be_val (be_bytes 4 11) = 11" by (simp add: be_val_be_bytes)
  ultimately show ?thesis
    using assms by (simp add: check_continue_def attribute_def minPostgresSCRAMIterations_def maxPostgresSCRAMIterations_def
        maxPostgresSCRAMSaltBytes_def)
qed

lemma client_final_accepted:
  assumes "\<And>x. length (sha256 x) = 32" "CHR '','' \<notin> set combined" "combined \<noteq> []"
  shows "server_accepts sha256 (sha256 (HMACSHA256 sha256 salted ''Client Key'')) authMessage
    (final_without_proof combined @ '',p='' @ base64_encode (client_proof sha256 salted authMessage))"
proof -
  let ?p = "client_proof sha256 salted authMessage"
  have len: "length (HMACSHA256 sha256 k d) = 32" for k d by (simp add: HMACSHA256_def hmac_sha256_def Let_def assms(1))
  then have "?p \<noteq> []" by (auto simp: client_proof_def Let_def XORBytes_eq simp flip: length_0_conv)
  then have "parsePostgresSCRAMAttributes (final_without_proof combined @ '',p='' @ base64_encode ?p)
      = Some [''c'' \<mapsto> ''biws'', ''r'' \<mapsto> combined, ''p'' \<mapsto> base64_encode ?p]"
    using assms(2,3) parse_three [of "''biws''" combined "base64_encode ?p" "CHR ''c''" "CHR ''r''" "CHR ''p''"]
    by (simp add: final_without_proof_def base64_encode_clean)
  moreover have "XORBytes ?p (HMACSHA256 sha256 (sha256 (HMACSHA256 sha256 salted ''Client Key'')) authMessage)
      = HMACSHA256 sha256 salted ''Client Key''"
    by (simp add: client_proof_def Let_def XORBytes_eq SHA256Hash_def xor_bytes_cancel len)
  ultimately show ?thesis by (simp add: server_accepts_def attribute_def)
qed

section \<open>Properties\<close>

lemma scram_suffix:
  "runPostgresSCRAM sha256 prepare random c username password offered = (r, c') \<Longrightarrow> suffix (rx c') (rx c)"
  unfolding runPostgresSCRAM_def runPostgresSCRAMWithNonce_def Let_def
  by (auto split: option.splits if_splits prod.splits sum.splits
      dest!: writePostgresMessage_rx readPostgresMessage_suffix intro: suffix_order.trans)

text \<open>The password is used through the derived key only.\<close>

lemma scram_password_derived:
  assumes "\<And>salt i. PBKDF2Key sha256 (normalizePostgresSCRAMPassword prepare p1) salt i 32
      = PBKDF2Key sha256 (normalizePostgresSCRAMPassword prepare p2) salt i 32"
  shows "runPostgresSCRAM sha256 prepare random c username p1 offered = runPostgresSCRAM sha256 prepare random c username p2 offered"
  unfolding runPostgresSCRAM_def runPostgresSCRAMWithNonce_def assms by (rule refl)

text \<open>
  C18. Mutual authentication: when the exchange succeeds, the server sent exactly two messages, its
  first one extends the client's nonce and asks for between 4096 and a million iterations, its last
  one carries the signature under the key derived from the password, over the whole transcript, and
  the gateway sent exactly its first message and the proof for that transcript.
\<close>

theorem scram_mutual:
  assumes "runPostgresSCRAMWithNonce sha256 prepare c username password offered nonce = (None, c')"
  shows "\<exists>serverFirst combined salt iterations final attributes v salted transcript.
      salted = PBKDF2Key sha256 (normalizePostgresSCRAMPassword prepare password) salt iterations 32
    \<and> transcript = auth_message username nonce serverFirst combined
    \<and> rx c = raw_message \<lparr>pg_kind = CHR ''R'', pg_payload = be_bytes 4 11 @ serverFirst\<rparr> @ raw_message final @ rx c'
    \<and> tx c' = tx c @ raw_message \<lparr>pg_kind = CHR ''p'', pg_payload = scram_initial username nonce\<rparr>
        @ raw_message \<lparr>pg_kind = CHR ''p'', pg_payload = final_without_proof combined @ '',p=''
            @ base64_encode (client_proof sha256 salted transcript)\<rparr>
    \<and> strict_prefix nonce combined \<and> 4096 \<le> iterations \<and> iterations \<le> 1000000
    \<and> parsePostgresSCRAMAttributes (drop 4 (pg_payload final)) = Some attributes
    \<and> attributes ''v'' = Some v \<and> base64_decode v = Some (server_signature sha256 salted transcript)"
proof -
  let ?salted = "\<lambda>salt iterations. PBKDF2Key sha256 (normalizePostgresSCRAMPassword prepare password) salt iterations 32"
  obtain c1 m c2 serverFirst combined salt iterations c3 final where
    w1: "writePostgresMessage c (CHR ''p'') (scram_initial username nonce) = (None, c1)"
    and r1: "readPostgresMessage c1 (int maxPostgresAuthMessageBytes) = (Inr m, c2)"
    and cont: "check_continue m nonce = Inr (serverFirst, combined, salt, iterations)"
    and w2: "writePostgresMessage c2 (CHR ''p'') (final_without_proof combined @ '',p=''
        @ base64_encode (client_proof sha256 (?salted salt iterations) (auth_message username nonce serverFirst combined))) = (None, c3)"
    and r2: "readPostgresMessage c3 (int maxPostgresAuthMessageBytes) = (Inr final, c')"
    and fin: "check_final final (server_signature sha256 (?salted salt iterations) (auth_message username nonce serverFirst combined)) = None"
    using assms unfolding runPostgresSCRAMWithNonce_def Let_def
    by (auto split: option.splits if_splits prod.splits sum.splits)
  have tx: "tx c2 = tx c1" "tx c' = tx c3" using readPostgresMessage_Inr(2) [OF r1] readPostgresMessage_Inr(2) [OF r2]
    by (metis conn.select_convs(2) conn.surjective conn.update_convs(1))+
  show ?thesis
    using check_continue_Inr [OF cont] check_final_None(1) [OF fin] writePostgresMessage_None [OF w1]
      writePostgresMessage_None [OF w2] writePostgresMessage_rx [OF w1] writePostgresMessage_rx [OF w2]
      readPostgresMessage_Inr(1) [OF r1] readPostgresMessage_Inr(1) [OF r2] tx
    by (intro exI [of _ serverFirst] exI [of _ combined] exI [of _ salt] exI [of _ iterations] exI [of _ final]) auto
qed

lemma scram_with_honest:
  assumes "\<And>x. length (sha256 x) = 32" "postgresSCRAMMechanismOffered offered postgresSCRAMSHA256"
    and "CHR '','' \<notin> set nonce" "NUL \<notin> set nonce" "nonce \<noteq> []" "CHR '','' \<notin> set serverNonce" "serverNonce \<noteq> []"
    and "salt \<noteq> []" "length salt \<le> 1024" "4096 \<le> iterations" "iterations \<le> 1000000"
    and "length username \<le> 1000" "length nonce \<le> 1000" "length serverNonce \<le> 1000"
    and "salted = PBKDF2Key sha256 (normalizePostgresSCRAMPassword prepare password) salt (int iterations) 32"
    and "first = server_first nonce serverNonce salt iterations"
    and "transcript = auth_message username nonce first (nonce @ serverNonce)"
    and "wplan c = []"
    and "rx c = raw_message \<lparr>pg_kind = CHR ''R'', pg_payload = be_bytes 4 11 @ first\<rparr>
      @ raw_message \<lparr>pg_kind = CHR ''R'', pg_payload = be_bytes 4 12 @ ''v='' @ base64_encode (server_signature sha256 salted transcript)\<rparr>
      @ rest"
  shows "\<exists>c' clientFinal. runPostgresSCRAMWithNonce sha256 prepare c username password offered nonce = (None, c')
    \<and> rx c' = rest
    \<and> tx c' = tx c @ raw_message \<lparr>pg_kind = CHR ''p'', pg_payload = scram_initial username nonce\<rparr>
        @ raw_message \<lparr>pg_kind = CHR ''p'', pg_payload = clientFinal\<rparr>
    \<and> server_accepts sha256 (sha256 (HMACSHA256 sha256 salted ''Client Key'')) transcript clientFinal"
proof -
  let ?m1 = "\<lparr>pg_kind = CHR ''R'', pg_payload = be_bytes 4 11 @ first\<rparr>"
  let ?sig = "server_signature sha256 salted transcript"
  let ?m2 = "\<lparr>pg_kind = CHR ''R'', pg_payload = be_bytes 4 12 @ ''v='' @ base64_encode ?sig\<rparr>"
  let ?final = "final_without_proof (nonce @ serverNonce) @ '',p='' @ base64_encode (client_proof sha256 salted transcript)"
  have len: "length (HMACSHA256 sha256 k d) = 32" for k d by (simp add: HMACSHA256_def hmac_sha256_def Let_def assms(1))
  have sig: "length ?sig = 32" by (simp add: server_signature_def len)
  have proof_len: "length (client_proof sha256 salted transcript) = 32" by (simp add: client_proof_def Let_def XORBytes_eq len)
  have sizes: "length (scram_initial username nonce) \<le> 65532" "length ?final \<le> 65532" "length first \<le> 60000"
    using assms(9,11-14,16) proof_len length_itoa [of iterations 7] length_escape [of username]
    by (simp_all add: scram_initial_def client_first_bare_def postgresSCRAMSHA256_def Let_def
        final_without_proof_def server_first_def length_base64_encode)
  define c1 where "c1 = c\<lparr>tx := tx c @ raw_message \<lparr>pg_kind = CHR ''p'', pg_payload = scram_initial username nonce\<rparr>\<rparr>"
  define c2 where "c2 = c1\<lparr>rx := raw_message ?m2 @ rest\<rparr>"
  define c3 where "c3 = c2\<lparr>tx := tx c2 @ raw_message \<lparr>pg_kind = CHR ''p'', pg_payload = ?final\<rparr>\<rparr>"
  have w1: "writePostgresMessage c (CHR ''p'') (scram_initial username nonce) = (None, c1)"
    unfolding c1_def by (rule writePostgresMessage_plain) (use assms(18) sizes in simp_all)
  have r1: "readPostgresMessage c1 (int maxPostgresAuthMessageBytes) = (Inr ?m1, c2)"
    unfolding c2_def by (rule readPostgresMessage_raw)
      (use sizes assms(19) in \<open>simp_all add: message_fits_def pg_sizes c1_def\<close>)
  have w2: "writePostgresMessage c2 (CHR ''p'') ?final = (None, c3)"
    unfolding c3_def by (rule writePostgresMessage_plain) (use assms(18) sizes in \<open>simp_all add: c1_def c2_def\<close>)
  have r2: "readPostgresMessage c3 (int maxPostgresAuthMessageBytes) = (Inr ?m2, c3\<lparr>rx := rest\<rparr>)"
    by (rule readPostgresMessage_raw)
      (simp_all add: message_fits_def pg_sizes c2_def c3_def length_base64_encode sig)
  have cont: "check_continue ?m1 nonce = Inr (first, nonce @ serverNonce, salt, int iterations)"
    unfolding assms(16) by (rule check_continue_honest) (use assms in simp_all)
  have "base64_encode ?sig \<noteq> []" using sig by (metis base64_encode_eq_Nil list.size(3) zero_neq_numeral)
  then have "parsePostgresSCRAMAttributes (''v='' @ base64_encode ?sig) = Some [''v'' \<mapsto> base64_encode ?sig]"
    using parse_one [of "base64_encode ?sig" "CHR ''v''"] base64_encode_clean(3) by simp
  then have fin: "check_final ?m2 ?sig = None" by (simp add: check_final_def be_val_be_bytes)
  have "runPostgresSCRAMWithNonce sha256 prepare c username password offered nonce = (None, c3\<lparr>rx := rest\<rparr>)"
    using assms(2-5) w1 r1 cont w2 r2 fin
    by (simp add: runPostgresSCRAMWithNonce_def Let_def assms(15) [symmetric] assms(17) [symmetric])
  moreover have "server_accepts sha256 (sha256 (HMACSHA256 sha256 salted ''Client Key'')) transcript ?final"
    by (rule client_final_accepted) (use assms in auto)
  ultimately show ?thesis by (intro exI [of _ "c3\<lparr>rx := rest\<rparr>"] exI [of _ ?final]) (simp add: c1_def c2_def c3_def)
qed

text \<open>
  The exchange succeeds with every honest server: against a server that follows RFC 5802 with a
  key derived from the same password, the client reports success after exactly the two messages of
  the server, and the server's own check accepts the proof it was sent.
\<close>

theorem scram_honest_server:
  assumes "\<And>x. length (sha256 x) = 32" "postgresSCRAMMechanismOffered offered postgresSCRAMSHA256"
    and "CHR '','' \<notin> set nonce" "NUL \<notin> set nonce" "nonce \<noteq> []" "CHR '','' \<notin> set serverNonce" "serverNonce \<noteq> []"
    and "salt \<noteq> []" "length salt \<le> 1024" "4096 \<le> iterations" "iterations \<le> 1000000"
    and "length username \<le> 1000" "length nonce \<le> 1000" "length serverNonce \<le> 1000"
    and "salted = PBKDF2Key sha256 (normalizePostgresSCRAMPassword prepare password) salt (int iterations) 32"
    and "first = server_first nonce serverNonce salt iterations"
    and "transcript = auth_message username nonce first (nonce @ serverNonce)"
    and "wplan c = []"
    and "rx c = raw_message \<lparr>pg_kind = CHR ''R'', pg_payload = be_bytes 4 11 @ first\<rparr>
      @ raw_message \<lparr>pg_kind = CHR ''R'', pg_payload = be_bytes 4 12 @ ''v='' @ base64_encode (server_signature sha256 salted transcript)\<rparr>
      @ rest"
  shows "\<exists>c' clientFinal. runPostgresSCRAMWithNonce sha256 prepare c username password offered nonce = (None, c')
    \<and> rx c' = rest
    \<and> tx c' = tx c @ raw_message \<lparr>pg_kind = CHR ''p'', pg_payload = scram_initial username nonce\<rparr>
        @ raw_message \<lparr>pg_kind = CHR ''p'', pg_payload = clientFinal\<rparr>
    \<and> server_accepts sha256 (sha256 (HMACSHA256 sha256 salted ''Client Key'')) transcript clientFinal"
  using assms by (rule scram_with_honest)

text \<open>A sample server, with a hash that is the same for every input.\<close>

definition sample_hash :: "bytes \<Rightarrow> bytes" where
  "sample_hash x = replicate 32 (CHR ''h'')"

definition sample_server :: conn where
  "sample_server =
     (let first = server_first ''cnonce'' ''snonce'' ''salt'' 4096;
          salted = PBKDF2Key sample_hash (normalizePostgresSCRAMPassword Some ''pw'') ''salt'' 4096 32 in
      \<lparr>rx = raw_message \<lparr>pg_kind = CHR ''R'', pg_payload = be_bytes 4 11 @ first\<rparr>
         @ raw_message \<lparr>pg_kind = CHR ''R'', pg_payload = be_bytes 4 12 @ ''v=''
             @ base64_encode (server_signature sample_hash salted (auth_message ''app'' ''cnonce'' first (''cnonce'' @ ''snonce'')))\<rparr>,
       tx = [], wplan = [], deadline_fails = False\<rparr>)"

lemma sample_offer: "postgresSCRAMMechanismOffered (''SCRAM-SHA-256'' @ [NUL, NUL]) postgresSCRAMSHA256"
  by code_simp

lemma sample_hash_length: "length (sample_hash x) = 32"
  by (simp add: sample_hash_def)

lemma sample_exchange:
  "\<exists>c'. runPostgresSCRAMWithNonce sample_hash Some sample_server ''app'' ''pw'' (''SCRAM-SHA-256'' @ [NUL, NUL]) ''cnonce'' = (None, c')"
proof -
  note honest = scram_with_honest [OF sample_hash_length sample_offer _ _ _ _ _ _ _ _ _ _ _ _ refl refl refl,
      where nonce = "''cnonce''" and serverNonce = "''snonce''" and salt = "''salt''" and iterations = 4096
        and c = sample_server and username = "''app''" and password = "''pw''" and prepare = Some and rest = "[]"]
  have "rx sample_server = raw_message \<lparr>pg_kind = CHR ''R'', pg_payload = be_bytes 4 11 @ server_first ''cnonce'' ''snonce'' ''salt'' 4096\<rparr>
      @ raw_message \<lparr>pg_kind = CHR ''R'', pg_payload = be_bytes 4 12 @ ''v='' @ base64_encode (server_signature sample_hash
          (PBKDF2Key sample_hash (normalizePostgresSCRAMPassword Some ''pw'') ''salt'' (int 4096) 32)
          (auth_message ''app'' ''cnonce'' (server_first ''cnonce'' ''snonce'' ''salt'' 4096) (''cnonce'' @ ''snonce'')))\<rparr> @ []"
    by (simp add: sample_server_def Let_def)
  from honest [OF _ _ _ _ _ _ _ _ _ _ _ _ _ this] show ?thesis by (auto simp: sample_server_def Let_def)
qed

theorem scram_honest_server_witness:
  "\<exists>c' clientFinal. runPostgresSCRAMWithNonce sample_hash Some sample_server ''app'' ''pw'' (''SCRAM-SHA-256'' @ [NUL, NUL]) ''cnonce'' = (None, c')
    \<and> rx c' = []
    \<and> tx c' = tx sample_server @ raw_message \<lparr>pg_kind = CHR ''p'', pg_payload = scram_initial ''app'' ''cnonce''\<rparr>
        @ raw_message \<lparr>pg_kind = CHR ''p'', pg_payload = clientFinal\<rparr>
    \<and> server_accepts sample_hash (sample_hash (HMACSHA256 sample_hash
          (PBKDF2Key sample_hash (normalizePostgresSCRAMPassword Some ''pw'') ''salt'' (int 4096) 32) ''Client Key''))
        (auth_message ''app'' ''cnonce'' (server_first ''cnonce'' ''snonce'' ''salt'' 4096) (''cnonce'' @ ''snonce'')) clientFinal"
  by (rule scram_honest_server [OF _ sample_offer, where serverNonce = "''snonce''" and salt = "''salt''" and iterations = 4096])
     (simp_all add: sample_hash_def sample_server_def Let_def)

theorem scram_mutual_witness:
  "\<exists>c' serverFirst combined iterations final. runPostgresSCRAMWithNonce sample_hash Some sample_server ''app'' ''pw'' (''SCRAM-SHA-256'' @ [NUL, NUL]) ''cnonce'' = (None, c')
    \<and> rx sample_server = raw_message \<lparr>pg_kind = CHR ''R'', pg_payload = be_bytes 4 11 @ serverFirst\<rparr> @ raw_message final @ rx c'
    \<and> strict_prefix ''cnonce'' combined \<and> 4096 \<le> (iterations :: int)"
proof -
  obtain c' where run: "runPostgresSCRAMWithNonce sample_hash Some sample_server ''app'' ''pw'' (''SCRAM-SHA-256'' @ [NUL, NUL]) ''cnonce'' = (None, c')"
    using sample_exchange by blast
  from scram_mutual [OF run] obtain serverFirst combined iterations final where
    "rx sample_server = raw_message \<lparr>pg_kind = CHR ''R'', pg_payload = be_bytes 4 11 @ serverFirst\<rparr> @ raw_message final @ rx c'"
    "strict_prefix ''cnonce'' combined" "4096 \<le> (iterations :: int)"
    by (elim exE conjE) rule
  with run show ?thesis by (intro exI [of _ c'] exI [of _ serverFirst] exI [of _ combined] exI [of _ iterations] exI [of _ final]) simp
qed

end
