(* ===== verification/Postgres_Cancel.thy ===== *)
theory Postgres_Cancel
  imports Postgres_Wire "HOL-Library.AList"
begin

text \<open>
  Cancellation of PostgreSQL queries (\<open>internal/server/dbproxy/postgres_cancel.go\<close>).  A session's
  backend key is registered with the instance it runs on; a \<open>CancelRequest\<close> is forwarded to the
  instance of its key, and only when exactly one session holds that key.

  The inner map of the registry is an association list (its order is never looked at when it has
  other than one entry).  A registration number is a 64-bit counter.  The cleanup closure that
  \<open>register\<close> returns is identified by its position in the list of registrations, with the flag of its
  \<open>sync.Once\<close>.
\<close>

section \<open>Keys and requests\<close>

definition postgresCancelRequestCode :: nat where "postgresCancelRequestCode = 80877102"
definition minPostgresCancelSecretBytes :: nat where "minPostgresCancelSecretBytes = 4"
definition maxPostgresCancelSecretBytes :: nat where "maxPostgresCancelSecretBytes = 256"
definition minPostgresCancelRequestBytes :: nat where "minPostgresCancelRequestBytes = 12 + minPostgresCancelSecretBytes"
definition maxPostgresCancelRequestBytes :: nat where "maxPostgresCancelRequestBytes = 12 + maxPostgresCancelSecretBytes"
definition postgresCancelRequestHeaderSize :: nat where "postgresCancelRequestHeaderSize = 8"

lemmas cancel_sizes =
  postgresCancelRequestCode_def minPostgresCancelSecretBytes_def maxPostgresCancelSecretBytes_def
  minPostgresCancelRequestBytes_def maxPostgresCancelRequestBytes_def postgresCancelRequestHeaderSize_def

record postgresCancelKey =
  processID :: nat
  secret :: string

datatype cancel_error =
    InvalidCancelSize nat
  | CancelLengthMismatch nat nat
  | InvalidCancelCode nat
  | InvalidCancelHeader
  | ReadCancel
  | InvalidBackendKeySize nat
  | CancelRouteNotFound
  | ConnectCancelUpstream string
  | ForwardCancel pg_error

definition isPostgresCancelRequestHeader :: "bytes \<Rightarrow> bool" where
  "isPostgresCancelRequestHeader header =
     (if length header \<noteq> postgresCancelRequestHeaderSize then False
      else let len = be_val (take 4 header) in
           len \<ge> minPostgresCancelRequestBytes \<and> len \<le> maxPostgresCancelRequestBytes
           \<and> be_val (take 4 (drop 4 header)) = postgresCancelRequestCode)"

definition parsePostgresCancelRequest :: "bytes \<Rightarrow> cancel_error + postgresCancelKey" where
  "parsePostgresCancelRequest message =
     (if length message < minPostgresCancelRequestBytes \<or> length message > maxPostgresCancelRequestBytes
      then Inl (InvalidCancelSize (length message))
      else
      let declared = be_val (take 4 message); code = be_val (take 4 (drop 4 message)) in
      if declared \<noteq> length message then Inl (CancelLengthMismatch declared (length message))
      else if code \<noteq> postgresCancelRequestCode then Inl (InvalidCancelCode code)
      else Inr \<lparr>processID = be_val (take 4 (drop 8 message)), secret = drop 12 message\<rparr>)"

definition readPostgresCancelRequest :: "conn \<Rightarrow> bytes \<Rightarrow> (cancel_error + bytes) \<times> conn" where
  "readPostgresCancelRequest c header =
     (if \<not> isPostgresCancelRequestHeader header then (Inl InvalidCancelHeader, c)
      else
      let messageLength = be_val (take 4 header) in
      (case conn_read_full (messageLength - length header) c of (None, c1) \<Rightarrow> (Inl ReadCancel, c1)
       | (Some rest, c1) \<Rightarrow>
         (case parsePostgresCancelRequest (header @ rest) of Inl e \<Rightarrow> (Inl e, c1)
          | Inr _ \<Rightarrow> (Inr (header @ rest), c1))))"

definition parsePostgresBackendKey :: "bytes \<Rightarrow> cancel_error + postgresCancelKey" where
  "parsePostgresBackendKey body =
     (if length body < 4 + minPostgresCancelSecretBytes \<or> length body > 4 + maxPostgresCancelSecretBytes
      then Inl (InvalidBackendKeySize (length body))
      else Inr \<lparr>processID = be_val (take 4 body), secret = drop 4 body\<rparr>)"

section \<open>The registry\<close>

record 'i postgresCancelRegistry =
  nextID :: u64
  entries :: "postgresCancelKey \<rightharpoonup> (u64 \<times> 'i) list"
  cleanups :: "(postgresCancelKey \<times> u64 \<times> 'i \<times> bool) list"

definition empty_registry :: "'i postgresCancelRegistry" where
  "empty_registry = \<lparr>nextID = 0, entries = Map.empty, cleanups = []\<rparr>"

text \<open>Reading a missing key of a Go map of maps gives an empty map.\<close>

definition entries_of :: "'i postgresCancelRegistry \<Rightarrow> postgresCancelKey \<Rightarrow> (u64 \<times> 'i) list" where
  "entries_of r key = (case entries r key of None \<Rightarrow> [] | Some es \<Rightarrow> es)"

text \<open>The result is the number of the cleanup closure.\<close>

definition register :: "postgresCancelKey \<Rightarrow> 'i \<Rightarrow> 'i postgresCancelRegistry \<Rightarrow> nat \<times> 'i postgresCancelRegistry" where
  "register key instance r =
     (let entryID = nextID r + 1 in
      (length (cleanups r),
       r\<lparr>nextID := entryID,
         entries := (entries r)(key \<mapsto> AList.update entryID instance (entries_of r key)),
         cleanups := cleanups r @ [(key, entryID, instance, False)]\<rparr>))"

definition cleanup :: "nat \<Rightarrow> 'i postgresCancelRegistry \<Rightarrow> 'i postgresCancelRegistry" where
  "cleanup n r =
     (case cleanups r ! n of (key, entryID, instance, run) \<Rightarrow>
        if run then r
        else let rest = AList.delete entryID (entries_of r key) in
             r\<lparr>entries := (if rest = [] then (entries r)(key := None) else (entries r)(key \<mapsto> rest)),
               cleanups := (cleanups r)[n := (key, entryID, instance, True)]\<rparr>)"

definition lookup :: "postgresCancelKey \<Rightarrow> 'i postgresCancelRegistry \<Rightarrow> 'i option" where
  "lookup key r = (case entries_of r key of [(_, instance)] \<Rightarrow> Some instance | _ \<Rightarrow> None)"

text \<open>Forwarding a request; dialling the instance is a parameter.  The upstream connection is closed
  afterwards, so what was written to it is all that remains.\<close>

definition forwardPostgresCancel ::
    "('i \<Rightarrow> string + conn) \<Rightarrow> 'i postgresCancelRegistry \<Rightarrow> bytes \<Rightarrow> cancel_error option \<times> ('i \<times> bytes) option" where
  "forwardPostgresCancel dial r message =
     (case parsePostgresCancelRequest message of Inl e \<Rightarrow> (Some e, None)
      | Inr key \<Rightarrow>
        (case lookup key r of None \<Rightarrow> (Some CancelRouteNotFound, None)
         | Some instance \<Rightarrow>
           (case dial instance of Inl e \<Rightarrow> (Some (ConnectCancelUpstream e), None)
            | Inr upstream \<Rightarrow>
              (case writePostgresBytes upstream message of
                 (Some e, u) \<Rightarrow> (Some (ForwardCancel e), Some (instance, drop (length (tx upstream)) (tx u)))
               | (None, u) \<Rightarrow> (None, Some (instance, drop (length (tx upstream)) (tx u)))))))"

inductive registry_step :: "'i postgresCancelRegistry \<Rightarrow> 'i postgresCancelRegistry \<Rightarrow> bool" where
  register_step: "length (cleanups r) < 2 ^ 64 - 1 \<Longrightarrow> registry_step r (snd (register key instance r))"
| cleanup_step: "n < length (cleanups r) \<Longrightarrow> registry_step r (cleanup n r)"

section \<open>The abstract registry\<close>

text \<open>The sessions that hold a key: the registrations of the key whose cleanup has not run.\<close>

definition holders :: "postgresCancelKey \<Rightarrow> (postgresCancelKey \<times> u64 \<times> 'i \<times> bool) list \<Rightarrow> (u64 \<times> 'i) list" where
  "holders key cs = map (\<lambda>(k, n, i, run). (n, i)) (filter (\<lambda>(k, n, i, run). k = key \<and> \<not> run) cs)"

definition registry_inv :: "'i postgresCancelRegistry \<Rightarrow> bool" where
  "registry_inv r \<longleftrightarrow>
     length (cleanups r) < 2 ^ 64 \<and> nextID r = of_nat (length (cleanups r))
     \<and> (\<forall>j < length (cleanups r). fst (snd (cleanups r ! j)) = of_nat (Suc j))
     \<and> (\<forall>key. entries_of r key = holders key (cleanups r))"

lemma holders_simps [simp]:
  "holders key [] = []" "holders key (cs @ ds) = holders key cs @ holders key ds"
  "holders key ((k, n, i, run) # cs) = (if k = key \<and> \<not> run then (n, i) # holders key cs else holders key cs)"
  by (simp_all add: holders_def)

lemma holders_ids: "(n, i) \<in> set (holders key cs) \<Longrightarrow> n \<in> (fst \<circ> snd) ` set cs"
  by (force simp: holders_def)

lemma update_fresh: "k \<notin> fst ` set al \<Longrightarrow> AList.update k v al = al @ [(k, v)]"
  by (induction al) auto

lemma delete_absent: "k \<notin> fst ` set al \<Longrightarrow> AList.delete k al = al"
  by (induction al) auto

lemma delete_append: "AList.delete k (al @ bl) = AList.delete k al @ AList.delete k bl"
  by (simp add: AList.delete_eq)

text \<open>Marking one registration as cleaned up removes exactly it.\<close>

lemma holders_cleanup:
  assumes n: "n < length cs" "cs ! n = (k, m, i, False)" and d: "distinct (map (fst \<circ> snd) cs)"
  shows "holders key (cs[n := (k, m, i, True)]) = (if key = k then AList.delete m (holders key cs) else holders key cs)"
proof -
  have cs: "cs = take n cs @ (k, m, i, False) # drop (Suc n) cs" using n id_take_nth_drop [of n cs] by simp
  have "distinct (map (fst \<circ> snd) (take n cs @ (k, m, i, False) # drop (Suc n) cs))" using d cs by simp
  then have "m \<notin> (fst \<circ> snd) ` set (take n cs)" "m \<notin> (fst \<circ> snd) ` set (drop (Suc n) cs)" by auto
  then have fresh: "m \<notin> fst ` set (holders key (take n cs))" "m \<notin> fst ` set (holders key (drop (Suc n) cs))"
    using holders_ids by fastforce+
  have old: "holders key cs = holders key (take n cs) @ (if key = k then [(m, i)] else []) @ holders key (drop (Suc n) cs)"
    using arg_cong [OF cs, of "holders key"] by auto
  have "holders key (cs[n := (k, m, i, True)]) = holders key (take n cs) @ holders key (drop (Suc n) cs)"
    using n(1) by (simp add: upd_conv_take_nth_drop)
  then show ?thesis unfolding old using fresh by (auto simp: delete_append delete_absent)
qed

lemma registry_ids:
  assumes "registry_inv r"
  shows "distinct (map (fst \<circ> snd) (cleanups r))"
    "length (cleanups r) < 2 ^ 64 - 1 \<Longrightarrow> nextID r + 1 \<notin> (fst \<circ> snd) ` set (cleanups r)"
proof -
  let ?n = "length (cleanups r)"
  have n: "?n < 2 ^ 64" and ids: "\<And>j. j < ?n \<Longrightarrow> fst (snd (cleanups r ! j)) = of_nat (Suc j)"
    using assms by (auto simp: registry_inv_def)
  have inj: "(of_nat a :: u64) = of_nat b \<Longrightarrow> a = b" if "a < 2 ^ 64" "b < 2 ^ 64" for a b
    using take_bit_nat_eq_self [OF that(1)] take_bit_nat_eq_self [OF that(2)] by (simp add: word_of_nat_eq_iff)
  show "distinct (map (fst \<circ> snd) (cleanups r))"
    unfolding distinct_conv_nth
  proof (intro allI impI)
    fix i j
    assume "i < length (map (fst \<circ> snd) (cleanups r))" "j < length (map (fst \<circ> snd) (cleanups r))" "i \<noteq> j"
    then show "map (fst \<circ> snd) (cleanups r) ! i \<noteq> map (fst \<circ> snd) (cleanups r) ! j"
      using n ids [of i] ids [of j] inj [of "Suc i" "Suc j"] by auto
  qed
  assume "?n < 2 ^ 64 - 1"
  then have "(of_nat (Suc ?n) :: u64) \<noteq> of_nat (Suc j)" if "j < ?n" for j using that inj [of "Suc ?n" "Suc j"] by auto
  then show "nextID r + 1 \<notin> (fst \<circ> snd) ` set (cleanups r)"
    using assms ids by (force simp: registry_inv_def in_set_conv_nth)
qed

lemma registry_step_inv: "registry_step r r' \<Longrightarrow> registry_inv r \<Longrightarrow> registry_inv r'"
proof (induction rule: registry_step.induct)
  case (register_step r key x)
  have fresh: "nextID r + 1 \<notin> fst ` set (holders key (cleanups r))"
    using registry_ids(2) [OF register_step(2,1)] holders_ids by fastforce
  have "entries_of r k = holders k (cleanups r)" for k using register_step(2) by (simp add: registry_inv_def)
  then show ?case
    using register_step fresh
    by (auto simp: registry_inv_def register_def Let_def entries_of_def [of "_\<lparr>nextID := _, entries := _, cleanups := _\<rparr>"]
        update_fresh nth_append less_Suc_eq entries_of_def split: option.splits)
next
  case (cleanup_step n r)
  obtain k m x run where c: "cleanups r ! n = (k, m, x, run)" by (metis prod_cases4)
  have old: "entries_of r key = holders key (cleanups r)" for key using cleanup_step(2) by (simp add: registry_inv_def)
  show ?case
  proof (cases run)
    case False
    let ?r = "cleanup n r"
    have h: "holders key (cleanups ?r) = (if key = k then AList.delete m (holders key (cleanups r)) else holders key (cleanups r))" for key
      using holders_cleanup [OF cleanup_step(1) _ registry_ids(1) [OF cleanup_step(2)], of k m x key] c False
      by (simp add: cleanup_def Let_def)
    have "entries_of ?r key = holders key (cleanups ?r)" for key
      unfolding h using c False old by (auto simp: cleanup_def Let_def entries_of_def split: option.splits)
    moreover have "fst (snd (cleanups ?r ! j)) = of_nat (Suc j)" if "j < length (cleanups r)" for j
      using that c False cleanup_step by (auto simp: cleanup_def Let_def registry_inv_def nth_list_update)
    moreover have "nextID ?r = nextID r" "length (cleanups ?r) = length (cleanups r)"
      using c False by (simp_all add: cleanup_def Let_def)
    ultimately show ?thesis using cleanup_step(2) unfolding registry_inv_def by metis
  qed (use cleanup_step c in \<open>simp add: cleanup_def\<close>)
qed

interpretation cancel_registry: guarded_system "\<lambda>r. r = empty_registry" registry_step registry_inv
proof
  fix r :: "'a postgresCancelRegistry"
  assume "r = empty_registry"
  then show "registry_inv r" by (simp add: registry_inv_def empty_registry_def entries_of_def)
qed (use registry_step_inv in blast)

section \<open>Properties\<close>

lemma lookup_holders:
  "registry_inv r \<Longrightarrow> lookup key r = (case holders key (cleanups r) of [(_, x)] \<Rightarrow> Some x | _ \<Rightarrow> None)"
  by (simp add: lookup_def registry_inv_def)

lemma lookup_Some: "registry_inv r \<Longrightarrow> lookup key r = Some x \<longleftrightarrow> (\<exists>n. holders key (cleanups r) = [(n, x)])"
  by (auto simp: lookup_holders split: list.splits)

lemma writePostgresBytes_prefix:
  "writePostgresBytes u message = (e, u') \<Longrightarrow> prefix (drop (length (tx u)) (tx u')) message \<and> (e = None \<longrightarrow> drop (length (tx u)) (tx u') = message)"
proof (cases e)
  case None
  then show "writePostgresBytes u message = (e, u') \<Longrightarrow> ?thesis" by (auto dest: writePostgresBytes_None)
next
  case (Some x)
  then show "writePostgresBytes u message = (e, u') \<Longrightarrow> ?thesis"
    by (auto simp: writePostgresBytes_def take_is_prefix dest!: write_loop_Some)
qed

text \<open>
  C20. A cancellation never hits the wrong session: whatever registrations and cleanups went before,
  bytes are sent for a \<open>CancelRequest\<close> only to the instance of the one session that holds its key
  and has not been cleaned up, never when two sessions hold the same key, and what is sent is the
  request itself (all of it when the call succeeds).
\<close>

theorem postgres_cancel_safe:
  assumes "registry_step\<^sup>*\<^sup>* empty_registry r" "forwardPostgresCancel dial r message = (e, Some (x, sent))"
  shows "\<exists>key n. parsePostgresCancelRequest message = Inr key \<and> holders key (cleanups r) = [(n, x)]
    \<and> prefix sent message \<and> (e = None \<longrightarrow> sent = message)"
proof -
  have inv: "registry_inv r" using assms(1) by (rule cancel_registry.reachable_inv [OF refl])
  obtain key u u' f where "parsePostgresCancelRequest message = Inr key" "lookup key r = Some x"
    and w: "writePostgresBytes u message = (f, u')" "sent = drop (length (tx u)) (tx u')" "e = None \<longrightarrow> f = None"
    using assms(2) by (auto simp: forwardPostgresCancel_def split: sum.splits option.splits prod.splits)
  then show ?thesis using lookup_Some [OF inv] writePostgresBytes_prefix [OF w(1)] w(2,3) by auto
qed

text \<open>
  The session that was given a key can be cancelled with it: for every backend key the gateway
  accepts and registers while no other session holds it, the request built from the same key data is
  parsed to that key and forwarded, whole, to the instance of the session; after the cleanup of the
  session it is not forwarded any more.
\<close>

theorem postgres_cancel_delivered:
  assumes "registry_step\<^sup>*\<^sup>* empty_registry r" "length (cleanups r) < 2 ^ 64 - 1"
    and "parsePostgresBackendKey body = Inr key" "holders key (cleanups r) = []"
    and "register key x r = (n, r')" "dial x = Inr u" "wplan u = []"
    and "message = be_bytes 4 (8 + length body) @ be_bytes 4 postgresCancelRequestCode @ body"
  shows "forwardPostgresCancel dial r' message = (None, Some (x, message))
    \<and> forwardPostgresCancel dial (cleanup n r') message = (Some CancelRouteNotFound, None)"
proof -
  have inv: "registry_inv r" using assms(1) by (rule cancel_registry.reachable_inv [OF refl])
  have step: "registry_step r r'" using register_step [OF assms(2), of key x] assms(5) by simp
  have body: "8 \<le> length body" "length body \<le> 260" "key = \<lparr>processID = be_val (take 4 body), secret = drop 4 body\<rparr>"
    using assms(3) by (auto simp: parsePostgresBackendKey_def cancel_sizes split: if_splits)
  have parse: "parsePostgresCancelRequest message = Inr key"
    using body by (simp add: parsePostgresCancelRequest_def assms(8) cancel_sizes be_val_be_bytes Let_def)
  have r': "holders key (cleanups r') = [(nextID r + 1, x)]" "n = length (cleanups r)" "cleanups r' = cleanups r @ [(key, nextID r + 1, x, False)]"
    using assms(4,5) by (auto simp: register_def Let_def)
  have inv': "registry_inv r'" by (rule registry_step_inv [OF step inv])
  have "registry_inv (cleanup n r')" by (rule registry_step_inv [OF cleanup_step inv']) (simp add: r')
  moreover have "holders key (cleanups (cleanup n r')) = []"
    using r' assms(4) by (simp add: cleanup_def Let_def list_update_append)
  ultimately show ?thesis
    using parse lookup_holders [OF inv', of key] r'(1) lookup_holders [of "cleanup n r'" key] assms(6,7)
    by (simp add: forwardPostgresCancel_def writePostgresBytes_plain)
qed

definition sample_key :: postgresCancelKey where
  "sample_key = \<lparr>processID = be_val ''abcd'', secret = ''efgh''\<rparr>"

definition sample_request :: bytes where
  "sample_request = be_bytes 4 16 @ be_bytes 4 postgresCancelRequestCode @ ''abcdefgh''"

theorem postgres_cancel_delivered_witness:
  "forwardPostgresCancel (\<lambda>_. Inr \<lparr>rx = [], tx = [], wplan = [], deadline_fails = False\<rparr>)
      (snd (register sample_key ''db1'' empty_registry)) sample_request = (None, Some (''db1'', sample_request))
   \<and> forwardPostgresCancel (\<lambda>_. Inr \<lparr>rx = [], tx = [], wplan = [], deadline_fails = False\<rparr>)
      (cleanup 0 (snd (register sample_key ''db1'' empty_registry))) sample_request = (Some CancelRouteNotFound, None)"
  by (rule postgres_cancel_delivered [where body = "''abcdefgh''" and r = empty_registry
        and u = "\<lparr>rx = [], tx = [], wplan = [], deadline_fails = False\<rparr>"])
     (simp_all add: empty_registry_def parsePostgresBackendKey_def cancel_sizes sample_key_def sample_request_def register_def Let_def)

theorem postgres_cancel_safe_witness:
  "\<exists>key n. parsePostgresCancelRequest sample_request = Inr key
    \<and> holders key (cleanups (snd (register sample_key ''db1'' empty_registry))) = [(n, ''db1'')]
    \<and> prefix sample_request sample_request \<and> (None = (None :: cancel_error option) \<longrightarrow> sample_request = sample_request)"
proof (rule postgres_cancel_safe)
  have "registry_step empty_registry (snd (register sample_key ''db1'' empty_registry))"
    by (rule register_step) (simp add: empty_registry_def)
  then show "registry_step\<^sup>*\<^sup>* empty_registry (snd (register sample_key ''db1'' empty_registry))" by (rule r_into_rtranclp)
  have "parsePostgresCancelRequest sample_request = Inr sample_key"
    by (simp add: parsePostgresCancelRequest_def sample_request_def sample_key_def cancel_sizes be_val_be_bytes Let_def)
  then show "forwardPostgresCancel (\<lambda>_. Inr \<lparr>rx = [], tx = [], wplan = [], deadline_fails = False\<rparr>)
      (snd (register sample_key ''db1'' empty_registry)) sample_request = (None, Some (''db1'', sample_request))"
    by (simp add: forwardPostgresCancel_def writePostgresBytes_plain lookup_def register_def Let_def entries_of_def empty_registry_def)
qed

end
