(* ===== verification/Postgres_Upstream.thy ===== *)
theory Postgres_Upstream
  imports Postgres_Scram Postgres_Cancel Db_Tls
begin

text \<open>
  The login of the gateway at a PostgreSQL upstream (\<open>internal/server/dbproxy/postgres_auth.go\<close>) with
  the rule for cleartext passwords (\<open>upstream_tls.go\<close>) and the message
  checks it uses (\<open>observer_postgres_messages.go\<close>).

  What the login is given is a record: the account, the transport policy, whether the connection is
  one that passed a certificate-verifying handshake, the hashes, the random blocks for the SCRAM
  nonces (one per run) and the registrar of cancellation keys with its cleanup.
\<close>

section \<open>Transport policy\<close>

datatype upstream_error =
    ReadStartup pg_error
  | StartupDenied
  | MalformedNotice
  | MalformedAuthentication
  | MalformedAuthenticationOk
  | MalformedCleartextChallenge
  | MalformedMD5Challenge
  | UnsupportedTLSMode
  | VerifiedTLSRequired
  | WriteCleartext pg_error
  | WriteMD5 pg_error
  | ScramFailed scram_error
  | UnsupportedAuthentication nat
  | UnexpectedAuthenticationMessage byte
  | MalformedParameterStatus
  | BackendKeyError cancel_error
  | DuplicateBackendKey
  | NoCleanup
  | MalformedReadyForQuery
  | UnexpectedPostAuthMessage byte
  | ForwardStartup pg_error
  | ClearDeadline

definition requireVerifiedPostgresTLS :: "bool \<Rightarrow> upstream_error option" where
  "requireVerifiedPostgresTLS verified = (if verified then None else Some VerifiedTLSRequired)"

definition validatePostgresCleartextPasswordTransport :: "bool \<Rightarrow> string \<Rightarrow> upstream_error option" where
  "validatePostgresCleartextPasswordTransport verified tlsMode =
     (case NormalizeMode tlsMode of None \<Rightarrow> Some UnsupportedTLSMode
      | Some mode \<Rightarrow> if mode = ModeDisable then None else requireVerifiedPostgresTLS verified)"

section \<open>Message checks\<close>

definition consumePostgresCString :: "bytes \<Rightarrow> bytes option" where
  "consumePostgresCString body = map_option (\<lambda>i. drop (i + 1) body) (index_byte NUL body)"

definition validPostgresParameterStatus :: "bytes \<Rightarrow> bool" where
  "validPostgresParameterStatus body =
     (case consumePostgresCString body of None \<Rightarrow> False
      | Some rest \<Rightarrow> consumePostgresCString rest = Some [])"

lemma consume_shorter: "consumePostgresCString body = Some rest \<Longrightarrow> length rest < length body"
  by (auto simp: consumePostgresCString_def dest!: index_byte_Some)

function validPostgresErrorFields :: "bytes \<Rightarrow> bool" where
  "validPostgresErrorFields body =
     (case body of [] \<Rightarrow> False
      | fieldType # body' \<Rightarrow>
        if fieldType = NUL then length body' = 0
        else (case consumePostgresCString body' of None \<Rightarrow> False
              | Some rest \<Rightarrow> validPostgresErrorFields rest))"
  by pat_completeness auto
termination
  by (relation "measure length") (auto dest!: consume_shorter)

definition postgresAuthenticationType :: "bytes \<Rightarrow> nat option" where
  "postgresAuthenticationType body = (if length body < 4 then None else Some (be_val (take 4 body)))"

definition forwardPostgresStartupMessage :: "conn \<Rightarrow> postgresWireMessage \<Rightarrow> upstream_error option \<times> conn" where
  "forwardPostgresStartupMessage client message =
     (case writePostgresBytes client (raw_message message) of (e, client') \<Rightarrow> (map_option ForwardStartup e, client'))"

section \<open>The login\<close>

record ('s, 'c) upstream_login =
  ul_username :: string
  ul_password :: string
  ul_tlsMode :: string
  ul_verified :: bool
  ul_sha256 :: "bytes \<Rightarrow> bytes"
  ul_md5 :: "bytes \<Rightarrow> bytes"
  ul_prepare :: "string \<Rightarrow> string option"
  ul_random :: "nat \<Rightarrow> bytes option"
  ul_register :: "postgresCancelKey \<Rightarrow> 's \<Rightarrow> 'c option \<times> 's"
  ul_cleanup :: "'c \<Rightarrow> 's \<Rightarrow> 's"

text \<open>The answer to an authentication request: an error, or whether the login is authenticated and how
  many random blocks are used up.\<close>

definition answer_challenge ::
    "('s, 'c) upstream_login \<Rightarrow> postgresWireMessage \<Rightarrow> nat \<Rightarrow> conn \<Rightarrow> conn
      \<Rightarrow> (upstream_error + bool \<times> nat) \<times> conn \<times> conn" where
  "answer_challenge l message n upstream client =
     (case postgresAuthenticationType (pg_payload message) of None \<Rightarrow> (Inl MalformedAuthentication, upstream, client)
      | Some authType \<Rightarrow>
        if authType = 0 then
          (if length (pg_payload message) \<noteq> 4 then (Inl MalformedAuthenticationOk, upstream, client)
           else (case forwardPostgresStartupMessage client message of
                   (Some e, client') \<Rightarrow> (Inl e, upstream, client')
                 | (None, client') \<Rightarrow> (Inr (True, n), upstream, client')))
        else if authType = 3 then
          (if length (pg_payload message) \<noteq> 4 then (Inl MalformedCleartextChallenge, upstream, client)
           else (case validatePostgresCleartextPasswordTransport (ul_verified l) (ul_tlsMode l) of
                   Some e \<Rightarrow> (Inl e, upstream, client)
                 | None \<Rightarrow>
                   (case writePostgresMessage upstream (CHR ''p'') (ul_password l @ [NUL]) of
                      (Some e, upstream') \<Rightarrow> (Inl (WriteCleartext e), upstream', client)
                    | (None, upstream') \<Rightarrow> (Inr (False, n), upstream', client))))
        else if authType = 5 then
          (if length (pg_payload message) \<noteq> 8 then (Inl MalformedMD5Challenge, upstream, client)
           else
           (case writePostgresMessage upstream (CHR ''p'')
                   (BuildPostgresPasswordResponse (ul_md5 l) 5 (ul_username l) (ul_password l)
                      (take 4 (drop 4 (pg_payload message))) @ [NUL]) of
              (Some e, upstream') \<Rightarrow> (Inl (WriteMD5 e), upstream', client)
            | (None, upstream') \<Rightarrow> (Inr (False, n), upstream', client)))
        else if authType = 10 then
          (case runPostgresSCRAM (ul_sha256 l) (ul_prepare l) (ul_random l n) upstream (ul_username l) (ul_password l)
                  (drop 4 (pg_payload message)) of
             (Some e, upstream') \<Rightarrow> (Inl (ScramFailed e), upstream', client)
           | (None, upstream') \<Rightarrow> (Inr (False, n + 1), upstream', client))
        else (Inl (UnsupportedAuthentication authType), upstream, client))"

text \<open>A message before authentication.\<close>

definition before_authentication ::
    "('s, 'c) upstream_login \<Rightarrow> postgresWireMessage \<Rightarrow> nat \<Rightarrow> conn \<Rightarrow> conn
      \<Rightarrow> (upstream_error + bool \<times> nat) \<times> conn \<times> conn" where
  "before_authentication l message n upstream client =
     (if pg_kind message = CHR ''N'' then
        (if \<not> validPostgresErrorFields (pg_payload message) then (Inl MalformedNotice, upstream, client)
         else (case forwardPostgresStartupMessage client message of
                 (Some e, client') \<Rightarrow> (Inl e, upstream, client')
               | (None, client') \<Rightarrow> (Inr (False, n), upstream, client')))
      else if pg_kind message = CHR ''R'' then answer_challenge l message n upstream client
      else (Inl (UnexpectedAuthenticationMessage (pg_kind message)), upstream, client))"

text \<open>A message after authentication: an error if any, the cleanup that is now registered, and the
  client and registrar afterwards.\<close>

definition check_after_authentication ::
    "('s, 'c) upstream_login \<Rightarrow> postgresWireMessage \<Rightarrow> 'c option \<Rightarrow> 's \<Rightarrow> upstream_error option \<times> 'c option \<times> 's" where
  "check_after_authentication l message registered s =
     (if pg_kind message = CHR ''S'' then
        (if \<not> validPostgresParameterStatus (pg_payload message) then (Some MalformedParameterStatus, registered, s)
         else (None, registered, s))
      else if pg_kind message = CHR ''K'' then
        (case parsePostgresBackendKey (pg_payload message) of Inl e \<Rightarrow> (Some (BackendKeyError e), registered, s)
         | Inr key \<Rightarrow>
           if registered \<noteq> None then (Some DuplicateBackendKey, registered, s)
           else (case ul_register l key s of
                   (None, s') \<Rightarrow> (Some NoCleanup, None, s')
                 | (Some c, s') \<Rightarrow> (None, Some c, s')))
      else if pg_kind message = CHR ''N'' then
        (if \<not> validPostgresErrorFields (pg_payload message) then (Some MalformedNotice, registered, s)
         else (None, registered, s))
      else if pg_kind message = CHR ''Z'' then
        (if length (pg_payload message) \<noteq> 1 \<or> pg_payload message ! 0 \<notin> {CHR ''I'', CHR ''T'', CHR ''E''}
         then (Some MalformedReadyForQuery, registered, s)
         else (None, registered, s))
      else (Some (UnexpectedPostAuthMessage (pg_kind message)), registered, s))"

definition after_authentication ::
    "('s, 'c) upstream_login \<Rightarrow> postgresWireMessage \<Rightarrow> 'c option \<Rightarrow> conn \<Rightarrow> 's
      \<Rightarrow> upstream_error option \<times> 'c option \<times> conn \<times> 's" where
  "after_authentication l message registered client s =
     (case check_after_authentication l message registered s of
        (Some e, registered', s') \<Rightarrow> (Some e, registered', client, s')
      | (None, registered', s') \<Rightarrow>
          (case forwardPostgresStartupMessage client message of (e, client') \<Rightarrow> (e, registered', client', s')))"

lemma before_authentication_suffix:
  "before_authentication l message n upstream client = (r, upstream', client') \<Longrightarrow> suffix (rx upstream') (rx upstream)"
  by (auto simp: before_authentication_def answer_challenge_def forwardPostgresStartupMessage_def
      split: if_splits option.splits prod.splits dest!: writePostgresMessage_rx scram_suffix)

lemmas before_authentication_rx = suffix_length_le [OF before_authentication_suffix]

text \<open>The loop; every round reads a message, so what the upstream has sent bounds it.\<close>

function upstream_loop ::
    "('s, 'c) upstream_login \<Rightarrow> nat \<Rightarrow> bool \<Rightarrow> 'c option \<Rightarrow> conn \<Rightarrow> conn \<Rightarrow> 's
      \<Rightarrow> upstream_error option \<times> 'c option \<times> conn \<times> conn \<times> 's" where
  "upstream_loop l n authenticated registered upstream client s =
     (case readPostgresMessage upstream (int maxPostgresAuthMessageBytes) of
        (Inl e, u) \<Rightarrow> (Some (ReadStartup e), registered, u, client, s)
      | (Inr message, u) \<Rightarrow>
        if pg_kind message = CHR ''E'' then (Some StartupDenied, registered, u, client, s)
        else if \<not> authenticated then
          (case before_authentication l message n u client of
             (Inl e, u', client') \<Rightarrow> (Some e, registered, u', client', s)
           | (Inr (authenticated', n'), u', client') \<Rightarrow>
               upstream_loop l n' authenticated' registered u' client' s)
        else
          (case after_authentication l message registered client s of
             (Some e, registered', client', s') \<Rightarrow> (Some e, registered', u, client', s')
           | (None, registered', client', s') \<Rightarrow>
               if pg_kind message \<noteq> CHR ''Z'' then upstream_loop l n True registered' u client' s'
               else if deadline_fails u then (Some ClearDeadline, registered', u, client', s')
               else (None, registered', u, client', s')))"
  by pat_completeness auto
termination
  apply (relation "measure (\<lambda>(l, n, authenticated, registered, upstream, client, s). length (rx upstream))")
  subgoal by simp
  subgoal by clarsimp (metis readPostgresMessage_Inr(3) before_authentication_rx le_less_trans)
  subgoal by clarsimp (metis readPostgresMessage_Inr(3))
  done

declare upstream_loop.simps [simp del]

text \<open>The deferred function undoes the registration unless the login has succeeded.\<close>

definition authenticatePostgresUpstream ::
    "('s, 'c) upstream_login \<Rightarrow> conn \<Rightarrow> conn \<Rightarrow> 's \<Rightarrow> (upstream_error + 'c option) \<times> conn \<times> conn \<times> 's" where
  "authenticatePostgresUpstream l upstream client s =
     (case upstream_loop l 0 False None upstream client s of
        (None, registered, u, c, s') \<Rightarrow> (Inr registered, u, c, s')
      | (Some e, registered, u, c, s') \<Rightarrow>
          (Inl e, u, c, case registered of None \<Rightarrow> s' | Some cl \<Rightarrow> ul_cleanup l cl s'))"

section \<open>The password stays behind its digests\<close>




section \<open>What the client sees\<close>

definition authentication_ok :: postgresWireMessage where
  "authentication_ok = \<lparr>pg_kind = CHR ''R'', pg_payload = be_bytes 4 0\<rparr>"

definition shown_ok :: "bytes \<Rightarrow> postgresWireMessage \<Rightarrow> bool" where
  "shown_ok sent message \<longleftrightarrow>
     sublist (raw_message message) sent
     \<and> (message = authentication_ok \<or> pg_kind message \<in> {CHR ''N'', CHR ''S'', CHR ''K'', CHR ''Z''})"

lemma shown_ok_suffix: "shown_ok sent m \<Longrightarrow> suffix sent sent' \<Longrightarrow> shown_ok sent' m"
  by (auto simp: shown_ok_def dest: suffix_imp_sublist intro: sublist_order.order.trans)

lemma before_authentication_shown:
  assumes "readPostgresMessage upstream m = (Inr message, u)"
    and "before_authentication l message n u client = (Inr (a, n'), u', client')"
  shows "\<exists>ms. tx client' = tx client @ concat (map raw_message ms) \<and> list_all (shown_ok (rx upstream)) ms
    \<and> (a \<longrightarrow> authentication_ok \<in> set ms)"
proof -
  have sub: "sublist (raw_message message) (rx upstream)" using readPostgresMessage_Inr(1) [OF assms(1)] by simp
  have ok: "message = authentication_ok" if "pg_kind message = CHR ''R''" "length (pg_payload message) = 4" "be_val (pg_payload message) = 0"
    using that be_bytes_be_val [of "pg_payload message" 4] by (cases message) (auto simp: authentication_ok_def)
  from assms(2) consider (shown) "tx client' = tx client @ raw_message message" "shown_ok (rx upstream) message" "a \<longrightarrow> message = authentication_ok"
    | (silent) "client' = client" "\<not> a"
    using sub ok by (auto simp: before_authentication_def answer_challenge_def forwardPostgresStartupMessage_def shown_ok_def
        postgresAuthenticationType_def split: if_splits option.splits prod.splits dest!: writePostgresBytes_None)
  then show ?thesis
  proof cases
    case shown
    then show ?thesis by (intro exI [of _ "[message]"]) auto
  next
    case silent
    then show ?thesis by (intro exI [of _ "[]"]) auto
  qed
qed

lemma after_authentication_shown:
  assumes "readPostgresMessage upstream m = (Inr message, u)"
    and "after_authentication l message registered client s = (None, registered', client', s')"
  shows "tx client' = tx client @ raw_message message" "shown_ok (rx upstream) message"
proof -
  have "sublist (raw_message message) (rx upstream)" using readPostgresMessage_Inr(1) [OF assms(1)] by simp
  then show "tx client' = tx client @ raw_message message" "shown_ok (rx upstream) message"
    using assms(2) by (auto simp: after_authentication_def check_after_authentication_def forwardPostgresStartupMessage_def shown_ok_def
        split: if_splits option.splits prod.splits sum.splits dest!: writePostgresBytes_None)
qed

lemma upstream_loop_shown:
  "upstream_loop l n a registered upstream client s = (None, registered', u', client', s') \<Longrightarrow>
   \<exists>ms. tx client' = tx client @ concat (map raw_message ms) \<and> list_all (shown_ok (rx upstream)) ms
     \<and> ms \<noteq> [] \<and> pg_kind (last ms) = CHR ''Z'' \<and> (a \<or> authentication_ok \<in> set ms)"
proof (induction "length (rx upstream)" arbitrary: n a registered upstream client s rule: less_induct)
  case less
  obtain message u where r: "readPostgresMessage upstream (int maxPostgresAuthMessageBytes) = (Inr message, u)"
      and ne: "pg_kind message \<noteq> CHR ''E''"
    using less.prems by (auto simp: upstream_loop.simps [of l n] split: prod.splits sum.splits if_splits)
  note shorter = readPostgresMessage_Inr(3) [OF r] and suf = readPostgresMessage_suffix [OF r]
  show ?case
  proof (cases a)
    case False
    obtain a' n' u2 c2 where b: "before_authentication l message n u client = (Inr (a', n'), u2, c2)"
      and rec: "upstream_loop l n' a' registered u2 c2 s = (None, registered', u', client', s')"
      using less.prems r ne False by (auto simp: upstream_loop.simps [of l n] split: prod.splits sum.splits if_splits)
    have suf2: "suffix (rx u2) (rx upstream)" using before_authentication_suffix [OF b] suf by (rule suffix_order.trans)
    have "length (rx u2) < length (rx upstream)" using before_authentication_rx [OF b] shorter by simp
    from less.hyps [OF this rec] obtain ms where ms: "tx client' = tx c2 @ concat (map raw_message ms)"
      "list_all (shown_ok (rx u2)) ms" "ms \<noteq> []" "pg_kind (last ms) = CHR ''Z''" "a' \<or> authentication_ok \<in> set ms" by blast
    obtain ms0 where "tx c2 = tx client @ concat (map raw_message ms0)" "list_all (shown_ok (rx upstream)) ms0"
      "a' \<longrightarrow> authentication_ok \<in> set ms0" using before_authentication_shown [OF r b] by blast
    with ms show ?thesis
      by (intro exI [of _ "ms0 @ ms"]) (auto simp: list_all_iff intro: shown_ok_suffix [OF _ suf2])
  next
    case True
    obtain registered2 c2 s2 where f: "after_authentication l message registered client s = (None, registered2, c2, s2)"
      using less.prems r ne True by (auto simp: upstream_loop.simps [of l n] split: prod.splits option.splits)
    note shown = after_authentication_shown [OF r f]
    show ?thesis
    proof (cases "pg_kind message = CHR ''Z''")
      case z: True
      with less.prems r ne True f have "client' = c2" by (auto simp: upstream_loop.simps [of l n] split: if_splits)
      with shown z True show ?thesis by (intro exI [of _ "[message]"]) auto
    next
      case z: False
      with less.prems r ne True f have rec: "upstream_loop l n True registered2 u c2 s2 = (None, registered', u', client', s')"
        by (simp add: upstream_loop.simps [of l n])
      from less.hyps [OF shorter rec] obtain ms where "tx client' = tx c2 @ concat (map raw_message ms)"
        "list_all (shown_ok (rx u)) ms" "ms \<noteq> []" "pg_kind (last ms) = CHR ''Z''" by blast
      with shown True show ?thesis
        by (intro exI [of _ "message # ms"]) (auto simp: list_all_iff intro: shown_ok_suffix [OF _ suf])
    qed
  qed
qed

section \<open>Registration is undone on failure\<close>

text \<open>What the login relies on of the registrar: running the cleanup right after the registration gives
  back what an observer sees.\<close>

locale key_registrar =
  fixes reg :: "postgresCancelKey \<Rightarrow> 's \<Rightarrow> 'c option \<times> 's"
    and clean :: "'c \<Rightarrow> 's \<Rightarrow> 's"
    and obs :: "'s \<Rightarrow> 'o"
  assumes reg_Some: "reg key s = (Some c, s') \<Longrightarrow> obs (clean c s') = obs s"
    and reg_None: "reg key s = (None, s') \<Longrightarrow> obs s' = obs s"
begin

lemma check_registered:
  "ul_register l = reg \<Longrightarrow> check_after_authentication l message registered s = (e, registered', s') \<Longrightarrow>
   (case registered of Some c \<Rightarrow> registered' = Some c \<and> s' = s
    | None \<Rightarrow> (case registered' of None \<Rightarrow> obs s' = obs s | Some c \<Rightarrow> obs (clean c s') = obs s))"
  by (auto simp: check_after_authentication_def split: if_splits sum.splits option.splits prod.splits intro: reg_Some reg_None)

lemma after_registered:
  "ul_register l = reg \<Longrightarrow> after_authentication l message registered client s = (e, registered', client', s') \<Longrightarrow>
   (case registered of Some c \<Rightarrow> registered' = Some c \<and> s' = s
    | None \<Rightarrow> (case registered' of None \<Rightarrow> obs s' = obs s | Some c \<Rightarrow> obs (clean c s') = obs s))"
  using check_registered [of l message registered s]
  by (auto simp: after_authentication_def split: prod.splits option.splits)

lemma loop_registered:
  "ul_register l = reg \<Longrightarrow> upstream_loop l n a registered u c s = (e, registered', u', c', s') \<Longrightarrow>
   (case registered of Some cl \<Rightarrow> registered' = Some cl \<and> s' = s
    | None \<Rightarrow> (case registered' of None \<Rightarrow> obs s' = obs s | Some cl \<Rightarrow> obs (clean cl s') = obs s))"
proof (induction "length (rx u)" arbitrary: n a registered u c s rule: less_induct)
  case less
  show ?case
  proof (cases "readPostgresMessage u (int maxPostgresAuthMessageBytes)")
    case (Pair r v)
    show ?thesis
    proof (cases r)
      case (Inl e')
      with less.prems Pair show ?thesis by (auto simp: upstream_loop.simps [of l n] split: option.splits)
    next
      case (Inr message)
      note rd = Pair [unfolded Inr]
      note shorter = readPostgresMessage_Inr(3) [OF rd]
      consider "pg_kind message = CHR ''E''" | "\<not> a" "pg_kind message \<noteq> CHR ''E''" | "a" "pg_kind message \<noteq> CHR ''E''" by blast
      then show ?thesis
      proof cases
        case 1
        with less.prems rd show ?thesis by (auto simp: upstream_loop.simps [of l n] split: option.splits)
      next
        case 2
        obtain x u2 c2 where b: "before_authentication l message n v c = (x, u2, c2)" by (metis prod_cases3)
        have "length (rx u2) < length (rx u)" using before_authentication_rx [OF b] shorter by simp
        then show ?thesis
          using less.hyps [of u2 _ _ registered c2 s] less.prems rd 2 b
          by (auto simp: upstream_loop.simps [of l n] split: sum.splits prod.splits option.splits)
      next
        case 3
        obtain x reg2 c2 s2 where f: "after_authentication l message registered c s = (x, reg2, c2, s2)" by (metis prod_cases4)
        note af = after_registered [OF less.prems(1) f]
        show ?thesis
        proof (cases "x = None \<and> pg_kind message \<noteq> CHR ''Z''")
          case True
          with less.prems rd 3 f have "upstream_loop l n True reg2 v c2 s2 = (e, registered', u', c', s')"
            by (simp add: upstream_loop.simps [of l n])
          from less.hyps [OF shorter less.prems(1) this] af show ?thesis by (auto split: option.splits)
        next
          case False
          with less.prems rd 3 f have "registered' = reg2" "s' = s2"
            by (auto simp: upstream_loop.simps [of l n] split: if_splits option.splits)
          with af show ?thesis by (simp only:)
        qed
      qed
    qed
  qed
qed

lemma login_registered:
  assumes "ul_register l = reg" "ul_cleanup l = clean" "authenticatePostgresUpstream l u c s = (r, u', c', s')"
  shows "case r of Inr (Some cl) \<Rightarrow> obs (clean cl s') = obs s | _ \<Rightarrow> obs s' = obs s"
  using assms loop_registered [OF assms(1), of 0 False None u c s]
  by (auto simp: authenticatePostgresUpstream_def split: option.splits sum.splits prod.splits)

end

text \<open>The registrar \<open>handlePG\<close> passes: registration in the gateway's registry for an instance.\<close>

definition register_for :: "'i \<Rightarrow> postgresCancelKey \<Rightarrow> 'i postgresCancelRegistry \<Rightarrow> nat option \<times> 'i postgresCancelRegistry" where
  "register_for x key r = (case register key x r of (n, r') \<Rightarrow> (Some n, r'))"

definition live_sessions :: "'i postgresCancelRegistry \<Rightarrow> postgresCancelKey \<Rightarrow> (u64 \<times> 'i) list" where
  "live_sessions r key = holders key (cleanups r)"

interpretation gateway_registrar: key_registrar "register_for x" cleanup live_sessions for x
  by standard (auto simp: register_for_def register_def Let_def cleanup_def live_sessions_def list_update_append)

section \<open>Properties\<close>


lemma authenticate_shown:
  assumes "authenticatePostgresUpstream l u c s = (Inr registered, u', c', s')"
  shows "\<exists>ms. tx c' = tx c @ concat (map raw_message ms) \<and> list_all (shown_ok (rx u)) ms
    \<and> ms \<noteq> [] \<and> pg_kind (last ms) = CHR ''Z'' \<and> authentication_ok \<in> set ms"
proof -
  have "upstream_loop l 0 False None u c s = (None, registered, u', c', s')"
    using assms by (auto simp: authenticatePostgresUpstream_def split: prod.splits option.splits)
  from upstream_loop_shown [OF this] show ?thesis by simp
qed

text \<open>
  A login that succeeds was accepted by the upstream: what the client has been sent is a sequence
  of whole messages, each of which the upstream sent, that ends with \<open>ReadyForQuery\<close>, contains
  \<open>AuthenticationOk\<close>, and otherwise only holds notices, parameters and the backend key; no
  authentication challenge of the upstream is ever shown to the client.
\<close>

theorem postgres_upstream_success:
  assumes "authenticatePostgresUpstream l u c s = (Inr registered, u', c', s')"
  shows "\<exists>ms. tx c' = tx c @ concat (map raw_message ms) \<and> list_all (shown_ok (rx u)) ms
    \<and> ms \<noteq> [] \<and> pg_kind (last ms) = CHR ''Z'' \<and> authentication_ok \<in> set ms"
  by (rule authenticate_shown [OF assms])

text \<open>
  A failed login leaves no trace in the cancellation registry: the sessions that hold a key are
  those that held it before; after a successful one, running the cleanup the login returned restores
  them.
\<close>

theorem postgres_upstream_registration:
  assumes "ul_register l = register_for x" "ul_cleanup l = cleanup"
    and "authenticatePostgresUpstream l u c r = (result, u', c', r')"
  shows "case result of Inr (Some n) \<Rightarrow> live_sessions (cleanup n r') = live_sessions r | _ \<Rightarrow> live_sessions r' = live_sessions r"
  by (rule gateway_registrar.login_registered [OF assms])

text \<open>A login at a sample upstream that asks for nothing and is ready at once.\<close>

definition sample_login :: "(string postgresCancelRegistry, nat) upstream_login" where
  "sample_login = \<lparr>ul_username = ''app'', ul_password = ''pw'', ul_tlsMode = ''verify-full'', ul_verified = False,
     ul_sha256 = sample_hash, ul_md5 = sample_hash, ul_prepare = Some, ul_random = (\<lambda>_. None),
     ul_register = register_for ''db1'', ul_cleanup = cleanup\<rparr>"

definition sample_ready :: conn where
  "sample_ready = \<lparr>rx = raw_message authentication_ok @ raw_message \<lparr>pg_kind = CHR ''K'', pg_payload = ''abcdefgh''\<rparr>
      @ raw_message \<lparr>pg_kind = CHR ''Z'', pg_payload = ''I''\<rparr>,
     tx = [], wplan = [], deadline_fails = False\<rparr>"

definition sample_client :: conn where
  "sample_client = \<lparr>rx = [], tx = [], wplan = [], deadline_fails = False\<rparr>"

lemma ready_upstream_runs:
  assumes "ul_register l = register_for x" "rx u = rx sample_ready" "\<not> deadline_fails u" "wplan c = []"
  shows "\<exists>u' c' r'. authenticatePostgresUpstream l u c r = (Inr (Some (length (cleanups r))), u', c', r')"
proof -
  let ?k = "\<lparr>pg_kind = CHR ''K'', pg_payload = ''abcdefgh''\<rparr>"
  let ?z = "\<lparr>pg_kind = CHR ''Z'', pg_payload = ''I''\<rparr>"
  let ?n = "length (cleanups r)"
  have fwd: "forwardPostgresStartupMessage (c\<lparr>tx := b\<rparr>) m = (None, c\<lparr>tx := b @ raw_message m\<rparr>)" for b m
    by (simp add: forwardPostgresStartupMessage_def writePostgresBytes_plain assms(4))
  have r1: "readPostgresMessage u (int maxPostgresAuthMessageBytes)
      = (Inr authentication_ok, u\<lparr>rx := raw_message ?k @ raw_message ?z\<rparr>)"
    by (rule readPostgresMessage_raw) (simp_all add: assms(2) sample_ready_def message_fits_def pg_sizes authentication_ok_def)
  have r2: "readPostgresMessage (u\<lparr>rx := raw_message ?k @ raw_message ?z\<rparr>) (int maxPostgresAuthMessageBytes)
      = (Inr ?k, u\<lparr>rx := raw_message ?z\<rparr>)"
    using readPostgresMessage_raw [of _ ?k "u\<lparr>rx := raw_message ?k @ raw_message ?z\<rparr>" "raw_message ?z"]
    by (simp add: message_fits_def pg_sizes)
  have r3: "readPostgresMessage (u\<lparr>rx := raw_message ?z\<rparr>) (int maxPostgresAuthMessageBytes) = (Inr ?z, u\<lparr>rx := []\<rparr>)"
    using readPostgresMessage_raw [of _ ?z "u\<lparr>rx := raw_message ?z\<rparr>" "[]"] by (simp add: message_fits_def pg_sizes)
  have b: "before_authentication l authentication_ok 0 v c = (Inr (True, 0), v, c\<lparr>tx := tx c @ raw_message authentication_ok\<rparr>)" for v
    using fwd [of "tx c" authentication_ok] by (simp add: before_authentication_def answer_challenge_def authentication_ok_def
        postgresAuthenticationType_def be_val_be_bytes)
  obtain r' where k: "check_after_authentication l ?k None r = (None, Some ?n, r')"
    by (simp add: check_after_authentication_def parsePostgresBackendKey_def cancel_sizes assms(1) register_for_def
        register_def Let_def)
  have z: "check_after_authentication l ?z reg r = (None, reg, r)" for reg r by (simp add: check_after_authentication_def)
  have "upstream_loop l 0 False None u c r
      = upstream_loop l 0 True None (u\<lparr>rx := raw_message ?k @ raw_message ?z\<rparr>) (c\<lparr>tx := tx c @ raw_message authentication_ok\<rparr>) r"
    using r1 b by (subst upstream_loop.simps) (simp add: authentication_ok_def)
  also have "\<dots> = upstream_loop l 0 True (Some ?n) (u\<lparr>rx := raw_message ?z\<rparr>) (c\<lparr>tx := (tx c @ raw_message authentication_ok) @ raw_message ?k\<rparr>) r'"
    using r2 k fwd by (subst upstream_loop.simps) (simp add: after_authentication_def)
  also have "\<dots> = (None, Some ?n, u\<lparr>rx := []\<rparr>, c\<lparr>tx := ((tx c @ raw_message authentication_ok) @ raw_message ?k) @ raw_message ?z\<rparr>, r')"
    using r3 z fwd assms(3) by (subst upstream_loop.simps) (simp add: after_authentication_def)
  finally show ?thesis by (simp add: authenticatePostgresUpstream_def)
qed

lemma sample_login_runs:
  "\<exists>u' c' r'. authenticatePostgresUpstream sample_login sample_ready sample_client empty_registry = (Inr (Some 0), u', c', r')"
  using ready_upstream_runs [of sample_login "''db1''" sample_ready sample_client empty_registry]
  by (simp add: sample_login_def sample_ready_def sample_client_def empty_registry_def)

theorem postgres_upstream_success_witness:
  "\<exists>(c' :: conn) ms. tx c' = tx sample_client @ concat (map raw_message ms) \<and> list_all (shown_ok (rx sample_ready)) ms
    \<and> ms \<noteq> [] \<and> pg_kind (last ms) = CHR ''Z'' \<and> authentication_ok \<in> set ms"
proof -
  obtain u' c' r' where run: "authenticatePostgresUpstream sample_login sample_ready sample_client empty_registry = (Inr (Some 0), u', c', r')"
    using sample_login_runs by blast
  show ?thesis by (rule exI [of _ c'], rule postgres_upstream_success [OF run])
qed

theorem postgres_upstream_registration_witness:
  "\<exists>n u' c' r'. authenticatePostgresUpstream sample_login sample_ready sample_client empty_registry = (Inr (Some n), u', c', r')
    \<and> live_sessions (cleanup n r') = live_sessions empty_registry"
proof -
  obtain u' c' r' where run: "authenticatePostgresUpstream sample_login sample_ready sample_client empty_registry = (Inr (Some 0), u', c', r')"
    using sample_login_runs by blast
  have "ul_register sample_login = register_for ''db1''" "ul_cleanup sample_login = cleanup" by (simp_all add: sample_login_def)
  from postgres_upstream_registration [OF this run] have "live_sessions (cleanup 0 r') = live_sessions empty_registry" by simp
  with run show ?thesis by blast
qed


end
