(* ===== verification/Rbac_Checker.thy ===== *)
theory Rbac_Checker
  imports Rbac_Store
begin

text \<open>
  Role permissions: \<open>Checker\<close> of \<open>internal/rbac/checker.go\<close>, one decision at a time.  The store is
  an option because the methods test for a nil database; \<open>now\<close> is the reading of the clock.  Both
  loops over the permissions are recursive functions with the early returns of the source.
\<close>

section \<open>Matching\<close>

definition actionMatches :: "string \<Rightarrow> string \<Rightarrow> bool" where
  "actionMatches granted requested \<longleftrightarrow> granted = requested \<or> granted = ''*''"

definition resourceTypeMatches :: "string \<Rightarrow> string \<Rightarrow> bool" where
  "resourceTypeMatches granted requested \<longleftrightarrow> granted = requested \<or> granted = ''*''"

definition resourceIDMatches :: "string \<Rightarrow> string \<Rightarrow> bool" where
  "resourceIDMatches granted requested \<longleftrightarrow> granted = requested \<or> granted = ''*''"

definition isActionOnly :: "Permission \<Rightarrow> bool" where
  "isActionOnly p \<longleftrightarrow> p_ResourceType p = [] \<and> p_ResourceID p = []"

definition isAllow :: "Permission \<Rightarrow> bool" where
  "isAllow p \<longleftrightarrow> p_Effect p = [] \<or> EqualFold (p_Effect p) PermissionEffectAllow"

definition isDeny :: "Permission \<Rightarrow> bool" where
  "isDeny p \<longleftrightarrow> EqualFold (p_Effect p) PermissionEffectDeny"

text \<open>The queries ignore their errors: a failed query counts no row.\<close>

definition permission_group_member :: "store \<Rightarrow> string \<Rightarrow> string \<Rightarrow> string \<Rightarrow> bool" where
  "permission_group_member db groupName resourceType resourceID =
     (if resourceType = ResourceTypeHostAccount then
        \<not> query_fails db ''host_accounts''
        \<and> account_in_parent_group (host_accounts db) (hosts db) groupName resourceID
      else if resourceType = ResourceTypeDatabaseAccount then
        \<not> query_fails db ''database_accounts''
        \<and> account_in_parent_group (database_accounts db) (database_instances db) groupName resourceID
      else if resourceType = ResourceTypeHost then
        \<not> query_fails db ''hosts'' \<and> row_in_group (hosts db) groupName resourceID
      else if resourceType = ResourceTypeDatabaseInstance then
        \<not> query_fails db ''database_instances'' \<and> row_in_group (database_instances db) groupName resourceID
      else if resourceType = ResourceTypeApplication then
        \<not> query_fails db ''applications'' \<and> row_in_group (applications db) groupName resourceID
      else if resourceType = ResourceTypePlatformAccount then
        \<not> query_fails db ''platform_accounts'' \<and> row_in_group (platform_accounts db) groupName resourceID
      else False)"

definition groupContainsResource :: "store \<Rightarrow> string \<Rightarrow> string \<Rightarrow> string \<Rightarrow> bool" where
  "groupContainsResource db groupID resourceType resourceID =
     (if query_fails db ''resource_groups'' then False
      else (case find (\<lambda>g. rg_ID g = groupID \<and> live (rg_ActiveMarker g)) (resource_groups db) of
              None \<Rightarrow> False
            | Some grp \<Rightarrow> permission_group_member db (rg_Name grp) resourceType resourceID))"

definition resourceMatches :: "store \<Rightarrow> Permission \<Rightarrow> string \<Rightarrow> string \<Rightarrow> bool" where
  "resourceMatches db p resourceType resourceID =
     (if resourceTypeMatches (p_ResourceType p) resourceType \<and> resourceIDMatches (p_ResourceID p) resourceID
      then True
      else if p_ResourceType p = ResourceTypeGroup \<and> p_ResourceID p \<noteq> []
      then groupContainsResource db (p_ResourceID p) resourceType resourceID
      else False)"

definition permission_matches :: "store \<Rightarrow> Permission \<Rightarrow> string \<Rightarrow> string \<Rightarrow> string \<Rightarrow> bool" where
  "permission_matches db p action resourceType resourceID =
     (if \<not> actionMatches (p_Action p) action then False
      else if resourceType = [] \<and> resourceID = [] then isActionOnly p
      else isActionOnly p \<or> resourceMatches db p resourceType resourceID)"

section \<open>Decisions\<close>

definition permissionsForUser :: "store \<Rightarrow> int \<Rightarrow> string \<Rightarrow> rbac_error + Permission list" where
  "permissionsForUser db now userID =
     (if query_fails db ''permissions'' then Inl (QueryError ''permissions'')
      else Inr [p. p \<leftarrow> permissions db, rp \<leftarrow> role_permissions db, ur \<leftarrow> user_roles db, r \<leftarrow> roles db, u \<leftarrow> users db,
                rp_PermissionID rp = p_ID p \<and> ur_RoleID ur = rp_RoleID rp \<and> r_ID r = ur_RoleID ur
                \<and> u_ID u = ur_UserID ur \<and> ur_UserID ur = userID
                \<and> unexpired now (ur_ExpiresAt ur)
                \<and> live (p_ActiveMarker p) \<and> live (r_ActiveMarker r) \<and> live (u_ActiveMarker u)
                \<and> (r_Status r = [] \<or> r_Status r = ''active'')])"

fun deny_loop :: "store \<Rightarrow> Permission list \<Rightarrow> string \<Rightarrow> string \<Rightarrow> string \<Rightarrow> bool" where
  "deny_loop db [] action resourceType resourceID = False"
| "deny_loop db (p # ps) action resourceType resourceID =
     (if isDeny p \<and> permission_matches db p action resourceType resourceID then True
      else deny_loop db ps action resourceType resourceID)"

fun allow_loop ::
    "store \<Rightarrow> Permission list \<Rightarrow> string \<Rightarrow> string \<Rightarrow> string \<Rightarrow> bool \<Rightarrow> bool \<Rightarrow> bool" where
  "allow_loop db [] action resourceType resourceID hasAction hasResourceGrant = (hasAction \<and> hasResourceGrant)"
| "allow_loop db (p # ps) action resourceType resourceID hasAction hasResourceGrant =
     (if \<not> isAllow p then allow_loop db ps action resourceType resourceID hasAction hasResourceGrant
      else if actionMatches (p_Action p) action \<and> isActionOnly p then
        allow_loop db ps action resourceType resourceID True hasResourceGrant
      else if resourceType \<noteq> [] \<and> resourceID \<noteq> [] \<and> resourceMatches db p resourceType resourceID then
        (if actionMatches (p_Action p) action then True
         else if p_Action p = [] \<or> p_Action p = ''*'' then
           allow_loop db ps action resourceType resourceID hasAction True
         else allow_loop db ps action resourceType resourceID hasAction hasResourceGrant)
      else allow_loop db ps action resourceType resourceID hasAction hasResourceGrant)"

text \<open>The two loops of \<open>HasPermissionContext\<close> over the permissions that were loaded.\<close>

definition permission_decision :: "store \<Rightarrow> Permission list \<Rightarrow> string \<times> string \<times> string \<Rightarrow> bool" where
  "permission_decision db ps q =
     (case q of (action, resourceType, resourceID) \<Rightarrow>
        if deny_loop db ps action resourceType resourceID then False
        else allow_loop db ps action resourceType resourceID False (resourceType = [] \<and> resourceID = []))"

definition HasPermissionContext ::
    "store option \<Rightarrow> int \<Rightarrow> string \<Rightarrow> string \<Rightarrow> string \<Rightarrow> string \<Rightarrow> rbac_error + bool" where
  "HasPermissionContext odb now userID action resourceType resourceID =
     (case odb of None \<Rightarrow> Inl NilDatabase
      | Some db \<Rightarrow>
        (let userID = TrimSpace userID; action = TrimSpace action;
             resourceType = TrimSpace resourceType; resourceID = TrimSpace resourceID in
         if userID = [] \<or> action = [] then Inr False
         else
         (case (if resourceType \<noteq> [] \<and> resourceID \<noteq> []
                then activeResourceExists db resourceType resourceID else Inr True) of
            Inl e \<Rightarrow> Inl e
          | Inr active \<Rightarrow>
              if \<not> active then Inr False
              else (case permissionsForUser db now userID of Inl e \<Rightarrow> Inl e
                | Inr ps \<Rightarrow> Inr (permission_decision db ps (action, resourceType, resourceID))))))"

definition HasPermission ::
    "store option \<Rightarrow> int \<Rightarrow> string \<Rightarrow> string \<Rightarrow> string \<Rightarrow> string \<Rightarrow> rbac_error + bool" where
  "HasPermission odb now userID action resourceType resourceID =
     HasPermissionContext odb now userID action resourceType resourceID"

definition HasDenyContext ::
    "store option \<Rightarrow> int \<Rightarrow> string \<Rightarrow> string \<Rightarrow> string \<Rightarrow> string \<Rightarrow> rbac_error + bool" where
  "HasDenyContext odb now userID action resourceType resourceID =
     (case odb of None \<Rightarrow> Inl NilDatabase
      | Some db \<Rightarrow>
        (let userID = TrimSpace userID; action = TrimSpace action;
             resourceType = TrimSpace resourceType; resourceID = TrimSpace resourceID in
         if userID = [] \<or> action = [] then Inr False
         else
         (case (if resourceType \<noteq> [] \<and> resourceID \<noteq> []
                then activeResourceExists db resourceType resourceID else Inr True) of
            Inl e \<Rightarrow> Inl e
          | Inr active \<Rightarrow>
              if \<not> active then Inr False
              else (case permissionsForUser db now userID of Inl e \<Rightarrow> Inl e
                | Inr ps \<Rightarrow> Inr (deny_loop db ps action resourceType resourceID)))))"

section \<open>The policy the loops implement\<close>

definition permission_denies :: "store \<Rightarrow> Permission \<Rightarrow> string \<times> string \<times> string \<Rightarrow> bool" where
  "permission_denies db p q =
     (case q of (action, resourceType, resourceID) \<Rightarrow>
        isDeny p \<and> permission_matches db p action resourceType resourceID)"

text \<open>An action is allowed globally by an action-only permission.  A resource is opened either by a
  permission for the action on that resource, or by a resource permission without an action
  together with the global permission for the action.\<close>

definition allows_action :: "Permission set \<Rightarrow> string \<Rightarrow> bool" where
  "allows_action P action \<longleftrightarrow> (\<exists>p \<in> P. isAllow p \<and> isActionOnly p \<and> actionMatches (p_Action p) action)"

definition opens_resource :: "store \<Rightarrow> Permission set \<Rightarrow> (string \<Rightarrow> bool) \<Rightarrow> string \<Rightarrow> string \<Rightarrow> bool" where
  "opens_resource db P act resourceType resourceID \<longleftrightarrow>
     resourceType \<noteq> [] \<and> resourceID \<noteq> []
     \<and> (\<exists>p \<in> P. isAllow p \<and> \<not> isActionOnly p \<and> act (p_Action p) \<and> resourceMatches db p resourceType resourceID)"

definition permission_allows :: "store \<Rightarrow> Permission set \<Rightarrow> string \<times> string \<times> string \<Rightarrow> bool" where
  "permission_allows db P q =
     (case q of (action, resourceType, resourceID) \<Rightarrow>
        opens_resource db P (\<lambda>a. actionMatches a action) resourceType resourceID
        \<or> allows_action P action
          \<and> (resourceType = [] \<and> resourceID = [] \<or> opens_resource db P (\<lambda>a. a = []) resourceType resourceID))"

lemma deny_loop_iff:
  "deny_loop db ps a rt rid \<longleftrightarrow> (\<exists>p \<in> set ps. permission_denies db p (a, rt, rid))"
  by (induction ps) (auto simp: permission_denies_def)

lemma action_only_no_resource: "isActionOnly p \<Longrightarrow> rt \<noteq> [] \<Longrightarrow> \<not> resourceMatches db p rt rid"
  by (auto simp: isActionOnly_def resourceMatches_def resourceTypeMatches_def ResourceTypeGroup_def)

lemma allow_loop_iff:
  "allow_loop db ps a rt rid h g \<longleftrightarrow>
     opens_resource db (set ps) (\<lambda>x. actionMatches x a) rt rid
     \<or> (h \<or> allows_action (set ps) a) \<and> (g \<or> opens_resource db (set ps) (\<lambda>x. x = []) rt rid)"
proof (induction ps arbitrary: h g)
  case Nil
  then show ?case by (simp add: opens_resource_def allows_action_def)
next
  case (Cons p ps)
  show ?case
    using action_only_no_resource [of p rt db rid]
    by (auto simp: Cons opens_resource_def allows_action_def actionMatches_def)
qed

interpretation permission_policy: deny_overrides "permission_decision db" "permission_denies db" "permission_allows db"
  for db
proof
  show "permission_decision db ps q \<longleftrightarrow>
      \<not> (\<exists>p \<in> set ps. permission_denies db p q) \<and> permission_allows db (set ps) q" for ps q
    by (cases q) (auto simp: permission_decision_def permission_allows_def deny_loop_iff allow_loop_iff)
  show "A \<subseteq> B \<Longrightarrow> permission_allows db A q \<Longrightarrow> permission_allows db B q" for A B q
    by (auto simp: permission_allows_def opens_resource_def allows_action_def split: prod.splits)
  show "\<not> permission_allows db {} q" for q
    by (simp add: permission_allows_def opens_resource_def allows_action_def split: prod.splits)
qed


section \<open>Properties\<close>



lemma HasPermissionContext_decision:
  assumes "HasPermissionContext (Some db) now user action rt rid = Inr True"
  obtains ps where "permissionsForUser db now (TrimSpace user) = Inr ps"
    "permission_decision db ps (TrimSpace action, TrimSpace rt, TrimSpace rid)"
    "TrimSpace rt \<noteq> [] \<Longrightarrow> TrimSpace rid \<noteq> [] \<Longrightarrow>
       activeResourceExists db (TrimSpace rt) (TrimSpace rid) = Inr True"
  using assms
  by (auto simp: HasPermissionContext_def Let_def split: if_splits sum.splits)


text \<open>A store with one user who holds one role with two permissions: all actions on hosts that
  belong to a group, but no connections to one of them.\<close>

definition sample_permission :: "string \<Rightarrow> string \<Rightarrow> string \<Rightarrow> string \<Rightarrow> string \<Rightarrow> Permission" where
  "sample_permission pid action rt rid effect =
     \<lparr>p_ID = pid, p_Action = action, p_ResourceType = rt, p_ResourceID = rid, p_Effect = effect,
      p_ActiveMarker = Some 1\<rparr>"

definition sample_store :: "Permission list \<Rightarrow> store" where
  "sample_store ps =
     \<lparr>users = [\<lparr>u_ID = ''u1'', u_ActiveMarker = Some 1, u_Username = ''alice'', u_PasswordHash = [],
        u_MySQLNativeHash = [], u_TokenHash = [], u_Status = ''active'', u_IsSuperAdmin = False, u_ExpiresAt = None\<rparr>],
      roles = [\<lparr>r_ID = ''r1'', r_Status = ''active'', r_ActiveMarker = Some 1\<rparr>],
      user_roles = [\<lparr>ur_UserID = ''u1'', ur_RoleID = ''r1'', ur_ExpiresAt = None\<rparr>],
      role_permissions = map (\<lambda>p. \<lparr>rp_RoleID = ''r1'', rp_PermissionID = p_ID p\<rparr>) ps,
      permissions = ps,
      resource_groups = [\<lparr>rg_ID = ''g1'', rg_Name = ''web'', rg_GroupType = ''resource'', rg_ActiveMarker = Some 1\<rparr>],
      hosts = [\<lparr>row_ID = ''h1'', row_GroupName = ''web'', row_ActiveMarker = Some 1, row_Status = ''active'', row_Protocol = ''ssh'', row_TLSMode = []\<rparr>,
               \<lparr>row_ID = ''h2'', row_GroupName = ''web'', row_ActiveMarker = Some 1, row_Status = ''active'', row_Protocol = ''ssh'', row_TLSMode = []\<rparr>],
      host_accounts = [], database_instances = [], database_accounts = [], applications = [],
      container_endpoints = [], platform_accounts = [], resource_grants = [], user_groups = [],
      user_group_members = [], temporary_accounts = [], temporary_account_grants = [],
      user_sessions = [], connection_passwords = [], query_fails = (\<lambda>t. False)\<rparr>"

lemmas sample_defs = sample_store_def sample_permission_def

lemmas checker_defs =
  HasPermissionContext_def permission_decision_def activeResourceExists_def counted_def live_row_def
  permissionsForUser_def resource_types live_def ActiveMarkerValue_def unexpired_def isDeny_def isAllow_def
  permission_matches_def resourceMatches_def groupContainsResource_def permission_group_member_def
  row_in_group_def actionMatches_def resourceTypeMatches_def resourceIDMatches_def isActionOnly_def
  PermissionEffectDeny_def PermissionEffectAllow_def

lemma trim_samples [simp]:
  "TrimSpace ''u1'' = ''u1''" "TrimSpace ''session:connect'' = ''session:connect''" "TrimSpace ''host'' = ''host''"
  "TrimSpace ''h1'' = ''h1''" "TrimSpace ''h2'' = ''h2''" "TrimSpace [] = []"
  by code_simp+

lemma fold_samples [simp]:
  "EqualFold ''allow'' ''allow''" "EqualFold ''deny'' ''deny''" "\<not> EqualFold ''allow'' ''deny''"
  "\<not> EqualFold ''deny'' ''allow''"
  by code_simp+

definition group_store :: store where
  "group_store = sample_store
     [sample_permission ''p1'' ''*'' ''resource_group'' ''g1'' ''allow'',
      sample_permission ''p2'' ''session:connect'' ''host'' ''h2'' ''deny'']"



text \<open>
  Deny wins: if the user holds a live permission that denies the action on the resource, the
  check answers no (or fails with an error), whatever else the user has been granted.
\<close>

theorem HasPermission_deny_wins:
  assumes "permissionsForUser db now (TrimSpace user) = Inr ps"
    and "p \<in> set ps" "isDeny p"
    and "permission_matches db p (TrimSpace action) (TrimSpace rt) (TrimSpace rid)"
  shows "HasPermissionContext (Some db) now user action rt rid \<noteq> Inr True"
proof
  assume "HasPermissionContext (Some db) now user action rt rid = Inr True"
  then have "permission_decision db ps (TrimSpace action, TrimSpace rt, TrimSpace rid)"
    using assms(1) by (auto elim: HasPermissionContext_decision)
  moreover have "permission_denies db p (TrimSpace action, TrimSpace rt, TrimSpace rid)"
    using assms(3,4) by (simp add: permission_denies_def)
  ultimately show False
    using permission_policy.deny_wins assms(2) by blast
qed

theorem HasPermission_deny_wins_witness:
  "HasPermissionContext (Some group_store) 0 ''u1'' ''session:connect'' ''host'' ''h2'' \<noteq> Inr True"
  by (rule HasPermission_deny_wins [where ps = "permissions group_store"
        and p = "sample_permission ''p2'' ''session:connect'' ''host'' ''h2'' ''deny''"])
     (simp_all add: group_store_def sample_defs checker_defs)

text \<open>
  A resource is never opened by half of its name: with exactly one of type and identifier
  given, no set of permissions makes the check succeed.
\<close>

theorem HasPermission_needs_both:
  assumes "(TrimSpace rt = []) \<noteq> (TrimSpace rid = [])"
  shows "HasPermissionContext odb now user action rt rid \<noteq> Inr True"
proof (cases odb)
  case None
  then show ?thesis by (simp add: HasPermissionContext_def)
next
  case (Some db)
  show ?thesis
    unfolding Some
  proof
    assume "HasPermissionContext (Some db) now user action rt rid = Inr True"
    then obtain ps where "permission_decision db ps (TrimSpace action, TrimSpace rt, TrimSpace rid)"
      by (auto elim: HasPermissionContext_decision)
    then have "permission_allows db (set ps) (TrimSpace action, TrimSpace rt, TrimSpace rid)"
      by (rule permission_policy.needs_allow)
    with assms show False by (auto simp: permission_allows_def opens_resource_def)
  qed
qed

theorem HasPermission_needs_both_witness:
  "HasPermissionContext (Some group_store) 0 ''u1'' ''session:connect'' ''host'' [] \<noteq> Inr True"
  by (rule HasPermission_needs_both) simp



end
