(* ===== verification/Rbac_Grants.thy ===== *)
theory Rbac_Grants
  imports Rbac_Checker
begin

text \<open>
  Resource grants: \<open>ResourceGrantChecker\<close> of \<open>internal/rbac/resource_grant_checker.go\<close>, one decision
  at a time.  A user holds grants directly, through user groups, and through temporary accounts
  (whose grants always allow); a grant matches a resource by name, as the parent of an account, or
  as a resource or account group.
\<close>

section \<open>Grants of a user\<close>

definition directGrantsForUser :: "store \<Rightarrow> int \<Rightarrow> string \<Rightarrow> rbac_error + ResourceGrant list" where
  "directGrantsForUser db now userID =
     (if query_fails db ''resource_grants'' then Inl (QueryError ''resource_grants'')
      else Inr [g. g \<leftarrow> resource_grants db, u \<leftarrow> users db,
                u_ID u = g_PrincipalID g \<and> g_PrincipalType g = ''user'' \<and> g_PrincipalID g = userID
                \<and> live (g_ActiveMarker g) \<and> live (u_ActiveMarker u) \<and> unexpired now (g_ExpiresAt g)])"

definition temporaryGrantsForUser :: "store \<Rightarrow> int \<Rightarrow> string \<Rightarrow> rbac_error + ResourceGrant list" where
  "temporaryGrantsForUser db now userID =
     (if query_fails db ''temporary_account_grants'' then Inl (QueryError ''temporary_account_grants'')
      else Inr [\<lparr>g_PrincipalType = ''user'', g_PrincipalID = userID, g_ResourceType = tg_ResourceType t,
                 g_ResourceID = tg_ResourceID t, g_Effect = PermissionEffectAllow,
                 g_ExpiresAt = tg_ExpiresAt t, g_ActiveMarker = None\<rparr>.
                t \<leftarrow> temporary_account_grants db, a \<leftarrow> temporary_accounts db, u \<leftarrow> users db,
                ta_ID a = tg_TemporaryAccountID t \<and> u_ID u = tg_UserID t \<and> tg_UserID t = userID
                \<and> live (tg_ActiveMarker t) \<and> live (ta_ActiveMarker a) \<and> live (u_ActiveMarker u)
                \<and> tg_RevokedAt t = None \<and> ta_Status a = ''active''
                \<and> started now (tg_StartsAt t)
                \<and> unexpired now (tg_ExpiresAt t) \<and> unexpired now (ta_ExpiresAt a)])"

definition groupGrantsForUser :: "store \<Rightarrow> int \<Rightarrow> string \<Rightarrow> rbac_error + ResourceGrant list" where
  "groupGrantsForUser db now userID =
     (if query_fails db ''user_group_members'' then Inl (QueryError ''user_group_members'')
      else Inr [g. g \<leftarrow> resource_grants db, m \<leftarrow> user_group_members db, ug \<leftarrow> user_groups db, u \<leftarrow> users db,
                ugm_GroupID m = g_PrincipalID g \<and> ug_ID ug = ugm_GroupID m \<and> u_ID u = ugm_UserID m
                \<and> g_PrincipalType g = ''user_group'' \<and> ugm_UserID m = userID
                \<and> live (g_ActiveMarker g) \<and> live (ug_ActiveMarker ug) \<and> live (u_ActiveMarker u)
                \<and> unexpired now (g_ExpiresAt g)])"

section \<open>Matching a grant\<close>

definition account_of_parent :: "account_row list \<Rightarrow> grouped_row list \<Rightarrow> string \<Rightarrow> string \<Rightarrow> bool" where
  "account_of_parent accounts parents parentID accountID =
     list_ex (\<lambda>a. list_ex (\<lambda>h. row_ID h = acct_ParentID a \<and> acct_ParentID a = parentID
       \<and> acct_ID a = accountID \<and> live (acct_ActiveMarker a) \<and> live (row_ActiveMarker h)) parents) accounts"

definition hostContainsAccount :: "store \<Rightarrow> string \<Rightarrow> string \<Rightarrow> bool" where
  "hostContainsAccount db hostID accountID =
     (\<not> query_fails db ''host_accounts'' \<and> account_of_parent (host_accounts db) (hosts db) hostID accountID)"

definition databaseContainsAccount :: "store \<Rightarrow> string \<Rightarrow> string \<Rightarrow> bool" where
  "databaseContainsAccount db instanceID accountID =
     (\<not> query_fails db ''database_accounts''
      \<and> account_of_parent (database_accounts db) (database_instances db) instanceID accountID)"

definition account_group_member :: "store \<Rightarrow> string \<Rightarrow> string \<Rightarrow> string \<Rightarrow> bool" where
  "account_group_member db groupName resourceType resourceID =
     (if resourceType = ResourceTypeHostAccount then
        \<not> query_fails db ''host_accounts''
        \<and> account_in_own_group (host_accounts db) (hosts db) groupName resourceID
      else if resourceType = ResourceTypeDatabaseAccount then
        \<not> query_fails db ''database_accounts''
        \<and> account_in_own_group (database_accounts db) (database_instances db) groupName resourceID
      else if resourceType = ResourceTypePlatformAccount then
        \<not> query_fails db ''platform_accounts'' \<and> row_in_group (platform_accounts db) groupName resourceID
      else False)"

definition resource_group_member :: "store \<Rightarrow> string \<Rightarrow> string \<Rightarrow> string \<Rightarrow> bool" where
  "resource_group_member db groupName resourceType resourceID =
     (if resourceType = ResourceTypeHostAccount then
        \<not> query_fails db ''host_accounts''
        \<and> account_in_parent_group (host_accounts db) (hosts db) groupName resourceID
      else if resourceType = ResourceTypeDatabaseAccount then
        \<not> query_fails db ''database_accounts''
        \<and> account_in_parent_group (database_accounts db) (database_instances db) groupName resourceID
      else if resourceType = ResourceTypeHost then
        \<not> query_fails db ''hosts'' \<and> row_in_group (hosts db) groupName resourceID
      else if resourceType = ResourceTypeDatabaseInstance then
        \<not> query_fails db ''database_instances'' \<and> row_in_group (database_instances db) groupName resourceID
      else if resourceType = ResourceTypeApplication then
        \<not> query_fails db ''applications'' \<and> row_in_group (applications db) groupName resourceID
      else if resourceType = ResourceTypeContainerEndpoint then
        \<not> query_fails db ''container_endpoints'' \<and> row_in_group (container_endpoints db) groupName resourceID
      else False)"

definition grantGroupContainsResource :: "store \<Rightarrow> string \<Rightarrow> string \<Rightarrow> string \<Rightarrow> string \<Rightarrow> bool" where
  "grantGroupContainsResource db groupID resourceType resourceID groupType =
     (if query_fails db ''resource_groups'' then False
      else (case find (\<lambda>g. rg_ID g = groupID \<and> rg_GroupType g = groupType \<and> live (rg_ActiveMarker g))
                   (resource_groups db) of
              None \<Rightarrow> False
            | Some grp \<Rightarrow>
                if groupType = ResourceGroupTypeAccount
                then account_group_member db (rg_Name grp) resourceType resourceID
                else resource_group_member db (rg_Name grp) resourceType resourceID))"

definition matchesGrant :: "store \<Rightarrow> ResourceGrant \<Rightarrow> string \<Rightarrow> string \<Rightarrow> bool" where
  "matchesGrant db g resourceType resourceID =
     (if resourceTypeMatches (g_ResourceType g) resourceType \<and> resourceIDMatches (g_ResourceID g) resourceID
      then True
      else if g_ResourceType g = ResourceTypeHost then
        resourceType = ResourceTypeHostAccount \<and> hostContainsAccount db (g_ResourceID g) resourceID
      else if g_ResourceType g = ResourceTypeDatabaseInstance then
        resourceType = ResourceTypeDatabaseAccount \<and> databaseContainsAccount db (g_ResourceID g) resourceID
      else if g_ResourceType g = ResourceTypeGroup then
        grantGroupContainsResource db (g_ResourceID g) resourceType resourceID ResourceGroupTypeResource
      else if g_ResourceType g = ResourceTypeAccountGroup then
        grantGroupContainsResource db (g_ResourceID g) resourceType resourceID ResourceGroupTypeAccount
      else False)"

section \<open>The decision\<close>

fun grant_deny_loop :: "store \<Rightarrow> ResourceGrant list \<Rightarrow> string \<Rightarrow> string \<Rightarrow> bool" where
  "grant_deny_loop db [] rt rid = False"
| "grant_deny_loop db (g # gs) rt rid =
     (if matchesGrant db g rt rid \<and> g_Effect g = PermissionEffectDeny then True else grant_deny_loop db gs rt rid)"

fun grant_allow_loop :: "store \<Rightarrow> ResourceGrant list \<Rightarrow> string \<Rightarrow> string \<Rightarrow> bool" where
  "grant_allow_loop db [] rt rid = False"
| "grant_allow_loop db (g # gs) rt rid =
     (if matchesGrant db g rt rid \<and> g_Effect g = PermissionEffectAllow then True else grant_allow_loop db gs rt rid)"

definition grant_decision :: "store \<Rightarrow> ResourceGrant list \<Rightarrow> string \<times> string \<Rightarrow> bool" where
  "grant_decision db gs q =
     (case q of (rt, rid) \<Rightarrow> if grant_deny_loop db gs rt rid then False else grant_allow_loop db gs rt rid)"

definition grantsForUser :: "store \<Rightarrow> int \<Rightarrow> string \<Rightarrow> rbac_error + ResourceGrant list" where
  "grantsForUser db now userID =
     (case directGrantsForUser db now userID of Inl e \<Rightarrow> Inl e
      | Inr directGrants \<Rightarrow>
        (case groupGrantsForUser db now userID of Inl e \<Rightarrow> Inl e
         | Inr groupGrants \<Rightarrow>
           (case temporaryGrantsForUser db now userID of Inl e \<Rightarrow> Inl e
            | Inr temporaryGrants \<Rightarrow> Inr (directGrants @ groupGrants @ temporaryGrants))))"

definition HasGrantContext :: "store option \<Rightarrow> int \<Rightarrow> string \<Rightarrow> string \<Rightarrow> string \<Rightarrow> rbac_error + bool" where
  "HasGrantContext odb now userID resourceType resourceID =
     (case odb of None \<Rightarrow> Inr False
      | Some db \<Rightarrow>
        (let userID = TrimSpace userID; resourceType = TrimSpace resourceType; resourceID = TrimSpace resourceID in
         if userID = [] \<or> resourceType = [] \<or> resourceID = [] then Inr False
         else (case activeResourceExists db resourceType resourceID of Inl e \<Rightarrow> Inl e
           | Inr active \<Rightarrow>
               if \<not> active then Inr False
               else (case grantsForUser db now userID of Inl e \<Rightarrow> Inl e
                 | Inr allGrants \<Rightarrow> Inr (grant_decision db allGrants (resourceType, resourceID))))))"

definition HasGrant :: "store option \<Rightarrow> int \<Rightarrow> string \<Rightarrow> string \<Rightarrow> string \<Rightarrow> rbac_error + bool" where
  "HasGrant odb now userID resourceType resourceID = HasGrantContext odb now userID resourceType resourceID"

section \<open>The policy the loops implement\<close>

definition grant_denies :: "store \<Rightarrow> ResourceGrant \<Rightarrow> string \<times> string \<Rightarrow> bool" where
  "grant_denies db g q \<longleftrightarrow> matchesGrant db g (fst q) (snd q) \<and> g_Effect g = PermissionEffectDeny"

definition grant_allows :: "store \<Rightarrow> ResourceGrant set \<Rightarrow> string \<times> string \<Rightarrow> bool" where
  "grant_allows db G q \<longleftrightarrow> (\<exists>g \<in> G. matchesGrant db g (fst q) (snd q) \<and> g_Effect g = PermissionEffectAllow)"

lemma grant_deny_loop_iff: "grant_deny_loop db gs rt rid \<longleftrightarrow> (\<exists>g \<in> set gs. grant_denies db g (rt, rid))"
  by (induction gs) (auto simp: grant_denies_def)

lemma grant_allow_loop_iff: "grant_allow_loop db gs rt rid \<longleftrightarrow> grant_allows db (set gs) (rt, rid)"
  by (induction gs) (auto simp: grant_allows_def)

interpretation grant_policy: deny_overrides "grant_decision db" "grant_denies db" "grant_allows db"
  for db
proof
  show "grant_decision db gs q \<longleftrightarrow> \<not> (\<exists>g \<in> set gs. grant_denies db g q) \<and> grant_allows db (set gs) q" for gs q
    by (cases q) (simp add: grant_decision_def grant_deny_loop_iff grant_allow_loop_iff)
  show "A \<subseteq> B \<Longrightarrow> grant_allows db A q \<Longrightarrow> grant_allows db B q" for A B q
    by (auto simp: grant_allows_def)
  show "\<not> grant_allows db {} q" for q
    by (simp add: grant_allows_def)
qed






section \<open>Properties\<close>

lemma HasGrantContext_decision:
  assumes "HasGrantContext (Some db) now user rt rid = Inr True"
  obtains gs where "grantsForUser db now (TrimSpace user) = Inr gs"
    "grant_decision db gs (TrimSpace rt, TrimSpace rid)"
    "activeResourceExists db (TrimSpace rt) (TrimSpace rid) = Inr True"
  using assms by (auto simp: HasGrantContext_def Let_def split: if_splits sum.splits)


definition grant_store :: store where
  "grant_store = (sample_store [])
     \<lparr>resource_grants :=
        [\<lparr>g_PrincipalType = ''user'', g_PrincipalID = ''u1'', g_ResourceType = ''resource_group'',
          g_ResourceID = ''g1'', g_Effect = ''allow'', g_ExpiresAt = Some 10, g_ActiveMarker = Some 1\<rparr>]\<rparr>"

lemmas grant_defs =
  HasGrantContext_def grantsForUser_def directGrantsForUser_def groupGrantsForUser_def
  temporaryGrantsForUser_def grant_decision_def matchesGrant_def grantGroupContainsResource_def
  resource_group_member_def ResourceGroupTypeResource_def ResourceGroupTypeAccount_def


text \<open>
  A deny among the grants in force is final.
\<close>

theorem HasGrant_deny_wins:
  assumes "grantsForUser db now (TrimSpace user) = Inr gs" "g \<in> set gs"
    and "g_Effect g = PermissionEffectDeny" "matchesGrant db g (TrimSpace rt) (TrimSpace rid)"
  shows "HasGrantContext (Some db) now user rt rid \<noteq> Inr True"
proof
  assume "HasGrantContext (Some db) now user rt rid = Inr True"
  then have "grant_decision db gs (TrimSpace rt, TrimSpace rid)"
    using assms(1) by (auto elim: HasGrantContext_decision)
  moreover have "grant_denies db g (TrimSpace rt, TrimSpace rid)"
    using assms(3,4) by (simp add: grant_denies_def)
  ultimately show False using grant_policy.deny_wins assms(2) by blast
qed

theorem HasGrant_deny_wins_witness:
  "HasGrantContext (Some (grant_store\<lparr>resource_grants :=
      resource_grants grant_store @ map (\<lambda>g. g\<lparr>g_Effect := ''deny''\<rparr>) (resource_grants grant_store)\<rparr>))
     5 ''u1'' ''host'' ''h1'' \<noteq> Inr True"
  by (rule HasGrant_deny_wins [where g = "(hd (resource_grants grant_store))\<lparr>g_Effect := ''deny''\<rparr>"
        and gs = "resource_grants grant_store @ map (\<lambda>g. g\<lparr>g_Effect := ''deny''\<rparr>) (resource_grants grant_store)"])
     (simp_all add: grant_store_def sample_defs checker_defs grant_defs)

end
