(* ===== verification/Rbac_Batch.thy ===== *)
theory Rbac_Batch
  imports Rbac_Grants
begin

text \<open>
  Batch authorization (\<open>internal/rbac/batch.go\<close> and the batch methods of the two checkers): the
  facts about all requested resources are loaded with one query per table, and every request is
  then decided in memory.  A Go map from strings is a function whose value is the zero value where
  nothing was stored.  The theory ends with the proof that a batch decides exactly what the single
  checks decide.
\<close>

section \<open>Requests and facts\<close>

record BatchAuthorizationRequest =
  req_ResourceType :: string
  req_ResourceID :: string
  req_Actions :: "string list"

record BatchActionDecision =
  ActionAllowed :: bool
  Allowed :: bool
  Denied :: bool

definition BatchResourceKey :: "string \<Rightarrow> string \<Rightarrow> string" where
  "BatchResourceKey resourceType resourceID = resourceType @ [NUL] @ resourceID"

record batchFacts =
  permissionGroups :: "string \<Rightarrow> string"
  permissionOf :: "string \<Rightarrow> string"
  resourceGroups :: "string \<Rightarrow> string"
  accountGroups :: "string \<Rightarrow> string"
  resourceOf :: "string \<Rightarrow> string"
  accountOf :: "string \<Rightarrow> string"
  hostOf :: "string \<Rightarrow> string"
  instanceOf :: "string \<Rightarrow> string"
  activeResources :: "string \<Rightarrow> bool"

definition groupMatches :: "batchFacts \<Rightarrow> string \<Rightarrow> string \<Rightarrow> string \<Rightarrow> bool \<Rightarrow> bool" where
  "groupMatches f groupID resourceType resourceID account =
     (let key = BatchResourceKey resourceType resourceID in
      if account then accountGroups f groupID \<noteq> [] \<and> accountGroups f groupID = accountOf f key
      else resourceGroups f groupID \<noteq> [] \<and> resourceGroups f groupID = resourceOf f key)"

definition permissionGroupMatches :: "batchFacts \<Rightarrow> string \<Rightarrow> string \<Rightarrow> string \<Rightarrow> bool" where
  "permissionGroupMatches f groupID resourceType resourceID =
     (let groupName = permissionGroups f groupID in
      if groupName = [] then False else groupName = permissionOf f (BatchResourceKey resourceType resourceID))"

definition resourceIsActive :: "batchFacts \<Rightarrow> string \<Rightarrow> string \<Rightarrow> bool" where
  "resourceIsActive f resourceType resourceID =
     (if \<not> auditedResourceType resourceType then True
      else activeResources f (BatchResourceKey resourceType resourceID))"

text \<open>Appending what has not been seen yet.\<close>

fun add_unseen :: "string list \<Rightarrow> string list \<Rightarrow> string list" where
  "add_unseen ids [] = ids"
| "add_unseen ids (x # xs) = (if x \<in> set ids then add_unseen ids xs else add_unseen (ids @ [x]) xs)"

definition batchIDs :: "BatchAuthorizationRequest list \<Rightarrow> string \<Rightarrow> string list" where
  "batchIDs requests resourceType =
     add_unseen [] [req_ResourceID r. r \<leftarrow> requests, req_ResourceType r = resourceType \<and> TrimSpace (req_ResourceID r) \<noteq> []]"

definition appendUniqueBatchIDs :: "string list \<Rightarrow> string list \<Rightarrow> string list" where
  "appendUniqueBatchIDs ids additional = add_unseen ids additional"

definition groupIDsFromPermissions :: "Permission list \<Rightarrow> string list" where
  "groupIDsFromPermissions ps =
     add_unseen [] [p_ResourceID p. p \<leftarrow> ps, p_ResourceType p = ResourceTypeGroup \<and> p_ResourceID p \<noteq> []]"

definition groupIDsFromGrants :: "ResourceGrant list \<Rightarrow> string list" where
  "groupIDsFromGrants gs =
     add_unseen [] [g_ResourceID g. g \<leftarrow> gs,
       (g_ResourceType g = ResourceTypeGroup \<or> g_ResourceType g = ResourceTypeAccountGroup) \<and> g_ResourceID g \<noteq> []]"

section \<open>Loading the facts\<close>

text \<open>One query and the loop over its rows: skipped without identifiers, an error when the query
  fails.\<close>

definition load_section ::
    "store \<Rightarrow> string \<Rightarrow> string list \<Rightarrow> (batchFacts \<Rightarrow> batchFacts) \<Rightarrow> rbac_error + batchFacts \<Rightarrow> rbac_error + batchFacts" where
  "load_section db table ids rows acc =
     (case acc of Inl e \<Rightarrow> Inl e
      | Inr facts \<Rightarrow>
          if ids = [] then Inr facts
          else if query_fails db table then Inl (QueryError table)
          else Inr (rows facts))"

definition note_group :: "ResourceGroup \<Rightarrow> batchFacts \<Rightarrow> batchFacts" where
  "note_group g f =
     (let f = f\<lparr>activeResources := (activeResources f)
                  (BatchResourceKey ResourceTypeGroup (rg_ID g) := True,
                   BatchResourceKey ResourceTypeAccountGroup (rg_ID g) := True),
                permissionGroups := (permissionGroups f)(rg_ID g := rg_Name g)\<rparr> in
      if rg_GroupType g = ResourceGroupTypeAccount
      then f\<lparr>accountGroups := (accountGroups f)(rg_ID g := rg_Name g)\<rparr>
      else f\<lparr>resourceGroups := (resourceGroups f)(rg_ID g := rg_Name g)\<rparr>)"

text \<open>A row of a table with a group name: which of the three maps record it differs per table.\<close>

definition note_row :: "string \<Rightarrow> bool \<Rightarrow> bool \<Rightarrow> bool \<Rightarrow> grouped_row \<Rightarrow> batchFacts \<Rightarrow> batchFacts" where
  "note_row rt perm res acct x f =
     (let key = BatchResourceKey rt (row_ID x) in
      f\<lparr>activeResources := (activeResources f)(key := True),
        permissionOf := (if perm then (permissionOf f)(key := row_GroupName x) else permissionOf f),
        resourceOf := (if res then (resourceOf f)(key := row_GroupName x) else resourceOf f),
        accountOf := (if acct then (accountOf f)(key := row_GroupName x) else accountOf f)\<rparr>)"

definition note_account :: "string \<Rightarrow> bool \<Rightarrow> account_row \<times> grouped_row \<Rightarrow> batchFacts \<Rightarrow> batchFacts" where
  "note_account rt host x f =
     (case x of (a, h) \<Rightarrow>
      let key = BatchResourceKey rt (acct_ID a) in
      f\<lparr>activeResources := (activeResources f)(key := True),
        permissionOf := (permissionOf f)(key := row_GroupName h),
        resourceOf := (resourceOf f)(key := row_GroupName h),
        accountOf := (accountOf f)(key := acct_GroupName a),
        hostOf := (if host then (hostOf f)(acct_ID a := acct_ParentID a) else hostOf f),
        instanceOf := (if host then instanceOf f else (instanceOf f)(acct_ID a := acct_ParentID a))\<rparr>)"

definition rows_in :: "grouped_row list \<Rightarrow> string list \<Rightarrow> grouped_row list" where
  "rows_in rows ids = filter (\<lambda>x. row_ID x \<in> set ids \<and> live (row_ActiveMarker x)) rows"

definition joined_in :: "account_row list \<Rightarrow> grouped_row list \<Rightarrow> string list \<Rightarrow> (account_row \<times> grouped_row) list" where
  "joined_in accounts parents ids =
     [(a, h). a \<leftarrow> accounts, h \<leftarrow> parents,
       row_ID h = acct_ParentID a \<and> acct_ID a \<in> set ids \<and> live (acct_ActiveMarker a) \<and> live (row_ActiveMarker h)]"

definition no_facts :: batchFacts where
  "no_facts = \<lparr>permissionGroups = (\<lambda>_. []), permissionOf = (\<lambda>_. []), resourceGroups = (\<lambda>_. []),
     accountGroups = (\<lambda>_. []), resourceOf = (\<lambda>_. []), accountOf = (\<lambda>_. []), hostOf = (\<lambda>_. []),
     instanceOf = (\<lambda>_. []), activeResources = (\<lambda>_. False)\<rparr>"

definition loadBatchFacts ::
    "store \<Rightarrow> BatchAuthorizationRequest list \<Rightarrow> string list \<Rightarrow> rbac_error + batchFacts" where
  "loadBatchFacts db requests groupIDs =
     (let allGroupIDs = appendUniqueBatchIDs (appendUniqueBatchIDs groupIDs (batchIDs requests ResourceTypeGroup))
                          (batchIDs requests ResourceTypeAccountGroup);
          facts = Inr no_facts;
          facts = load_section db ''resource_groups'' allGroupIDs
            (fold note_group (filter (\<lambda>g. rg_ID g \<in> set allGroupIDs \<and> live (rg_ActiveMarker g)) (resource_groups db))) facts;
          ids = batchIDs requests ResourceTypeHost;
          facts = load_section db ''hosts'' ids
            (fold (note_row ResourceTypeHost True True False) (rows_in (hosts db) ids)) facts;
          ids = batchIDs requests ResourceTypeDatabaseInstance;
          facts = load_section db ''database_instances'' ids
            (fold (note_row ResourceTypeDatabaseInstance True True False) (rows_in (database_instances db) ids)) facts;
          ids = batchIDs requests ResourceTypeApplication;
          facts = load_section db ''applications'' ids
            (fold (note_row ResourceTypeApplication True True False) (rows_in (applications db) ids)) facts;
          ids = batchIDs requests ResourceTypePlatformAccount;
          facts = load_section db ''platform_accounts'' ids
            (fold (note_row ResourceTypePlatformAccount True False True) (rows_in (platform_accounts db) ids)) facts;
          ids = batchIDs requests ResourceTypeContainerEndpoint;
          facts = load_section db ''container_endpoints'' ids
            (fold (note_row ResourceTypeContainerEndpoint False True False) (rows_in (container_endpoints db) ids)) facts;
          ids = batchIDs requests ResourceTypeHostAccount;
          facts = load_section db ''host_accounts'' ids
            (fold (note_account ResourceTypeHostAccount True) (joined_in (host_accounts db) (hosts db) ids)) facts;
          ids = batchIDs requests ResourceTypeDatabaseAccount;
          facts = load_section db ''database_accounts'' ids
            (fold (note_account ResourceTypeDatabaseAccount False)
              (joined_in (database_accounts db) (database_instances db) ids)) facts
      in facts)"

section \<open>Deciding\<close>

definition batchPermissionResourceMatches ::
    "Permission \<Rightarrow> BatchAuthorizationRequest \<Rightarrow> batchFacts \<Rightarrow> bool" where
  "batchPermissionResourceMatches p request facts =
     (if \<not> resourceIsActive facts (req_ResourceType request) (req_ResourceID request) then False
      else if resourceTypeMatches (p_ResourceType p) (req_ResourceType request)
              \<and> resourceIDMatches (p_ResourceID p) (req_ResourceID request) then True
      else p_ResourceType p = ResourceTypeGroup
           \<and> permissionGroupMatches facts (p_ResourceID p) (req_ResourceType request) (req_ResourceID request))"

definition normalizedBatchActions :: "string list \<Rightarrow> string list" where
  "normalizedBatchActions actions = add_unseen [] [TrimSpace a. a \<leftarrow> actions, TrimSpace a \<noteq> []]"

text \<open>The loop over the permissions keeps the three flags \<open>globalAllowed\<close>, \<open>globalDenied\<close> and
  \<open>resourceDenied\<close>.\<close>

fun batch_flags ::
    "batchFacts \<Rightarrow> BatchAuthorizationRequest \<Rightarrow> string \<Rightarrow> Permission list \<Rightarrow> bool \<times> bool \<times> bool \<Rightarrow> bool \<times> bool \<times> bool" where
  "batch_flags facts request action [] flags = flags"
| "batch_flags facts request action (p # ps) (globalAllowed, globalDenied, resourceDenied) =
     (if \<not> actionMatches (p_Action p) action
      then batch_flags facts request action ps (globalAllowed, globalDenied, resourceDenied)
      else if isActionOnly p
      then batch_flags facts request action ps (globalAllowed \<or> isAllow p, globalDenied \<or> isDeny p, resourceDenied)
      else batch_flags facts request action ps (globalAllowed, globalDenied,
             resourceDenied \<or> isDeny p \<and> batchPermissionResourceMatches p request facts))"

definition batch_action ::
    "batchFacts \<Rightarrow> BatchAuthorizationRequest \<Rightarrow> Permission list \<Rightarrow> bool \<Rightarrow> string \<Rightarrow> BatchActionDecision \<Rightarrow> BatchActionDecision" where
  "batch_action facts request ps resourceActive action d =
     (case batch_flags facts request action ps (False, False, False) of
        (globalAllowed, globalDenied, resourceDenied) \<Rightarrow>
          if globalDenied \<or> \<not> globalAllowed then d
          else
          let d = d\<lparr>ActionAllowed := True\<rparr> in
          if \<not> resourceActive then d
          else
          let d = (if \<not> resourceDenied then d\<lparr>Allowed := True\<rparr> else d) in
          if resourceDenied then d\<lparr>Denied := True\<rparr> else d)"

definition batch_decision :: "batchFacts \<Rightarrow> Permission list \<Rightarrow> BatchAuthorizationRequest \<Rightarrow> BatchActionDecision" where
  "batch_decision facts ps request =
     (let resourceActive = resourceIsActive facts (req_ResourceType request) (req_ResourceID request);
          d = fold (batch_action facts request ps resourceActive) (normalizedBatchActions (req_Actions request))
                \<lparr>ActionAllowed = False, Allowed = False, Denied = False\<rparr>
      in if Allowed d then d\<lparr>Denied := False\<rparr> else d)"

definition BatchActionDecisionsContext ::
    "store option \<Rightarrow> int \<Rightarrow> string \<Rightarrow> BatchAuthorizationRequest list \<Rightarrow> rbac_error + BatchActionDecision list" where
  "BatchActionDecisionsContext odb now userID requests =
     (let none = map (\<lambda>_. \<lparr>ActionAllowed = False, Allowed = False, Denied = False\<rparr>) requests in
      case odb of None \<Rightarrow> Inl NilDatabase
      | Some db \<Rightarrow>
        if requests = [] then Inr none
        else let userID = TrimSpace userID in
        if userID = [] then Inr none
        else (case permissionsForUser db now userID of Inl e \<Rightarrow> Inl e
          | Inr ps \<Rightarrow>
            (case loadBatchFacts db requests (groupIDsFromPermissions ps) of Inl e \<Rightarrow> Inl e
             | Inr facts \<Rightarrow> Inr (map (batch_decision facts ps) requests))))"

definition batchGrantMatches :: "ResourceGrant \<Rightarrow> BatchAuthorizationRequest \<Rightarrow> batchFacts \<Rightarrow> bool" where
  "batchGrantMatches g request facts =
     (let rt = req_ResourceType request; rid = req_ResourceID request in
      if \<not> resourceIsActive facts rt rid then False
      else if resourceTypeMatches (g_ResourceType g) rt \<and> resourceIDMatches (g_ResourceID g) rid then True
      else if g_ResourceType g = ResourceTypeHost then
        rt = ResourceTypeHostAccount \<and> hostOf facts rid = g_ResourceID g
      else if g_ResourceType g = ResourceTypeDatabaseInstance then
        rt = ResourceTypeDatabaseAccount \<and> instanceOf facts rid = g_ResourceID g
      else if g_ResourceType g = ResourceTypeGroup then
        (if rt = ResourceTypePlatformAccount then False else groupMatches facts (g_ResourceID g) rt rid False)
      else if g_ResourceType g = ResourceTypeAccountGroup then groupMatches facts (g_ResourceID g) rt rid True
      else False)"

text \<open>The loop stops at the first grant that denies.\<close>

fun batch_grant_loop :: "batchFacts \<Rightarrow> BatchAuthorizationRequest \<Rightarrow> ResourceGrant list \<Rightarrow> bool \<Rightarrow> bool" where
  "batch_grant_loop facts request [] allowed = allowed"
| "batch_grant_loop facts request (g # gs) allowed =
     (if \<not> batchGrantMatches g request facts then batch_grant_loop facts request gs allowed
      else if g_Effect g = PermissionEffectDeny then False
      else batch_grant_loop facts request gs (allowed \<or> g_Effect g = PermissionEffectAllow))"

definition BatchGrantsContext ::
    "store option \<Rightarrow> int \<Rightarrow> string \<Rightarrow> BatchAuthorizationRequest list \<Rightarrow> rbac_error + bool list" where
  "BatchGrantsContext odb now userID requests =
     (let none = map (\<lambda>_. False) requests in
      case odb of None \<Rightarrow> Inr none
      | Some db \<Rightarrow>
        if requests = [] then Inr none
        else let userID = TrimSpace userID in
        if userID = [] then Inr none
        else (case grantsForUser db now userID of Inl e \<Rightarrow> Inl e
          | Inr grants \<Rightarrow>
            (case loadBatchFacts db requests (groupIDsFromGrants grants) of Inl e \<Rightarrow> Inl e
             | Inr facts \<Rightarrow> Inr (map (\<lambda>r. batch_grant_loop facts r grants False) requests))))"


section \<open>Facts about the loaded facts\<close>

lemma key_eq:
  assumes "NUL \<notin> set a" "NUL \<notin> set b"
  shows "BatchResourceKey a x = BatchResourceKey b y \<longleftrightarrow> a = b \<and> x = y"
proof
  assume eq: "BatchResourceKey a x = BatchResourceKey b y"
  have tw: "takeWhile (\<lambda>c. c \<noteq> NUL) (BatchResourceKey c z) = c" if "NUL \<notin> set c" for c z
    using that by (induction c) (auto simp: BatchResourceKey_def)
  from tw [OF assms(1), of x] tw [OF assms(2), of y] eq have "a = b" by simp
  with eq show "a = b \<and> x = y" by (simp add: BatchResourceKey_def)
qed simp

definition put_all :: "('x \<Rightarrow> string) \<Rightarrow> ('x \<Rightarrow> 'v) \<Rightarrow> 'x list \<Rightarrow> (string \<Rightarrow> 'v) \<Rightarrow> string \<Rightarrow> 'v" where
  "put_all k g xs m = fold (\<lambda>x m. m(k x := g x)) xs m"

lemma put_all_simps [simp]:
  "put_all k g [] m = m"
  "put_all k g (x # xs) m = put_all k g xs (m(k x := g x))"
  by (simp_all add: put_all_def)

lemma put_all_other: "y \<notin> k ` set xs \<Longrightarrow> put_all k g xs m y = m y"
  by (induction xs arbitrary: m) auto

lemma put_all_mem: "inj_on k (set xs) \<Longrightarrow> x \<in> set xs \<Longrightarrow> put_all k g xs m (k x) = g x"
proof (induction xs arbitrary: m)
  case Nil
  then show ?case by simp
next
  case (Cons z zs)
  show ?case
  proof (cases "x \<in> set zs")
    case True
    with Cons show ?thesis by simp
  next
    case False
    with Cons.prems have "k x \<notin> k ` set zs" "x = z" by auto
    then show ?thesis by (simp add: put_all_other)
  qed
qed

lemma put_all_True: "put_all k (\<lambda>_. True) xs m y \<longleftrightarrow> m y \<or> y \<in> k ` set xs"
  by (induction xs arbitrary: m) auto

lemma fold_note_row:
  "fold (note_row rt p r a) xs f =
     f\<lparr>activeResources := put_all (\<lambda>x. BatchResourceKey rt (row_ID x)) (\<lambda>_. True) xs (activeResources f),
       permissionOf := (if p then put_all (\<lambda>x. BatchResourceKey rt (row_ID x)) row_GroupName xs (permissionOf f) else permissionOf f),
       resourceOf := (if r then put_all (\<lambda>x. BatchResourceKey rt (row_ID x)) row_GroupName xs (resourceOf f) else resourceOf f),
       accountOf := (if a then put_all (\<lambda>x. BatchResourceKey rt (row_ID x)) row_GroupName xs (accountOf f) else accountOf f)\<rparr>"
  by (induction xs arbitrary: f) (simp_all add: note_row_def Let_def)

lemma fold_note_account:
  "fold (note_account rt host) xs f =
     f\<lparr>activeResources := put_all (\<lambda>x. BatchResourceKey rt (acct_ID (fst x))) (\<lambda>_. True) xs (activeResources f),
       permissionOf := put_all (\<lambda>x. BatchResourceKey rt (acct_ID (fst x))) (\<lambda>x. row_GroupName (snd x)) xs (permissionOf f),
       resourceOf := put_all (\<lambda>x. BatchResourceKey rt (acct_ID (fst x))) (\<lambda>x. row_GroupName (snd x)) xs (resourceOf f),
       accountOf := put_all (\<lambda>x. BatchResourceKey rt (acct_ID (fst x))) (\<lambda>x. acct_GroupName (fst x)) xs (accountOf f),
       hostOf := (if host then put_all (\<lambda>x. acct_ID (fst x)) (\<lambda>x. acct_ParentID (fst x)) xs (hostOf f) else hostOf f),
       instanceOf := (if host then instanceOf f else put_all (\<lambda>x. acct_ID (fst x)) (\<lambda>x. acct_ParentID (fst x)) xs (instanceOf f))\<rparr>"
  by (induction xs arbitrary: f) (simp_all add: note_account_def Let_def split: prod.splits)

definition is_account_group :: "ResourceGroup \<Rightarrow> bool" where
  "is_account_group g \<longleftrightarrow> rg_GroupType g = ResourceGroupTypeAccount"

lemma note_group_eq:
  "note_group g f =
     f\<lparr>activeResources := (\<lambda>y. activeResources f y \<or> y = BatchResourceKey ResourceTypeGroup (rg_ID g)
           \<or> y = BatchResourceKey ResourceTypeAccountGroup (rg_ID g)),
       permissionGroups := (permissionGroups f)(rg_ID g := rg_Name g),
       accountGroups := (if is_account_group g then (accountGroups f)(rg_ID g := rg_Name g) else accountGroups f),
       resourceGroups := (if is_account_group g then resourceGroups f else (resourceGroups f)(rg_ID g := rg_Name g))\<rparr>"
proof -
  have "(activeResources f)(BatchResourceKey ResourceTypeGroup (rg_ID g) := True,
        BatchResourceKey ResourceTypeAccountGroup (rg_ID g) := True)
      = (\<lambda>y. activeResources f y \<or> y = BatchResourceKey ResourceTypeGroup (rg_ID g)
           \<or> y = BatchResourceKey ResourceTypeAccountGroup (rg_ID g))"
    by (auto simp: fun_eq_iff)
  then show ?thesis by (simp add: note_group_def Let_def is_account_group_def)
qed

lemma fold_note_group:
  "fold note_group gs f =
     f\<lparr>activeResources := (\<lambda>y. activeResources f y \<or> (\<exists>g \<in> set gs. y = BatchResourceKey ResourceTypeGroup (rg_ID g)
           \<or> y = BatchResourceKey ResourceTypeAccountGroup (rg_ID g))),
       permissionGroups := put_all rg_ID rg_Name gs (permissionGroups f),
       accountGroups := put_all rg_ID rg_Name (filter is_account_group gs) (accountGroups f),
       resourceGroups := put_all rg_ID rg_Name (filter (\<lambda>g. \<not> is_account_group g) gs) (resourceGroups f)\<rparr>"
  by (induction gs arbitrary: f) (simp_all add: note_group_eq disj_assoc)

lemma set_add_unseen [simp]: "set (add_unseen ids xs) = set ids \<union> set xs"
  by (induction ids xs rule: add_unseen.induct) auto

lemma mem_batchIDs:
  "rid \<in> set (batchIDs reqs rt) \<longleftrightarrow> (\<exists>r \<in> set reqs. req_ResourceType r = rt \<and> req_ResourceID r = rid \<and> TrimSpace rid \<noteq> [])"
  by (auto simp: batchIDs_def)

definition well_formed_store :: "store \<Rightarrow> bool" where
  "well_formed_store db \<longleftrightarrow> (\<forall>t. \<not> query_fails db t)
     \<and> distinct (map row_ID (hosts db)) \<and> distinct (map row_ID (database_instances db))
     \<and> distinct (map row_ID (applications db)) \<and> distinct (map row_ID (platform_accounts db))
     \<and> distinct (map row_ID (container_endpoints db)) \<and> distinct (map acct_ID (host_accounts db))
     \<and> distinct (map acct_ID (database_accounts db)) \<and> distinct (map rg_ID (resource_groups db))
     \<and> list_all (\<lambda>g. rg_ID g \<noteq> [] \<and> rg_Name g \<noteq> []
         \<and> (rg_GroupType g = ResourceGroupTypeResource \<or> rg_GroupType g = ResourceGroupTypeAccount)) (resource_groups db)"

definition request_ok :: "BatchAuthorizationRequest \<Rightarrow> bool" where
  "request_ok r \<longleftrightarrow> req_ResourceType r \<noteq> [] \<and> TrimSpace (req_ResourceType r) = req_ResourceType r
     \<and> req_ResourceID r \<noteq> [] \<and> TrimSpace (req_ResourceID r) = req_ResourceID r \<and> NUL \<notin> set (req_ResourceType r)"

lemma load_section_ok:
  "\<not> query_fails db t \<Longrightarrow> (ids = [] \<Longrightarrow> rows f = f) \<Longrightarrow> load_section db t ids rows (Inr f) = Inr (rows f)"
  by (simp add: load_section_def)

lemma empty_sections [simp]: "rows_in rows [] = []" "joined_in accounts parents [] = []"
  by (simp_all add: rows_in_def joined_in_def)

definition all_group_ids :: "BatchAuthorizationRequest list \<Rightarrow> string list \<Rightarrow> string list" where
  "all_group_ids reqs gids = appendUniqueBatchIDs (appendUniqueBatchIDs gids (batchIDs reqs ResourceTypeGroup))
                          (batchIDs reqs ResourceTypeAccountGroup)"

definition loaded :: "store \<Rightarrow> BatchAuthorizationRequest list \<Rightarrow> string list \<Rightarrow> batchFacts" where
  "loaded db reqs gids =
    (fold (note_account ResourceTypeDatabaseAccount False)
              (joined_in (database_accounts db) (database_instances db) (batchIDs reqs ResourceTypeDatabaseAccount))
    (fold (note_account ResourceTypeHostAccount True) (joined_in (host_accounts db) (hosts db) (batchIDs reqs ResourceTypeHostAccount))
    (fold (note_row ResourceTypeContainerEndpoint False True False) (rows_in (container_endpoints db) (batchIDs reqs ResourceTypeContainerEndpoint))
    (fold (note_row ResourceTypePlatformAccount True False True) (rows_in (platform_accounts db) (batchIDs reqs ResourceTypePlatformAccount))
    (fold (note_row ResourceTypeApplication True True False) (rows_in (applications db) (batchIDs reqs ResourceTypeApplication))
    (fold (note_row ResourceTypeDatabaseInstance True True False) (rows_in (database_instances db) (batchIDs reqs ResourceTypeDatabaseInstance))
    (fold (note_row ResourceTypeHost True True False) (rows_in (hosts db) (batchIDs reqs ResourceTypeHost))
    (fold note_group (filter (\<lambda>g. rg_ID g \<in> set (all_group_ids reqs gids) \<and> live (rg_ActiveMarker g)) (resource_groups db))
      no_facts))))))))"

lemma loadBatchFacts_loaded:
  assumes "\<forall>t. \<not> query_fails db t"
  shows "loadBatchFacts db reqs gids = Inr (loaded db reqs gids)"
  unfolding loadBatchFacts_def Let_def loaded_def all_group_ids_def
  by (subst load_section_ok; (simp add: assms)?)+

lemma NUL_resource_types [simp]:
  "NUL \<notin> set ResourceTypeGroup" "NUL \<notin> set ResourceTypeAccountGroup" "NUL \<notin> set ResourceTypeHost"
  "NUL \<notin> set ResourceTypeHostAccount" "NUL \<notin> set ResourceTypeDatabaseAccount"
  "NUL \<notin> set ResourceTypeDatabaseInstance" "NUL \<notin> set ResourceTypeApplication"
  "NUL \<notin> set ResourceTypeContainerEndpoint" "NUL \<notin> set ResourceTypePlatformAccount"
  by (simp_all add: resource_types)


lemma resource_types_distinct:
  "distinct [ResourceTypeGroup, ResourceTypeAccountGroup, ResourceTypeHost, ResourceTypeHostAccount,
     ResourceTypeDatabaseAccount, ResourceTypeDatabaseInstance, ResourceTypePlatformAccount]"
  by (simp add: resource_types)

lemma put_other_type [simp]:
  assumes "rt' \<noteq> rt" "NUL \<notin> set rt'" "NUL \<notin> set rt"
  shows "put_all (\<lambda>x. BatchResourceKey rt' (i x)) g xs m (BatchResourceKey rt rid) = m (BatchResourceKey rt rid)"
  using assms by (intro put_all_other) (auto simp: key_eq)

lemma put_row_group:
  assumes "distinct (map row_ID rows)" "rid \<in> set ids" "NUL \<notin> set rt" "n \<noteq> []" "m (BatchResourceKey rt rid) = []"
  shows "put_all (\<lambda>x. BatchResourceKey rt (row_ID x)) row_GroupName (rows_in rows ids) m (BatchResourceKey rt rid) = n
    \<longleftrightarrow> row_in_group rows n rid"
proof (cases "\<exists>x \<in> set (rows_in rows ids). row_ID x = rid")
  case True
  then obtain x where x: "x \<in> set (rows_in rows ids)" "row_ID x = rid" by blast
  have inj: "inj_on (\<lambda>x. BatchResourceKey rt (row_ID x)) (set (rows_in rows ids))"
    using assms(1,3) by (auto simp: inj_on_def rows_in_def key_eq distinct_map)
  from put_all_mem [OF inj x(1)] x assms(1) show ?thesis
    by (auto simp: row_in_group_def list_ex_iff rows_in_def distinct_map inj_on_def)
next
  case False
  then have "put_all (\<lambda>x. BatchResourceKey rt (row_ID x)) row_GroupName (rows_in rows ids) m (BatchResourceKey rt rid) = []"
    using assms(3,5) by (subst put_all_other) (auto simp: key_eq)
  with False assms(2,4) show ?thesis
    by (auto simp: row_in_group_def list_ex_iff rows_in_def)
qed

lemma mem_joined:
  "(a, h) \<in> set (joined_in accounts parents ids) \<longleftrightarrow> a \<in> set accounts \<and> h \<in> set parents
     \<and> row_ID h = acct_ParentID a \<and> acct_ID a \<in> set ids \<and> live (acct_ActiveMarker a) \<and> live (row_ActiveMarker h)"
  by (auto simp: joined_in_def)

lemma bex_joined:
  "(\<exists>x \<in> set (joined_in accounts parents ids). Q x) \<longleftrightarrow>
     (\<exists>a \<in> set accounts. \<exists>h \<in> set parents. row_ID h = acct_ParentID a \<and> acct_ID a \<in> set ids
       \<and> live (acct_ActiveMarker a) \<and> live (row_ActiveMarker h) \<and> Q (a, h))"
  unfolding Bex_def split_paired_Ex mem_joined by auto

lemma joined_unique:
  assumes "distinct (map acct_ID accounts)" "distinct (map row_ID parents)"
    and "x \<in> set (joined_in accounts parents ids)" "y \<in> set (joined_in accounts parents ids)"
    and "acct_ID (fst x) = acct_ID (fst y)"
  shows "x = y"
proof -
  obtain a h b g where xy: "x = (a, h)" "y = (b, g)" by fastforce
  with assms have "a = b" by (auto simp: mem_joined distinct_map dest: inj_onD)
  moreover from this xy assms(3,4) have "h \<in> set parents" "g \<in> set parents" "row_ID h = row_ID g"
    by (auto simp: mem_joined)
  then have "h = g" using assms(2) by (auto simp: distinct_map dest: inj_onD)
  ultimately show ?thesis using xy by simp
qed

lemma put_joined:
  assumes dist: "distinct (map acct_ID accounts)" "distinct (map row_ID parents)"
    and rid: "rid \<in> set ids" and k: "inj k"
    and stale: "m (k rid) \<noteq> n \<or> live_account accounts parents rid"
  shows "put_all (\<lambda>x. k (acct_ID (fst x))) g (joined_in accounts parents ids) m (k rid) = n
    \<longleftrightarrow> (\<exists>x \<in> set (joined_in accounts parents ids). acct_ID (fst x) = rid \<and> g x = n)"
proof (cases "\<exists>x \<in> set (joined_in accounts parents ids). acct_ID (fst x) = rid")
  case True
  then obtain x where x: "x \<in> set (joined_in accounts parents ids)" "acct_ID (fst x) = rid" by auto
  have "inj_on (\<lambda>x. k (acct_ID (fst x))) (set (joined_in accounts parents ids))"
    by (rule inj_onI) (metis joined_unique [OF dist] k injD)
  from put_all_mem [OF this x(1), of g m] x(2)
  have val: "put_all (\<lambda>x. k (acct_ID (fst x))) g (joined_in accounts parents ids) m (k rid) = g x" by simp
  have "y = x" if "y \<in> set (joined_in accounts parents ids)" "acct_ID (fst y) = rid" for y
    using joined_unique [OF dist that(1) x(1)] that(2) x(2) by simp
  with x val show ?thesis by metis
next
  case False
  then have "\<not> live_account accounts parents rid"
    using rid by (auto simp: live_account_def list_ex_iff bex_joined)
  moreover have "put_all (\<lambda>x. k (acct_ID (fst x))) g (joined_in accounts parents ids) m (k rid) = m (k rid)"
    using False k by (intro put_all_other) (auto simp: inj_eq)
  ultimately show ?thesis using stale False by auto
qed

lemma inj_key: "inj (BatchResourceKey rt)"
  by (simp add: inj_def BatchResourceKey_def)

lemmas put_account = put_joined [where k = "BatchResourceKey rt" for rt, OF _ _ _ inj_key]

lemma live_account_joined:
  "rid \<in> set ids \<Longrightarrow> live_account accounts parents rid \<longleftrightarrow> rid \<in> (\<lambda>x. acct_ID (fst x)) ` set (joined_in accounts parents ids)"
  by (force simp: live_account_def list_ex_iff joined_in_def)

lemma live_row_in: "rid \<in> set ids \<Longrightarrow> live_row rows rid \<longleftrightarrow> rid \<in> row_ID ` set (rows_in rows ids)"
  by (force simp: live_row_def list_ex_iff rows_in_def)

lemmas loaded_eq = loaded_def fold_note_account fold_note_row fold_note_group no_facts_def

lemmas group_query_defs = row_in_group_def account_in_parent_group_def account_in_own_group_def list_ex_iff

lemma request_id: "r \<in> set reqs \<Longrightarrow> request_ok r \<Longrightarrow> req_ResourceID r \<in> set (batchIDs reqs (req_ResourceType r))"
  by (auto simp: mem_batchIDs request_ok_def)

lemma joined_groups:
  assumes "rid \<in> set ids"
  shows "(\<exists>x \<in> set (joined_in accounts parents ids). acct_ID (fst x) = rid \<and> row_GroupName (snd x) = n)
      \<longleftrightarrow> account_in_parent_group accounts parents n rid"
    and "(\<exists>x \<in> set (joined_in accounts parents ids). acct_ID (fst x) = rid \<and> acct_GroupName (fst x) = n)
      \<longleftrightarrow> account_in_own_group accounts parents n rid"
    and "(\<exists>x \<in> set (joined_in accounts parents ids). acct_ID (fst x) = rid \<and> acct_ParentID (fst x) = n)
      \<longleftrightarrow> account_of_parent accounts parents n rid"
  using assms
  by (auto simp: account_in_parent_group_def account_in_own_group_def account_of_parent_def list_ex_iff bex_joined)

lemmas put_facts = put_row_group put_account joined_groups

lemma loaded_resourceOf:
  assumes "well_formed_store db" "rid \<in> set (batchIDs reqs rt)" "NUL \<notin> set rt" "n \<noteq> []"
  shows "resourceOf (loaded db reqs gids) (BatchResourceKey rt rid) = n \<longleftrightarrow> resource_group_member db n rt rid"
  using assms
  by (simp add: loaded_eq resource_group_member_def well_formed_store_def)
     (intro conjI impI; simp add: resource_types put_facts)

lemma loaded_permissionOf:
  assumes "well_formed_store db" "rid \<in> set (batchIDs reqs rt)" "NUL \<notin> set rt" "n \<noteq> []"
  shows "permissionOf (loaded db reqs gids) (BatchResourceKey rt rid) = n \<longleftrightarrow> permission_group_member db n rt rid"
  using assms
  by (simp add: loaded_eq permission_group_member_def well_formed_store_def)
     (intro conjI impI; simp add: resource_types put_facts)

lemma loaded_accountOf:
  assumes "well_formed_store db" "rid \<in> set (batchIDs reqs rt)" "NUL \<notin> set rt" "n \<noteq> []"
  shows "accountOf (loaded db reqs gids) (BatchResourceKey rt rid) = n \<longleftrightarrow> account_group_member db n rt rid"
  using assms
  by (simp add: loaded_eq account_group_member_def well_formed_store_def)
     (intro conjI impI; simp add: resource_types put_facts)

lemma loaded_hostOf:
  assumes "well_formed_store db" "rid \<in> set (batchIDs reqs ResourceTypeHostAccount)"
    and "live_account (host_accounts db) (hosts db) rid"
  shows "hostOf (loaded db reqs gids) rid = hid \<longleftrightarrow> hostContainsAccount db hid rid"
  using assms put_joined [where k = "\<lambda>x. x" and ids = "batchIDs reqs ResourceTypeHostAccount" and g = "\<lambda>x. acct_ParentID (fst x)"
      and accounts = "host_accounts db" and parents = "hosts db" and rid = rid and n = hid]
  by (simp add: loaded_eq hostContainsAccount_def well_formed_store_def joined_groups)

lemma loaded_instanceOf:
  assumes "well_formed_store db" "rid \<in> set (batchIDs reqs ResourceTypeDatabaseAccount)"
    and "live_account (database_accounts db) (database_instances db) rid"
  shows "instanceOf (loaded db reqs gids) rid = iid \<longleftrightarrow> databaseContainsAccount db iid rid"
  using assms put_joined [where k = "\<lambda>x. x" and ids = "batchIDs reqs ResourceTypeDatabaseAccount" and g = "\<lambda>x. acct_ParentID (fst x)"
      and accounts = "database_accounts db" and parents = "database_instances db" and rid = rid and n = iid]
  by (simp add: loaded_eq databaseContainsAccount_def well_formed_store_def joined_groups)


lemma key_image:
  assumes "NUL \<notin> set rt'" "NUL \<notin> set rt"
  shows "BatchResourceKey rt rid \<in> (\<lambda>x. BatchResourceKey rt' (i x)) ` A \<longleftrightarrow> rt = rt' \<and> rid \<in> i ` A"
  using assms by (auto simp: key_eq)

lemma loaded_activeResources:
  assumes "NUL \<notin> set rt"
  shows "activeResources (loaded db reqs gids) (BatchResourceKey rt rid) \<longleftrightarrow>
    (rt = ResourceTypeGroup \<or> rt = ResourceTypeAccountGroup)
      \<and> (\<exists>g \<in> set (resource_groups db). rg_ID g \<in> set (all_group_ids reqs gids) \<and> live (rg_ActiveMarker g) \<and> rg_ID g = rid)
    \<or> rt = ResourceTypeHost \<and> rid \<in> row_ID ` set (rows_in (hosts db) (batchIDs reqs ResourceTypeHost))
    \<or> rt = ResourceTypeDatabaseInstance \<and> rid \<in> row_ID ` set (rows_in (database_instances db) (batchIDs reqs ResourceTypeDatabaseInstance))
    \<or> rt = ResourceTypeApplication \<and> rid \<in> row_ID ` set (rows_in (applications db) (batchIDs reqs ResourceTypeApplication))
    \<or> rt = ResourceTypePlatformAccount \<and> rid \<in> row_ID ` set (rows_in (platform_accounts db) (batchIDs reqs ResourceTypePlatformAccount))
    \<or> rt = ResourceTypeContainerEndpoint \<and> rid \<in> row_ID ` set (rows_in (container_endpoints db) (batchIDs reqs ResourceTypeContainerEndpoint))
    \<or> rt = ResourceTypeHostAccount \<and> live_account (host_accounts db) (hosts db) rid \<and> rid \<in> set (batchIDs reqs ResourceTypeHostAccount)
    \<or> rt = ResourceTypeDatabaseAccount \<and> live_account (database_accounts db) (database_instances db) rid
        \<and> rid \<in> set (batchIDs reqs ResourceTypeDatabaseAccount)"
proof -
  have acct: "rid \<in> (\<lambda>x. acct_ID (fst x)) ` set (joined_in accounts parents ids)
      \<longleftrightarrow> live_account accounts parents rid \<and> rid \<in> set ids" for accounts parents ids
    unfolding image_iff bex_joined by (auto simp: live_account_def list_ex_iff)
  show ?thesis
    using assms
    by (simp only: loaded_eq batchFacts.simps put_all_True key_image NUL_resource_types acct not_False_eq_True)
       (simp add: key_eq, intro arg_cong2 [where f = HOL.disj] refl, blast)
qed

lemma loaded_active:
  assumes "well_formed_store db" "rid \<in> set (batchIDs reqs rt)" "NUL \<notin> set rt" "auditedResourceType rt"
  shows "activeResources (loaded db reqs gids) (BatchResourceKey rt rid) \<longleftrightarrow> activeResourceExists db rt rid = Inr True"
proof -
  have "rid \<in> set (all_group_ids reqs gids)" if "rt = ResourceTypeGroup \<or> rt = ResourceTypeAccountGroup"
    using that assms(2) by (auto simp: all_group_ids_def appendUniqueBatchIDs_def)
  moreover have "\<forall>t. \<not> query_fails db t" using assms(1) by (simp add: well_formed_store_def)
  ultimately show ?thesis
    using assms(2,4) unfolding auditedResourceType_def loaded_activeResources [OF assms(3)]
    apply (elim insertE emptyE)
    by (auto simp: activeResourceExists_def counted_def live_row_in resource_types list_ex_iff)
qed


lemma put_all_find:
  "inj_on k (set xs) \<Longrightarrow> put_all k g xs m y = (case find (\<lambda>x. k x = y) xs of None \<Rightarrow> m y | Some x \<Rightarrow> g x)"
proof (induction xs arbitrary: m)
  case Nil
  then show ?case by simp
next
  case (Cons x xs)
  then have "put_all k g (x # xs) m y = (case find (\<lambda>z. k z = y) xs of None \<Rightarrow> (m(k x := g x)) y | Some z \<Rightarrow> g z)"
    by (simp add: inj_on_def)
  moreover have "z = x" if "find (\<lambda>z. k z = k x) xs = Some z" for z
    using that Cons.prems by (auto simp: find_Some_iff inj_on_def)
  ultimately show ?case by (auto split: option.splits)
qed

lemma find_filter: "find Q (filter P xs) = find (\<lambda>x. P x \<and> Q x) xs"
  by (induction xs) auto

lemma put_groups:
  assumes "distinct (map rg_ID groups)"
  shows "put_all rg_ID rg_Name (filter P groups) (\<lambda>_. []) gid
    = (case find (\<lambda>g. P g \<and> rg_ID g = gid) groups of None \<Rightarrow> [] | Some g \<Rightarrow> rg_Name g)"
  using assms by (subst put_all_find) (auto simp: distinct_map inj_on_def find_filter)

lemma loaded_groups:
  assumes wf: "well_formed_store db" and gid: "gid \<in> set gids \<or> gid = []"
  shows "permissionGroups (loaded db reqs gids) gid = (case find (\<lambda>g. rg_ID g = gid \<and> live (rg_ActiveMarker g)) (resource_groups db)
        of None \<Rightarrow> [] | Some g \<Rightarrow> rg_Name g)"
    and "accountGroups (loaded db reqs gids) gid = (case find (\<lambda>g. rg_ID g = gid \<and> rg_GroupType g = ResourceGroupTypeAccount
        \<and> live (rg_ActiveMarker g)) (resource_groups db) of None \<Rightarrow> [] | Some g \<Rightarrow> rg_Name g)"
    and "resourceGroups (loaded db reqs gids) gid = (case find (\<lambda>g. rg_ID g = gid \<and> rg_GroupType g = ResourceGroupTypeResource
        \<and> live (rg_ActiveMarker g)) (resource_groups db) of None \<Rightarrow> [] | Some g \<Rightarrow> rg_Name g)"
proof -
  have dist: "distinct (map rg_ID (resource_groups db))" using wf by (simp add: well_formed_store_def)
  have types: "rg_ID g \<noteq> []" "is_account_group g \<or> rg_GroupType g = ResourceGroupTypeResource" if "g \<in> set (resource_groups db)" for g
    using wf that by (auto simp: well_formed_store_def list_all_iff is_account_group_def)
  have ids: "rg_ID g = gid \<longrightarrow> rg_ID g \<in> set (all_group_ids reqs gids)" if "g \<in> set (resource_groups db)" for g
    using gid types(1) [OF that] by (auto simp: all_group_ids_def appendUniqueBatchIDs_def)
  have ne: "ResourceGroupTypeResource \<noteq> ResourceGroupTypeAccount"
    by (simp add: ResourceGroupTypeResource_def ResourceGroupTypeAccount_def)
  have cong: "find P (resource_groups db) = find Q (resource_groups db)" if "\<And>g. g \<in> set (resource_groups db) \<Longrightarrow> P g = Q g" for P Q
    using that by (intro find_cong) auto
  note eqs = loaded_eq put_groups [OF dist] filter_filter
  show "permissionGroups (loaded db reqs gids) gid = (case find (\<lambda>g. rg_ID g = gid \<and> live (rg_ActiveMarker g)) (resource_groups db)
        of None \<Rightarrow> [] | Some g \<Rightarrow> rg_Name g)"
    by (simp add: eqs) (subst cong [where Q = "\<lambda>g. rg_ID g = gid \<and> live (rg_ActiveMarker g)"], use ids in auto)
  show "accountGroups (loaded db reqs gids) gid = (case find (\<lambda>g. rg_ID g = gid \<and> rg_GroupType g = ResourceGroupTypeAccount
        \<and> live (rg_ActiveMarker g)) (resource_groups db) of None \<Rightarrow> [] | Some g \<Rightarrow> rg_Name g)"
    by (simp add: eqs) (subst cong [where Q = "\<lambda>g. rg_ID g = gid \<and> rg_GroupType g = ResourceGroupTypeAccount
        \<and> live (rg_ActiveMarker g)"], use ids in \<open>auto simp: is_account_group_def\<close>)
  show "resourceGroups (loaded db reqs gids) gid = (case find (\<lambda>g. rg_ID g = gid \<and> rg_GroupType g = ResourceGroupTypeResource
        \<and> live (rg_ActiveMarker g)) (resource_groups db) of None \<Rightarrow> [] | Some g \<Rightarrow> rg_Name g)"
    by (simp add: eqs) (subst cong [where Q = "\<lambda>g. rg_ID g = gid \<and> rg_GroupType g = ResourceGroupTypeResource
        \<and> live (rg_ActiveMarker g)"], use ids types ne in \<open>auto simp: is_account_group_def\<close>)
qed

lemma found_group_named:
  assumes "well_formed_store db" "find P (resource_groups db) = Some g"
  shows "rg_Name g \<noteq> []"
  using assms by (auto simp: well_formed_store_def list_all_iff find_Some_iff)

lemma resourceIsActive_iff:
  assumes "well_formed_store db" "r \<in> set reqs" "request_ok r"
  shows "resourceIsActive (loaded db reqs gids) (req_ResourceType r) (req_ResourceID r)
    \<longleftrightarrow> activeResourceExists db (req_ResourceType r) (req_ResourceID r) = Inr True"
proof (cases "auditedResourceType (req_ResourceType r)")
  case True
  then show ?thesis
    using assms request_id [OF assms(2,3)]
    by (simp add: resourceIsActive_def loaded_active request_ok_def)
next
  case False
  then show ?thesis
    by (simp add: resourceIsActive_def auditedResourceType_def activeResourceExists_def)
qed

lemma batchGrantMatches_iff:
  assumes wf: "well_formed_store db" and r: "r \<in> set reqs" "request_ok r" and g: "g \<in> set gs"
  shows "batchGrantMatches g r (loaded db reqs (groupIDsFromGrants gs))
    \<longleftrightarrow> activeResourceExists db (req_ResourceType r) (req_ResourceID r) = Inr True
        \<and> matchesGrant db g (req_ResourceType r) (req_ResourceID r)"
proof -
  let ?F = "loaded db reqs (groupIDsFromGrants gs)" and ?rt = "req_ResourceType r" and ?rid = "req_ResourceID r"
  note rid = request_id [OF r] and nul = r(2) [unfolded request_ok_def]
  have noq: "\<not> query_fails db t" for t using wf by (simp add: well_formed_store_def)
  have gid: "g_ResourceID g \<in> set (groupIDsFromGrants gs) \<or> g_ResourceID g = []"
    if "g_ResourceType g = ResourceTypeGroup \<or> g_ResourceType g = ResourceTypeAccountGroup"
    using that g by (auto simp: groupIDsFromGrants_def)
  have res: "n = resourceOf ?F (BatchResourceKey ?rt ?rid) \<longleftrightarrow> resource_group_member db n ?rt ?rid"
    and acc: "n = accountOf ?F (BatchResourceKey ?rt ?rid) \<longleftrightarrow> account_group_member db n ?rt ?rid" if "n \<noteq> []" for n
    using loaded_resourceOf [OF wf rid _ that] loaded_accountOf [OF wf rid _ that] nul by metis+
  have ne: "ResourceGroupTypeResource \<noteq> ResourceGroupTypeAccount"
    by (simp add: ResourceGroupTypeResource_def ResourceGroupTypeAccount_def)
  have group: "groupMatches ?F (g_ResourceID g) ?rt ?rid False
      \<longleftrightarrow> grantGroupContainsResource db (g_ResourceID g) ?rt ?rid ResourceGroupTypeResource"
    if "g_ResourceType g = ResourceTypeGroup"
    unfolding groupMatches_def grantGroupContainsResource_def loaded_groups(3) [OF wf gid [OF disjI1 [OF that]]]
    by (cases "find (\<lambda>ga. rg_ID ga = g_ResourceID g \<and> rg_GroupType ga = ResourceGroupTypeResource
          \<and> live (rg_ActiveMarker ga)) (resource_groups db)")
       (use found_group_named [OF wf] in \<open>simp_all add: noq ne res Let_def\<close>)
  have account: "groupMatches ?F (g_ResourceID g) ?rt ?rid True
      \<longleftrightarrow> grantGroupContainsResource db (g_ResourceID g) ?rt ?rid ResourceGroupTypeAccount"
    if "g_ResourceType g = ResourceTypeAccountGroup"
    unfolding groupMatches_def grantGroupContainsResource_def loaded_groups(2) [OF wf gid [OF disjI2 [OF that]]]
    by (cases "find (\<lambda>ga. rg_ID ga = g_ResourceID g \<and> rg_GroupType ga = ResourceGroupTypeAccount
          \<and> live (rg_ActiveMarker ga)) (resource_groups db)")
       (use found_group_named [OF wf] in \<open>simp_all add: noq acc Let_def\<close>)
  have platform: "\<not> grantGroupContainsResource db i ResourceTypePlatformAccount j ResourceGroupTypeResource" for i j
    by (simp add: grantGroupContainsResource_def ne resource_group_member_def resource_types split: option.split)
  have host: "hostOf ?F ?rid = g_ResourceID g \<longleftrightarrow> hostContainsAccount db (g_ResourceID g) ?rid"
    if "?rt = ResourceTypeHostAccount" "activeResourceExists db ?rt ?rid = Inr True"
    using that rid by (intro loaded_hostOf [OF wf]) (auto simp: activeResourceExists_def counted_def resource_types noq)
  have inst: "instanceOf ?F ?rid = g_ResourceID g \<longleftrightarrow> databaseContainsAccount db (g_ResourceID g) ?rid"
    if "?rt = ResourceTypeDatabaseAccount" "activeResourceExists db ?rt ?rid = Inr True"
    using that rid by (intro loaded_instanceOf [OF wf]) (auto simp: activeResourceExists_def counted_def resource_types noq)
  show ?thesis
    unfolding batchGrantMatches_def matchesGrant_def Let_def resourceIsActive_iff [OF wf r]
    using group account platform host inst resource_types_distinct [simplified] by (auto cong: conj_cong)
qed

lemma batch_grant_loop_iff:
  "batch_grant_loop F r gs allowed \<longleftrightarrow>
     \<not> (\<exists>g \<in> set gs. batchGrantMatches g r F \<and> g_Effect g = PermissionEffectDeny)
     \<and> (allowed \<or> (\<exists>g \<in> set gs. batchGrantMatches g r F \<and> g_Effect g = PermissionEffectAllow))"
  by (induction gs arbitrary: allowed) auto

lemma batch_grants_single:
  assumes wf: "well_formed_store db" and reqs: "list_all request_ok reqs"
  shows "BatchGrantsContext (Some db) now user reqs
    = Inr (map (\<lambda>r. HasGrantContext (Some db) now user (req_ResourceType r) (req_ResourceID r) = Inr True) reqs)"
proof -
  have noq: "\<not> query_fails db t" for t using wf by (simp add: well_formed_store_def)
  obtain gs where gs: "grantsForUser db now (TrimSpace user) = Inr gs"
    by (simp add: grantsForUser_def directGrantsForUser_def groupGrantsForUser_def temporaryGrantsForUser_def noq)
  let ?F = "loaded db reqs (groupIDsFromGrants gs)"
  have "batch_grant_loop ?F r gs False
      \<longleftrightarrow> activeResourceExists db (req_ResourceType r) (req_ResourceID r) = Inr True
          \<and> grant_decision db gs (req_ResourceType r, req_ResourceID r)" if "r \<in> set reqs" for r
    using that reqs batchGrantMatches_iff [OF wf that, of _ gs]
    by (auto simp: batch_grant_loop_iff grant_policy.decide_iff grant_denies_def grant_allows_def list_all_iff)
  then have "batch_grant_loop ?F r gs False
      \<longleftrightarrow> HasGrantContext (Some db) now user (req_ResourceType r) (req_ResourceID r) = Inr True"
    if "r \<in> set reqs" "TrimSpace user \<noteq> []" for r
    using that reqs gs by (auto simp: HasGrantContext_def list_all_iff request_ok_def Let_def split: sum.splits)
  then show ?thesis
    by (auto simp: BatchGrantsContext_def Let_def gs loadBatchFacts_loaded noq HasGrantContext_def)
qed

text \<open>
  C25. The batch check of grants is the single check, request by request: on a store whose rows
  have distinct identifiers and whose groups are named and typed, and with no failing query, the
  batch answers for every request exactly what \<open>HasGrantContext\<close> answers for it.
\<close>

theorem BatchGrants_equiv:
  assumes wf: "well_formed_store db" and reqs: "list_all request_ok reqs"
  shows "BatchGrantsContext (Some db) now user reqs
    = Inr (map (\<lambda>r. HasGrantContext (Some db) now user (req_ResourceType r) (req_ResourceID r) = Inr True) reqs)"
  using assms by (rule batch_grants_single)

section \<open>Batch decisions are single decisions\<close>

lemma batchPermissionResourceMatches_iff:
  assumes wf: "well_formed_store db" and r: "r \<in> set reqs" "request_ok r" and p: "p \<in> set ps"
  shows "batchPermissionResourceMatches p r (loaded db reqs (groupIDsFromPermissions ps))
    \<longleftrightarrow> activeResourceExists db (req_ResourceType r) (req_ResourceID r) = Inr True
        \<and> resourceMatches db p (req_ResourceType r) (req_ResourceID r)"
proof -
  let ?F = "loaded db reqs (groupIDsFromPermissions ps)" and ?rt = "req_ResourceType r" and ?rid = "req_ResourceID r"
  have noq: "\<not> query_fails db t" for t using wf by (simp add: well_formed_store_def)
  have mem: "n = permissionOf ?F (BatchResourceKey ?rt ?rid) \<longleftrightarrow> permission_group_member db n ?rt ?rid" if "n \<noteq> []" for n
    using loaded_permissionOf [OF wf request_id [OF r] _ that] r(2) [unfolded request_ok_def] by metis
  have gid: "p_ResourceID p \<in> set (groupIDsFromPermissions ps) \<or> p_ResourceID p = []" if "p_ResourceType p = ResourceTypeGroup"
    using that p by (auto simp: groupIDsFromPermissions_def)
  have nil: "\<not> permissionGroupMatches ?F [] ?rt ?rid"
    using loaded_groups(1) [OF wf, of "[]"] wf
    by (auto simp: permissionGroupMatches_def well_formed_store_def list_all_iff find_Some_iff split: option.split)
  have group: "permissionGroupMatches ?F (p_ResourceID p) ?rt ?rid \<longleftrightarrow> groupContainsResource db (p_ResourceID p) ?rt ?rid"
    if "p_ResourceType p = ResourceTypeGroup"
    unfolding permissionGroupMatches_def groupContainsResource_def loaded_groups(1) [OF wf gid [OF that]]
    by (cases "find (\<lambda>g. rg_ID g = p_ResourceID p \<and> live (rg_ActiveMarker g)) (resource_groups db)")
       (use found_group_named [OF wf] in \<open>simp_all add: noq mem Let_def\<close>)
  show ?thesis
    unfolding batchPermissionResourceMatches_def resourceMatches_def resourceIsActive_iff [OF wf r]
    using nil group by (cases "p_ResourceID p = []") auto
qed

lemma batch_flags_eq:
  "batch_flags F r a ps (ga, gd, rd) =
     (ga \<or> allows_action (set ps) a,
      gd \<or> (\<exists>p \<in> set ps. isDeny p \<and> actionMatches (p_Action p) a \<and> isActionOnly p),
      rd \<or> (\<exists>p \<in> set ps. isDeny p \<and> actionMatches (p_Action p) a \<and> \<not> isActionOnly p
              \<and> batchPermissionResourceMatches p r F))"
  by (induction ps arbitrary: ga gd rd) (auto simp: allows_action_def)

lemma normalizedBatchActions_mem:
  "a \<in> set (normalizedBatchActions acts) \<Longrightarrow> TrimSpace a = a \<and> a \<noteq> []"
  by (auto simp: normalizedBatchActions_def TrimSpace_idem)

definition globally_allowed :: "store \<Rightarrow> int \<Rightarrow> string \<Rightarrow> string \<Rightarrow> bool" where
  "globally_allowed db now user a \<longleftrightarrow> HasPermissionContext (Some db) now user a [] [] = Inr True"

definition denied_on :: "store \<Rightarrow> int \<Rightarrow> string \<Rightarrow> BatchAuthorizationRequest \<Rightarrow> string \<Rightarrow> bool" where
  "denied_on db now user r a \<longleftrightarrow>
     HasDenyContext (Some db) now user a (req_ResourceType r) (req_ResourceID r) = Inr True"

definition resource_active :: "store \<Rightarrow> BatchAuthorizationRequest \<Rightarrow> bool" where
  "resource_active db r \<longleftrightarrow> activeResourceExists db (req_ResourceType r) (req_ResourceID r) = Inr True"

lemma fold_batch_action:
  assumes "\<And>a. a \<in> set acts \<Longrightarrow> batch_flags F r a ps (False, False, False) = (fl1 a, fl2 a, fl3 a)"
  shows "fold (batch_action F r ps act) acts d =
    d\<lparr>ActionAllowed := (ActionAllowed d \<or> list_ex (\<lambda>a. fl1 a \<and> \<not> fl2 a) acts),
      Allowed := (Allowed d \<or> act \<and> list_ex (\<lambda>a. fl1 a \<and> \<not> fl2 a \<and> \<not> fl3 a) acts),
      Denied := (Denied d \<or> act \<and> list_ex (\<lambda>a. fl1 a \<and> \<not> fl2 a \<and> fl3 a) acts)\<rparr>"
  using assms
  by (induction acts arbitrary: d) (auto simp: batch_action_def Let_def)

lemma batch_decision_eq:
  assumes wf: "well_formed_store db" and r: "r \<in> set reqs" "request_ok r"
    and ps: "permissionsForUser db now (TrimSpace user) = Inr ps" and user: "TrimSpace user \<noteq> []"
  defines "acts \<equiv> normalizedBatchActions (req_Actions r)"
  shows "batch_decision (loaded db reqs (groupIDsFromPermissions ps)) ps r =
    (let allowed = resource_active db r \<and> list_ex (\<lambda>a. globally_allowed db now user a \<and> \<not> denied_on db now user r a) acts
     in \<lparr>ActionAllowed = list_ex (globally_allowed db now user) acts,
         Allowed = allowed,
         Denied = (\<not> allowed \<and> resource_active db r
                   \<and> list_ex (\<lambda>a. globally_allowed db now user a \<and> denied_on db now user r a) acts)\<rparr>)"
proof -
  let ?F = "loaded db reqs (groupIDsFromPermissions ps)" and ?rt = "req_ResourceType r" and ?rid = "req_ResourceID r"
  define f1 where "f1 a = allows_action (set ps) a" for a
  define f2 where "f2 a = (\<exists>p \<in> set ps. isDeny p \<and> actionMatches (p_Action p) a \<and> isActionOnly p)" for a
  define f3 where "f3 a = (\<exists>p \<in> set ps. isDeny p \<and> actionMatches (p_Action p) a \<and> \<not> isActionOnly p
              \<and> batchPermissionResourceMatches p r ?F)" for a
  have flags: "batch_flags ?F r a ps (False, False, False) = (f1 a, f2 a, f3 a)" for a
    by (simp add: batch_flags_eq f1_def f2_def f3_def)
  have glob: "f1 a \<and> \<not> f2 a \<longleftrightarrow> globally_allowed db now user a" if "a \<in> set acts" for a
    using normalizedBatchActions_mem [OF that [unfolded acts_def]] ps user
    by (auto simp: globally_allowed_def HasPermissionContext_def permission_policy.decide_iff TrimSpace_Nil
        permission_allows_def permission_denies_def permission_matches_def opens_resource_def f1_def f2_def Let_def)
  have den: "f2 a \<or> f3 a \<longleftrightarrow> denied_on db now user r a" if "a \<in> set acts" "resource_active db r" for a
    using normalizedBatchActions_mem [OF that(1) [unfolded acts_def]] ps user r(2) that(2)
      batchPermissionResourceMatches_iff [OF wf r] action_only_no_resource [of _ ?rt db ?rid]
    by (auto simp: denied_on_def HasDenyContext_def resource_active_def request_ok_def deny_loop_iff
        permission_denies_def permission_matches_def f2_def f3_def Let_def split: sum.splits)
  have "list_ex (\<lambda>a. f1 a \<and> \<not> f2 a) acts = list_ex (globally_allowed db now user) acts"
    using glob by (auto simp: list_ex_iff)
  moreover have "resource_active db r \<and> list_ex (\<lambda>a. f1 a \<and> \<not> f2 a \<and> \<not> f3 a) acts
      \<longleftrightarrow> resource_active db r \<and> list_ex (\<lambda>a. globally_allowed db now user a \<and> \<not> denied_on db now user r a) acts"
    using glob den by (auto simp: list_ex_iff)
  moreover have "resource_active db r \<and> list_ex (\<lambda>a. f1 a \<and> \<not> f2 a \<and> f3 a) acts
      \<longleftrightarrow> resource_active db r \<and> list_ex (\<lambda>a. globally_allowed db now user a \<and> denied_on db now user r a) acts"
    using glob den by (auto simp: list_ex_iff)
  ultimately show ?thesis
    unfolding batch_decision_def resourceIsActive_iff [OF wf r] resource_active_def [symmetric] acts_def [symmetric]
    by (auto simp: fold_batch_action [OF flags] Let_def)
qed

lemma batch_actions_single:
  assumes wf: "well_formed_store db" and reqs: "list_all request_ok reqs" and user: "TrimSpace user \<noteq> []"
  shows "BatchActionDecisionsContext (Some db) now user reqs = Inr (map (\<lambda>r.
    (let acts = normalizedBatchActions (req_Actions r);
         allowed = resource_active db r \<and> list_ex (\<lambda>a. globally_allowed db now user a \<and> \<not> denied_on db now user r a) acts
     in \<lparr>ActionAllowed = list_ex (globally_allowed db now user) acts,
         Allowed = allowed,
         Denied = (\<not> allowed \<and> resource_active db r
                   \<and> list_ex (\<lambda>a. globally_allowed db now user a \<and> denied_on db now user r a) acts)\<rparr>)) reqs)"
proof -
  have noq: "\<not> query_fails db t" for t using wf by (simp add: well_formed_store_def)
  obtain ps where ps: "permissionsForUser db now (TrimSpace user) = Inr ps"
    by (simp add: permissionsForUser_def noq)
  note eq = batch_decision_eq [OF wf _ _ ps user]
  from reqs have "map (batch_decision (loaded db reqs (groupIDsFromPermissions ps)) ps) reqs = map (\<lambda>r.
    (let acts = normalizedBatchActions (req_Actions r);
         allowed = resource_active db r \<and> list_ex (\<lambda>a. globally_allowed db now user a \<and> \<not> denied_on db now user r a) acts
     in \<lparr>ActionAllowed = list_ex (globally_allowed db now user) acts,
         Allowed = allowed,
         Denied = (\<not> allowed \<and> resource_active db r
                   \<and> list_ex (\<lambda>a. globally_allowed db now user a \<and> denied_on db now user r a) acts)\<rparr>)) reqs"
    by (intro map_cong refl) (simp add: eq list_all_iff Let_def)
  then show ?thesis
    using user by (simp add: BatchActionDecisionsContext_def ps loadBatchFacts_loaded noq Let_def)
qed

text \<open>
  C26. The batch check of actions agrees with the single checks: for every request, \<open>ActionAllowed\<close>
  says that one of its actions is allowed globally, \<open>Allowed\<close> that moreover the resource is live and
  that action is not denied on it, and \<open>Denied\<close> that the resource is live but every globally allowed
  action is denied on it.
\<close>

theorem BatchActionDecisions_equiv:
  assumes wf: "well_formed_store db" and reqs: "list_all request_ok reqs" and user: "TrimSpace user \<noteq> []"
  shows "BatchActionDecisionsContext (Some db) now user reqs = Inr (map (\<lambda>r.
    (let acts = normalizedBatchActions (req_Actions r);
         allowed = resource_active db r \<and> list_ex (\<lambda>a. globally_allowed db now user a \<and> \<not> denied_on db now user r a) acts
     in \<lparr>ActionAllowed = list_ex (globally_allowed db now user) acts,
         Allowed = allowed,
         Denied = (\<not> allowed \<and> resource_active db r
                   \<and> list_ex (\<lambda>a. globally_allowed db now user a \<and> denied_on db now user r a) acts)\<rparr>)) reqs)"
  using assms by (rule batch_actions_single)

definition sample_requests :: "BatchAuthorizationRequest list" where
  "sample_requests =
     [\<lparr>req_ResourceType = ''host'', req_ResourceID = ''h1'', req_Actions = [''session:connect'']\<rparr>,
      \<lparr>req_ResourceType = ''host'', req_ResourceID = ''h2'', req_Actions = [''session:connect'']\<rparr>]"

lemma sample_requests_ok: "list_all request_ok sample_requests"
  by (simp add: sample_requests_def request_ok_def)

lemma sample_store_well_formed:
  "well_formed_store grant_store" "well_formed_store group_store"
  by (simp_all add: well_formed_store_def grant_store_def group_store_def sample_store_def
      ResourceGroupTypeResource_def ResourceGroupTypeAccount_def)

theorem BatchGrants_equiv_witness:
  "BatchGrantsContext (Some grant_store) 5 ''u1'' sample_requests
    = Inr (map (\<lambda>r. HasGrantContext (Some grant_store) 5 ''u1'' (req_ResourceType r) (req_ResourceID r) = Inr True) sample_requests)"
  by (rule BatchGrants_equiv) (rule sample_store_well_formed sample_requests_ok)+

theorem BatchActionDecisions_equiv_witness:
  "BatchActionDecisionsContext (Some group_store) 0 ''u1'' sample_requests = Inr (map (\<lambda>r.
    (let acts = normalizedBatchActions (req_Actions r);
         allowed = resource_active group_store r
           \<and> list_ex (\<lambda>a. globally_allowed group_store 0 ''u1'' a \<and> \<not> denied_on group_store 0 ''u1'' r a) acts
     in \<lparr>ActionAllowed = list_ex (globally_allowed group_store 0 ''u1'') acts,
         Allowed = allowed,
         Denied = (\<not> allowed \<and> resource_active group_store r
                   \<and> list_ex (\<lambda>a. globally_allowed group_store 0 ''u1'' a \<and> denied_on group_store 0 ''u1'' r a) acts)\<rparr>)) sample_requests)"
  by (rule BatchActionDecisions_equiv) (simp_all add: sample_store_well_formed sample_requests_ok)

end
