(* ===== verification/Authorization.thy ===== *)
theory Authorization
  imports Rbac_Batch
begin

text \<open>
  The authorization service (\<open>internal/service/authorization.go\<close>) with the identity service it asks
  first (\<open>internal/service/identity.go\<close>, \<open>internal/store/dbstore_identity.go\<close>).

  The service holds three interfaces; here it is a record of the functions behind them, and
  \<open>production_service\<close> is the wiring of \<open>cmd/jianmen/main.go\<close>: the identity service over the store and
  the two checkers of the \<open>rbac\<close> package.  The context is the sequence of answers of \<open>ctx.Err()\<close>, one
  per call, so that a cancellation can arrive between any two steps.
\<close>

section \<open>Identity\<close>

record IdentitySubject =
  sub_ID :: string
  sub_Username :: string
  sub_SuperAdmin :: bool
  sub_Status :: string
  sub_ExpiresAt :: "int option"

definition identitySubject :: "User_row \<Rightarrow> IdentitySubject" where
  "identitySubject u = \<lparr>sub_ID = u_ID u, sub_Username = u_Username u, sub_SuperAdmin = u_IsSuperAdmin u,
     sub_Status = u_Status u, sub_ExpiresAt = u_ExpiresAt u\<rparr>"

text \<open>The repository query: the live user with that (unique) identifier.\<close>

definition store_FindIdentitySubject :: "store \<Rightarrow> string \<Rightarrow> rbac_error + IdentitySubject option" where
  "store_FindIdentitySubject db userID =
     (if query_fails db ''users'' then Inl (QueryError ''users'')
      else Inr (map_option identitySubject
        (find (\<lambda>u. u_ID u = TrimSpace userID \<and> live (u_ActiveMarker u)) (users db))))"

definition activeSubject :: "int \<Rightarrow> IdentitySubject option \<Rightarrow> IdentitySubject option" where
  "activeSubject now found =
     (case found of None \<Rightarrow> None
      | Some subject \<Rightarrow>
        if sub_Status subject \<noteq> ''active'' then None
        else if \<not> sub_SuperAdmin subject \<and> \<not> unexpired now (sub_ExpiresAt subject) then None
        else Some subject)"

definition FindIdentitySubject :: "store \<Rightarrow> int \<Rightarrow> string \<Rightarrow> rbac_error + IdentitySubject option" where
  "FindIdentitySubject db now userID =
     (let userID = TrimSpace userID in
      if userID = [] then Inr None
      else (case store_FindIdentitySubject db userID of Inl e \<Rightarrow> Inl e
        | Inr found \<Rightarrow> Inr (activeSubject now found)))"

section \<open>The service\<close>

datatype auth_error =
    ContextError string
  | IdentityError rbac_error
  | ActionError string rbac_error
  | DenyError string rbac_error
  | ResourceError rbac_error
  | BatchActionsError rbac_error
  | BatchResourcesError rbac_error
  | CountMismatch

definition AuthorizationReasonAllowed :: string where "AuthorizationReasonAllowed = ''allowed''"
definition AuthorizationReasonSuperAdmin :: string where "AuthorizationReasonSuperAdmin = ''super_admin''"
definition AuthorizationReasonMissingUser :: string where "AuthorizationReasonMissingUser = ''missing_user''"
definition AuthorizationReasonInvalidIdentity :: string where "AuthorizationReasonInvalidIdentity = ''invalid_identity''"
definition AuthorizationReasonActionDenied :: string where "AuthorizationReasonActionDenied = ''action_denied''"
definition AuthorizationReasonInvalidResource :: string where "AuthorizationReasonInvalidResource = ''invalid_resource''"
definition AuthorizationReasonResourceDenied :: string where "AuthorizationReasonResourceDenied = ''resource_denied''"

record AuthorizationRequest =
  ar_UserID :: string
  ar_Actions :: "string list"
  ar_ResourceType :: string
  ar_ResourceID :: string

record AuthorizationDecision =
  d_Allowed :: bool
  d_Reason :: string

definition refused :: "string \<Rightarrow> AuthorizationDecision" where
  "refused reason = \<lparr>d_Allowed = False, d_Reason = reason\<rparr>"

definition granted :: "string \<Rightarrow> AuthorizationDecision" where
  "granted reason = \<lparr>d_Allowed = True, d_Reason = reason\<rparr>"

record AuthorizationService =
  svc_identity :: "string \<Rightarrow> rbac_error + IdentitySubject option"
  svc_permission :: "string \<Rightarrow> string \<Rightarrow> string \<Rightarrow> string \<Rightarrow> rbac_error + bool"
  svc_deny :: "string \<Rightarrow> string \<Rightarrow> string \<Rightarrow> string \<Rightarrow> rbac_error + bool"
  svc_grant :: "string \<Rightarrow> string \<Rightarrow> string \<Rightarrow> rbac_error + bool"
  svc_batch_actions :: "string \<Rightarrow> BatchAuthorizationRequest list \<Rightarrow> rbac_error + BatchActionDecision list"
  svc_batch_grants :: "string \<Rightarrow> BatchAuthorizationRequest list \<Rightarrow> rbac_error + bool list"

definition production_service :: "store \<Rightarrow> int \<Rightarrow> AuthorizationService" where
  "production_service db now =
     \<lparr>svc_identity = FindIdentitySubject db now,
      svc_permission = HasPermissionContext (Some db) now,
      svc_deny = HasDenyContext (Some db) now,
      svc_grant = HasGrantContext (Some db) now,
      svc_batch_actions = BatchActionDecisionsContext (Some db) now,
      svc_batch_grants = BatchGrantsContext (Some db) now\<rparr>"

type_synonym ctx = "nat \<Rightarrow> string option"

definition normalizedActions :: "string list \<Rightarrow> string list" where
  "normalizedActions actions = add_unseen [] [TrimSpace a. a \<leftarrow> actions, TrimSpace a \<noteq> []]"

text \<open>The loop over the actions, with the number of the next \<open>ctx.Err()\<close> call; it ends with whether
  an action is allowed and whether one was refused on the resource.\<close>

fun action_loop ::
    "AuthorizationService \<Rightarrow> ctx \<Rightarrow> string \<Rightarrow> string \<Rightarrow> string \<Rightarrow> string list \<Rightarrow> nat \<Rightarrow> bool \<Rightarrow>
     auth_error + (bool \<times> bool \<times> nat)" where
  "action_loop s ctx uid rt rid [] n resourcePermissionDenied = Inr (False, resourcePermissionDenied, n)"
| "action_loop s ctx uid rt rid (action # actions) n resourcePermissionDenied =
     (case svc_permission s uid action [] [] of
        Inl e \<Rightarrow> Inl (ActionError action e)
      | Inr allowed \<Rightarrow>
        (case ctx n of Some e \<Rightarrow> Inl (ContextError e)
         | None \<Rightarrow>
           if \<not> allowed then action_loop s ctx uid rt rid actions (n + 1) resourcePermissionDenied
           else if rt \<noteq> [] then
             (case svc_deny s uid action rt rid of
                Inl e \<Rightarrow> Inl (DenyError action e)
              | Inr denied \<Rightarrow>
                (case ctx (n + 1) of Some e \<Rightarrow> Inl (ContextError e)
                 | None \<Rightarrow>
                   if denied then action_loop s ctx uid rt rid actions (n + 2) True
                   else Inr (True, resourcePermissionDenied, n + 2)))
           else Inr (True, resourcePermissionDenied, n + 1)))"

definition Authorize ::
    "AuthorizationService \<Rightarrow> ctx \<Rightarrow> AuthorizationRequest \<Rightarrow> auth_error + AuthorizationDecision" where
  "Authorize s ctx request =
     (case ctx 0 of Some e \<Rightarrow> Inl (ContextError e)
      | None \<Rightarrow>
        (let userID = TrimSpace (ar_UserID request) in
         if userID = [] then Inr (refused AuthorizationReasonMissingUser)
         else
         (case svc_identity s userID of Inl e \<Rightarrow> Inl (IdentityError e)
          | Inr found \<Rightarrow>
            (case ctx 1 of Some e \<Rightarrow> Inl (ContextError e)
             | None \<Rightarrow>
               (case found of None \<Rightarrow> Inr (refused AuthorizationReasonInvalidIdentity)
                | Some subject \<Rightarrow>
                  (let resourceType = TrimSpace (ar_ResourceType request);
                       resourceID = TrimSpace (ar_ResourceID request) in
                   if (resourceType = []) \<noteq> (resourceID = []) then Inr (refused AuthorizationReasonInvalidResource)
                   else if sub_SuperAdmin subject then Inr (granted AuthorizationReasonSuperAdmin)
                   else
                   (case action_loop s ctx (sub_ID subject) resourceType resourceID
                           (normalizedActions (ar_Actions request)) 2 False of
                      Inl e \<Rightarrow> Inl e
                    | Inr (allowedAction, resourcePermissionDenied, n) \<Rightarrow>
                      if \<not> allowedAction then
                        Inr (refused (if resourcePermissionDenied then AuthorizationReasonResourceDenied
                                      else AuthorizationReasonActionDenied))
                      else if resourceType \<noteq> [] then
                        (case svc_grant s (sub_ID subject) resourceType resourceID of
                           Inl e \<Rightarrow> Inl (ResourceError e)
                         | Inr allowed \<Rightarrow>
                           (case ctx n of Some e \<Rightarrow> Inl (ContextError e)
                            | None \<Rightarrow>
                              if \<not> allowed then Inr (refused AuthorizationReasonResourceDenied)
                              else Inr (granted AuthorizationReasonAllowed)))
                      else Inr (granted AuthorizationReasonAllowed))))))))"

definition AuthorizeConnection ::
    "AuthorizationService \<Rightarrow> ctx \<Rightarrow> string \<Rightarrow> string list \<Rightarrow> string \<Rightarrow> string \<Rightarrow> auth_error + bool" where
  "AuthorizeConnection s ctx userID actions resourceType resourceID =
     (case Authorize s ctx \<lparr>ar_UserID = userID, ar_Actions = actions, ar_ResourceType = resourceType,
                            ar_ResourceID = resourceID\<rparr> of
        Inl e \<Rightarrow> Inl e
      | Inr decision \<Rightarrow> Inr (d_Allowed decision))"

subsection \<open>Batches\<close>

text \<open>The first pass over the requests of a batch: either a decision is already known, or the request
  goes to the checkers; an entry that does not is sent as the zero value of the request type.\<close>

definition batch_entry ::
    "AuthorizationRequest \<Rightarrow> AuthorizationDecision + BatchAuthorizationRequest" where
  "batch_entry request =
     (let resourceType = TrimSpace (ar_ResourceType request); resourceID = TrimSpace (ar_ResourceID request) in
      if resourceType = [] \<or> resourceID = [] then Inl (refused AuthorizationReasonInvalidResource)
      else
      let actions = normalizedActions (ar_Actions request) in
      if actions = [] then Inl (refused AuthorizationReasonActionDenied)
      else Inr \<lparr>req_ResourceType = resourceType, req_ResourceID = resourceID, req_Actions = actions\<rparr>)"

definition zero_request :: BatchAuthorizationRequest where
  "zero_request = \<lparr>req_ResourceType = [], req_ResourceID = [], req_Actions = []\<rparr>"

definition batch_outcome ::
    "AuthorizationDecision + BatchAuthorizationRequest \<Rightarrow> BatchActionDecision \<Rightarrow> bool \<Rightarrow> AuthorizationDecision" where
  "batch_outcome entry action grant =
     (case entry of Inl d \<Rightarrow> d
      | Inr _ \<Rightarrow>
        if \<not> ActionAllowed action then refused AuthorizationReasonActionDenied
        else if \<not> Allowed action \<or> \<not> grant then refused AuthorizationReasonResourceDenied
        else granted AuthorizationReasonAllowed)"

definition AuthorizeBatch ::
    "AuthorizationService \<Rightarrow> ctx \<Rightarrow> string \<Rightarrow> AuthorizationRequest list \<Rightarrow>
     auth_error + AuthorizationDecision list" where
  "AuthorizeBatch s ctx userID requests =
     (case ctx 0 of Some e \<Rightarrow> Inl (ContextError e)
      | None \<Rightarrow>
        if requests = [] then Inr []
        else
        let userID = TrimSpace userID in
        if userID = [] then Inr (map (\<lambda>_. refused AuthorizationReasonMissingUser) requests)
        else
        (case svc_identity s userID of Inl e \<Rightarrow> Inl (IdentityError e)
         | Inr found \<Rightarrow>
           (case ctx 1 of Some e \<Rightarrow> Inl (ContextError e)
            | None \<Rightarrow>
              (case found of None \<Rightarrow> Inr (map (\<lambda>_. refused AuthorizationReasonInvalidIdentity) requests)
               | Some subject \<Rightarrow>
                 (let entries = map batch_entry requests;
                      batch = map (\<lambda>e. case e of Inl _ \<Rightarrow> zero_request | Inr r \<Rightarrow> r) entries in
                  if sub_SuperAdmin subject then
                    Inr (map (\<lambda>e. case e of Inl d \<Rightarrow> d | Inr _ \<Rightarrow> granted AuthorizationReasonSuperAdmin) entries)
                  else
                  (case svc_batch_actions s (sub_ID subject) batch of Inl e \<Rightarrow> Inl (BatchActionsError e)
                   | Inr actionDecisions \<Rightarrow>
                     (case svc_batch_grants s (sub_ID subject) batch of Inl e \<Rightarrow> Inl (BatchResourcesError e)
                      | Inr grantDecisions \<Rightarrow>
                        if length actionDecisions \<noteq> length requests \<or> length grantDecisions \<noteq> length requests
                        then Inl CountMismatch
                        else Inr (map (\<lambda>(e, a, g). batch_outcome e a g)
                                    (zip entries (zip actionDecisions grantDecisions))))))))))"

section \<open>What a yes rests on\<close>

lemma action_loop_True:
  "action_loop s ctx uid rt rid actions n refusedBefore = Inr (True, r, n') \<Longrightarrow>
   \<exists>a \<in> set actions. svc_permission s uid a [] [] = Inr True \<and> (rt = [] \<or> svc_deny s uid a rt rid = Inr False)"
  by (induction s ctx uid rt rid actions n refusedBefore rule: action_loop.induct)
     (auto split: sum.splits option.splits if_splits)

lemma Authorize_allowed:
  assumes "Authorize s ctx request = Inr d" "d_Allowed d"
  defines "rt \<equiv> TrimSpace (ar_ResourceType request)" and "rid \<equiv> TrimSpace (ar_ResourceID request)"
  shows "\<exists>subject. svc_identity s (TrimSpace (ar_UserID request)) = Inr (Some subject)
    \<and> (rt = []) = (rid = [])
    \<and> (sub_SuperAdmin subject
       \<or> (list_ex (\<lambda>a. svc_permission s (sub_ID subject) a [] [] = Inr True
              \<and> (rt = [] \<or> svc_deny s (sub_ID subject) a rt rid = Inr False)) (normalizedActions (ar_Actions request))
          \<and> (rt = [] \<or> svc_grant s (sub_ID subject) rt rid = Inr True)))"
  using assms(1,2) unfolding rt_def [symmetric] rid_def [symmetric] Authorize_def Let_def
  by (auto simp: refused_def granted_def list_ex_iff split: option.splits sum.splits if_splits prod.splits
      dest!: action_loop_True)

lemma FindIdentitySubject_Some:
  assumes "FindIdentitySubject db now userID = Inr (Some subject)"
  obtains u where "u \<in> set (users db)" "u_ID u = TrimSpace userID" "live (u_ActiveMarker u)"
    "u_Status u = ''active''" "u_IsSuperAdmin u \<or> unexpired now (u_ExpiresAt u)" "subject = identitySubject u"
  using assms
  by (auto simp: FindIdentitySubject_def store_FindIdentitySubject_def activeSubject_def Let_def identitySubject_def
      find_Some_iff in_set_conv_nth split: if_splits option.splits)

section \<open>Interface: batch and single checkers\<close>

text \<open>
  What the service needs from the two checkers so that a batch decides like single requests: in a
  world \<open>w\<close> (a store and a time) the single checks answer, the batch checks answer for every request
  what the single ones say, and a grant is given only on a resource that is active.
\<close>

locale batch_authorizer =
  fixes service :: "'w \<Rightarrow> AuthorizationService"
    and wf :: "'w \<Rightarrow> string \<Rightarrow> bool"
    and ok :: "BatchAuthorizationRequest \<Rightarrow> bool"
    and active :: "'w \<Rightarrow> BatchAuthorizationRequest \<Rightarrow> bool"
    and decision :: "'w \<Rightarrow> string \<Rightarrow> BatchAuthorizationRequest \<Rightarrow> BatchActionDecision"
  assumes permission_total: "wf w uid \<Longrightarrow> \<exists>b. svc_permission (service w) uid a [] [] = Inr b"
    and deny_total: "wf w uid \<Longrightarrow> \<exists>b. svc_deny (service w) uid a rt rid = Inr b"
    and grant_total: "wf w uid \<Longrightarrow> \<exists>b. svc_grant (service w) uid rt rid = Inr b"
    and grant_active: "wf w uid \<Longrightarrow> ok r
      \<Longrightarrow> svc_grant (service w) uid (req_ResourceType r) (req_ResourceID r) = Inr True \<Longrightarrow> active w r"
    and batch_actions: "wf w uid \<Longrightarrow> list_all ok rs
      \<Longrightarrow> svc_batch_actions (service w) uid rs = Inr (map (decision w uid) rs)"
    and batch_grants: "wf w uid \<Longrightarrow> list_all ok rs \<Longrightarrow> svc_batch_grants (service w) uid rs
      = Inr (map (\<lambda>r. svc_grant (service w) uid (req_ResourceType r) (req_ResourceID r) = Inr True) rs)"
    and action_allowed: "wf w uid \<Longrightarrow> ok r \<Longrightarrow> ActionAllowed (decision w uid r)
      \<longleftrightarrow> list_ex (\<lambda>a. svc_permission (service w) uid a [] [] = Inr True) (req_Actions r)"
    and resource_allowed: "wf w uid \<Longrightarrow> ok r \<Longrightarrow> Allowed (decision w uid r)
      \<longleftrightarrow> active w r \<and> list_ex (\<lambda>a. svc_permission (service w) uid a [] [] = Inr True
            \<and> svc_deny (service w) uid a (req_ResourceType r) (req_ResourceID r) = Inr False) (req_Actions r)"
begin

lemma action_loop_result:
  fixes rid :: string
  assumes "wf w uid" "rt \<noteq> []"
  defines "allowed \<equiv> \<lambda>a. svc_permission (service w) uid a [] [] = Inr True"
    and "free \<equiv> \<lambda>a. svc_deny (service w) uid a rt rid = Inr False"
  shows "\<exists>n'. action_loop (service w) (\<lambda>_. None) uid rt rid actions n refusedBefore
    = (if list_ex (\<lambda>a. allowed a \<and> free a) actions
       then Inr (True, refusedBefore \<or> list_ex allowed (takeWhile (\<lambda>a. \<not> (allowed a \<and> free a)) actions), n')
       else Inr (False, refusedBefore \<or> list_ex allowed actions, n'))"
proof (induction actions arbitrary: n refusedBefore)
  case (Cons a actions)
  obtain p q where pq: "svc_permission (service w) uid a [] [] = Inr p" "svc_deny (service w) uid a rt rid = Inr q"
    using permission_total [OF assms(1), of a] deny_total [OF assms(1), of a rt rid] by blast
  show ?case
    using Cons.IH [of "n + 1" refusedBefore] Cons.IH [of "n + 2" True] assms(2) pq
    by (auto simp: allowed_def free_def split: if_splits)
qed simp

lemma outcome_single:
  assumes wf: "wf w (sub_ID subject)" and entry: "batch_entry request = Inr r" and ok: "ok r"
    and subject: "svc_identity (service w) (TrimSpace user) = Inr (Some subject)" "\<not> sub_SuperAdmin subject"
      "TrimSpace user \<noteq> []"
  shows "Authorize (service w) (\<lambda>_. None) (request\<lparr>ar_UserID := user\<rparr>)
    = Inr (batch_outcome (Inr r) (decision w (sub_ID subject) r)
        (svc_grant (service w) (sub_ID subject) (req_ResourceType r) (req_ResourceID r) = Inr True))"
proof -
  let ?rt = "req_ResourceType r" and ?rid = "req_ResourceID r" and ?uid = "sub_ID subject"
  have e: "TrimSpace (ar_ResourceType request) = ?rt" "TrimSpace (ar_ResourceID request) = ?rid" "?rt \<noteq> []" "?rid \<noteq> []"
    "normalizedActions (ar_Actions request) = req_Actions r"
    using entry by (auto simp: batch_entry_def Let_def split: if_splits)
  obtain g where g: "svc_grant (service w) ?uid ?rt ?rid = Inr g" using grant_total [OF wf] by blast
  obtain n' where loop: "action_loop (service w) (\<lambda>_. None) ?uid ?rt ?rid (req_Actions r) 2 False
    = (if list_ex (\<lambda>a. svc_permission (service w) ?uid a [] [] = Inr True \<and> svc_deny (service w) ?uid a ?rt ?rid = Inr False) (req_Actions r)
       then Inr (True, list_ex (\<lambda>a. svc_permission (service w) ?uid a [] [] = Inr True) (takeWhile (\<lambda>a. \<not> (svc_permission (service w) ?uid a [] [] = Inr True \<and> svc_deny (service w) ?uid a ?rt ?rid = Inr False)) (req_Actions r)), n')
       else Inr (False, list_ex (\<lambda>a. svc_permission (service w) ?uid a [] [] = Inr True) (req_Actions r), n'))"
    using action_loop_result [OF wf e(3), of ?rid "req_Actions r" 2 False] by auto
  have "list_ex (\<lambda>a. svc_permission (service w) ?uid a [] [] = Inr True) (req_Actions r)"
    if "list_ex (\<lambda>a. svc_permission (service w) ?uid a [] [] = Inr True \<and> svc_deny (service w) ?uid a ?rt ?rid = Inr False) (req_Actions r)"
    using that by (auto simp: list_ex_iff)
  then show ?thesis
    using grant_active [OF wf ok] action_allowed [OF wf ok] resource_allowed [OF wf ok]
    by (auto simp: Authorize_def Let_def subject e g loop batch_outcome_def refused_def granted_def)
qed

lemma batch_is_single:
  assumes "list_all (\<lambda>request. \<exists>r. batch_entry request = Inr r \<and> ok r) requests"
    and "\<And>subject. svc_identity (service w) (TrimSpace user) = Inr (Some subject) \<Longrightarrow> wf w (sub_ID subject)"
    and "\<exists>found. svc_identity (service w) (TrimSpace user) = Inr found"
  shows "\<exists>ds. AuthorizeBatch (service w) (\<lambda>_. None) user requests = Inr ds
    \<and> map (\<lambda>request. Authorize (service w) (\<lambda>_. None) (request\<lparr>ar_UserID := user\<rparr>)) requests = map Inr ds"
proof (cases "requests = [] \<or> TrimSpace user = []")
  case True
  then show ?thesis by (auto simp: AuthorizeBatch_def Authorize_def Let_def)
next
  case False
  obtain found where found: "svc_identity (service w) (TrimSpace user) = Inr found" using assms(3) by blast
  define r where "r request = (SOME x. batch_entry request = Inr x)" for request
  have entry: "batch_entry request = Inr (r request)" "ok (r request)" if "request \<in> set requests" for request
    using that assms(1) by (auto simp: r_def list_all_iff)
  then have given: "TrimSpace (ar_ResourceType request) \<noteq> [] \<and> TrimSpace (ar_ResourceID request) \<noteq> []"
    if "request \<in> set requests" for request
    using that by (auto simp: batch_entry_def Let_def split: if_splits) force+
  show ?thesis
  proof (cases found)
    case None
    with found False show ?thesis by (auto simp: AuthorizeBatch_def Authorize_def Let_def)
  next
    case (Some subject)
    note id = found [unfolded Some]
    show ?thesis
    proof (cases "sub_SuperAdmin subject")
      case True
      with id False show ?thesis
        using entry given by (auto simp: AuthorizeBatch_def Authorize_def Let_def)
    next
      case normal: False
      note wf = assms(2) [OF id]
      let ?rs = "map r requests"
      have rs: "map (\<lambda>e. case e of Inl _ \<Rightarrow> zero_request | Inr r \<Rightarrow> r) (map batch_entry requests) = ?rs"
        using entry by simp
      have "list_all ok ?rs" using entry by (simp add: list_all_iff)
      note laws = batch_actions [OF wf this] batch_grants [OF wf this]
      have "AuthorizeBatch (service w) (\<lambda>_. None) user requests
        = Inr (map (\<lambda>(e, a, g). batch_outcome e a g) (zip (map batch_entry requests)
            (zip (map (decision w (sub_ID subject)) ?rs)
              (map (\<lambda>r. svc_grant (service w) (sub_ID subject) (req_ResourceType r) (req_ResourceID r) = Inr True) ?rs))))"
        using False normal by (simp add: AuthorizeBatch_def Let_def id rs laws del: map_map)
      also have "\<dots> = Inr (map (\<lambda>request. batch_outcome (batch_entry request) (decision w (sub_ID subject) (r request))
          (svc_grant (service w) (sub_ID subject) (req_ResourceType (r request)) (req_ResourceID (r request)) = Inr True)) requests)"
        by (simp add: zip_map_map map_zip_map zip_same_conv_map)
      finally show ?thesis
        using outcome_single [OF wf entry(1) entry(2) id normal] False entry(1) by auto
    qed
  qed
qed

end

section \<open>The checkers keep the contract\<close>

definition action_decision :: "store \<times> int \<Rightarrow> string \<Rightarrow> BatchAuthorizationRequest \<Rightarrow> BatchActionDecision" where
  "action_decision w user r =
     (case w of (db, now) \<Rightarrow>
      let acts = normalizedBatchActions (req_Actions r);
          allowed = resource_active db r \<and> list_ex (\<lambda>a. globally_allowed db now user a \<and> \<not> denied_on db now user r a) acts
      in \<lparr>ActionAllowed = list_ex (globally_allowed db now user) acts,
          Allowed = allowed,
          Denied = (\<not> allowed \<and> resource_active db r
                    \<and> list_ex (\<lambda>a. globally_allowed db now user a \<and> denied_on db now user r a) acts)\<rparr>)"

definition batch_ok :: "BatchAuthorizationRequest \<Rightarrow> bool" where
  "batch_ok r \<longleftrightarrow> request_ok r \<and> normalizedBatchActions (req_Actions r) = req_Actions r"

lemma no_query_fails: "well_formed_store db \<Longrightarrow> \<not> query_fails db t"
  by (simp add: well_formed_store_def)

lemma active_total: "well_formed_store db \<Longrightarrow> \<exists>b. activeResourceExists db rt rid = Inr b"
  by (auto simp: activeResourceExists_def counted_def no_query_fails)

lemma permissions_total: "well_formed_store db \<Longrightarrow> \<exists>ps. permissionsForUser db now user = Inr ps"
  by (simp add: permissionsForUser_def no_query_fails)

lemma grants_total: "well_formed_store db \<Longrightarrow> \<exists>gs. grantsForUser db now user = Inr gs"
  by (simp add: grantsForUser_def directGrantsForUser_def groupGrantsForUser_def temporaryGrantsForUser_def no_query_fails)

lemma HasPermissionContext_total: "well_formed_store db \<Longrightarrow> \<exists>b. HasPermissionContext (Some db) now user a rt rid = Inr b"
  using active_total [of db "TrimSpace rt" "TrimSpace rid"] permissions_total [of db now "TrimSpace user"]
  by (auto simp: HasPermissionContext_def Let_def split: sum.splits)

lemma HasDenyContext_total: "well_formed_store db \<Longrightarrow> \<exists>b. HasDenyContext (Some db) now user a rt rid = Inr b"
  using active_total [of db "TrimSpace rt" "TrimSpace rid"] permissions_total [of db now "TrimSpace user"]
  by (auto simp: HasDenyContext_def Let_def split: sum.splits)

lemma HasGrantContext_total: "well_formed_store db \<Longrightarrow> \<exists>b. HasGrantContext (Some db) now user rt rid = Inr b"
  using active_total [of db "TrimSpace rt" "TrimSpace rid"] grants_total [of db now "TrimSpace user"]
  by (auto simp: HasGrantContext_def Let_def split: sum.splits)

lemma not_denied_iff:
  "well_formed_store db \<Longrightarrow> HasDenyContext (Some db) now user a (req_ResourceType r) (req_ResourceID r) = Inr False
     \<longleftrightarrow> \<not> denied_on db now user r a"
  using HasDenyContext_total [of db now user a "req_ResourceType r" "req_ResourceID r"] by (auto simp: denied_on_def)

interpretation production: batch_authorizer
  "\<lambda>(db, now). production_service db now" "\<lambda>(db, now) user. well_formed_store db \<and> TrimSpace user \<noteq> []"
  batch_ok "\<lambda>(db, now). resource_active db" action_decision
proof (unfold_locales, goal_cases)
  case (1 w uid a) then show ?case by (auto simp: production_service_def HasPermissionContext_total)
next
  case (2 w uid a rt rid) then show ?case by (auto simp: production_service_def HasDenyContext_total)
next
  case (3 w uid rt rid) then show ?case by (auto simp: production_service_def HasGrantContext_total)
next
  case (4 w uid r)
  then show ?case
    by (auto simp: production_service_def resource_active_def batch_ok_def request_ok_def elim!: HasGrantContext_decision)
next
  case (5 w uid rs)
  then show ?case
    by (auto simp: production_service_def batch_actions_single list_all_iff batch_ok_def action_decision_def)
next
  case (6 w uid rs)
  then show ?case by (auto simp: production_service_def batch_grants_single list_all_iff batch_ok_def)
next
  case (7 w uid r)
  then show ?case
    by (auto simp: production_service_def action_decision_def batch_ok_def globally_allowed_def [abs_def] Let_def)
next
  case (8 w uid r)
  then show ?case
    by (auto simp: production_service_def action_decision_def batch_ok_def globally_allowed_def not_denied_iff Let_def)
qed

lemma add_unseen_id: "distinct (ids @ xs) \<Longrightarrow> add_unseen ids xs = ids @ xs"
  by (induction ids xs rule: add_unseen.induct) auto

lemma add_unseen_distinct: "distinct ids \<Longrightarrow> distinct (add_unseen ids xs)"
  by (induction ids xs rule: add_unseen.induct) auto

lemma normalizedActions_normal: "normalizedBatchActions (normalizedActions acts) = normalizedActions acts"
proof -
  have "normalizedActions acts = xs \<Longrightarrow> [TrimSpace a. a \<leftarrow> xs, TrimSpace a \<noteq> []] = xs" for xs
  proof -
    assume "normalizedActions acts = xs"
    then have "\<forall>a \<in> set xs. TrimSpace a = a \<and> a \<noteq> []" by (auto simp: normalizedActions_def set_add_unseen)
    then show ?thesis by (induction xs) auto
  qed
  moreover have "distinct (normalizedActions acts)" by (simp add: normalizedActions_def add_unseen_distinct)
  ultimately show ?thesis unfolding normalizedBatchActions_def using add_unseen_id [of "[]"] by simp
qed

section \<open>Properties\<close>

lemma production_simps [simp]:
  "svc_identity (production_service db now) = FindIdentitySubject db now"
  "svc_permission (production_service db now) = HasPermissionContext (Some db) now"
  "svc_deny (production_service db now) = HasDenyContext (Some db) now"
  "svc_grant (production_service db now) = HasGrantContext (Some db) now"
  by (simp_all add: production_service_def)

text \<open>
  C2. Access is granted for a reason: when the service says yes, the user is a live, active account
  that has not expired (a super administrator may have), and either the user is a super
  administrator, or one of the requested actions is permitted to the user and, when a resource is
  named, not denied on it and covered by a grant in force.  This holds for every behaviour of the
  context and of the database.
\<close>

theorem Authorize_sound:
  assumes "Authorize (production_service db now) ctx request = Inr d" "d_Allowed d"
  defines "rt \<equiv> TrimSpace (ar_ResourceType request)" and "rid \<equiv> TrimSpace (ar_ResourceID request)"
    and "uid \<equiv> TrimSpace (ar_UserID request)"
  shows "list_ex (\<lambda>u. u_ID u = uid \<and> live (u_ActiveMarker u) \<and> u_Status u = ''active''
      \<and> (u_IsSuperAdmin u
         \<or> (unexpired now (u_ExpiresAt u)
            \<and> list_ex (\<lambda>a. HasPermissionContext (Some db) now uid a [] [] = Inr True
                \<and> (rt = [] \<or> HasDenyContext (Some db) now uid a rt rid = Inr False)) (normalizedActions (ar_Actions request))
            \<and> (rt = [] \<or> HasGrantContext (Some db) now uid rt rid = Inr True)))) (users db)"
proof -
  obtain subject where s: "FindIdentitySubject db now uid = Inr (Some subject)"
    "sub_SuperAdmin subject
       \<or> (list_ex (\<lambda>a. HasPermissionContext (Some db) now (sub_ID subject) a [] [] = Inr True
              \<and> (rt = [] \<or> HasDenyContext (Some db) now (sub_ID subject) a rt rid = Inr False)) (normalizedActions (ar_Actions request))
          \<and> (rt = [] \<or> HasGrantContext (Some db) now (sub_ID subject) rt rid = Inr True))"
    using Authorize_allowed [OF assms(1,2)] by (auto simp: rt_def rid_def uid_def)
  obtain u where u: "u \<in> set (users db)" "u_ID u = TrimSpace uid" "live (u_ActiveMarker u)"
    "u_Status u = ''active''" "u_IsSuperAdmin u \<or> unexpired now (u_ExpiresAt u)" "subject = identitySubject u"
    using FindIdentitySubject_Some [OF s(1)] .
  have "TrimSpace uid = uid" by (simp add: uid_def)
  with u s(2) show ?thesis
    unfolding list_ex_iff [of _ "users db"] by (intro bexI [of _ u]) (auto simp: identitySubject_def)
qed

text \<open>
  C3. Asking about many resources at once is asking about each of them: on a well-formed store and
  without cancellation, \<open>AuthorizeBatch\<close> gives every request that names a resource and an action the
  very decision, reason included, that \<open>Authorize\<close> gives it.
\<close>

theorem AuthorizeBatch_equiv:
  assumes "well_formed_store db"
    and "list_all (\<lambda>r. TrimSpace (ar_ResourceType r) \<noteq> [] \<and> TrimSpace (ar_ResourceID r) \<noteq> []
           \<and> normalizedActions (ar_Actions r) \<noteq> [] \<and> NUL \<notin> set (ar_ResourceType r)) requests"
  shows "\<exists>ds. AuthorizeBatch (production_service db now) (\<lambda>_. None) user requests = Inr ds
    \<and> map (\<lambda>r. Authorize (production_service db now) (\<lambda>_. None) (r\<lparr>ar_UserID := user\<rparr>)) requests = map Inr ds"
proof -
  have nul: "NUL \<notin> set x \<Longrightarrow> NUL \<notin> set (TrimSpace x)" for x using set_TrimSpace by blast
  have "\<exists>r. batch_entry request = Inr r \<and> batch_ok r"
    if "TrimSpace (ar_ResourceType request) \<noteq> []" "TrimSpace (ar_ResourceID request) \<noteq> []"
      "normalizedActions (ar_Actions request) \<noteq> []" "NUL \<notin> set (ar_ResourceType request)" for request
    using that(1-3) nul [OF that(4)] by (simp add: batch_entry_def Let_def batch_ok_def request_ok_def normalizedActions_normal)
  with assms(2) have entries: "list_all (\<lambda>request. \<exists>r. batch_entry request = Inr r \<and> batch_ok r) requests"
    by (simp add: list_all_iff)
  have "well_formed_store db \<and> TrimSpace (sub_ID subject) \<noteq> []"
    if subj: "FindIdentitySubject db now (TrimSpace user) = Inr (Some subject)" for subject
  proof -
    obtain u where "u_ID u = TrimSpace (TrimSpace user)" "subject = identitySubject u"
      by (rule FindIdentitySubject_Some [OF subj])
    moreover have "TrimSpace user \<noteq> []" using subj by (auto simp: FindIdentitySubject_def)
    ultimately show ?thesis using assms(1) by (simp add: identitySubject_def)
  qed
  moreover have "\<exists>found. FindIdentitySubject db now (TrimSpace user) = Inr found"
    using assms(1) by (auto simp: FindIdentitySubject_def store_FindIdentitySubject_def no_query_fails Let_def)
  ultimately show ?thesis
    using production.batch_is_single [of requests "(db, now)" user] entries by simp
qed

definition access_store :: store where
  "access_store = grant_store
     \<lparr>permissions := [sample_permission ''p1'' ''session:connect'' [] [] ''allow''],
      role_permissions := [\<lparr>rp_RoleID = ''r1'', rp_PermissionID = ''p1''\<rparr>]\<rparr>"

definition access_request :: AuthorizationRequest where
  "access_request = \<lparr>ar_UserID = ''u1'', ar_Actions = [''session:connect''], ar_ResourceType = ''host'', ar_ResourceID = ''h1''\<rparr>"

lemma access_granted:
  "Authorize (production_service access_store 5) (\<lambda>_. None) access_request = Inr (granted AuthorizationReasonAllowed)"
  by (simp add: Authorize_def access_request_def access_store_def grant_store_def sample_defs checker_defs grant_defs
      normalizedActions_def FindIdentitySubject_def store_FindIdentitySubject_def activeSubject_def identitySubject_def
      HasDenyContext_def Let_def)

theorem Authorize_sound_witness:
  "list_ex (\<lambda>u. u_ID u = TrimSpace ''u1'' \<and> live (u_ActiveMarker u) \<and> u_Status u = ''active''
      \<and> (u_IsSuperAdmin u
         \<or> (unexpired 5 (u_ExpiresAt u)
            \<and> list_ex (\<lambda>a. HasPermissionContext (Some access_store) 5 (TrimSpace ''u1'') a [] [] = Inr True
                \<and> (TrimSpace ''host'' = [] \<or> HasDenyContext (Some access_store) 5 (TrimSpace ''u1'') a (TrimSpace ''host'') (TrimSpace ''h1'') = Inr False))
              (normalizedActions [''session:connect''])
            \<and> (TrimSpace ''host'' = [] \<or> HasGrantContext (Some access_store) 5 (TrimSpace ''u1'') (TrimSpace ''host'') (TrimSpace ''h1'') = Inr True))))
    (users access_store)"
  using Authorize_sound [OF access_granted] by (simp add: granted_def access_request_def)

theorem AuthorizeBatch_equiv_witness:
  "\<exists>ds. AuthorizeBatch (production_service access_store 5) (\<lambda>_. None) ''u1'' [access_request] = Inr ds
    \<and> map (\<lambda>r. Authorize (production_service access_store 5) (\<lambda>_. None) (r\<lparr>ar_UserID := ''u1''\<rparr>)) [access_request] = map Inr ds"
proof (rule AuthorizeBatch_equiv)
  show "well_formed_store access_store"
    by (simp add: well_formed_store_def access_store_def grant_store_def sample_store_def
        ResourceGroupTypeResource_def ResourceGroupTypeAccount_def)
qed (simp add: access_request_def normalizedActions_def)

end
