(* ===== verification/Mysql_Gateway.thy ===== *)
theory Mysql_Gateway
  imports Mysql_Wire Go_Text "HOL-Library.AList"
begin

text \<open>
  The MySQL side of \<open>internal/server/dbproxy\<close>: what the gateway sends to and reads from a client
  before it opens the upstream connection (\<open>mysql_auth.go\<close>, \<open>mysql_client_auth.go\<close>,
  \<open>mysql_packets.go\<close>, \<open>account_auth.go\<close>, \<open>observer_protocol_helpers.go\<close>).

  Slicing a Go slice at a negative index panics.  The functions that can do so return a result
  with the constructor \<open>Panicked\<close>.  A Go map is an association list updated in place.
\<close>

section \<open>Helpers of the protocol code\<close>

definition splitCString :: "bytes \<Rightarrow> string \<times> bytes" where
  "splitCString data =
     (case index_byte NUL data of None \<Rightarrow> (data, []) | Some i \<Rightarrow> (take i data, drop (i + 1) data))"

definition mysqlPacketWithSeq :: "byte \<Rightarrow> bytes \<Rightarrow> bytes" where
  "mysqlPacketWithSeq seq payload =
     [byte_of (length payload), byte_of (drop_bit 8 (length payload)),
      byte_of (drop_bit 16 (length payload)), seq] @ payload"

definition readLengthEncodedInt :: "bytes \<Rightarrow> (u64 \<times> nat) option" where
  "readLengthEncodedInt data =
     (if length data = 0 then None
      else if data ! 0 = CHR 0xFC then
        (if length data < 3 then None else Some (of_nat (le_val (take 2 (drop 1 data))), 3))
      else if data ! 0 = CHR 0xFD then
        (if length data < 4 then None
         else Some ((of_nat (byte_val (data ! 1)) OR push_bit 8 (of_nat (byte_val (data ! 2))))
                    OR push_bit 16 (of_nat (byte_val (data ! 3))), 4))
      else if data ! 0 = CHR 0xFE then
        (if length data < 9 then None else Some (of_nat (le_val (take 8 (drop 1 data))), 9))
      else Some (of_nat (byte_val (data ! 0)), 1))"

section \<open>Reading control packets\<close>

datatype gateway_error =
    ReadFailed
  | InvalidPacketLength nat
  | NilHandshake
  | UpstreamLogin mysql_error
  | InvalidLoginPacketLength
  | InvalidLoginPacket
  | UnsupportedPre41
  | InvalidProtocol41Packet
  | EmptyUsername
  | InvalidAuthResponse
  | MissingAuthResponse
  | InvalidAuthResponseLength
  | TruncatedAuthResponse
  | MalformedSwitchRequest
  | SaltSizeNotPositive
  | HandshakeTruncated string

record mysqlPacket =
  raw :: bytes
  payload :: bytes
  seq :: byte

definition maxMySQLControlPacketBytes :: nat where
  "maxMySQLControlPacketBytes = 2 ^ 20"

definition readMySQLPacketLimited :: "conn \<Rightarrow> nat \<Rightarrow> (gateway_error + mysqlPacket) \<times> conn" where
  "readMySQLPacketLimited c maxPayloadBytes =
     (case conn_read_full 4 c of (None, c1) \<Rightarrow> (Inl ReadFailed, c1)
      | (Some header, c1) \<Rightarrow>
        (let payloadLen = header_length header in
         if payloadLen > maxPayloadBytes then (Inl (InvalidPacketLength payloadLen), c1)
         else (case conn_read_full payloadLen c1 of (None, c2) \<Rightarrow> (Inl ReadFailed, c2)
           | (Some body, c2) \<Rightarrow>
               (Inr \<lparr>raw = header @ body, payload = body, seq = header ! 3\<rparr>, c2))))"

definition readMySQLPacket :: "conn \<Rightarrow> (gateway_error + mysqlPacket) \<times> conn" where
  "readMySQLPacket c = readMySQLPacketLimited c maxMySQLControlPacketBytes"

definition buildMySQLUpstreamLogin ::
    "(bytes \<Rightarrow> bytes) \<Rightarrow> (bytes \<Rightarrow> bytes) \<Rightarrow> Handshake option \<Rightarrow> string \<Rightarrow> string \<Rightarrow> string \<Rightarrow> string \<Rightarrow>
     byte \<Rightarrow> gateway_error + bytes" where
  "buildMySQLUpstreamLogin sha1 sha256 hs username password database authPlugin sq =
     (case hs of None \<Rightarrow> Inl NilHandshake
      | Some h \<Rightarrow>
        (case BuildHandshakeResponse41 sha1 sha256 h
                \<lparr>opt_Username = username, opt_Password = password, opt_Database = database,
                 opt_AuthPlugin = authPlugin, opt_Sequence = sq, opt_TLS = (sq = CHR 0x02)\<rparr> of
           Inl e \<Rightarrow> Inl (UpstreamLogin e)
         | Inr packet \<Rightarrow> Inr packet))"

definition BuildMySQLUpstreamLogin ::
    "(bytes \<Rightarrow> bytes) \<Rightarrow> (bytes \<Rightarrow> bytes) \<Rightarrow> Handshake option \<Rightarrow> string \<Rightarrow> string \<Rightarrow> string \<Rightarrow>
     byte \<Rightarrow> gateway_error + bytes" where
  "BuildMySQLUpstreamLogin sha1 sha256 hs username password authPlugin sq =
     buildMySQLUpstreamLogin sha1 sha256 hs username password [] authPlugin sq"

section \<open>The client's login packet\<close>

definition mysqlClientConnectWithDB :: u32 where "mysqlClientConnectWithDB = push_bit 3 1"
definition mysqlClientProtocol41 :: u32 where "mysqlClientProtocol41 = push_bit 9 1"
definition mysqlClientSSL :: u32 where "mysqlClientSSL = push_bit 11 1"
definition mysqlClientSecureConnection :: u32 where "mysqlClientSecureConnection = push_bit 15 1"
definition mysqlClientPluginAuth :: u32 where "mysqlClientPluginAuth = push_bit 19 1"
definition mysqlClientConnectAttrs :: u32 where "mysqlClientConnectAttrs = push_bit 20 1"
definition mysqlClientPluginAuthLenencClientData :: u32 where
  "mysqlClientPluginAuthLenencClientData = push_bit 21 1"

lemmas gateway_flags =
  mysqlClientConnectWithDB_def mysqlClientProtocol41_def mysqlClientSSL_def
  mysqlClientSecureConnection_def mysqlClientPluginAuth_def mysqlClientConnectAttrs_def
  mysqlClientPluginAuthLenencClientData_def

definition mysqlLoginAuthResponse :: "bytes \<Rightarrow> gateway_error + bytes" where
  "mysqlLoginAuthResponse p =
     (if length p < 33 then Inl InvalidProtocol41Packet
      else
      let capabilities = (of_nat (le_val (take 4 p)) :: u32) in
      if capabilities AND mysqlClientProtocol41 = 0 then Inl UnsupportedPre41
      else
      let rest = snd (splitCString (drop 32 p));
          position = length p - length rest in
      if position \<ge> length p then Inl MissingAuthResponse
      else
      let located =
        (if capabilities AND mysqlClientPluginAuthLenencClientData \<noteq> 0 then
           (case readLengthEncodedInt (drop position p) of
              None \<Rightarrow> Inl InvalidAuthResponseLength
            | Some (v, count) \<Rightarrow>
                if v > of_nat (length p) then Inl InvalidAuthResponseLength
                else Inr (position + count, int (unat v)))
         else if capabilities AND mysqlClientSecureConnection \<noteq> 0 then
           Inr (position + 1, int (byte_val (p ! position)))
         else
           (let authRest = snd (splitCString (drop position p)) in
            Inr (position, int (length (drop position p)) - int (length authRest) - 1))) in
      (case located of Inl e \<Rightarrow> Inl e
       | Inr (pos, len) \<Rightarrow>
           if len < 0 \<or> int pos + len > int (length p) then Inl TruncatedAuthResponse
           else Inr (take (nat len) (drop pos p))))"

definition isMySQLTLSRequest :: "mysqlPacket option \<Rightarrow> bool" where
  "isMySQLTLSRequest packet =
     (case packet of None \<Rightarrow> False
      | Some p \<Rightarrow> length (payload p) = 32
          \<and> (of_nat (le_val (take 4 (payload p))) :: u32) AND mysqlClientSSL \<noteq> 0)"

definition mysqlClientAuthResponseSequence :: "byte \<Rightarrow> byte" where
  "mysqlClientAuthResponseSequence loginSequence = byte_succ loginSequence"

definition writeMySQLClientAuthOK :: "conn \<Rightarrow> byte \<Rightarrow> nat \<times> string option \<times> conn" where
  "writeMySQLClientAuthOK c sq =
     conn_write c (mysqlPacketWithSeq sq [CHR 0x00, CHR 0x00, CHR 0x00, CHR 0x02, CHR 0x00, CHR 0x00, CHR 0x00])"

definition writeMySQLClientAuthError :: "conn \<Rightarrow> byte \<Rightarrow> nat \<times> string option \<times> conn" where
  "writeMySQLClientAuthError c sq =
     conn_write c (mysqlPacketWithSeq sq
       ([CHR 0xFF, CHR 0x15, CHR 0x04] @ ''#28000'' @ ''access denied for bastion connection''))"

record loginObservation =
  User :: string
  Database :: string
  ApplicationName :: string
  ConnectAttrs :: "(string \<times> string) list"
  TLSRequested :: bool
  MetadataVisible :: bool
  Observation :: string

text \<open>The position after the authentication response.  It is a Go \<open>int\<close>: the length read from the
  packet is converted from \<open>uint64\<close> and added with wrap-around.\<close>

definition skipMySQLAuthResponse :: "bytes \<Rightarrow> nat \<Rightarrow> u32 \<Rightarrow> int" where
  "skipMySQLAuthResponse p pos capabilities =
     (if pos \<ge> length p then int pos
      else if capabilities AND mysqlClientPluginAuthLenencClientData \<noteq> 0 then
        (case readLengthEncodedInt (drop pos p) of
           None \<Rightarrow> int (length p) + 1
         | Some (len, n) \<Rightarrow> sint (of_nat pos + of_nat n + len :: u64))
      else if capabilities AND mysqlClientSecureConnection \<noteq> 0 then
        int (pos + 1 + byte_val (p ! pos))
      else int (length p) - int (length (snd (splitCString (drop pos p)))))"

text \<open>\<open>p[pos:]\<close>, \<open>None\<close> when the slice expression panics.\<close>

definition slice_from :: "bytes \<Rightarrow> int \<Rightarrow> bytes option" where
  "slice_from p pos = (if pos < 0 \<or> pos > int (length p) then None else Some (drop (nat pos) p))"

definition read_attr :: "bytes \<Rightarrow> (string \<times> bytes) option" where
  "read_attr data =
     (case readLengthEncodedInt data of None \<Rightarrow> None
      | Some (len, n) \<Rightarrow>
          if len > of_nat (length (drop n data)) then None
          else Some (take (unat len) (drop n data), drop (unat len) (drop n data)))"

lemma readLengthEncodedInt_count: "readLengthEncodedInt data = Some (v, n) \<Longrightarrow> 0 < n \<and> n \<le> length data"
  by (cases data) (auto simp: readLengthEncodedInt_def split: if_splits)

lemma read_attr_shrinks: "read_attr data = Some (s, rest) \<Longrightarrow> length rest < length data"
  by (auto simp: read_attr_def split: option.splits if_splits dest!: readLengthEncodedInt_count)

function parse_attrs_loop :: "bytes \<Rightarrow> (string \<times> string) list \<Rightarrow> (string \<times> string) list option" where
  "parse_attrs_loop data attrs =
     (if data = [] then Some attrs
      else (case read_attr data of None \<Rightarrow> None
        | Some (k, rest) \<Rightarrow>
          (case read_attr rest of None \<Rightarrow> None
           | Some (v, rest') \<Rightarrow> parse_attrs_loop rest' (AList.update k v attrs))))"
  by pat_completeness auto
termination
  by (relation "measure (\<lambda>(data, attrs). length data)")
     (auto dest!: read_attr_shrinks [OF sym] read_attr_shrinks)

declare parse_attrs_loop.simps [simp del]

definition parseMySQLConnectAttrs :: "bytes \<Rightarrow> (string \<times> string) list option" where
  "parseMySQLConnectAttrs data =
     (case readLengthEncodedInt data of None \<Rightarrow> None
      | Some (totalLen, n) \<Rightarrow>
          (let data = drop n data in
           if totalLen > of_nat (length data) then None
           else parse_attrs_loop (take (unat totalLen) data) []))"

datatype observe_result =
    Observed loginObservation
  | NeedMore
  | ObserveError gateway_error
  | Panicked

text \<open>The four steps after the user name: the authentication response is skipped, then the
  database, the plugin name and the attributes are read when their flags are set.\<close>

definition read_optional :: "bool \<Rightarrow> bytes \<Rightarrow> int \<Rightarrow> (string \<times> int) option" where
  "read_optional wanted p pos =
     (if wanted \<and> pos < int (length p) then
        (case slice_from p pos of None \<Rightarrow> None
         | Some data \<Rightarrow> (let (s, rest) = splitCString data in Some (s, int (length p) - int (length rest))))
      else Some ([], pos))"

definition observe_payload :: "bytes \<Rightarrow> observe_result" where
  "observe_payload p =
     (if length p < 4 then ObserveError InvalidLoginPacket
      else
      let capabilities = (of_nat (le_val (take 4 p)) :: u32) in
      if capabilities AND mysqlClientSSL \<noteq> 0 \<and> length p = 32 then
        Observed \<lparr>User = [], Database = [], ApplicationName = [], ConnectAttrs = [], TLSRequested = True,
                  MetadataVisible = False, Observation = ''hidden_by_tls''\<rparr>
      else if capabilities AND mysqlClientProtocol41 = 0 then ObserveError UnsupportedPre41
      else if length p < 33 then ObserveError InvalidProtocol41Packet
      else
      let (name, rest) = splitCString (drop 32 p); username = TrimSpace name in
      if username = [] then ObserveError EmptyUsername
      else
      let pos = skipMySQLAuthResponse p (length p - length rest) capabilities in
      if pos > int (length p) then ObserveError InvalidAuthResponse
      else
      (case read_optional (capabilities AND mysqlClientConnectWithDB \<noteq> 0) p pos of
         None \<Rightarrow> Panicked
       | Some (database, pos) \<Rightarrow>
         (case read_optional (capabilities AND mysqlClientPluginAuth \<noteq> 0) p pos of
            None \<Rightarrow> Panicked
          | Some (_, pos) \<Rightarrow>
            (let observation = \<lparr>User = username, Database = database, ApplicationName = [],
                                ConnectAttrs = [], TLSRequested = False, MetadataVisible = True,
                                Observation = ''plaintext''\<rparr> in
             if capabilities AND mysqlClientConnectAttrs \<noteq> 0 \<and> pos < int (length p) then
               (case slice_from p pos of None \<Rightarrow> Panicked
                | Some d \<Rightarrow>
                  (case parseMySQLConnectAttrs d of
                     None \<Rightarrow> Observed observation
                   | Some attrs \<Rightarrow>
                       Observed (if attrs \<noteq> [] then observation\<lparr>ConnectAttrs := attrs\<rparr> else observation)))
             else Observed observation))))"

text \<open>The parser keeps the bytes seen so far (\<open>pbuf\<close>); the second result is its new buffer.\<close>

definition Observe :: "bytes \<Rightarrow> bytes \<Rightarrow> observe_result \<times> bytes" where
  "Observe pbuf data =
     (let buf = pbuf @ data in
      (if length buf < 4 then NeedMore
       else
       let payloadLen = header_length buf; totalLen = 4 + payloadLen in
       if payloadLen = 0 \<or> payloadLen > 128 * 1024 * 1024 then ObserveError InvalidLoginPacketLength
       else if length buf < totalLen then NeedMore
       else observe_payload (take payloadLen (drop 4 buf)), buf))"

section \<open>The handshake the gateway sends\<close>

definition mysqlAuthSaltAlphabet :: string where
  "mysqlAuthSaltAlphabet = ''abcdefghijklmnopqrstuvwxyzABCDEFGHIJKLMNOPQRSTUVWXYZ0123456789''"

text \<open>One pass over a block of random bytes: bytes at or above the limit are skipped (so that every
  character is equally likely), the pass stops when the salt is full.\<close>

fun fill_salt :: "nat \<Rightarrow> bytes \<Rightarrow> bytes \<Rightarrow> bytes" where
  "fill_salt sz [] salt = salt"
| "fill_salt sz (v # random) salt =
     (if length salt = sz then salt
      else if byte_val v \<ge> 256 - 256 mod length mysqlAuthSaltAlphabet then fill_salt sz random salt
      else fill_salt sz random
             (salt @ [mysqlAuthSaltAlphabet ! (byte_val v mod length mysqlAuthSaltAlphabet)]))"

text \<open>The outer loop reads block after block from \<open>crypto/rand\<close> (the list of blocks it returns);
  \<open>None\<close>: the blocks given are not enough yet.\<close>

fun salt_loop :: "nat \<Rightarrow> bytes list \<Rightarrow> bytes \<Rightarrow> bytes option" where
  "salt_loop sz blocks salt =
     (if length salt \<ge> sz then Some salt
      else (case blocks of [] \<Rightarrow> None | b # bs \<Rightarrow> salt_loop sz bs (fill_salt sz b salt)))"

declare salt_loop.simps [simp del]

definition generateMySQLAuthSalt :: "bytes list \<Rightarrow> int \<Rightarrow> gateway_error + bytes option" where
  "generateMySQLAuthSalt blocks sz =
     (if sz \<le> 0 then Inl SaltSizeNotPositive else Inr (salt_loop (nat sz) blocks []))"

definition fakeHandshakePayload :: "bytes \<Rightarrow> bool \<Rightarrow> bytes" where
  "fakeHandshakePayload salt tlsEnabled =
     (let capFlags = mysqlClientConnectWithDB OR mysqlClientProtocol41 OR mysqlClientSecureConnection
                       OR mysqlClientPluginAuth;
          capFlags = (if tlsEnabled then capFlags OR mysqlClientSSL else capFlags) in
      [byte_of 10] @ ''8.0.28'' @ [NUL]
      @ le_bytes 4 (le_val (take 4 salt))
      @ take 8 salt @ [NUL]
      @ le_bytes 2 (unat (capFlags AND 0xFFFF))
      @ [byte_of 33] @ [NUL, NUL]
      @ le_bytes 2 (unat (drop_bit 16 capFlags))
      @ [byte_of 21] @ replicate 10 NUL
      @ take 12 (drop 8 salt) @ [NUL]
      @ ''mysql_native_password'' @ [NUL])"

definition sendFakeMySQLHandshakeWithTLS ::
    "bytes list \<Rightarrow> conn \<Rightarrow> bool \<Rightarrow> (gateway_error + bytes option) \<times> string option \<times> conn" where
  "sendFakeMySQLHandshakeWithTLS blocks c tlsEnabled =
     (case generateMySQLAuthSalt blocks 20 of
        Inl e \<Rightarrow> (Inl e, None, c)
      | Inr None \<Rightarrow> (Inr None, None, c)
      | Inr (Some salt) \<Rightarrow>
          (let (_, err, c') = conn_write c (mysqlPacketWithSeq NUL (fakeHandshakePayload salt tlsEnabled))
           in (Inr (Some salt), err, c')))"

definition sendFakeMySQLHandshake ::
    "bytes list \<Rightarrow> conn \<Rightarrow> (gateway_error + bytes option) \<times> string option \<times> conn" where
  "sendFakeMySQLHandshake blocks c = sendFakeMySQLHandshakeWithTLS blocks c False"

section \<open>The upstream server's handshake, as the gateway parses it\<close>

text \<open>\<open>copy(dst[k:], src)\<close> on a slice of fixed length.\<close>

definition copy_at :: "nat \<Rightarrow> bytes \<Rightarrow> bytes \<Rightarrow> bytes" where
  "copy_at k dst src =
     (let n = min (length dst - k) (length src) in take k dst @ take n src @ drop (k + n) dst)"

definition ParseMySQLHandshake :: "bytes \<Rightarrow> gateway_error + Handshake" where
  "ParseMySQLHandshake p =
     (if length p < 1 then Inl (HandshakeTruncated ''packet'')
      else let protocolVersion = p ! 0; pos = 1 in
      (case index_byte NUL (drop pos p) of None \<Rightarrow> Inl (HandshakeTruncated ''server version'')
       | Some serverVersionEnd \<Rightarrow>
         (let serverVersion = take serverVersionEnd (drop pos p); pos = pos + serverVersionEnd + 1 in
          if length (drop pos p) < 4 then Inl (HandshakeTruncated ''connection id'')
          else
          let connectionID = (of_nat (le_val (take 4 (drop pos p))) :: u32); pos = pos + 4 in
          if length (drop pos p) < 8 then Inl (HandshakeTruncated ''auth data part 1'')
          else
          let authData = copy_at 0 (replicate 20 NUL) (take 8 (drop pos p)); pos = pos + 8 in
          if length (drop pos p) < 1 then Inl (HandshakeTruncated ''filler'')
          else
          let pos = pos + 1 in
          if length (drop pos p) < 2 then Inl (HandshakeTruncated ''capability flags lower'')
          else
          let capLower = le_val (take 2 (drop pos p)); pos = pos + 2 in
          if length (drop pos p) < 1 then Inl (HandshakeTruncated ''character set'')
          else
          let characterSet = p ! pos; pos = pos + 1 in
          if length (drop pos p) < 2 then Inl (HandshakeTruncated ''status flags'')
          else
          let statusFlags = (of_nat (le_val (take 2 (drop pos p))) :: u16); pos = pos + 2 in
          if length (drop pos p) < 2 then Inl (HandshakeTruncated ''capability flags upper'')
          else
          let capUpper = le_val (take 2 (drop pos p)); pos = pos + 2;
              capabilityFlags = (of_nat capLower :: u32) OR push_bit 16 (of_nat capUpper) in
          if length (drop pos p) < 1 then Inl (HandshakeTruncated ''auth plugin data len'')
          else
          let authPluginDataLen = int (byte_val (p ! pos)); pos = pos + 1 in
          if length (drop pos p) < 10 then Inl (HandshakeTruncated ''reserved bytes'')
          else
          let pos = pos + 10;
              part2Len = (if authPluginDataLen > 0 then authPluginDataLen - 8 else 12);
              part2Len = (if part2Len > int (length (drop pos p)) then int (length (drop pos p)) else part2Len);
              authData = (if part2Len > 0 then copy_at 8 authData (take (nat part2Len) (drop pos p)) else authData);
              pos = (if part2Len > 0 then pos + nat part2Len else pos);
              authPluginName =
                (if capabilityFlags AND mysqlClientPluginAuth \<noteq> 0 \<and> pos < length p
                 then (case index_byte NUL (drop pos p) of
                         None \<Rightarrow> ''mysql_native_password'' | Some e \<Rightarrow> take e (drop pos p))
                 else ''mysql_native_password'') in
            Inr \<lparr>ProtocolVersion = protocolVersion, ServerVersion = serverVersion,
                 ConnectionID = connectionID, AuthData = authData, CapabilityFlags = capabilityFlags,
                 CharacterSet = characterSet, StatusFlags = statusFlags, AuthPluginName = authPluginName\<rparr>)))"

section \<open>Authentication responses and the continuation of the upstream login\<close>

definition BuildMySQLNativePassword :: "(bytes \<Rightarrow> bytes) \<Rightarrow> string \<Rightarrow> bytes \<Rightarrow> bytes" where
  "BuildMySQLNativePassword sha1 password salt =
     (let salt = (if length salt > 20 then take 20 salt else salt);
          h1 = sha1 password; h2 = sha1 h1; h3 = sha1 (salt @ h2)
      in map (\<lambda>i. byte_xor (h1 ! i) (h3 ! i)) [0..<20])"

definition BuildMySQLCachingSha2Password :: "(bytes \<Rightarrow> bytes) \<Rightarrow> string \<Rightarrow> bytes \<Rightarrow> bytes" where
  "BuildMySQLCachingSha2Password sha256 password salt =
     (let salt = (if length salt > 20 then take 20 salt else salt);
          h1 = sha256 password; h2 = sha256 h1; h3 = sha256 (salt @ h2)
      in map (\<lambda>i. byte_xor (h1 ! i) (h3 ! i)) [0..<32])"

definition BuildMySQLAuthResponse ::
    "(bytes \<Rightarrow> bytes) \<Rightarrow> (bytes \<Rightarrow> bytes) \<Rightarrow> string \<Rightarrow> string \<Rightarrow> bytes \<Rightarrow> bytes option" where
  "BuildMySQLAuthResponse sha1 sha256 plugin password salt =
     (if plugin = ''mysql_native_password'' then Some (BuildMySQLNativePassword sha1 password salt)
      else if plugin = ''caching_sha2_password'' then Some (BuildMySQLCachingSha2Password sha256 password salt)
      else None)"

definition parseMySQLAuthSwitch :: "bytes \<Rightarrow> gateway_error + (string \<times> bytes)" where
  "parseMySQLAuthSwitch p =
     (case index_byte NUL p of None \<Rightarrow> Inl MalformedSwitchRequest
      | Some separator \<Rightarrow> Inr (take separator p, drop (separator + 1) p))"

definition mysqlResponseSequence :: "byte \<Rightarrow> byte" where
  "mysqlResponseSequence serverSequence = byte_succ serverSequence"

definition MySQLCachingSHA2AuthMoreData :: "bytes \<Rightarrow> byte option" where
  "MySQLCachingSHA2AuthMoreData p =
     (if length p = 2 \<and> p ! 0 = CHR 0x01 \<and> (p ! 1 = CHR 0x03 \<or> p ! 1 = CHR 0x04) then Some (p ! 1)
      else if length p = 1 \<and> (p ! 0 = CHR 0x03 \<or> p ! 0 = CHR 0x04) then Some (p ! 0)
      else None)"

section \<open>Facts about the salt and the two handshakes\<close>

lemma length_mysqlAuthSaltAlphabet [simp]: "length mysqlAuthSaltAlphabet = 62"
  by (simp add: mysqlAuthSaltAlphabet_def)






lemma le_bytes_2: "le_bytes 2 n = [byte_of n, byte_of (n div 256)]"
  by (simp add: numeral_2_eq_2)

lemma fakeHandshakePayload_explicit:
  "fakeHandshakePayload [s0,s1,s2,s3,s4,s5,s6,s7,s8,s9,s10,s11,s12,s13,s14,s15,s16,s17,s18,s19] tls =
   [CHR 0x0A] @ ''8.0.28'' @ [NUL, s0, s1, s2, s3, s0,s1,s2,s3,s4,s5,s6,s7, NUL,
    CHR 0x08, if tls then CHR 0x8A else CHR 0x82, CHR 0x21, NUL, NUL, CHR 0x08, NUL, CHR 0x15,
    NUL,NUL,NUL,NUL,NUL,NUL,NUL,NUL,NUL,NUL,
    s8,s9,s10,s11,s12,s13,s14,s15,s16,s17,s18,s19, NUL] @ ''mysql_native_password'' @ [NUL]"
proof -
  have r: "replicate 10 NUL = [NUL,NUL,NUL,NUL,NUL,NUL,NUL,NUL,NUL,NUL]"
    by (simp add: numeral_eq_Suc)
  have c: "le_bytes 4 (le_val [s0,s1,s2,s3]) = [s0,s1,s2,s3]"
    by (rule le_bytes_le_val) simp
  show ?thesis
    by (simp add: fakeHandshakePayload_def Let_def gateway_flags r c le_bytes_2 char_of_eq_iff del: le_val.simps)
qed

definition gateway_handshake :: "bytes \<Rightarrow> bool \<Rightarrow> Handshake" where
  "gateway_handshake salt tls =
     \<lparr>ProtocolVersion = CHR 0x0A, ServerVersion = ''8.0.28'',
      ConnectionID = of_nat (le_val (take 4 salt)), AuthData = salt,
      CapabilityFlags = (if tls then 0x88A08 else 0x88208), CharacterSet = CHR 0x21, StatusFlags = 0,
      AuthPluginName = ''mysql_native_password''\<rparr>"

lemma fakeHandshake_parse:
  assumes "length salt = 20"
  shows "ParseHandshake (fakeHandshakePayload salt tls) = Inr (gateway_handshake salt tls)"
    and "ParseMySQLHandshake (fakeHandshakePayload salt tls) = Inr (gateway_handshake salt tls)"
proof -
  obtain s0 s1 s2 s3 s4 s5 s6 s7 s8 s9 s10 s11 s12 s13 s14 s15 s16 s17 s18 s19
    where salt: "salt = [s0,s1,s2,s3,s4,s5,s6,s7,s8,s9,s10,s11,s12,s13,s14,s15,s16,s17,s18,s19]"
    using assms by (auto simp: numeral_eq_Suc length_Suc_conv)
  have v: "le_val [CHR 0x08, CHR 0x82] = 33288" "le_val [CHR 0x08, CHR 0x8A] = 35336"
     "le_val [CHR 0x08, NUL] = 8" "le_val [NUL, NUL] = 0" by simp_all
  have r: "replicate 20 NUL = [NUL,NUL,NUL,NUL,NUL,NUL,NUL,NUL,NUL,NUL,NUL,NUL,NUL,NUL,NUL,NUL,NUL,NUL,NUL,NUL]"
    by (simp add: numeral_eq_Suc)
  show "ParseHandshake (fakeHandshakePayload salt tls) = Inr (gateway_handshake salt tls)"
    unfolding salt fakeHandshakePayload_explicit
    by (cases tls) (simp_all add: client_flags ParseHandshake_def Let_def v trim_suffix_byte_def
        join_salt_def plugin_name_def gateway_handshake_def del: le_val.simps)
  show "ParseMySQLHandshake (fakeHandshakePayload salt tls) = Inr (gateway_handshake salt tls)"
    unfolding salt fakeHandshakePayload_explicit
    by (cases tls) (simp_all add: gateway_flags ParseMySQLHandshake_def Let_def v copy_at_def r
        gateway_handshake_def del: le_val.simps replicate.simps)
qed

section \<open>The layout of a protocol 4.1 login packet\<close>

definition login_layout :: "u32 \<Rightarrow> bytes \<Rightarrow> string \<Rightarrow> bytes \<Rightarrow> bytes" where
  "login_layout capabilities filler user body =
     le_bytes 4 (unat capabilities) @ filler @ user @ [NUL] @ body"

lemma login_layout_simps:
  fixes capabilities :: u32 and filler user body :: bytes
  assumes "length filler = 28" "NUL \<notin> set user"
  defines "p \<equiv> login_layout capabilities filler user body"
  shows "length p = 33 + length user + length body"
    and "of_nat (le_val (take 4 p)) = capabilities"
    and "splitCString (drop 32 p) = (user, body)"
    and "length p - length body = 33 + length user"
    and "drop (33 + length user) p = body"
proof -
  show "of_nat (le_val (take 4 p)) = capabilities"
    by (simp add: p_def login_layout_def)
qed (use assms in \<open>simp_all add: login_layout_def splitCString_def\<close>)


lemma Observe_packet:
  assumes "0 < length p" "length p < 2 ^ 24"
  shows "Observe [] (mysqlPacketWithSeq q p) = (observe_payload p, mysqlPacketWithSeq q p)"
proof -
  have h: "mysqlPacketWithSeq q p = (le_bytes 3 (length p) @ [q]) @ p"
    by (simp add: mysqlPacketWithSeq_def numeral_3_eq_3 drop_bit_eq_div div_mult2_eq [symmetric])
  have "header_length ((le_bytes 3 (length p) @ [q]) @ p) = header_length (le_bytes 3 (length p) @ [q])"
    by (simp add: header_length_def nth_append)
  also have "\<dots> = length p"
    using assms by (simp add: header_length_le_val le_val_le_bytes)
  finally have "header_length (mysqlPacketWithSeq q p) = length p" by (simp only: h)
  moreover have "length (mysqlPacketWithSeq q p) = 4 + length p" "drop 4 (mysqlPacketWithSeq q p) = p"
    by (simp_all add: mysqlPacketWithSeq_def)
  ultimately show ?thesis
    using assms by (simp add: Observe_def Let_def)
qed

lemma skip_lenenc_layout:
  assumes "length filler = 28" "NUL \<notin> set user"
    and "capabilities AND mysqlClientPluginAuthLenencClientData \<noteq> 0"
  shows "skipMySQLAuthResponse (login_layout capabilities filler user (CHR 0xFE # le_bytes 8 (unat v) @ tail))
      (33 + length user) capabilities = sint (of_nat (42 + length user) + v :: u64)"
proof -
  have d: "drop (33 + length user) (login_layout capabilities filler user (CHR 0xFE # le_bytes 8 (unat v) @ tail))
      = CHR 0xFE # le_bytes 8 (unat v) @ tail"
    by (rule login_layout_simps) (use assms in auto)
  have "readLengthEncodedInt (CHR 0xFE # le_bytes 8 (unat v) @ tail) = Some (v, 9)"
    by (simp add: readLengthEncodedInt_def)
  then show ?thesis
    using assms(3) d login_layout_simps(1) [OF assms(1,2)]
    by (simp add: skipMySQLAuthResponse_def ac_simps)
qed

lemma observe_payload_negative:
  assumes layout: "length filler = 28" "NUL \<notin> set user" "TrimSpace user \<noteq> []"
    and flags: "capabilities AND mysqlClientProtocol41 \<noteq> 0"
      "capabilities AND mysqlClientPluginAuthLenencClientData \<noteq> 0"
      "capabilities AND mysqlClientConnectWithDB \<noteq> 0"
    and wraps: "sint (of_nat (42 + length user) + v :: u64) < 0"
  shows "observe_payload (login_layout capabilities filler user (CHR 0xFE # le_bytes 8 (unat v) @ tail)) = Panicked"
  using flags wraps layout(3)
  by (simp add: observe_payload_def Let_def login_layout_simps(1-4) [OF layout(1,2)]
      skip_lenenc_layout [OF layout(1,2) flags(2)] read_optional_def slice_from_def)

text \<open>
  C37. A login packet that announces a length-encoded authentication response of a length whose
  conversion to \<open>int\<close> and addition to the position wrap to a negative number makes the login
  parser slice its payload at a negative index, which panics.  Nothing about the client has been
  authenticated when the parser runs.
\<close>

theorem Observe_panics_on_wrapped_length:
  assumes "length filler = 28" "NUL \<notin> set user" "TrimSpace user \<noteq> []"
    and "capabilities AND mysqlClientProtocol41 \<noteq> 0"
      "capabilities AND mysqlClientPluginAuthLenencClientData \<noteq> 0"
      "capabilities AND mysqlClientConnectWithDB \<noteq> 0"
    and "sint (of_nat (42 + length user) + v :: u64) < 0"
    and "length user + length tail < 2 ^ 23"
  shows "fst (Observe [] (mysqlPacketWithSeq sequence
    (login_layout capabilities filler user (CHR 0xFE # le_bytes 8 (unat v) @ tail)))) = Panicked"
  using assms observe_payload_negative [OF assms(1-7), of tail]
  by (subst Observe_packet) (simp_all add: login_layout_simps(1) [OF assms(1,2)])

theorem Observe_panics_on_wrapped_length_witness:
  "fst (Observe [] (mysqlPacketWithSeq (CHR 0x01)
    (login_layout 0x200208 (replicate 28 NUL) ''root'' (CHR 0xFE # le_bytes 8 (unat (2 ^ 63 :: u64)) @ [])))) = Panicked"
proof (rule Observe_panics_on_wrapped_length)
  show "TrimSpace ''root'' \<noteq> []" by code_simp
qed (simp_all add: gateway_flags)

lemma read_optional_nonneg:
  "0 \<le> pos \<Longrightarrow> \<exists>s q. read_optional w p pos = Some (s, q) \<and> 0 \<le> q"
  by (auto simp: read_optional_def slice_from_def splitCString_def Let_def split: option.splits prod.splits)

lemma observe_payload_total:
  assumes "of_nat (le_val (take 4 p)) AND mysqlClientPluginAuthLenencClientData = 0"
  shows "observe_payload p \<noteq> Panicked"
proof -
  let ?caps = "of_nat (le_val (take 4 p)) :: u32"
  obtain name rest where sp: "splitCString (drop 32 p) = (name, rest)" by fastforce
  let ?pos = "skipMySQLAuthResponse p (length p - length rest) ?caps"
  have "0 \<le> ?pos"
    using assms by (simp add: skipMySQLAuthResponse_def splitCString_def split: option.splits)
  then obtain s q s' q' where
      "read_optional (?caps AND mysqlClientConnectWithDB \<noteq> 0) p ?pos = Some (s, q)"
      "read_optional (?caps AND mysqlClientPluginAuth \<noteq> 0) p q = Some (s', q')" "0 \<le> q'"
    by (meson read_optional_nonneg)
  then show ?thesis
    by (auto simp: observe_payload_def sp Let_def slice_from_def split: option.splits)
qed

text \<open>
  Without the length-encoded flag the parser never panics, whatever bytes the client sends and
  however they are buffered.
\<close>

theorem Observe_no_panic_without_lenenc:
  assumes "of_nat (le_val (take 4 (drop 4 (pbuf @ data)))) AND mysqlClientPluginAuthLenencClientData = 0"
  shows "fst (Observe pbuf data) \<noteq> Panicked"
proof -
  let ?b = "pbuf @ data"
  let ?p = "take (header_length ?b) (drop 4 ?b)"
  show ?thesis
  proof (cases "length ?p < 4")
    case True
    then have "observe_payload ?p \<noteq> Panicked" by (simp add: observe_payload_def)
    then show ?thesis by (simp add: Observe_def Let_def)
  next
    case False
    then have "4 \<le> header_length ?b" by simp
    then have "take 4 ?p = take 4 (drop 4 ?b)" by (simp only: take_take min_absorb1)
    with assms have "observe_payload ?p \<noteq> Panicked"
      by (intro observe_payload_total) simp
    then show ?thesis by (simp add: Observe_def Let_def)
  qed
qed

theorem Observe_no_panic_without_lenenc_witness:
  "fst (Observe [] ''abcdefAhij'') \<noteq> Panicked"
  by (rule Observe_no_panic_without_lenenc) (simp add: gateway_flags)

section \<open>A client that answers the gateway's handshake\<close>

definition native_login_body :: "bytes \<Rightarrow> string \<Rightarrow> bytes" where
  "native_login_body response database =
     byte_of 20 # response @ (if database = [] then [] else database @ [NUL]) @ ''mysql_native_password'' @ [NUL]"

definition native_login_flags :: "string \<Rightarrow> u32" where
  "native_login_flags database = (if database = [] then 0x88200 else 0x88208)"

definition native_login_filler :: bytes where
  "native_login_filler = le_bytes 4 (2 ^ 24) @ [CHR 0x21] @ replicate 23 NUL"

lemma BuildHandshakeResponse41_gateway:
  assumes "length salt = 20" "\<And>x. length (sha1 x) = 20"
  shows "BuildHandshakeResponse41 sha1 sha256 (gateway_handshake salt tls)
      \<lparr>opt_Username = user, opt_Password = pw, opt_Database = database, opt_AuthPlugin = [],
       opt_Sequence = sq, opt_TLS = False\<rparr>
    = EncodePacket sq (login_layout (native_login_flags database) native_login_filler user
        (native_login_body (challenge_response sha1 pw salt) database))"
  using assms length_challenge_response [of sha1 20 pw salt]
  by (simp add: BuildHandshakeResponse41_def BuildAuthResponse_def gateway_handshake_def client_flags
      login_layout_def native_login_flags_def native_login_filler_def native_login_body_def Let_def char_of_eq_iff)

lemma observe_native_login:
  assumes "length response = 20" "NUL \<notin> set user" "TrimSpace user = user" "user \<noteq> []" "NUL \<notin> set database"
  defines "p \<equiv> login_layout (native_login_flags database) native_login_filler user (native_login_body response database)"
  shows "observe_payload p = Observed \<lparr>User = user, Database = database, ApplicationName = [],
      ConnectAttrs = [], TLSRequested = False, MetadataVisible = True, Observation = ''plaintext''\<rparr>"
    and "mysqlLoginAuthResponse p = Inr response"
proof -
  have filler: "length native_login_filler = 28" by (simp add: native_login_filler_def)
  note layout = login_layout_simps [OF filler assms(2), of "native_login_flags database" "native_login_body response database",
     folded p_def]
  have nth: "p ! (33 + length user) = byte_of 20"
    using layout(5) by (metis native_login_body_def drop_eq_Nil hd_drop_conv_nth linorder_not_less list.distinct(1) list.sel(1))
  have body: "length (native_login_body response database) = 43 + (if database = [] then 0 else Suc (length database))"
    using assms(1) by (simp add: native_login_body_def)
  have skip: "skipMySQLAuthResponse p (33 + length user) (native_login_flags database) = int (54 + length user)"
    using layout(1) body nth
    by (simp add: skipMySQLAuthResponse_def native_login_flags_def gateway_flags)
  have d: "drop (54 + length user) p = (if database = [] then [] else database @ [NUL]) @ ''mysql_native_password'' @ [NUL]"
    using assms(1) filler by (simp add: p_def login_layout_def native_login_body_def)
  have db: "read_optional (native_login_flags database AND mysqlClientConnectWithDB \<noteq> 0) p (int (54 + length user))
      = Some (database, int (54 + length user + (if database = [] then 0 else Suc (length database))))"
    using layout(1) body d assms(5)
    by (simp add: read_optional_def native_login_flags_def gateway_flags slice_from_def splitCString_def nat_add_distrib)
  then obtain q where db': "read_optional (native_login_flags database AND mysqlClientConnectWithDB \<noteq> 0) p
      (int (54 + length user)) = Some (database, q)" and "0 \<le> q" by simp
  then obtain s q' where plugin: "read_optional (native_login_flags database AND mysqlClientPluginAuth \<noteq> 0) p q = Some (s, q')"
    using read_optional_nonneg by blast
  have pl: "native_login_flags database AND mysqlClientConnectAttrs = 0"
    "native_login_flags database AND mysqlClientProtocol41 \<noteq> 0"
    "native_login_flags database AND mysqlClientSSL = 0"
    "native_login_flags database AND mysqlClientSecureConnection \<noteq> 0"
    "native_login_flags database AND mysqlClientPluginAuthLenencClientData = 0"
    by (simp_all add: native_login_flags_def gateway_flags)
  show "observe_payload p = Observed \<lparr>User = user, Database = database, ApplicationName = [],
      ConnectAttrs = [], TLSRequested = False, MetadataVisible = True, Observation = ''plaintext''\<rparr>"
    using layout(1-4) body skip db' plugin pl assms(3,4)
    by (simp add: observe_payload_def Let_def del: of_nat_add)
  show "mysqlLoginAuthResponse p = Inr response"
    using layout body nth pl assms(1) filler
    by (simp add: mysqlLoginAuthResponse_def Let_def p_def login_layout_def native_login_body_def)
qed

text \<open>
  C23. The whole login of a client that knows the password.  The client parses the handshake the
  gateway sent with the salt of this connection, and answers it; from the packet it sends, the
  gateway reads back the user and database names, and the authentication response it extracts
  passes the check against the stored double hash of the password.
\<close>

theorem mysql_login_end_to_end:
  assumes "\<And>x. length (sha1 x) = 20"
    and "length salt = 20" "NUL \<notin> set user" "TrimSpace user = user" "user \<noteq> []" "NUL \<notin> set database"
    and "length user + length database < 2 ^ 20"
  shows "\<exists>h packet p.
    ParseHandshake (fakeHandshakePayload salt tls) = Inr h
    \<and> BuildHandshakeResponse41 sha1 sha256 h
       \<lparr>opt_Username = user, opt_Password = pw, opt_Database = database, opt_AuthPlugin = [],
        opt_Sequence = sq, opt_TLS = False\<rparr> = Inr packet
    \<and> packet = mysqlPacketWithSeq sq p
    \<and> fst (Observe [] packet) = Observed \<lparr>User = user, Database = database, ApplicationName = [],
        ConnectAttrs = [], TLSRequested = False, MetadataVisible = True, Observation = ''plaintext''\<rparr>
    \<and> (\<exists>r. mysqlLoginAuthResponse p = Inr r
       \<and> VerifyMySQLNativePasswordResponse sha1 (MySQLNativePasswordHash sha1 pw) salt r)"
proof -
  let ?r = "challenge_response sha1 pw salt"
  let ?p = "login_layout (native_login_flags database) native_login_filler user (native_login_body ?r database)"
  have r: "length ?r = 20" by (rule length_challenge_response) (rule assms(1))
  have len: "0 < length ?p" "length ?p < 2 ^ 24"
    using assms(7) r by (simp_all add: login_layout_def native_login_body_def native_login_filler_def)
  have enc: "BuildHandshakeResponse41 sha1 sha256 (gateway_handshake salt tls)
      \<lparr>opt_Username = user, opt_Password = pw, opt_Database = database, opt_AuthPlugin = [],
        opt_Sequence = sq, opt_TLS = False\<rparr> = Inr (mysqlPacketWithSeq sq ?p)"
    using len BuildHandshakeResponse41_gateway [OF assms(2), of sha1] assms(1)
    by (simp add: EncodePacket_def mysqlPacketWithSeq_def MaxPacketPayloadBytes_def)
  note obs = observe_native_login [OF r assms(3-6)]
  have "VerifyMySQLNativePasswordResponse sha1 (MySQLNativePasswordHash sha1 pw) salt ?r"
    using assms(1,2) r
    by (simp add: VerifyMySQLNativePasswordResponse_def MySQLNativePasswordHash_def sha1_size_def Let_def
        challenge_response_def xor_bytes_cancel)
  then show ?thesis
    using fakeHandshake_parse(1) [OF assms(2), of tls] enc Observe_packet [OF len, of sq] obs
    by (metis fst_conv)
qed

theorem mysql_login_end_to_end_witness:
  "\<exists>h packet p.
    ParseHandshake (fakeHandshakePayload (replicate 20 CHR ''s'') False) = Inr h
    \<and> BuildHandshakeResponse41 (\<lambda>_. replicate 20 CHR ''h'') (\<lambda>_. []) h
       \<lparr>opt_Username = ''Habc'', opt_Password = ''pw'', opt_Database = ''sales'', opt_AuthPlugin = [],
        opt_Sequence = CHR 0x01, opt_TLS = False\<rparr> = Inr packet
    \<and> packet = mysqlPacketWithSeq (CHR 0x01) p
    \<and> fst (Observe [] packet) = Observed \<lparr>User = ''Habc'', Database = ''sales'', ApplicationName = [],
        ConnectAttrs = [], TLSRequested = False, MetadataVisible = True, Observation = ''plaintext''\<rparr>
    \<and> (\<exists>r. mysqlLoginAuthResponse p = Inr r
       \<and> VerifyMySQLNativePasswordResponse (\<lambda>_. replicate 20 CHR ''h'')
           (MySQLNativePasswordHash (\<lambda>_. replicate 20 CHR ''h'') ''pw'') (replicate 20 CHR ''s'') r)"
proof (rule mysql_login_end_to_end)
  show "TrimSpace ''Habc'' = ''Habc''" by code_simp
qed simp_all

section \<open>The two builders of authentication responses agree\<close>

lemma xor_bytes_nth:
  "length xs = n \<Longrightarrow> length ys = n \<Longrightarrow> map (\<lambda>i. byte_xor (xs ! i) (ys ! i)) [0..<n] = xor_bytes xs ys"
  by (rule nth_equalityI) (simp_all add: xor_bytes_def)

text \<open>
  The gateway's own response builder and the one of the wire package compute the same response
  for every plugin, password and salt, given digests of the lengths of SHA-1 and SHA-256.
\<close>

theorem BuildMySQLAuthResponse_equiv:
  assumes "\<And>x. length (sha1 x) = 20" "\<And>x. length (sha256 x) = 32"
  shows "BuildMySQLAuthResponse sha1 sha256 plugin pw salt =
    (case BuildAuthResponse sha1 sha256 plugin pw salt of Inl e \<Rightarrow> None | Inr r \<Rightarrow> Some r)"
  using assms
  by (simp add: BuildMySQLAuthResponse_def BuildAuthResponse_def BuildMySQLNativePassword_def
     BuildMySQLCachingSha2Password_def challenge_response_def Let_def xor_bytes_nth)

theorem BuildMySQLAuthResponse_equiv_witness:
  "BuildMySQLAuthResponse (\<lambda>_. replicate 20 CHR ''x'') (\<lambda>_. replicate 32 CHR ''y'') ''mysql_native_password'' ''pw'' ''salt''
    = (case BuildAuthResponse (\<lambda>_. replicate 20 CHR ''x'') (\<lambda>_. replicate 32 CHR ''y'') ''mysql_native_password'' ''pw'' ''salt''
       of Inl e \<Rightarrow> None | Inr r \<Rightarrow> Some r)"
  by (rule BuildMySQLAuthResponse_equiv) simp_all



end
