(* ===== verification/Rbac_Actions.thy ===== *)
theory Rbac_Actions
  imports Prelude
begin

text \<open>The names of the actions (\<open>internal/rbac/resources.go\<close>), which the services, the gateways and the
  permission catalog share.\<close>

definition ActionDBConnect :: string where "ActionDBConnect = ''db:connect''"
definition ActionDBQuery :: string where "ActionDBQuery = ''db:query''"
definition ActionDBExecute :: string where "ActionDBExecute = ''db:execute''"
definition ActionSessionConnect :: string where "ActionSessionConnect = ''session:connect''"
definition ActionSFTPConnect :: string where "ActionSFTPConnect = ''sftp:connect''"
definition ActionRDPConnect :: string where "ActionRDPConnect = ''rdp:connect''"
definition ActionRDPClipboardRead :: string where "ActionRDPClipboardRead = ''rdp:clipboard:read''"
definition ActionRDPClipboardWrite :: string where "ActionRDPClipboardWrite = ''rdp:clipboard:write''"
definition ActionRDPFileUpload :: string where "ActionRDPFileUpload = ''rdp:file:upload''"
definition ActionRDPFileDownload :: string where "ActionRDPFileDownload = ''rdp:file:download''"
definition ActionRDPDriveMap :: string where "ActionRDPDriveMap = ''rdp:drive:map''"
definition ActionRDPRecordingView :: string where "ActionRDPRecordingView = ''rdp:recording:view''"
definition ActionAuditView :: string where "ActionAuditView = ''audit:view''"
definition ActionDBAuditView :: string where "ActionDBAuditView = ''db:audit:view''"
definition ActionHostCreate :: string where "ActionHostCreate = ''host:create''"
definition ActionHostUpdate :: string where "ActionHostUpdate = ''host:update''"
definition ActionHostDelete :: string where "ActionHostDelete = ''host:delete''"
definition ActionHostView :: string where "ActionHostView = ''host:view''"
definition ActionTargetCreate :: string where "ActionTargetCreate = ''target:create''"
definition ActionTargetUpdate :: string where "ActionTargetUpdate = ''target:update''"
definition ActionTargetDelete :: string where "ActionTargetDelete = ''target:delete''"
definition ActionTargetView :: string where "ActionTargetView = ''target:view''"
definition ActionDBProxyCreate :: string where "ActionDBProxyCreate = ''dbproxy:create''"
definition ActionDBProxyUpdate :: string where "ActionDBProxyUpdate = ''dbproxy:update''"
definition ActionDBProxyDelete :: string where "ActionDBProxyDelete = ''dbproxy:delete''"
definition ActionDBProxyView :: string where "ActionDBProxyView = ''dbproxy:view''"
definition ActionRBACManage :: string where "ActionRBACManage = ''rbac:manage''"
definition ActionSessionView :: string where "ActionSessionView = ''session:view''"
definition ActionSessionDisconnect :: string where "ActionSessionDisconnect = ''session:disconnect''"
definition ActionAppCreate :: string where "ActionAppCreate = ''application:create''"
definition ActionAppUpdate :: string where "ActionAppUpdate = ''application:update''"
definition ActionAppDelete :: string where "ActionAppDelete = ''application:delete''"
definition ActionAppView :: string where "ActionAppView = ''application:view''"
definition ActionAppConnect :: string where "ActionAppConnect = ''app:connect''"
definition ActionAIManage :: string where "ActionAIManage = ''ai:access:manage''"
definition ActionContainerCreate :: string where "ActionContainerCreate = ''container:create''"
definition ActionContainerUpdate :: string where "ActionContainerUpdate = ''container:update''"
definition ActionContainerDelete :: string where "ActionContainerDelete = ''container:delete''"
definition ActionContainerView :: string where "ActionContainerView = ''container:view''"
definition ActionContainerConnect :: string where "ActionContainerConnect = ''container:connect''"
definition ActionPlatformAccountCreate :: string where "ActionPlatformAccountCreate = ''platform_account:create''"
definition ActionPlatformAccountUpdate :: string where "ActionPlatformAccountUpdate = ''platform_account:update''"
definition ActionPlatformAccountDelete :: string where "ActionPlatformAccountDelete = ''platform_account:delete''"
definition ActionPlatformAccountView :: string where "ActionPlatformAccountView = ''platform_account:view''"
definition ActionPlatformAccountUse :: string where "ActionPlatformAccountUse = ''platform_account:use''"

lemmas action_names =
  ActionDBConnect_def ActionDBQuery_def ActionDBExecute_def ActionSessionConnect_def
  ActionSFTPConnect_def ActionRDPConnect_def ActionRDPClipboardRead_def ActionRDPClipboardWrite_def
  ActionRDPFileUpload_def ActionRDPFileDownload_def ActionRDPDriveMap_def ActionRDPRecordingView_def
  ActionAuditView_def ActionDBAuditView_def ActionHostCreate_def ActionHostUpdate_def
  ActionHostDelete_def ActionHostView_def ActionTargetCreate_def ActionTargetUpdate_def
  ActionTargetDelete_def ActionTargetView_def ActionDBProxyCreate_def ActionDBProxyUpdate_def
  ActionDBProxyDelete_def ActionDBProxyView_def ActionRBACManage_def ActionSessionView_def
  ActionSessionDisconnect_def ActionAppCreate_def ActionAppUpdate_def ActionAppDelete_def
  ActionAppView_def ActionAppConnect_def ActionAIManage_def ActionContainerCreate_def
  ActionContainerUpdate_def ActionContainerDelete_def ActionContainerView_def ActionContainerConnect_def
  ActionPlatformAccountCreate_def ActionPlatformAccountUpdate_def ActionPlatformAccountDelete_def ActionPlatformAccountView_def
  ActionPlatformAccountUse_def

end
