(* ===== verification/Gateway_Access.thy ===== *)
theory Gateway_Access
  imports Authorization Mysql_Gateway Rbac_Actions
begin

text \<open>
  Who may open a connection through the database gateway (\<open>internal/server/dbproxy/authorization.go\<close>,
  \<open>protocol_validation.go\<close>, \<open>internal/store/dbstore_connection_passwords.go\<close>) and the part of the
  MySQL connection handler that decides it (\<open>handleMySQLWithListener\<close> in \<open>mysql_auth.go\<close>, from the
  login packet to the point where the upstream is dialled).

  The gateway's fields are options where the code tests them for nil.  The clock is read once per
  connection.  The only write is the status of a session found expired.
\<close>

section \<open>Connection passwords\<close>

definition findActiveUser :: "store \<Rightarrow> string \<Rightarrow> User_row option" where
  "findActiveUser db userID =
     (if query_fails db ''users'' then None
      else find (\<lambda>u. u_ID u = userID \<and> u_Status u = ''active'' \<and> live (u_ActiveMarker u)) (users db))"

definition activeConnectionPasswords ::
    "store \<Rightarrow> string \<Rightarrow> string \<Rightarrow> string \<Rightarrow> int \<Rightarrow> ConnectionPassword list option" where
  "activeConnectionPasswords db userID resourceType resourceID now =
     (if query_fails db ''connection_passwords'' then None
      else Some (take 50 (sort_key (\<lambda>c. - cp_CreatedAt c)
        (filter (\<lambda>c. live (cp_ActiveMarker c) \<and> cp_UserID c = userID \<and> cp_ResourceType c = resourceType
           \<and> cp_ResourceID c = resourceID \<and> cp_RevokedAt c = None \<and> cp_ExpiresAt c > now) (connection_passwords db)))))"

text \<open>\<open>True\<close> is success; every failure, a failing query included, is an error of the caller.\<close>

definition AuthenticateConnectionPassword ::
    "(string \<Rightarrow> string \<Rightarrow> bool) \<Rightarrow> store \<Rightarrow> int \<Rightarrow> string \<Rightarrow> string \<Rightarrow> string \<Rightarrow> string \<Rightarrow> bool" where
  "AuthenticateConnectionPassword bcrypt db now userID resourceType resourceID password =
     (case findActiveUser db userID of None \<Rightarrow> False
      | Some user \<Rightarrow>
        if bcrypt (u_PasswordHash user) password then True
        else (case activeConnectionPasswords db userID resourceType resourceID now of None \<Rightarrow> False
          | Some credentials \<Rightarrow> list_ex (\<lambda>c. bcrypt (cp_SecretHash c) password) credentials))"

definition AuthenticateMySQLConnectionPassword ::
    "(bytes \<Rightarrow> bytes) \<Rightarrow> store \<Rightarrow> int \<Rightarrow> string \<Rightarrow> string \<Rightarrow> bytes \<Rightarrow> bytes \<Rightarrow> bool" where
  "AuthenticateMySQLConnectionPassword sha1 db now userID resourceID salt response =
     (case findActiveUser db userID of None \<Rightarrow> False
      | Some user \<Rightarrow>
        if VerifyMySQLNativePasswordResponse sha1 (u_MySQLNativeHash user) salt response then True
        else (case activeConnectionPasswords db userID ResourceTypeDatabaseAccount resourceID now of None \<Rightarrow> False
          | Some credentials \<Rightarrow>
              list_ex (\<lambda>c. VerifyMySQLNativePasswordResponse sha1 (cp_MySQLNativeHash c) salt response) credentials))"

section \<open>Resolving the user name\<close>

datatype access_error =
    EmptyName
  | InvalidNameFormat
  | InvalidCompactName compact_error
  | UnsupportedPrefix string
  | LookupUnavailable
  | AccountNotFound string
  | LookupFailed string
  | InstanceDisabled string
  | InvalidSession string
  | SessionExpired string
  | UserUnavailable string
  | ProtocolMismatch string
  | AuthenticationFailed
  | AuthorizationUnavailable
  | AuthorizationFailed auth_error
  | NotAuthorized string

record resolvedDBAccount =
  ra_account :: account_row
  ra_instance :: grouped_row
  ra_user :: User_row
  ra_rawName :: string
  ra_userSessionID :: string

record Gateway =
  gw_db :: "store option"
  gw_store :: "store option"
  gw_authorizer :: "AuthorizationService option"

definition mark_expired :: "UserSession \<Rightarrow> store \<Rightarrow> store" where
  "mark_expired sess db = db\<lparr>user_sessions :=
     map (\<lambda>s. if us_ID s = us_ID sess \<and> live (us_ActiveMarker s) then s\<lparr>us_Status := ''expired''\<rparr> else s)
       (user_sessions db)\<rparr>"

definition findAccount :: "store \<Rightarrow> string \<Rightarrow> (account_row \<times> grouped_row) option" where
  "findAccount db resourceID =
     find (\<lambda>(a, i). row_ID i = acct_ParentID a \<and> acct_ResourceID a = resourceID \<and> acct_Status a = ''active''
        \<and> live (acct_ActiveMarker a) \<and> live (row_ActiveMarker i))
       (List.product (database_accounts db) (database_instances db))"

definition resolveCompactAccount ::
    "Gateway \<Rightarrow> int \<Rightarrow> string \<Rightarrow> (access_error + resolvedDBAccount) \<times> Gateway" where
  "resolveCompactAccount g now username =
     (case gw_db g of None \<Rightarrow> (Inl LookupUnavailable, g)
      | Some db \<Rightarrow>
        (let resourceID = take 4 (drop 1 username); sessionID = take 5 (drop 5 username) in
         if query_fails db ''database_accounts'' then (Inl (LookupFailed ''database_accounts''), g)
         else
         (case findAccount db resourceID of None \<Rightarrow> (Inl (AccountNotFound resourceID), g)
          | Some (acct, inst) \<Rightarrow>
            if row_Status inst = ''disabled'' then (Inl (InstanceDisabled (row_ID inst)), g)
            else if query_fails db ''user_sessions'' then (Inl (LookupFailed ''user_sessions''), g)
            else
            (case find (\<lambda>s. us_SessionID s = sessionID \<and> us_Status s = ''active'' \<and> live (us_ActiveMarker s)) (user_sessions db) of
               None \<Rightarrow> (Inl (InvalidSession sessionID), g)
             | Some sess \<Rightarrow>
               if (case us_ExpiresAt sess of None \<Rightarrow> False | Some t \<Rightarrow> now > t) then
                 (Inl (SessionExpired sessionID), g\<lparr>gw_db := Some (mark_expired sess db)\<rparr>)
               else if query_fails db ''users'' then (Inl (LookupFailed ''users''), g)
               else
               (case find (\<lambda>u. u_ID u = us_UserID sess \<and> u_Status u = ''active'' \<and> live (u_ActiveMarker u)) (users db) of
                  None \<Rightarrow> (Inl (UserUnavailable sessionID), g)
                | Some user \<Rightarrow>
                    (Inr \<lparr>ra_account = acct, ra_instance = inst, ra_user = user, ra_rawName = username,
                          ra_userSessionID = us_ID sess\<rparr>, g))))))"

definition resolveAccount ::
    "Gateway \<Rightarrow> int \<Rightarrow> string \<Rightarrow> (access_error + resolvedDBAccount) \<times> Gateway" where
  "resolveAccount g now rawUsername =
     (let rawUsername = TrimSpace rawUsername in
      if rawUsername = [] then (Inl EmptyName, g)
      else if length rawUsername \<noteq> 10 then (Inl InvalidNameFormat, g)
      else
      (case ParseCompactUsername rawUsername of Inl e \<Rightarrow> (Inl (InvalidCompactName e), g)
       | Inr (pfx, _, _) \<Rightarrow>
           if pfx \<noteq> PrefixDatabase \<and> pfx \<noteq> PrefixRedis then (Inl (UnsupportedPrefix pfx), g)
           else resolveCompactAccount g now rawUsername))"

datatype databaseProtocol = databaseProtocolMySQL | databaseProtocolPostgreSQL | databaseProtocolRedis

fun expected_protocol :: "databaseProtocol \<Rightarrow> string" where
  "expected_protocol databaseProtocolMySQL = ''mysql''"
| "expected_protocol databaseProtocolPostgreSQL = ''postgres''"
| "expected_protocol databaseProtocolRedis = ''redis''"

definition validateResolvedAccountProtocol :: "resolvedDBAccount \<Rightarrow> databaseProtocol \<Rightarrow> access_error option" where
  "validateResolvedAccountProtocol resolved listener =
     (let instanceProtocol = ToLower (TrimSpace (row_Protocol (ra_instance resolved))) in
      if instanceProtocol \<noteq> expected_protocol listener then Some (ProtocolMismatch (acct_ID (ra_account resolved)))
      else None)"

section \<open>Authentication and authorization of a connection\<close>

definition authorizeConnect :: "Gateway \<Rightarrow> ctx \<Rightarrow> string \<Rightarrow> string \<Rightarrow> access_error option" where
  "authorizeConnect g ctx userID resourceID =
     (case gw_authorizer g of None \<Rightarrow> Some AuthorizationUnavailable
      | Some s \<Rightarrow>
        (case AuthorizeConnection s ctx userID [ActionDBConnect] ResourceTypeDatabaseAccount resourceID of
           Inl e \<Rightarrow> Some (AuthorizationFailed e)
         | Inr allowed \<Rightarrow> if \<not> allowed then Some (NotAuthorized userID) else None))"

text \<open>\<open>authenticate\<close> is the outcome of the closure that is passed, \<open>None\<close> when no closure is.\<close>

definition authenticateAndAuthorizeConnection ::
    "Gateway \<Rightarrow> ctx \<Rightarrow> string \<Rightarrow> string \<Rightarrow> bool option \<Rightarrow> access_error option" where
  "authenticateAndAuthorizeConnection g ctx userID resourceID authenticate =
     (case authenticate of None \<Rightarrow> Some AuthenticationFailed
      | Some ok \<Rightarrow> if \<not> ok then Some AuthenticationFailed else authorizeConnect g ctx userID resourceID)"

definition authenticateMySQLConnection ::
    "(bytes \<Rightarrow> bytes) \<Rightarrow> Gateway \<Rightarrow> ctx \<Rightarrow> int \<Rightarrow> resolvedDBAccount \<Rightarrow> bytes \<Rightarrow> bytes \<Rightarrow> access_error option" where
  "authenticateMySQLConnection sha1 g ctx now resolved salt response =
     authenticateAndAuthorizeConnection g ctx (u_ID (ra_user resolved)) (acct_ID (ra_account resolved))
       (Some (case gw_store g of None \<Rightarrow> False
         | Some db \<Rightarrow> AuthenticateMySQLConnectionPassword sha1 db now (u_ID (ra_user resolved))
                        (acct_ID (ra_account resolved)) salt response))"

definition validateUserPassword ::
    "(string \<Rightarrow> string \<Rightarrow> bool) \<Rightarrow> Gateway \<Rightarrow> int \<Rightarrow> User_row \<Rightarrow> string \<Rightarrow> string \<Rightarrow> bool" where
  "validateUserPassword bcrypt g now user accountID password =
     (case gw_store g of None \<Rightarrow> False
      | Some db \<Rightarrow> AuthenticateConnectionPassword bcrypt db now (u_ID user) ResourceTypeDatabaseAccount accountID password)"

definition authenticatePostgresConnection ::
    "(string \<Rightarrow> string \<Rightarrow> bool) \<Rightarrow> Gateway \<Rightarrow> ctx \<Rightarrow> int \<Rightarrow> resolvedDBAccount \<Rightarrow> string \<Rightarrow> access_error option" where
  "authenticatePostgresConnection bcrypt g ctx now resolved password =
     authenticateAndAuthorizeConnection g ctx (u_ID (ra_user resolved)) (acct_ID (ra_account resolved))
       (Some (validateUserPassword bcrypt g now (ra_user resolved) (acct_ID (ra_account resolved)) password))"

definition authenticateRedisConnection ::
    "(string \<Rightarrow> string \<Rightarrow> bool) \<Rightarrow> Gateway \<Rightarrow> ctx \<Rightarrow> int \<Rightarrow> resolvedDBAccount \<Rightarrow> string \<Rightarrow> access_error option" where
  "authenticateRedisConnection bcrypt g ctx now resolved password =
     authenticateAndAuthorizeConnection g ctx (u_ID (ra_user resolved)) (acct_ID (ra_account resolved))
       (Some (validateUserPassword bcrypt g now (ra_user resolved) (acct_ID (ra_account resolved)) password))"

section \<open>The MySQL handler up to the upstream connection\<close>

text \<open>What the handler does with the login packet: it may drop the connection without a word, answer
  with an access-denied packet of a sequence number, or go on to dial the upstream for an account.\<close>

datatype admission =
    HandlerPanics
  | Dropped
  | Denied_with byte
  | Admitted resolvedDBAccount loginObservation

definition handleMySQLLogin ::
    "(bytes \<Rightarrow> bytes) \<Rightarrow> Gateway \<Rightarrow> ctx \<Rightarrow> int \<Rightarrow> bytes \<Rightarrow> mysqlPacket \<Rightarrow> admission \<times> Gateway" where
  "handleMySQLLogin sha1 g ctx now fakeSalt pkt =
     (let clientAuthSeq = mysqlClientAuthResponseSequence (seq pkt);
          fullPacket = mysqlPacketWithSeq (seq pkt) (payload pkt) in
      case fst (Observe [] fullPacket) of
        Panicked \<Rightarrow> (HandlerPanics, g)
      | ObserveError _ \<Rightarrow> (Dropped, g)
      | NeedMore \<Rightarrow> (Dropped, g)
      | Observed obs \<Rightarrow>
        if User obs = [] then (Dropped, g)
        else
        (case mysqlLoginAuthResponse (payload pkt) of Inl _ \<Rightarrow> (Dropped, g)
         | Inr authResponse \<Rightarrow>
           (case resolveAccount g now (User obs) of (Inl _, g') \<Rightarrow> (Denied_with clientAuthSeq, g')
            | (Inr resolved, g') \<Rightarrow>
              if validateResolvedAccountProtocol resolved databaseProtocolMySQL \<noteq> None
              then (Denied_with clientAuthSeq, g')
              else
              (case authenticateMySQLConnection sha1 g' ctx now resolved fakeSalt authResponse of
                 Some e \<Rightarrow> (if e = AuthenticationFailed then Denied_with clientAuthSeq else Dropped, g')
               | None \<Rightarrow>
                 if acct_Status (ra_account resolved) = ''disabled'' then (Denied_with clientAuthSeq, g')
                 else if (case acct_ExpiresAt (ra_account resolved) of None \<Rightarrow> False | Some t \<Rightarrow> now > t)
                 then (Denied_with clientAuthSeq, g')
                 else (Admitted resolved obs, g')))))"

section \<open>What an admitted connection has shown\<close>

definition not_past :: "int \<Rightarrow> int option \<Rightarrow> bool" where
  "not_past now e = (case e of None \<Rightarrow> True | Some t \<Rightarrow> now \<le> t)"

definition account_open :: "store \<Rightarrow> string \<Rightarrow> resolvedDBAccount \<Rightarrow> bool" where
  "account_open db name r \<longleftrightarrow>
     ra_account r \<in> set (database_accounts db) \<and> ra_instance r \<in> set (database_instances db)
     \<and> row_ID (ra_instance r) = acct_ParentID (ra_account r)
     \<and> acct_ResourceID (ra_account r) = take 4 (drop 1 name) \<and> acct_Status (ra_account r) = ''active''
     \<and> live (acct_ActiveMarker (ra_account r)) \<and> live (row_ActiveMarker (ra_instance r))
     \<and> row_Status (ra_instance r) \<noteq> ''disabled''"

definition session_open :: "store \<Rightarrow> int \<Rightarrow> string \<Rightarrow> resolvedDBAccount \<Rightarrow> bool" where
  "session_open db now name r \<longleftrightarrow>
     list_ex (\<lambda>s. us_ID s = ra_userSessionID r \<and> us_SessionID s = take 5 (drop 5 name) \<and> us_Status s = ''active''
        \<and> live (us_ActiveMarker s) \<and> not_past now (us_ExpiresAt s) \<and> us_UserID s = u_ID (ra_user r)) (user_sessions db)"

definition response_verified ::
    "(bytes \<Rightarrow> bytes) \<Rightarrow> store \<Rightarrow> int \<Rightarrow> resolvedDBAccount \<Rightarrow> bytes \<Rightarrow> bytes \<Rightarrow> bool" where
  "response_verified sha1 db now r salt response \<longleftrightarrow>
     VerifyMySQLNativePasswordResponse sha1 (u_MySQLNativeHash (ra_user r)) salt response
     \<or> list_ex (\<lambda>c. live (cp_ActiveMarker c) \<and> cp_UserID c = u_ID (ra_user r)
          \<and> cp_ResourceType c = ResourceTypeDatabaseAccount \<and> cp_ResourceID c = acct_ID (ra_account r)
          \<and> cp_RevokedAt c = None \<and> cp_ExpiresAt c > now
          \<and> VerifyMySQLNativePasswordResponse sha1 (cp_MySQLNativeHash c) salt response) (connection_passwords db)"

definition password_verified ::
    "(string \<Rightarrow> string \<Rightarrow> bool) \<Rightarrow> store \<Rightarrow> int \<Rightarrow> resolvedDBAccount \<Rightarrow> string \<Rightarrow> bool" where
  "password_verified bcrypt db now r password \<longleftrightarrow>
     bcrypt (u_PasswordHash (ra_user r)) password
     \<or> list_ex (\<lambda>c. live (cp_ActiveMarker c) \<and> cp_UserID c = u_ID (ra_user r)
          \<and> cp_ResourceType c = ResourceTypeDatabaseAccount \<and> cp_ResourceID c = acct_ID (ra_account r)
          \<and> cp_RevokedAt c = None \<and> cp_ExpiresAt c > now
          \<and> bcrypt (cp_SecretHash c) password) (connection_passwords db)"

definition production_gateway :: "store \<Rightarrow> int \<Rightarrow> Gateway" where
  "production_gateway db now =
     \<lparr>gw_db = Some db, gw_store = Some db, gw_authorizer = Some (production_service db now)\<rparr>"

lemma find_SomeD: "find P xs = Some x \<Longrightarrow> x \<in> set xs \<and> P x"
  by (auto simp: find_Some_iff)

lemma findAccount_Some:
  "findAccount db rid = Some (a, i) \<Longrightarrow> a \<in> set (database_accounts db) \<and> i \<in> set (database_instances db)
     \<and> row_ID i = acct_ParentID a \<and> acct_ResourceID a = rid \<and> acct_Status a = ''active''
     \<and> live (acct_ActiveMarker a) \<and> live (row_ActiveMarker i)"
  unfolding findAccount_def by (drule find_SomeD) auto

lemma resolveAccount_Inr:
  assumes "resolveAccount g now typed = (Inr r, g')" "gw_db g = Some db"
  defines "name \<equiv> TrimSpace typed"
  shows "g' = g" "account_open db name r" "session_open db now name r"
    "find (\<lambda>u. u_ID u = u_ID (ra_user r) \<and> u_Status u = ''active'' \<and> live (u_ActiveMarker u)) (users db) = Some (ra_user r)"
    "\<exists>rs ss. ParseCompactUsername name = Inr (PrefixDatabase, rs, ss) \<or> ParseCompactUsername name = Inr (PrefixRedis, rs, ss)"
    "ra_rawName r = name"
proof -
  obtain pfx rs ss where p: "ParseCompactUsername name = Inr (pfx, rs, ss)" "pfx = PrefixDatabase \<or> pfx = PrefixRedis"
    and res: "resolveCompactAccount g now name = (Inr r, g')"
    using assms(1) unfolding name_def by (auto simp: resolveAccount_def Let_def split: if_splits sum.splits)
  obtain a i s u where f: "findAccount db (take 4 (drop 1 name)) = Some (a, i)" "row_Status i \<noteq> ''disabled''"
      "find (\<lambda>s. us_SessionID s = take 5 (drop 5 name) \<and> us_Status s = ''active'' \<and> live (us_ActiveMarker s)) (user_sessions db) = Some s"
      "not_past now (us_ExpiresAt s)"
      "find (\<lambda>u. u_ID u = us_UserID s \<and> u_Status u = ''active'' \<and> live (u_ActiveMarker u)) (users db) = Some u"
      "r = \<lparr>ra_account = a, ra_instance = i, ra_user = u, ra_rawName = name, ra_userSessionID = us_ID s\<rparr>" "g' = g"
    using res assms(2) unfolding resolveCompactAccount_def Let_def not_past_def
    by (auto split: if_splits option.splits simp: not_less)
  have u: "u_ID u = us_UserID s" using find_SomeD [OF f(5)] by simp
  show "g' = g" "ra_rawName r = name" using f by simp_all
  show "account_open db name r"
    using findAccount_Some [OF f(1)] f(2,6) by (simp add: account_open_def)
  show "session_open db now name r"
    using find_SomeD [OF f(3)] f(4,6) u by (auto simp: session_open_def list_ex_iff)
  show "find (\<lambda>u. u_ID u = u_ID (ra_user r) \<and> u_Status u = ''active'' \<and> live (u_ActiveMarker u)) (users db) = Some (ra_user r)"
    using f(5,6) u by simp
  show "\<exists>rs ss. ParseCompactUsername name = Inr (PrefixDatabase, rs, ss) \<or> ParseCompactUsername name = Inr (PrefixRedis, rs, ss)"
    using p by auto
qed

lemma activeConnectionPasswords_mem:
  assumes "activeConnectionPasswords db uid rt rid now = Some cs" "c \<in> set cs"
  shows "c \<in> set (connection_passwords db) \<and> live (cp_ActiveMarker c) \<and> cp_UserID c = uid
    \<and> cp_ResourceType c = rt \<and> cp_ResourceID c = rid \<and> cp_RevokedAt c = None \<and> cp_ExpiresAt c > now"
  using assms by (auto simp: activeConnectionPasswords_def split: if_splits dest!: in_set_takeD)

lemma AuthenticateMySQL_verified:
  assumes "AuthenticateMySQLConnectionPassword sha1 db now (u_ID (ra_user r)) (acct_ID (ra_account r)) salt response"
    "find (\<lambda>u. u_ID u = u_ID (ra_user r) \<and> u_Status u = ''active'' \<and> live (u_ActiveMarker u)) (users db) = Some (ra_user r)"
  shows "response_verified sha1 db now r salt response"
  using assms activeConnectionPasswords_mem [of db "u_ID (ra_user r)" ResourceTypeDatabaseAccount "acct_ID (ra_account r)" now]
  by (fastforce simp: AuthenticateMySQLConnectionPassword_def findActiveUser_def response_verified_def
      list_ex_iff split: option.splits if_splits)

lemma AuthenticateConnectionPassword_verified:
  assumes "AuthenticateConnectionPassword bcrypt db now (u_ID (ra_user r)) ResourceTypeDatabaseAccount (acct_ID (ra_account r)) password"
    "find (\<lambda>u. u_ID u = u_ID (ra_user r) \<and> u_Status u = ''active'' \<and> live (u_ActiveMarker u)) (users db) = Some (ra_user r)"
  shows "password_verified bcrypt db now r password"
  using assms activeConnectionPasswords_mem [of db "u_ID (ra_user r)" ResourceTypeDatabaseAccount "acct_ID (ra_account r)" now]
  by (fastforce simp: AuthenticateConnectionPassword_def findActiveUser_def password_verified_def
      list_ex_iff split: option.splits if_splits)

lemma authorizeConnect_None:
  assumes "authorizeConnect g ctx uid rid = None" "gw_authorizer g = Some s"
  obtains d where "Authorize s ctx \<lparr>ar_UserID = uid, ar_Actions = [ActionDBConnect],
      ar_ResourceType = ResourceTypeDatabaseAccount, ar_ResourceID = rid\<rparr> = Inr d" "d_Allowed d"
  using assms by (auto simp: authorizeConnect_def AuthorizeConnection_def split: sum.splits if_splits)

lemma handleMySQLLogin_Admitted:
  assumes "handleMySQLLogin sha1 g ctx now salt pkt = (Admitted r obs, g')"
  obtains response where
    "fst (Observe [] (mysqlPacketWithSeq (seq pkt) (payload pkt))) = Observed obs"
    "mysqlLoginAuthResponse (payload pkt) = Inr response"
    "resolveAccount g now (User obs) = (Inr r, g')"
    "validateResolvedAccountProtocol r databaseProtocolMySQL = None"
    "authenticateMySQLConnection sha1 g' ctx now r salt response = None"
    "not_past now (acct_ExpiresAt (ra_account r))"
  using assms unfolding handleMySQLLogin_def Let_def not_past_def
  by (auto split: observe_result.splits sum.splits prod.splits option.splits if_splits simp: not_less)

text \<open>The authorization part, in terms of the checks of the \<open>rbac\<close> package.\<close>

definition may_connect :: "store \<Rightarrow> int \<Rightarrow> string \<Rightarrow> string \<Rightarrow> bool" where
  "may_connect db now uid accountID \<longleftrightarrow>
     list_ex (\<lambda>u. u_ID u = uid \<and> live (u_ActiveMarker u) \<and> u_Status u = ''active''
       \<and> (u_IsSuperAdmin u
          \<or> unexpired now (u_ExpiresAt u)
            \<and> HasPermissionContext (Some db) now uid ActionDBConnect [] [] = Inr True
            \<and> HasDenyContext (Some db) now uid ActionDBConnect ResourceTypeDatabaseAccount accountID = Inr False
            \<and> HasGrantContext (Some db) now uid ResourceTypeDatabaseAccount accountID = Inr True)) (users db)"

lemma trim_constants [simp]:
  "TrimSpace ''db:connect'' = ''db:connect''" "TrimSpace ''database_account'' = ''database_account''"
  by code_simp+

lemma trim_in_checks [simp]:
  "HasPermissionContext odb now (TrimSpace uid) a rt rid = HasPermissionContext odb now uid a rt rid"
  "HasDenyContext odb now (TrimSpace uid) a rt rid = HasDenyContext odb now uid a rt rid"
  "HasDenyContext odb now uid a rt (TrimSpace rid) = HasDenyContext odb now uid a rt rid"
  "HasGrantContext odb now (TrimSpace uid) rt rid = HasGrantContext odb now uid rt rid"
  "HasGrantContext odb now uid rt (TrimSpace rid) = HasGrantContext odb now uid rt rid"
  by (cases odb; simp add: HasPermissionContext_def HasDenyContext_def HasGrantContext_def Let_def)+

lemma authorized_may_connect:
  assumes "Authorize (production_service db now) ctx \<lparr>ar_UserID = uid, ar_Actions = [ActionDBConnect],
      ar_ResourceType = ResourceTypeDatabaseAccount, ar_ResourceID = rid\<rparr> = Inr d" "d_Allowed d"
  shows "may_connect db now (TrimSpace uid) rid"
proof -
  obtain subject where s: "FindIdentitySubject db now (TrimSpace uid) = Inr (Some subject)"
    "sub_SuperAdmin subject
       \<or> (HasPermissionContext (Some db) now (sub_ID subject) ActionDBConnect [] [] = Inr True
          \<and> HasDenyContext (Some db) now (sub_ID subject) ActionDBConnect ResourceTypeDatabaseAccount rid = Inr False
          \<and> HasGrantContext (Some db) now (sub_ID subject) ResourceTypeDatabaseAccount rid = Inr True)"
    using Authorize_allowed [OF assms]
    by (auto simp: normalizedActions_def ActionDBConnect_def ResourceTypeDatabaseAccount_def)
  obtain u where "u \<in> set (users db)" "u_ID u = TrimSpace (TrimSpace uid)" "live (u_ActiveMarker u)"
    "u_Status u = ''active''" "u_IsSuperAdmin u \<or> unexpired now (u_ExpiresAt u)" "subject = identitySubject u"
    using FindIdentitySubject_Some [OF s(1)] .
  with s(2) show ?thesis by (auto simp: may_connect_def list_ex_iff identitySubject_def intro!: bexI [of _ u])
qed

section \<open>A connection that is admitted\<close>

abbreviation demo_sha1 :: "bytes \<Rightarrow> bytes" where "demo_sha1 \<equiv> \<lambda>_. replicate 20 CHR ''h''"

definition demo_store :: "string \<Rightarrow> store" where
  "demo_store protocol = (sample_store [sample_permission ''p1'' ''db:connect'' [] [] ''allow''])
     \<lparr>users := [\<lparr>u_ID = ''u1'', u_ActiveMarker = Some 1, u_Username = ''alice'', u_PasswordHash = [],
        u_MySQLNativeHash = MySQLNativePasswordHash demo_sha1 ''pw'', u_TokenHash = [], u_Status = ''active'',
        u_IsSuperAdmin = False, u_ExpiresAt = None\<rparr>],
      database_instances := [\<lparr>row_ID = ''d1'', row_GroupName = [], row_ActiveMarker = Some 1,
        row_Status = ''active'', row_Protocol = protocol, row_TLSMode = []\<rparr>],
      database_accounts := [\<lparr>acct_ID = ''a1'', acct_ParentID = ''d1'', acct_GroupName = [], acct_ActiveMarker = Some 1,
        acct_ResourceID = ''0001'', acct_Status = ''active'', acct_ExpiresAt = Some 9, acct_Username = ''app'', acct_Password = ''secret''\<rparr>],
      resource_grants := [\<lparr>g_PrincipalType = ''user'', g_PrincipalID = ''u1'', g_ResourceType = ''database_account'',
        g_ResourceID = ''a1'', g_Effect = ''allow'', g_ExpiresAt = None, g_ActiveMarker = Some 1\<rparr>],
      user_sessions := [\<lparr>us_ID = ''s1'', us_UserID = ''u1'', us_SessionID = ''00002'', us_Status = ''active'',
        us_ExpiresAt = None, us_ActiveMarker = Some 1\<rparr>]\<rparr>"

abbreviation demo_db :: store where "demo_db \<equiv> demo_store ''mysql''"

definition demo_payload :: bytes where
  "demo_payload = login_layout (native_login_flags []) native_login_filler ''D000100002''
     (native_login_body (challenge_response demo_sha1 ''pw'' (replicate 20 CHR ''s'')) [])"

definition demo_observation :: loginObservation where
  "demo_observation = \<lparr>User = ''D000100002'', Database = [], ApplicationName = [],
      ConnectAttrs = [], TLSRequested = False, MetadataVisible = True, Observation = ''plaintext''\<rparr>"

definition demo_account :: "string \<Rightarrow> resolvedDBAccount" where
  "demo_account protocol = \<lparr>ra_account = hd (database_accounts (demo_store protocol)),
     ra_instance = hd (database_instances (demo_store protocol)), ra_user = hd (users (demo_store protocol)), ra_rawName = ''D000100002'', ra_userSessionID = ''s1''\<rparr>"

abbreviation demo_resolved :: resolvedDBAccount where "demo_resolved \<equiv> demo_account ''mysql''"

lemma demo_trim [simp]: "TrimSpace ''D000100002'' = ''D000100002''" "TrimSpace ''a1'' = ''a1''" "TrimSpace ''mysql'' = ''mysql''"
  "ToLower ''mysql'' = ''mysql''"
  by code_simp+

lemma demo_digits: "\<exists>n. DecodeBase62 ''0001'' = Inr n" "\<exists>n. DecodeBase62 ''00002'' = Inr n"
proof -
  have d: "\<forall>c \<in> set ''0001''. base62_digit c" "\<forall>c \<in> set ''00002''. base62_digit c" by code_simp+
  have "base62_val ''0001'' 0 < 2 ^ 64" "base62_val ''00002'' 0 < 2 ^ 64"
    using base62_val_bound [OF d(1), of 0] base62_val_bound [OF d(2), of 0] by simp_all
  with d show "\<exists>n. DecodeBase62 ''0001'' = Inr n" "\<exists>n. DecodeBase62 ''00002'' = Inr n"
    using DecodeBase62_digits [of "''0001''"] DecodeBase62_digits [of "''00002''"] by simp_all
qed

lemma demo_name: "\<exists>a b. ParseCompactUsername ''D000100002'' = Inr (''D'', a, b)"
  using demo_digits by (auto simp: ParseCompactUsername_def)

lemma demo_resolves:
  "resolveAccount (production_gateway (demo_store p) 5) 5 ''D000100002'' = (Inr (demo_account p), production_gateway (demo_store p) 5)"
  using demo_name
  by (auto simp: resolveAccount_def resolveCompactAccount_def production_gateway_def demo_store_def sample_defs Let_def
      findAccount_def PrefixDatabase_def live_def ActiveMarkerValue_def demo_account_def)

lemma demo_response: "length (challenge_response demo_sha1 ''pw'' (replicate 20 CHR ''s'')) = 20"
  by (rule length_challenge_response) simp

lemma demo_observed:
  "fst (Observe [] (mysqlPacketWithSeq sq demo_payload)) = Observed demo_observation"
  "mysqlLoginAuthResponse demo_payload = Inr (challenge_response demo_sha1 ''pw'' (replicate 20 CHR ''s''))"
proof -
  have len: "0 < length demo_payload" "length demo_payload < 2 ^ 24"
    using demo_response by (simp_all add: demo_payload_def login_layout_def native_login_body_def native_login_filler_def)
  note o = observe_native_login [OF demo_response, of "''D000100002''" "[]", folded demo_payload_def]
  show "fst (Observe [] (mysqlPacketWithSeq sq demo_payload)) = Observed demo_observation"
    using Observe_packet [OF len, of sq] o(1) by (simp add: demo_observation_def)
  show "mysqlLoginAuthResponse demo_payload = Inr (challenge_response demo_sha1 ''pw'' (replicate 20 CHR ''s''))"
    using o(2) by simp
qed

lemma demo_verifies:
  "VerifyMySQLNativePasswordResponse demo_sha1 (MySQLNativePasswordHash demo_sha1 ''pw'') (replicate 20 CHR ''s'')
     (challenge_response demo_sha1 ''pw'' (replicate 20 CHR ''s''))"
  using demo_response
  by (simp add: VerifyMySQLNativePasswordResponse_def MySQLNativePasswordHash_def sha1_size_def Let_def
      challenge_response_def xor_bytes_cancel)

lemma demo_authorized:
  "authorizeConnect (production_gateway (demo_store p) 5) (\<lambda>_. None) ''u1'' ''a1'' = None"
  by (simp add: authorizeConnect_def AuthorizeConnection_def production_gateway_def Authorize_def demo_store_def sample_defs
      checker_defs grant_defs normalizedActions_def FindIdentitySubject_def store_FindIdentitySubject_def activeSubject_def
      identitySubject_def HasDenyContext_def ActionDBConnect_def granted_def live_account_def Let_def)

lemma demo_admitted:
  "handleMySQLLogin demo_sha1 (production_gateway demo_db 5) (\<lambda>_. None) 5 (replicate 20 CHR ''s'')
     \<lparr>raw = [], payload = demo_payload, seq = CHR 0x01\<rparr>
   = (Admitted demo_resolved demo_observation, production_gateway demo_db 5)"
proof -
  have ids: "u_ID (ra_user demo_resolved) = ''u1''" "acct_ID (ra_account demo_resolved) = ''a1''"
    "acct_Status (ra_account demo_resolved) = ''active''" "acct_ExpiresAt (ra_account demo_resolved) = Some 9"
    "row_Protocol (ra_instance demo_resolved) = ''mysql''" "User demo_observation = ''D000100002''"
    by (simp_all add: demo_account_def demo_store_def demo_observation_def)
  have "AuthenticateMySQLConnectionPassword demo_sha1 demo_db 5 ''u1'' ''a1'' (replicate 20 CHR ''s'')
      (challenge_response demo_sha1 ''pw'' (replicate 20 CHR ''s''))"
    using demo_verifies
    by (simp add: AuthenticateMySQLConnectionPassword_def findActiveUser_def demo_store_def sample_store_def live_def
        ActiveMarkerValue_def)
  then have "authenticateMySQLConnection demo_sha1 (production_gateway demo_db 5) (\<lambda>_. None) 5 demo_resolved
      (replicate 20 CHR ''s'') (challenge_response demo_sha1 ''pw'' (replicate 20 CHR ''s'')) = None"
    using demo_authorized
    by (simp add: authenticateMySQLConnection_def authenticateAndAuthorizeConnection_def ids production_gateway_def)
  then show ?thesis
    by (simp add: handleMySQLLogin_def demo_observed ids demo_resolves validateResolvedAccountProtocol_def ascii_lower_def Let_def)
qed

end
