(* ===== verification/Postgres_Gateway.thy ===== *)
theory Postgres_Gateway
  imports Postgres_Upstream Gateway_Access
begin

text \<open>
  The PostgreSQL side of the database gateway: the connection to an instance
  (\<open>internal/server/dbproxy/upstream_tls.go\<close>), the handler of a client that has sent its first byte
  (\<open>postgres_gateway.go\<close>) and the negotiation before it (\<open>postgres_listener.go\<close>).

  Parameters: the dialler of TCP connections, the TLS handshakes of \<open>crypto/tls\<close> on either side, the
  validity of the TLS configuration, \<open>bcrypt\<close>, the hashes and the random blocks.  A TLS handshake maps
  the connection below it to the connection that carries the plaintext.
\<close>

section \<open>Connecting to an instance\<close>

datatype dial_error =
    DialFailed string
  | DialTLSMode
  | DialTLSConfig
  | DialWrite string
  | DialRead
  | DialTLSUnsupported
  | DialTLSResponse byte
  | DialHandshake string

record dial_environment =
  de_connect :: "grouped_row \<Rightarrow> string + conn"
  de_configOK :: "grouped_row \<Rightarrow> bool"
  de_handshake :: "grouped_row \<Rightarrow> conn \<Rightarrow> string + conn \<times> bool"

definition upstreamTLSPolicy :: "dial_environment \<Rightarrow> grouped_row \<Rightarrow> dial_error + string" where
  "upstreamTLSPolicy env inst =
     (case NormalizeMode (row_TLSMode inst) of None \<Rightarrow> Inl DialTLSMode
      | Some mode \<Rightarrow>
          if mode = ModeDisable then Inr mode
          else if \<not> de_configOK env inst then Inl DialTLSConfig
          else Inr mode)"

definition ssl_request :: bytes where
  "ssl_request = be_bytes 4 8 @ be_bytes 4 80877103"

text \<open>The result is the connection and whether \<open>dbtls.IsVerified\<close> holds of it.\<close>

definition dialPostgresUpstream :: "dial_environment \<Rightarrow> grouped_row \<Rightarrow> dial_error + conn \<times> bool" where
  "dialPostgresUpstream env inst =
     (case de_connect env inst of Inl e \<Rightarrow> Inl (DialFailed e)
      | Inr connection \<Rightarrow>
        (case upstreamTLSPolicy env inst of Inl e \<Rightarrow> Inl e
         | Inr mode \<Rightarrow>
           if mode = ModeDisable then Inr (connection, False)
           else
           (case conn_write connection ssl_request of
              (_, Some e, _) \<Rightarrow> Inl (DialWrite e)
            | (_, None, connection) \<Rightarrow>
              (case conn_read_full 1 connection of
                 (None, _) \<Rightarrow> Inl DialRead
               | (Some response, connection) \<Rightarrow>
                   if response ! 0 = CHR ''N'' then Inl DialTLSUnsupported
                   else if response ! 0 \<noteq> CHR ''S'' then Inl (DialTLSResponse (response ! 0))
                   else (case de_handshake env inst connection of
                           Inl e \<Rightarrow> Inl (DialHandshake e)
                         | Inr secured \<Rightarrow> Inr secured)))))"

section \<open>The handler\<close>

text \<open>What the handler was called for and how it ended: dropped in silence, refused with an error
  message, a cancellation, a failure at the upstream, or a connection that is ready for the relay.\<close>

datatype pg_outcome =
    PgDropped
  | PgRefused
  | PgWrongProtocol
  | PgCancelled "cancel_error option" "(grouped_row \<times> bytes) option"
  | PgDialRefused dial_error
  | PgUpstreamDropped
  | PgUpstreamRefused upstream_error
  | PgConnected resolvedDBAccount conn "nat option"

record pg_environment =
  pe_bcrypt :: "string \<Rightarrow> string \<Rightarrow> bool"
  pe_dial :: dial_environment
  pe_sha256 :: "bytes \<Rightarrow> bytes"
  pe_md5 :: "bytes \<Rightarrow> bytes"
  pe_prepare :: "string \<Rightarrow> string option"
  pe_random :: "nat \<Rightarrow> bytes option"

record pg_state =
  ps_gateway :: Gateway
  ps_cancels :: "grouped_row postgresCancelRegistry"

definition error_text :: "string \<Rightarrow> bytes" where
  "error_text t = ''SFATAL'' @ [NUL] @ ''C28000'' @ [NUL] @ ''M'' @ t @ [NUL, NUL]"

definition writePostgresAuthenticationError :: "conn \<Rightarrow> pg_error option \<times> conn" where
  "writePostgresAuthenticationError c =
     writePostgresMessage c (CHR ''E'') (error_text ''database gateway authentication failed'')"

definition writePostgresAccountProtocolError :: "conn \<Rightarrow> pg_error option \<times> conn" where
  "writePostgresAccountProtocolError c =
     writePostgresMessage c (CHR ''E'') (error_text ''database account protocol does not match this listener'')"

abbreviation refused :: "conn \<Rightarrow> conn" where
  "refused c \<equiv> snd (writePostgresAuthenticationError c)"

text \<open>The last part: dial, send the startup message and log in.\<close>

definition pg_connect ::
    "pg_environment \<Rightarrow> pg_state \<Rightarrow> resolvedDBAccount \<Rightarrow> postgresStartup \<Rightarrow> conn \<Rightarrow> pg_outcome \<times> conn \<times> pg_state" where
  "pg_connect env st resolved startup client =
     (let account = ra_account resolved; inst = ra_instance resolved in
      case dialPostgresUpstream (pe_dial env) inst of Inl e \<Rightarrow> (PgDialRefused e, refused client, st)
      | Inr (upstream, verified) \<Rightarrow>
        (case writePostgresBytes upstream (buildPostgresUpstreamStartupMessage (acct_Username account) startup) of
           (Some _, _) \<Rightarrow> (PgUpstreamDropped, client, st)
         | (None, upstream) \<Rightarrow>
           (case authenticatePostgresUpstream
                   \<lparr>ul_username = acct_Username account, ul_password = acct_Password account,
                    ul_tlsMode = row_TLSMode inst, ul_verified = verified,
                    ul_sha256 = pe_sha256 env, ul_md5 = pe_md5 env, ul_prepare = pe_prepare env,
                    ul_random = pe_random env, ul_register = register_for inst, ul_cleanup = cleanup\<rparr>
                   upstream client (ps_cancels st) of
              (Inl e, _, client', cancels) \<Rightarrow> (PgUpstreamRefused e, refused client', st\<lparr>ps_cancels := cancels\<rparr>)
            | (Inr registered, upstream', client', cancels) \<Rightarrow>
                (PgConnected resolved upstream' registered, client', st\<lparr>ps_cancels := cancels\<rparr>))))"

text \<open>The middle part: from the parsed startup message to the decision.\<close>

definition pg_login ::
    "pg_environment \<Rightarrow> pg_state \<Rightarrow> ctx \<Rightarrow> int \<Rightarrow> postgresStartup \<Rightarrow> conn \<Rightarrow> pg_outcome \<times> conn \<times> pg_state" where
  "pg_login env st ctx now startup client =
     (case resolveAccount (ps_gateway st) now (su_username startup) of
        (Inl _, g) \<Rightarrow> (PgRefused, refused client, st\<lparr>ps_gateway := g\<rparr>)
      | (Inr resolved, g) \<Rightarrow>
        let st = st\<lparr>ps_gateway := g\<rparr>; account = ra_account resolved in
        if validateResolvedAccountProtocol resolved databaseProtocolPostgreSQL \<noteq> None
        then (PgWrongProtocol, snd (writePostgresAccountProtocolError client), st)
        else
        (case writePostgresMessage client (CHR ''R'') (be_bytes 4 3) of
           (Some _, client) \<Rightarrow> (PgDropped, client, st)
         | (None, client) \<Rightarrow>
           (case readPostgresPasswordMessage client of
              (Inl _, client) \<Rightarrow> (PgRefused, refused client, st)
            | (Inr password, client) \<Rightarrow>
                if authenticatePostgresConnection (pe_bcrypt env) g ctx now resolved password \<noteq> None
                then (PgRefused, refused client, st)
                else if acct_Status account = ''disabled'' then (PgRefused, refused client, st)
                else if (case acct_ExpiresAt account of None \<Rightarrow> False | Some t \<Rightarrow> now > t)
                then (PgRefused, refused client, st)
                else if row_Status (ra_instance resolved) = ''disabled'' then (PgRefused, refused client, st)
                else pg_connect env st resolved startup client)))"

definition handlePG ::
    "pg_environment \<Rightarrow> pg_state \<Rightarrow> ctx \<Rightarrow> int \<Rightarrow> conn \<Rightarrow> byte \<Rightarrow> pg_outcome \<times> conn \<times> pg_state" where
  "handlePG env st ctx now client firstByte =
     (case readPostgresStartupMessage client firstByte of
        (Inl _, client) \<Rightarrow> (PgDropped, client, st)
      | (Inr message, client) \<Rightarrow>
        if length message \<ge> 8 \<and> be_val (take 4 (drop 4 message)) = postgresCancelRequestCode then
          (case forwardPostgresCancel (\<lambda>inst. case dialPostgresUpstream (pe_dial env) inst of
                    Inl e \<Rightarrow> Inl [] | Inr (u, _) \<Rightarrow> Inr u) (ps_cancels st) message of
             (e, sent) \<Rightarrow> (PgCancelled e sent, client, st))
        else
        (case parsePostgresStartup message of
           Inl _ \<Rightarrow> (PgRefused, refused client, st)
         | Inr startup \<Rightarrow>
           (case writePostgresProtocolNegotiation startup client of
              (Some _, client) \<Rightarrow> (PgDropped, client, st)
            | (None, client) \<Rightarrow> pg_login env st ctx now startup client)))"

section \<open>Before the handler: TLS\<close>

definition postgresSSLRequestCode :: nat where "postgresSSLRequestCode = 80877103"
definition postgresGSSENCRequestCode :: nat where "postgresGSSENCRequestCode = 80877104"
definition postgresTLSALPN :: string where "postgresTLSALPN = ''postgresql''"
definition maxPostgresTLSRecordBytes :: nat where "maxPostgresTLSRecordBytes = 18 * 1024"

definition isPostgresDirectTLSClientHello :: "bytes \<Rightarrow> bool" where
  "isPostgresDirectTLSClientHello header =
     (if length header < 6 \<or> byte_val (header ! 0) \<noteq> 22 \<or> byte_val (header ! 1) \<noteq> 3
         \<or> byte_val (header ! 2) < 1 \<or> byte_val (header ! 2) > 4 \<or> byte_val (header ! 5) \<noteq> 1 then False
      else let recordLength = be_val (take 2 (drop 3 header)) in
           recordLength \<ge> 4 \<and> recordLength \<le> maxPostgresTLSRecordBytes)"

definition isPostgresSSLRequest :: "bytes \<Rightarrow> bool" where
  "isPostgresSSLRequest header \<longleftrightarrow> length header = 8 \<and> be_val (take 4 header) = 8
     \<and> be_val (take 4 (drop 4 header)) = postgresSSLRequestCode"

definition isPostgresGSSENCRequest :: "bytes \<Rightarrow> bool" where
  "isPostgresGSSENCRequest header \<longleftrightarrow> length header = 8 \<and> be_val (take 4 header) = 8
     \<and> be_val (take 4 (drop 4 header)) = postgresGSSENCRequestCode"

definition writePostgresTLSError :: "conn \<Rightarrow> conn" where
  "writePostgresTLSError c = snd (writePostgresMessage c (CHR ''E'')
     (''SFATAL'' @ [NUL] @ ''MSSL is required for password authentication'' @ [NUL, NUL]))"

definition drainPostgresPlaintextStartup :: "conn \<Rightarrow> bytes \<Rightarrow> conn" where
  "drainPostgresPlaintextStartup c header =
     (if length header \<noteq> 8 then c
      else let messageLength = be_val (take 4 header) in
           if messageLength < 8 \<or> messageLength > maxPostgresStartupMessageBytes then c
           else snd (conn_read_full (messageLength - length header) c))"

text \<open>The listener: whether client TLS is required, the certificate and key files, whether they load, and
  the server side of the handshake with the protocol it negotiated.\<close>

record pg_listener =
  pl_required :: bool
  pl_certFile :: string
  pl_keyFile :: string
  pl_certLoads :: bool
  pl_handshake :: "conn \<Rightarrow> (conn \<times> string) option"

definition handlePostgresAfterTLS ::
    "pg_environment \<Rightarrow> pg_state \<Rightarrow> ctx \<Rightarrow> int \<Rightarrow> conn \<Rightarrow> byte \<Rightarrow> pg_outcome \<times> conn \<times> pg_state" where
  "handlePostgresAfterTLS env st ctx now client firstByte = handlePG env st ctx now client firstByte"

definition handlePostgresTLSConnection ::
    "pg_environment \<Rightarrow> pg_listener \<Rightarrow> pg_state \<Rightarrow> ctx \<Rightarrow> int \<Rightarrow> conn \<Rightarrow> bool \<Rightarrow> pg_outcome \<times> conn \<times> pg_state" where
  "handlePostgresTLSConnection env listener st ctx now client direct =
     (if \<not> pl_certLoads listener then (PgDropped, client, st)
      else
      (case pl_handshake listener client of None \<Rightarrow> (PgDropped, client, st)
       | Some (secured, negotiated) \<Rightarrow>
           if direct \<and> negotiated \<noteq> postgresTLSALPN then (PgDropped, secured, st)
           else
           (case conn_read_full 1 secured of (None, secured) \<Rightarrow> (PgDropped, secured, st)
            | (Some firstByte, secured) \<Rightarrow> handlePostgresAfterTLS env st ctx now secured (firstByte ! 0))))"

text \<open>\<open>prefixedConn\<close> gives back bytes that were read to find out what the client speaks.\<close>

definition prefixedConn :: "conn \<Rightarrow> bytes \<Rightarrow> conn" where
  "prefixedConn c pre = c\<lparr>rx := pre @ rx c\<rparr>"

definition after_first ::
    "pg_environment \<Rightarrow> pg_listener \<Rightarrow> pg_state \<Rightarrow> ctx \<Rightarrow> int \<Rightarrow> conn \<Rightarrow> bytes \<Rightarrow> pg_outcome \<times> conn \<times> pg_state" where
  "after_first env listener st ctx now client first =
     (if isPostgresCancelRequestHeader first then
        (case readPostgresCancelRequest client first of
           (Inl e, client) \<Rightarrow> (PgCancelled (Some e) None, client, st)
         | (Inr message, client) \<Rightarrow>
             (case forwardPostgresCancel (\<lambda>inst. case dialPostgresUpstream (pe_dial env) inst of
                       Inl e \<Rightarrow> Inl [] | Inr (u, _) \<Rightarrow> Inr u) (ps_cancels st) message of
                (e, sent) \<Rightarrow> (PgCancelled e sent, client, st)))
      else if \<not> isPostgresSSLRequest first then
        (if pl_required listener
         then (PgDropped, writePostgresTLSError (drainPostgresPlaintextStartup client first), st)
         else handlePG env st ctx now (prefixedConn client (drop 1 first)) (first ! 0))
      else if pl_certFile listener = [] \<or> pl_keyFile listener = [] then
        (let client = snd (writePostgresBytes client ''N'') in
         if pl_required listener then (PgDropped, client, st)
         else (case conn_read_full 1 client of (None, client) \<Rightarrow> (PgDropped, client, st)
               | (Some firstByte, client) \<Rightarrow> handlePG env st ctx now client (firstByte ! 0)))
      else
      (case writePostgresBytes client ''S'' of (Some _, client) \<Rightarrow> (PgDropped, client, st)
       | (None, client) \<Rightarrow> handlePostgresTLSConnection env listener st ctx now client False))"

definition handlePostgresConnection ::
    "pg_environment \<Rightarrow> pg_listener \<Rightarrow> pg_state \<Rightarrow> ctx \<Rightarrow> int \<Rightarrow> conn \<Rightarrow> pg_outcome \<times> conn \<times> pg_state" where
  "handlePostgresConnection env listener st ctx now client =
     (case conn_read_full postgresCancelRequestHeaderSize client of (None, client) \<Rightarrow> (PgDropped, client, st)
      | (Some first, client) \<Rightarrow>
        if isPostgresDirectTLSClientHello first
        then handlePostgresTLSConnection env listener st ctx now (prefixedConn client first) True
        else if isPostgresGSSENCRequest first then
          (case writePostgresBytes client ''N'' of (Some _, client) \<Rightarrow> (PgDropped, client, st)
           | (None, client) \<Rightarrow>
             (case conn_read_full (length first) client of (None, client) \<Rightarrow> (PgDropped, client, st)
              | (Some first, client) \<Rightarrow> after_first env listener st ctx now client first))
        else after_first env listener st ctx now client first)"

section \<open>Inversion of a handler that connected\<close>





section \<open>Properties\<close>


text \<open>The outcomes that need no login: the connection is dropped, or it was a cancellation.\<close>

fun without_login :: "pg_outcome \<Rightarrow> bool" where
  "without_login PgDropped = True"
| "without_login (PgCancelled e sent) = True"
| "without_login outcome = False"

text \<open>
  C6. Where the gateway requires TLS of its clients, no login happens in plaintext: every outcome of a
  connection other than a drop or a cancellation is the outcome of the handler on a connection that
  came out of a completed TLS handshake, whatever bytes the client sends (a direct TLS hello, a GSS
  request, an SSL request, or a plaintext startup message).
\<close>

theorem postgres_tls_required:
  assumes "pl_required listener" "handlePostgresConnection env listener st ctx now client = (outcome, client', st')" "\<not> without_login outcome"
  shows "\<exists>below secured negotiated firstByte rest. pl_handshake listener below = Some (secured, negotiated)
    \<and> conn_read_full 1 secured = (Some firstByte, rest) \<and> handlePG env st ctx now rest (firstByte ! 0) = (outcome, client', st')"
proof -
  have tls: "\<exists>below secured negotiated firstByte rest. pl_handshake listener below = Some (secured, negotiated)
    \<and> conn_read_full 1 secured = (Some firstByte, rest) \<and> handlePG env st ctx now rest (firstByte ! 0) = (outcome, client', st')"
    if "handlePostgresTLSConnection env listener st ctx now c direct = (outcome, client', st')" for c direct
    using that assms(3)
    by (fastforce simp: handlePostgresTLSConnection_def handlePostgresAfterTLS_def split: if_splits option.splits prod.splits)
  have after: ?thesis if "after_first env listener st ctx now c first = (outcome, client', st')" for c first
    using that assms(1,3) tls
    by (auto simp: after_first_def Let_def split: if_splits option.splits prod.splits sum.splits)
  show ?thesis
    using assms(2,3) tls after
    by (auto simp: handlePostgresConnection_def split: if_splits option.splits prod.splits)
qed

section \<open>A connection that succeeds\<close>

definition demo_environment :: pg_environment where
  "demo_environment = \<lparr>pe_bcrypt = (\<lambda>hash p. p = ''pw''),
     pe_dial = \<lparr>de_connect = (\<lambda>_. Inr sample_ready), de_configOK = (\<lambda>_. True), de_handshake = (\<lambda>_ _. Inl [])\<rparr>,
     pe_sha256 = sample_hash, pe_md5 = sample_hash, pe_prepare = Some, pe_random = (\<lambda>_. None)\<rparr>"

definition demo_state :: pg_state where
  "demo_state = \<lparr>ps_gateway = production_gateway (demo_store ''postgres'') 5, ps_cancels = empty_registry\<rparr>"

definition demo_client :: conn where
  "demo_client = \<lparr>rx = tl demo_startup @ raw_message \<lparr>pg_kind = CHR ''p'', pg_payload = ''pw'' @ [NUL]\<rparr>,
     tx = [], wplan = [], deadline_fails = False\<rparr>"

lemma demo_postgres_protocol: "validateResolvedAccountProtocol (demo_account ''postgres'') databaseProtocolPostgreSQL = None"
proof -
  have "ToLower (TrimSpace ''postgres'') = ''postgres''" by code_simp
  then show ?thesis by (simp add: validateResolvedAccountProtocol_def demo_account_def demo_store_def)
qed

lemma demo_postgres_password:
  "authenticatePostgresConnection (pe_bcrypt demo_environment) (production_gateway (demo_store ''postgres'') 5) (\<lambda>_. None) 5
     (demo_account ''postgres'') ''pw'' = None"
proof -
  have ids: "u_ID (ra_user (demo_account ''postgres'')) = ''u1''" "acct_ID (ra_account (demo_account ''postgres'')) = ''a1''"
    by (simp_all add: demo_account_def demo_store_def)
  have "AuthenticateConnectionPassword (pe_bcrypt demo_environment) (demo_store ''postgres'') 5 ''u1'' ResourceTypeDatabaseAccount ''a1'' ''pw''"
    by (simp add: AuthenticateConnectionPassword_def findActiveUser_def demo_store_def sample_store_def live_def ActiveMarkerValue_def
        demo_environment_def)
  then show ?thesis
    using demo_authorized [of "''postgres''"]
    by (simp add: authenticatePostgresConnection_def authenticateAndAuthorizeConnection_def validateUserPassword_def ids
        production_gateway_def)
qed

lemma head_and_rest: "xs \<noteq> [] \<Longrightarrow> hd xs # take n (tl xs) = take (Suc n) xs" "xs \<noteq> [] \<Longrightarrow> drop n (tl xs) = drop (Suc n) xs"
  by (cases xs; simp)+

lemma demo_startup_read:
  "readPostgresStartupMessage demo_client (hd demo_startup)
     = (Inr demo_startup, demo_client\<lparr>rx := raw_message \<lparr>pg_kind = CHR ''p'', pg_payload = ''pw'' @ [NUL]\<rparr>\<rparr>)"
proof -
  have len: "length demo_startup = 38" "be_val (take 4 demo_startup) = 38"
    by (simp_all add: demo_startup_def startup_bytes_def param_bytes_def writePostgresStartupParameter_def be_val_be_bytes Let_def)
  then have ne: "demo_startup \<noteq> []" by auto
  have first: "hd demo_startup # take 3 (tl demo_startup) = take 4 demo_startup"
    using head_and_rest(1) [OF ne, of 3] by simp
  have rest: "take 4 demo_startup @ take 34 (drop 3 (tl demo_startup)) = demo_startup"
    using len(1) head_and_rest(2) [OF ne, of 3] by simp
  show ?thesis
    using len first rest by (simp add: readPostgresStartupMessage_def demo_client_def conn_read_full_def read_full_def pg_sizes Let_def)
qed

lemma demo_pg_connect:
  assumes "wplan c = []"
  shows "\<exists>u reg client' st'. pg_connect demo_environment demo_state (demo_account ''postgres'') demo_parsed c
    = (PgConnected (demo_account ''postgres'') u reg, client', st')"
proof -
  have mode: "NormalizeMode [] = Some ModeDisable" by (simp add: NormalizeMode_def)
  have dial: "dialPostgresUpstream (pe_dial demo_environment) (ra_instance (demo_account ''postgres'')) = Inr (sample_ready, False)"
    by (simp add: dialPostgresUpstream_def upstreamTLSPolicy_def demo_environment_def demo_account_def demo_store_def mode)
  let ?r = "demo_account ''postgres''"
  let ?l = "\<lparr>ul_username = acct_Username (ra_account ?r), ul_password = acct_Password (ra_account ?r),
      ul_tlsMode = row_TLSMode (ra_instance ?r), ul_verified = False, ul_sha256 = pe_sha256 demo_environment,
      ul_md5 = pe_md5 demo_environment, ul_prepare = pe_prepare demo_environment, ul_random = pe_random demo_environment,
      ul_register = register_for (ra_instance ?r), ul_cleanup = cleanup\<rparr>"
  let ?b = "buildPostgresUpstreamStartupMessage (acct_Username (ra_account ?r)) demo_parsed"
  have w: "writePostgresBytes sample_ready ?b = (None, sample_ready\<lparr>tx := tx sample_ready @ ?b\<rparr>)"
    by (rule writePostgresBytes_plain) (simp add: sample_ready_def)
  obtain n u' c' r' where "authenticatePostgresUpstream ?l (sample_ready\<lparr>tx := tx sample_ready @ ?b\<rparr>) c (ps_cancels demo_state)
      = (Inr (Some n), u', c', r')"
    using ready_upstream_runs [of ?l "ra_instance ?r" "sample_ready\<lparr>tx := tx sample_ready @ ?b\<rparr>" c "ps_cancels demo_state", OF _ _ _ assms]
    by (auto simp: sample_ready_def)
  then show ?thesis by (simp add: pg_connect_def Let_def dial w)
qed

lemma demo_connected:
  "\<exists>u reg client' st'. handlePG demo_environment demo_state (\<lambda>_. None) 5 demo_client (hd demo_startup)
     = (PgConnected (demo_account ''postgres'') u reg, client', st')"
proof -
  let ?p = "\<lparr>pg_kind = CHR ''p'', pg_payload = ''pw'' @ [NUL]\<rparr>"
  let ?c = "demo_client\<lparr>rx := raw_message ?p\<rparr>"
  let ?d = "?c\<lparr>tx := tx ?c @ raw_message \<lparr>pg_kind = CHR ''R'', pg_payload = be_bytes 4 3\<rparr>\<rparr>"
  have w: "writePostgresMessage ?c (CHR ''R'') (be_bytes 4 3) = (None, ?d)"
    by (rule writePostgresMessage_plain) (simp_all add: demo_client_def)
  have "readPostgresMessage ?d (int maxPostgresAuthMessageBytes) = (Inr ?p, ?d\<lparr>rx := []\<rparr>)"
    by (rule readPostgresMessage_raw) (simp_all add: message_fits_def pg_sizes)
  then have pw: "readPostgresPasswordMessage ?d = (Inr ''pw'', ?d\<lparr>rx := []\<rparr>)"
    by (simp add: readPostgresPasswordMessage_def Let_def indexPostgresNUL_def)
  have acct: "acct_Status (ra_account (demo_account ''postgres'')) = ''active''" "acct_ExpiresAt (ra_account (demo_account ''postgres'')) = Some 9"
    "row_Status (ra_instance (demo_account ''postgres'')) = ''active''" by (simp_all add: demo_account_def demo_store_def)
  have parsed: "su_username demo_parsed = ''D000100002''" "protocolMinor demo_parsed = 0" "unsupportedOptions demo_parsed = []"
    by (simp_all add: demo_parsed_def)
  have code: "be_val (take 4 (drop 4 demo_startup)) \<noteq> postgresCancelRequestCode"
    by (simp add: demo_startup_def startup_bytes_def be_val_be_bytes pg_sizes cancel_sizes Let_def)
  have "pg_login demo_environment demo_state (\<lambda>_. None) 5 demo_parsed ?c
      = pg_connect demo_environment demo_state (demo_account ''postgres'') demo_parsed (?d\<lparr>rx := []\<rparr>)"
    using w pw acct by (simp add: pg_login_def demo_state_def parsed demo_resolves demo_postgres_protocol demo_postgres_password)
  moreover have "wplan (?d\<lparr>rx := []\<rparr>) = []" by (simp add: demo_client_def)
  moreover have "handlePG demo_environment demo_state (\<lambda>_. None) 5 demo_client (hd demo_startup)
      = pg_login demo_environment demo_state (\<lambda>_. None) 5 demo_parsed ?c"
    using code by (simp add: handlePG_def demo_startup_read demo_startup_parses writePostgresProtocolNegotiation_def parsed
        postgresSupportedProtocolMinor_def)
  ultimately show ?thesis using demo_pg_connect by metis
qed


definition demo_listener :: pg_listener where
  "demo_listener = \<lparr>pl_required = True, pl_certFile = ''c'', pl_keyFile = ''k'', pl_certLoads = True,
     pl_handshake = (\<lambda>c. Some (demo_client\<lparr>rx := hd demo_startup # rx demo_client\<rparr>, postgresTLSALPN))\<rparr>"

lemma demo_over_tls:
  "handlePostgresConnection demo_environment demo_listener demo_state (\<lambda>_. None) 5
      \<lparr>rx = ssl_request, tx = [], wplan = [], deadline_fails = False\<rparr>
    = handlePG demo_environment demo_state (\<lambda>_. None) 5 demo_client (hd demo_startup)"
proof -
  have first: "ssl_request ! 0 = NUL"
  proof -
    have "be_bytes 4 8 = [NUL, NUL, NUL, CHR 0x08]" by code_simp
    then show ?thesis by (simp add: ssl_request_def)
  qed
  have h: "\<not> isPostgresDirectTLSClientHello ssl_request" "\<not> isPostgresGSSENCRequest ssl_request"
    "\<not> isPostgresCancelRequestHeader ssl_request" "isPostgresSSLRequest ssl_request" "length ssl_request = 8"
    using first by (simp_all add: ssl_request_def isPostgresDirectTLSClientHello_def isPostgresGSSENCRequest_def isPostgresCancelRequestHeader_def
        isPostgresSSLRequest_def cancel_sizes postgresSSLRequestCode_def postgresGSSENCRequestCode_def be_val_be_bytes Let_def)
  then show ?thesis
    by (simp add: handlePostgresConnection_def after_first_def handlePostgresTLSConnection_def handlePostgresAfterTLS_def
        demo_listener_def conn_read_full_def read_full_def cancel_sizes writePostgresBytes_plain demo_client_def)
qed

theorem postgres_tls_required_witness:
  "\<exists>below secured negotiated firstByte rest. pl_handshake demo_listener below = Some (secured, negotiated)
    \<and> conn_read_full 1 secured = (Some firstByte, rest)
    \<and> \<not> without_login (fst (handlePG demo_environment demo_state (\<lambda>_. None) 5 rest (firstByte ! 0)))"
proof -
  obtain u reg client' st' where run: "handlePG demo_environment demo_state (\<lambda>_. None) 5 demo_client (hd demo_startup)
      = (PgConnected (demo_account ''postgres'') u reg, client', st')" using demo_connected by blast
  have "pl_required demo_listener" by (simp add: demo_listener_def)
  from postgres_tls_required [OF this demo_over_tls [unfolded run]] show ?thesis by fastforce
qed

end
