(* ===== verification/Redis_Gateway.thy ===== *)
theory Redis_Gateway
  imports Redis_Policy Postgres_Gateway
begin

text \<open>
  The Redis side of the database gateway: the connection to an instance (\<open>dialRedisUpstream\<close> in
  \<open>internal/server/dbproxy/upstream_tls.go\<close>), the gateway's own login there (\<open>redis_auth.go\<close>), the
  negotiation of HELLO (\<open>redis_hello.go\<close>) and the handler of a client (\<open>handleRedis\<close> in \<open>redis.go\<close>).

  Times are instants in nanoseconds, read once per connection.  The upstream connection carries the
  deadline set on it.  Parameters: the dialler, the TLS handshake, \<open>bcrypt\<close>, \<open>strconv.ParseFloat\<close>, the
  deadline of the context, and how many bytes behind the answer to AUTH the buffered reader has taken
  with it (they are lost with the reader).
\<close>

section \<open>Deadlines\<close>

definition protocolHandshakeTimeout :: int where "protocolHandshakeTimeout = 5 * 1000000000"

record redis_link =
  rl_conn :: conn
  rl_deadline :: "int option"

definition SetDeadline :: "int option \<Rightarrow> redis_link \<Rightarrow> redis_link option" where
  "SetDeadline d link = (if deadline_fails (rl_conn link) then None else Some (link\<lparr>rl_deadline := d\<rparr>))"

definition redisUpstreamAuthenticationDeadline :: "int option \<Rightarrow> int \<Rightarrow> int" where
  "redisUpstreamAuthenticationDeadline contextDeadline now =
     (let deadline = now + protocolHandshakeTimeout in
      case contextDeadline of None \<Rightarrow> deadline
      | Some c \<Rightarrow> if c < deadline then c else deadline)"

text \<open>The clamp at the head of both upstream steps; \<open>None\<close> is the zero time.\<close>

definition clamped_deadline :: "int \<Rightarrow> int option \<Rightarrow> int" where
  "clamped_deadline now deadline =
     (let latestDeadline = now + protocolHandshakeTimeout in
      case deadline of None \<Rightarrow> latestDeadline
      | Some d \<Rightarrow> if d > latestDeadline then latestDeadline else d)"

section \<open>The gateway's login\<close>

datatype redis_upstream_error =
    RedisSetDeadline
  | RedisClearDeadline "redis_upstream_error option"
  | RedisSend string
  | RedisShortWrite
  | RedisReadReply resp_error
  | RedisReadFrame handshake_error
  | RedisEmptyReply
  | RedisAuthenticationDenied
  | RedisUnexpectedReply

text \<open>The deferred function that clears the deadline and joins its error.\<close>

definition clear_deadline :: "redis_upstream_error option \<times> redis_link \<Rightarrow> redis_upstream_error option \<times> redis_link" where
  "clear_deadline = (\<lambda>(e, link).
     case SetDeadline None link of None \<Rightarrow> (Some (RedisClearDeadline e), link) | Some link \<Rightarrow> (e, link))"

definition auth_command :: "string \<Rightarrow> string \<Rightarrow> bytes" where
  "auth_command username password =
     (if username \<noteq> [] then
        ''*3'' @ [CR, LF] @ ''$4'' @ [CR, LF] @ ''AUTH'' @ [CR, LF]
        @ ''$'' @ itoa (length username) @ [CR, LF] @ username @ [CR, LF]
        @ ''$'' @ itoa (length password) @ [CR, LF] @ password @ [CR, LF]
      else
        ''*2'' @ [CR, LF] @ ''$4'' @ [CR, LF] @ ''AUTH'' @ [CR, LF]
        @ ''$'' @ itoa (length password) @ [CR, LF] @ password @ [CR, LF])"

text \<open>The exchange between the two \<open>SetDeadline\<close> calls.\<close>

definition auth_exchange :: "nat \<Rightarrow> string \<Rightarrow> string \<Rightarrow> redis_link \<Rightarrow> redis_upstream_error option \<times> redis_link" where
  "auth_exchange ahead username password link =
     (case conn_write (rl_conn link) (auth_command username password) of
        (_, Some e, c) \<Rightarrow> (Some (RedisSend e), link\<lparr>rl_conn := c\<rparr>)
      | (_, None, c) \<Rightarrow>
        (case readRESPLine (rx c) of
           (Inl e, rest) \<Rightarrow> (Some (RedisReadReply e), link\<lparr>rl_conn := c\<lparr>rx := drop ahead rest\<rparr>\<rparr>)
         | (Inr line, rest) \<Rightarrow>
             let link = link\<lparr>rl_conn := c\<lparr>rx := drop ahead rest\<rparr>\<rparr> in
             if line = [] then (Some RedisEmptyReply, link)
             else if line ! 0 = CHR ''+'' then (None, link)
             else if line ! 0 = CHR ''-'' then (Some RedisAuthenticationDenied, link)
             else (Some RedisUnexpectedReply, link)))"

definition authenticateUpstreamRedis ::
    "nat \<Rightarrow> int \<Rightarrow> redis_link \<Rightarrow> string \<Rightarrow> string \<Rightarrow> int option \<Rightarrow> redis_upstream_error option \<times> redis_link" where
  "authenticateUpstreamRedis ahead now link username password deadline =
     (case SetDeadline (Some (clamped_deadline now deadline)) link of
        None \<Rightarrow> (Some RedisSetDeadline, link)
      | Some link \<Rightarrow> clear_deadline (auth_exchange ahead username password link))"

section \<open>HELLO\<close>




section \<open>The handler\<close>













section \<open>Inversion of a handler that connected\<close>

lemma clear_deadline_None:
  "clear_deadline (e, link) = (None, link') \<Longrightarrow> e = None \<and> link' = link\<lparr>rl_deadline := None\<rparr>"
  by (auto simp: clear_deadline_def SetDeadline_def split: if_splits)

lemma auth_exchange_None:
  assumes "auth_exchange ahead username password link = (None, link')"
  obtains n c line rest where
    "conn_write (rl_conn link) (auth_command username password) = (n, None, c)"
    "readRESPLine (rx (rl_conn link)) = (Inr line, rest)" "line \<noteq> []" "line ! 0 = CHR ''+''"
    "link' = link\<lparr>rl_conn := c\<lparr>rx := drop ahead rest\<rparr>\<rparr>"
  using assms conn_write_rx
  by (fastforce simp: auth_exchange_def Let_def split: prod.splits option.splits sum.splits if_splits)

lemma authenticateUpstreamRedis_None:
  assumes "authenticateUpstreamRedis ahead now link username password deadline = (None, link')"
  obtains n c line rest where
    "conn_write (rl_conn link) (auth_command username password) = (n, None, c)"
    "readRESPLine (rx (rl_conn link)) = (Inr line, rest)" "line \<noteq> []" "line ! 0 = CHR ''+''"
    "link' = \<lparr>rl_conn = c\<lparr>rx := drop ahead rest\<rparr>, rl_deadline = None\<rparr>"
proof -
  obtain link1 e link2 where s: "SetDeadline (Some (clamped_deadline now deadline)) link = Some link1"
    "auth_exchange ahead username password link1 = (e, link2)" "clear_deadline (e, link2) = (None, link')"
    using assms by (cases "auth_exchange ahead username password (link\<lparr>rl_deadline := Some (clamped_deadline now deadline)\<rparr>)")
      (auto simp: authenticateUpstreamRedis_def SetDeadline_def split: option.splits if_splits)
  have c: "rl_conn link1 = rl_conn link" using s(1) by (auto simp: SetDeadline_def split: if_splits)
  have e: "e = None" "link' = link2\<lparr>rl_deadline := None\<rparr>" using clear_deadline_None [OF s(3)] by simp_all
  have r: "link1\<lparr>rl_conn := x, rl_deadline := None\<rparr> = \<lparr>rl_conn = x, rl_deadline = None\<rparr>" for x by (cases link1) simp
  show thesis
    by (rule auth_exchange_None [OF s(2) [unfolded e(1)]], rule that) (simp_all add: c e(2) r)
qed








section \<open>The login command\<close>

lemma auth_command_encoded:
  "auth_command username password = encodeRedisCommand ([''AUTH''] @ (if username \<noteq> [] then [username] else []) @ [password])"
proof -
  have "itoa 2 = ''2''" "itoa 3 = ''3''" "itoa 4 = ''4''" by code_simp+
  then show ?thesis by (simp add: auth_command_def encodeRedisCommand_def eval_nat_numeral)
qed

section \<open>Properties\<close>


text \<open>
  C10. The credentials of the account reach the upstream exactly: whatever bytes the user name and the
  password contain (line ends included), when the gateway's login succeeded and the connection took
  everything, what it had sent is one command that reads back as AUTH with the user name, if there is
  one, and the password; the upstream's first line was a positive reply; and the deadline was cleared.
\<close>

theorem redis_credentials_exact:
  assumes "authenticateUpstreamRedis ahead now \<lparr>rl_conn = c, rl_deadline = d\<rparr> username password deadline = (None, link)"
    "wplan c = []" "command_fits ([''AUTH''] @ (if username \<noteq> [] then [username] else []) @ [password])"
  shows "\<exists>sent line rest. tx (rl_conn link) = tx c @ sent
    \<and> readRESPCommand sent = (Inr (''AUTH'', [''AUTH''] @ (if username \<noteq> [] then [username] else []) @ [password], sent), [])
    \<and> readRESPLine (rx c) = (Inr line, rest) \<and> line \<noteq> [] \<and> line ! 0 = CHR ''+''
    \<and> rx (rl_conn link) = drop ahead rest \<and> rl_deadline link = None"
proof -
  obtain n c' line rest where h: "conn_write c (auth_command username password) = (n, None, c')"
    "readRESPLine (rx c) = (Inr line, rest)" "line \<noteq> []" "line ! 0 = CHR ''+''"
    "link = \<lparr>rl_conn = c'\<lparr>rx := drop ahead rest\<rparr>, rl_deadline = None\<rparr>"
    by (rule authenticateUpstreamRedis_None [OF assms(1)]) simp
  have "tx c' = tx c @ auth_command username password" using h(1) assms(2) by (auto simp: conn_write_def)
  moreover have "ToUpper ''AUTH'' = ''AUTH''" by code_simp
  ultimately show ?thesis
    using h readRESPCommand_encode [OF assms(3), of "[]"] by (auto simp: auth_command_encoded)
qed

text \<open>
  The handshake with the upstream has one deadline: it is at most five seconds after the moment before
  the dial and never later than the context's, and the steps that follow, at whatever later time they start,
  use that deadline itself and so cannot extend it.
\<close>

theorem redis_deadline_not_extended:
  assumes "now \<le> later"
  shows "redisUpstreamAuthenticationDeadline limit now \<le> now + 5000000000
    \<and> (\<forall>c. limit = Some c \<longrightarrow> redisUpstreamAuthenticationDeadline limit now \<le> c)
    \<and> clamped_deadline later (Some (redisUpstreamAuthenticationDeadline limit now)) = redisUpstreamAuthenticationDeadline limit now"
  using assms
  by (auto simp: redisUpstreamAuthenticationDeadline_def clamped_deadline_def protocolHandshakeTimeout_def Let_def split: option.splits)

theorem redis_deadline_not_extended_witness:
  "clamped_deadline 9 (Some (redisUpstreamAuthenticationDeadline (Some 12) 7)) = 12"
  using redis_deadline_not_extended [of 7 9 "Some 12"]
  by (simp add: redisUpstreamAuthenticationDeadline_def protocolHandshakeTimeout_def)

section \<open>A connection that succeeds\<close>

definition demo_redis_upstream :: conn where
  "demo_redis_upstream = \<lparr>rx = ''+OK'' @ [CR, LF], tx = [], wplan = [], deadline_fails = False\<rparr>"





lemma demo_redis_reply: "readRESPLine (''+OK'' @ [CR, LF]) = (Inr ''+OK'', [])"
  by code_simp

lemma demo_upstream_login:
  "authenticateUpstreamRedis 0 now \<lparr>rl_conn = demo_redis_upstream, rl_deadline = None\<rparr> username password deadline
    = (None, \<lparr>rl_conn = demo_redis_upstream\<lparr>rx := [], tx := auth_command username password\<rparr>, rl_deadline = None\<rparr>)"
  using demo_redis_reply
  by (simp add: authenticateUpstreamRedis_def auth_exchange_def clear_deadline_def SetDeadline_def demo_redis_upstream_def conn_write_def)






theorem redis_credentials_exact_witness:
  "\<exists>sent. readRESPCommand sent = (Inr (''AUTH'', [''AUTH'', ''app'', [CR, LF]], sent), [])"
proof -
  have "command_fits ([''AUTH''] @ (if ''app'' \<noteq> [] then [''app''] else []) @ [[CR, LF]])"
    by (simp add: command_fits_def encodeRedisCommand_def itoa.simps)
  from redis_credentials_exact [OF demo_upstream_login _ this] show ?thesis by (auto simp: demo_redis_upstream_def)
qed

end
