(* ===== verification/Rbac_Catalog.thy ===== *)
theory Rbac_Catalog
  imports Rbac_Actions Rbac_Store "HOL-Library.List_Lexorder" "HOL-Library.Char_ord"
begin

text \<open>
  The permission catalog (\<open>internal/rbac/catalog.go\<close>) over the action names of \<open>resources.go\<close>:
  the pages with their actions, the dependencies between actions, the validation of role actions
  (\<open>ValidateAssignableActions\<close>, a worklist that adds the actions a role needs) and the start-up
  check of the catalog itself.  Labels and descriptions are Chinese text, written as UTF-8 bytes.
  A Go map literal is an association list, its iteration order does not matter to any result.
\<close>

section \<open>Pages\<close>

definition utf8 :: "nat list \<Rightarrow> string" where
  "utf8 ns = map byte_of ns"

record PermissionDefinition =
  Action :: string
  Label :: string
  Description :: string
  ResourceTypes :: "string list"
  Assignable :: bool

record PermissionPageDefinition =
  Key :: string
  PageLabel :: string
  Path :: string
  Order :: int
  Actions :: "PermissionDefinition list"

record PageAccess =
  AccessKey :: string
  AccessPath :: string
  AccessOrder :: int

definition page :: "string \<Rightarrow> string \<Rightarrow> string \<Rightarrow> int \<Rightarrow> PermissionDefinition list \<Rightarrow> PermissionPageDefinition" where
  "page k label path order actions =
     \<lparr>Key = k, PageLabel = label, Path = path, Order = order, Actions = actions\<rparr>"

definition action :: "string \<Rightarrow> string \<Rightarrow> string \<Rightarrow> string list \<Rightarrow> PermissionDefinition" where
  "action actionKey label description resourceTypes =
     \<lparr>Action = actionKey, Label = label, Description = description, ResourceTypes = resourceTypes,
      Assignable = True\<rparr>"

definition page_quickConnect :: PermissionPageDefinition where
  "page_quickConnect = page ''quickConnect'' (utf8 [0xE5, 0xBF, 0xAB, 0xE9, 0x80, 0x9F, 0xE8, 0xBF, 0x9E, 0xE6, 0x8E, 0xA5]) ''/quick-connect'' 10 [
     action ActionSessionConnect
       (utf8 [0x53, 0x53, 0x48, 0x20, 0xE8, 0xBF, 0x9E, 0xE6, 0x8E, 0xA5])
       (utf8 [0xE9, 0x80, 0x9A, 0xE8, 0xBF, 0x87, 0xE5, 0xA0, 0xA1, 0xE5, 0x9E, 0x92, 0xE6, 0x9C, 0xBA, 0xE5, 0xBB, 0xBA, 0xE7, 0xAB, 0x8B, 0x20, 0x53, 0x53, 0x48, 0x20, 0xE4, 0xBC, 0x9A, 0xE8, 0xAF, 0x9D])
       [ResourceTypeHostAccount],
     action ActionSFTPConnect
       (utf8 [0x58, 0x46, 0x54, 0x50, 0x20, 0xE8, 0xBF, 0x9E, 0xE6, 0x8E, 0xA5])
       (utf8 [0xE9, 0x80, 0x9A, 0xE8, 0xBF, 0x87, 0x20, 0x53, 0x46, 0x54, 0x50, 0x2F, 0x58, 0x46, 0x54, 0x50, 0x20, 0xE8, 0xBF, 0x9E, 0xE6, 0x8E, 0xA5, 0xE4, 0xB8, 0xBB, 0xE6, 0x9C, 0xBA, 0xE8, 0xB4, 0xA6, 0xE5, 0x8F, 0xB7])
       [ResourceTypeHostAccount],
     action ActionRDPConnect
       (utf8 [0x52, 0x44, 0x50, 0x20, 0xE8, 0xBF, 0x9E, 0xE6, 0x8E, 0xA5])
       (utf8 [0xE9, 0x80, 0x9A, 0xE8, 0xBF, 0x87, 0xE5, 0xA0, 0xA1, 0xE5, 0x9E, 0x92, 0xE6, 0x9C, 0xBA, 0xE5, 0xBB, 0xBA, 0xE7, 0xAB, 0x8B, 0x20, 0x57, 0x69, 0x6E, 0x64, 0x6F, 0x77, 0x73, 0x20, 0xE8, 0xBF, 0x9C, 0xE7, 0xA8, 0x8B, 0xE6, 0xA1, 0x8C, 0xE9, 0x9D, 0xA2, 0xE4, 0xBC, 0x9A, 0xE8, 0xAF, 0x9D])
       [ResourceTypeHostAccount],
     action ActionRDPClipboardRead
       (utf8 [0xE8, 0xAF, 0xBB, 0xE5, 0x8F, 0x96, 0xE8, 0xBF, 0x9C, 0xE7, 0xAB, 0xAF, 0xE5, 0x89, 0xAA, 0xE8, 0xB4, 0xB4, 0xE6, 0x9D, 0xBF])
       (utf8 [0xE5, 0x85, 0x81, 0xE8, 0xAE, 0xB8, 0x20, 0x52, 0x44, 0x50, 0x20, 0xE4, 0xBC, 0x9A, 0xE8, 0xAF, 0x9D, 0xE8, 0xAF, 0xBB, 0xE5, 0x8F, 0x96, 0xE8, 0xBF, 0x9C, 0xE7, 0xAB, 0xAF, 0xE5, 0x89, 0xAA, 0xE8, 0xB4, 0xB4, 0xE6, 0x9D, 0xBF, 0xE5, 0x86, 0x85, 0xE5, 0xAE, 0xB9])
       [ResourceTypeHostAccount],
     action ActionRDPClipboardWrite
       (utf8 [0xE5, 0x86, 0x99, 0xE5, 0x85, 0xA5, 0xE8, 0xBF, 0x9C, 0xE7, 0xAB, 0xAF, 0xE5, 0x89, 0xAA, 0xE8, 0xB4, 0xB4, 0xE6, 0x9D, 0xBF])
       (utf8 [0xE5, 0x85, 0x81, 0xE8, 0xAE, 0xB8, 0x20, 0x52, 0x44, 0x50, 0x20, 0xE4, 0xBC, 0x9A, 0xE8, 0xAF, 0x9D, 0xE5, 0x90, 0x91, 0xE8, 0xBF, 0x9C, 0xE7, 0xAB, 0xAF, 0xE5, 0x89, 0xAA, 0xE8, 0xB4, 0xB4, 0xE6, 0x9D, 0xBF, 0xE5, 0x86, 0x99, 0xE5, 0x85, 0xA5, 0xE5, 0x86, 0x85, 0xE5, 0xAE, 0xB9])
       [ResourceTypeHostAccount],
     action ActionRDPFileUpload
       (utf8 [0xE4, 0xB8, 0x8A, 0xE4, 0xBC, 0xA0, 0xE6, 0x96, 0x87, 0xE4, 0xBB, 0xB6])
       (utf8 [0xE5, 0x85, 0x81, 0xE8, 0xAE, 0xB8, 0xE9, 0x80, 0x9A, 0xE8, 0xBF, 0x87, 0xE5, 0xB7, 0xB2, 0xE6, 0x8E, 0x88, 0xE6, 0x9D, 0x83, 0xE7, 0x9A, 0x84, 0x20, 0x52, 0x44, 0x50, 0x20, 0xE6, 0x98, 0xA0, 0xE5, 0xB0, 0x84, 0xE7, 0x9B, 0x98, 0xE5, 0x90, 0x91, 0xE8, 0xBF, 0x9C, 0xE7, 0xAB, 0xAF, 0xE4, 0xB8, 0x8A, 0xE4, 0xBC, 0xA0, 0xE6, 0x96, 0x87, 0xE4, 0xBB, 0xB6])
       [ResourceTypeHostAccount],
     action ActionRDPFileDownload
       (utf8 [0xE4, 0xB8, 0x8B, 0xE8, 0xBD, 0xBD, 0xE6, 0x96, 0x87, 0xE4, 0xBB, 0xB6])
       (utf8 [0xE5, 0x85, 0x81, 0xE8, 0xAE, 0xB8, 0xE9, 0x80, 0x9A, 0xE8, 0xBF, 0x87, 0xE5, 0xB7, 0xB2, 0xE6, 0x8E, 0x88, 0xE6, 0x9D, 0x83, 0xE7, 0x9A, 0x84, 0x20, 0x52, 0x44, 0x50, 0x20, 0xE6, 0x98, 0xA0, 0xE5, 0xB0, 0x84, 0xE7, 0x9B, 0x98, 0xE4, 0xBB, 0x8E, 0xE8, 0xBF, 0x9C, 0xE7, 0xAB, 0xAF, 0xE4, 0xB8, 0x8B, 0xE8, 0xBD, 0xBD, 0xE6, 0x96, 0x87, 0xE4, 0xBB, 0xB6])
       [ResourceTypeHostAccount],
     action ActionRDPDriveMap
       (utf8 [0xE6, 0x98, 0xA0, 0xE5, 0xB0, 0x84, 0xE7, 0xA3, 0x81, 0xE7, 0x9B, 0x98])
       (utf8 [0xE5, 0x85, 0x81, 0xE8, 0xAE, 0xB8, 0xE5, 0x9C, 0xA8, 0x20, 0x52, 0x44, 0x50, 0x20, 0xE4, 0xBC, 0x9A, 0xE8, 0xAF, 0x9D, 0xE4, 0xB8, 0xAD, 0xE6, 0x98, 0xA0, 0xE5, 0xB0, 0x84, 0xE5, 0x8F, 0x97, 0xE6, 0x8E, 0xA7, 0xE7, 0xA3, 0x81, 0xE7, 0x9B, 0x98])
       [ResourceTypeHostAccount],
     action ActionDBConnect
       (utf8 [0xE6, 0x95, 0xB0, 0xE6, 0x8D, 0xAE, 0xE5, 0xBA, 0x93, 0xE8, 0xBF, 0x9E, 0xE6, 0x8E, 0xA5])
       (utf8 [0xE9, 0x80, 0x9A, 0xE8, 0xBF, 0x87, 0xE6, 0x95, 0xB0, 0xE6, 0x8D, 0xAE, 0xE5, 0xBA, 0x93, 0xE4, 0xBB, 0xA3, 0xE7, 0x90, 0x86, 0xE8, 0xBF, 0x9E, 0xE6, 0x8E, 0xA5, 0xE6, 0x8C, 0x87, 0xE5, 0xAE, 0x9A, 0xE8, 0xB4, 0xA6, 0xE5, 0x8F, 0xB7])
       [ResourceTypeDatabaseAccount],
     action ActionAppConnect
       (utf8 [0xE8, 0xAE, 0xBF, 0xE9, 0x97, 0xAE, 0xE5, 0xBA, 0x94, 0xE7, 0x94, 0xA8])
       (utf8 [0xE9, 0x80, 0x9A, 0xE8, 0xBF, 0x87, 0xE5, 0xBA, 0x94, 0xE7, 0x94, 0xA8, 0xE4, 0xBB, 0xA3, 0xE7, 0x90, 0x86, 0xE8, 0xAE, 0xBF, 0xE9, 0x97, 0xAE, 0xE6, 0x8C, 0x87, 0xE5, 0xAE, 0x9A, 0xE5, 0xBA, 0x94, 0xE7, 0x94, 0xA8])
       [ResourceTypeApplication],
     action ActionContainerConnect
       (utf8 [0xE8, 0xAF, 0xBB, 0xE5, 0x8F, 0x96, 0xE5, 0xAE, 0xB9, 0xE5, 0x99, 0xA8])
       (utf8 [0xE8, 0xAF, 0xBB, 0xE5, 0x8F, 0x96, 0xE5, 0xAE, 0xB9, 0xE5, 0x99, 0xA8, 0xE5, 0x88, 0x97, 0xE8, 0xA1, 0xA8, 0xE5, 0x92, 0x8C, 0xE6, 0x97, 0xA5, 0xE5, 0xBF, 0x97])
       [ResourceTypeContainerEndpoint]]"

definition page_sqlConsole :: PermissionPageDefinition where
  "page_sqlConsole = page ''sqlConsole'' (utf8 [0xE5, 0x9C, 0xA8, 0xE7, 0xBA, 0xBF, 0x20, 0x53, 0x51, 0x4C]) ''/sql-console'' 15 [
     action ActionDBQuery
       (utf8 [0xE6, 0x89, 0xA7, 0xE8, 0xA1, 0x8C, 0xE5, 0x8F, 0xAA, 0xE8, 0xAF, 0xBB, 0x20, 0x53, 0x51, 0x4C])
       (utf8 [0xE5, 0x9C, 0xA8, 0xE5, 0x8F, 0x97, 0xE6, 0x8E, 0xA7, 0xE6, 0x95, 0xB0, 0xE6, 0x8D, 0xAE, 0xE5, 0xBA, 0x93, 0xE8, 0xB4, 0xA6, 0xE5, 0x8F, 0xB7, 0xE4, 0xB8, 0x8A, 0xE6, 0x89, 0xA7, 0xE8, 0xA1, 0x8C, 0xE5, 0x8F, 0xAA, 0xE8, 0xAF, 0xBB, 0xE6, 0x9F, 0xA5, 0xE8, 0xAF, 0xA2])
       [ResourceTypeDatabaseAccount],
     action ActionDBExecute
       (utf8 [0xE6, 0x89, 0xA7, 0xE8, 0xA1, 0x8C, 0xE5, 0x86, 0x99, 0xE5, 0x85, 0xA5, 0x20, 0x53, 0x51, 0x4C])
       (utf8 [0xE5, 0x9C, 0xA8, 0xE7, 0xA1, 0xAE, 0xE8, 0xAE, 0xA4, 0xE5, 0x90, 0x8E, 0xE6, 0x89, 0xA7, 0xE8, 0xA1, 0x8C, 0xE6, 0x95, 0xB0, 0xE6, 0x8D, 0xAE, 0xE5, 0xBA, 0x93, 0xE5, 0x8F, 0x98, 0xE6, 0x9B, 0xB4, 0xE8, 0xAF, 0xAD, 0xE5, 0x8F, 0xA5])
       [ResourceTypeDatabaseAccount]]"

definition page_hosts :: PermissionPageDefinition where
  "page_hosts = page ''hosts'' (utf8 [0xE4, 0xB8, 0xBB, 0xE6, 0x9C, 0xBA, 0xE7, 0xAE, 0xA1, 0xE7, 0x90, 0x86]) ''/hosts'' 20 [
     action ActionHostView
       (utf8 [0xE6, 0x9F, 0xA5, 0xE7, 0x9C, 0x8B, 0xE4, 0xB8, 0xBB, 0xE6, 0x9C, 0xBA])
       (utf8 [0xE6, 0xB5, 0x8F, 0xE8, 0xA7, 0x88, 0xE4, 0xB8, 0xBB, 0xE6, 0x9C, 0xBA, 0xE5, 0x88, 0x97, 0xE8, 0xA1, 0xA8, 0xE4, 0xB8, 0x8E, 0xE8, 0xAF, 0xA6, 0xE6, 0x83, 0x85])
       [],
     action ActionHostCreate
       (utf8 [0xE6, 0x96, 0xB0, 0xE5, 0xA2, 0x9E, 0xE4, 0xB8, 0xBB, 0xE6, 0x9C, 0xBA])
       (utf8 [0xE5, 0x88, 0x9B, 0xE5, 0xBB, 0xBA, 0xE4, 0xB8, 0xBB, 0xE6, 0x9C, 0xBA, 0xE8, 0xB5, 0x84, 0xE6, 0xBA, 0x90])
       [],
     action ActionHostUpdate
       (utf8 [0xE7, 0xBC, 0x96, 0xE8, 0xBE, 0x91, 0xE4, 0xB8, 0xBB, 0xE6, 0x9C, 0xBA])
       (utf8 [0xE4, 0xBF, 0xAE, 0xE6, 0x94, 0xB9, 0xE4, 0xB8, 0xBB, 0xE6, 0x9C, 0xBA, 0xE8, 0xB5, 0x84, 0xE6, 0xBA, 0x90])
       [],
     action ActionHostDelete
       (utf8 [0xE5, 0x88, 0xA0, 0xE9, 0x99, 0xA4, 0xE4, 0xB8, 0xBB, 0xE6, 0x9C, 0xBA])
       (utf8 [0xE5, 0x88, 0xA0, 0xE9, 0x99, 0xA4, 0xE4, 0xB8, 0xBB, 0xE6, 0x9C, 0xBA, 0xE8, 0xB5, 0x84, 0xE6, 0xBA, 0x90])
       [],
     action ActionTargetView
       (utf8 [0xE6, 0x9F, 0xA5, 0xE7, 0x9C, 0x8B, 0xE4, 0xB8, 0xBB, 0xE6, 0x9C, 0xBA, 0xE8, 0xB4, 0xA6, 0xE5, 0x8F, 0xB7])
       (utf8 [0xE6, 0xB5, 0x8F, 0xE8, 0xA7, 0x88, 0xE4, 0xB8, 0xBB, 0xE6, 0x9C, 0xBA, 0xE8, 0xB4, 0xA6, 0xE5, 0x8F, 0xB7, 0xE5, 0x88, 0x97, 0xE8, 0xA1, 0xA8, 0xE4, 0xB8, 0x8E, 0xE8, 0xAF, 0xA6, 0xE6, 0x83, 0x85])
       [],
     action ActionTargetCreate
       (utf8 [0xE6, 0x96, 0xB0, 0xE5, 0xA2, 0x9E, 0xE4, 0xB8, 0xBB, 0xE6, 0x9C, 0xBA, 0xE8, 0xB4, 0xA6, 0xE5, 0x8F, 0xB7])
       (utf8 [0xE5, 0x88, 0x9B, 0xE5, 0xBB, 0xBA, 0xE4, 0xB8, 0xBB, 0xE6, 0x9C, 0xBA, 0xE8, 0xB4, 0xA6, 0xE5, 0x8F, 0xB7, 0xE8, 0xB5, 0x84, 0xE6, 0xBA, 0x90])
       [],
     action ActionTargetUpdate
       (utf8 [0xE7, 0xBC, 0x96, 0xE8, 0xBE, 0x91, 0xE4, 0xB8, 0xBB, 0xE6, 0x9C, 0xBA, 0xE8, 0xB4, 0xA6, 0xE5, 0x8F, 0xB7])
       (utf8 [0xE4, 0xBF, 0xAE, 0xE6, 0x94, 0xB9, 0xE4, 0xB8, 0xBB, 0xE6, 0x9C, 0xBA, 0xE8, 0xB4, 0xA6, 0xE5, 0x8F, 0xB7, 0xE8, 0xB5, 0x84, 0xE6, 0xBA, 0x90])
       [],
     action ActionTargetDelete
       (utf8 [0xE5, 0x88, 0xA0, 0xE9, 0x99, 0xA4, 0xE4, 0xB8, 0xBB, 0xE6, 0x9C, 0xBA, 0xE8, 0xB4, 0xA6, 0xE5, 0x8F, 0xB7])
       (utf8 [0xE5, 0x88, 0xA0, 0xE9, 0x99, 0xA4, 0xE4, 0xB8, 0xBB, 0xE6, 0x9C, 0xBA, 0xE8, 0xB4, 0xA6, 0xE5, 0x8F, 0xB7, 0xE8, 0xB5, 0x84, 0xE6, 0xBA, 0x90])
       []]"

definition page_databases :: PermissionPageDefinition where
  "page_databases = page ''databases'' (utf8 [0xE6, 0x95, 0xB0, 0xE6, 0x8D, 0xAE, 0xE5, 0xBA, 0x93, 0xE7, 0xAE, 0xA1, 0xE7, 0x90, 0x86]) ''/databases'' 30 [
     action ActionDBProxyView
       (utf8 [0xE6, 0x9F, 0xA5, 0xE7, 0x9C, 0x8B, 0xE6, 0x95, 0xB0, 0xE6, 0x8D, 0xAE, 0xE5, 0xBA, 0x93])
       (utf8 [0xE6, 0xB5, 0x8F, 0xE8, 0xA7, 0x88, 0xE6, 0x95, 0xB0, 0xE6, 0x8D, 0xAE, 0xE5, 0xBA, 0x93, 0xE5, 0xAE, 0x9E, 0xE4, 0xBE, 0x8B, 0xE4, 0xB8, 0x8E, 0xE8, 0xB4, 0xA6, 0xE5, 0x8F, 0xB7])
       [],
     action ActionDBProxyCreate
       (utf8 [0xE6, 0x96, 0xB0, 0xE5, 0xA2, 0x9E, 0xE6, 0x95, 0xB0, 0xE6, 0x8D, 0xAE, 0xE5, 0xBA, 0x93])
       (utf8 [0xE5, 0x88, 0x9B, 0xE5, 0xBB, 0xBA, 0xE6, 0x95, 0xB0, 0xE6, 0x8D, 0xAE, 0xE5, 0xBA, 0x93, 0xE5, 0xAE, 0x9E, 0xE4, 0xBE, 0x8B, 0xE4, 0xB8, 0x8E, 0xE8, 0xB4, 0xA6, 0xE5, 0x8F, 0xB7])
       [],
     action ActionDBProxyUpdate
       (utf8 [0xE7, 0xBC, 0x96, 0xE8, 0xBE, 0x91, 0xE6, 0x95, 0xB0, 0xE6, 0x8D, 0xAE, 0xE5, 0xBA, 0x93])
       (utf8 [0xE4, 0xBF, 0xAE, 0xE6, 0x94, 0xB9, 0xE6, 0x95, 0xB0, 0xE6, 0x8D, 0xAE, 0xE5, 0xBA, 0x93, 0xE5, 0xAE, 0x9E, 0xE4, 0xBE, 0x8B, 0xE4, 0xB8, 0x8E, 0xE8, 0xB4, 0xA6, 0xE5, 0x8F, 0xB7])
       [],
     action ActionDBProxyDelete
       (utf8 [0xE5, 0x88, 0xA0, 0xE9, 0x99, 0xA4, 0xE6, 0x95, 0xB0, 0xE6, 0x8D, 0xAE, 0xE5, 0xBA, 0x93])
       (utf8 [0xE5, 0x88, 0xA0, 0xE9, 0x99, 0xA4, 0xE6, 0x95, 0xB0, 0xE6, 0x8D, 0xAE, 0xE5, 0xBA, 0x93, 0xE5, 0xAE, 0x9E, 0xE4, 0xBE, 0x8B, 0xE4, 0xB8, 0x8E, 0xE8, 0xB4, 0xA6, 0xE5, 0x8F, 0xB7])
       []]"

definition page_platformAccounts :: PermissionPageDefinition where
  "page_platformAccounts = page ''platformAccounts'' (utf8 [0xE5, 0xB9, 0xB3, 0xE5, 0x8F, 0xB0, 0xE8, 0xB4, 0xA6, 0xE5, 0x8F, 0xB7]) ''/platform-accounts'' 40 [
     action ActionPlatformAccountView
       (utf8 [0xE6, 0x9F, 0xA5, 0xE7, 0x9C, 0x8B, 0xE5, 0xB9, 0xB3, 0xE5, 0x8F, 0xB0, 0xE8, 0xB4, 0xA6, 0xE5, 0x8F, 0xB7])
       (utf8 [0xE6, 0xB5, 0x8F, 0xE8, 0xA7, 0x88, 0xE5, 0xB9, 0xB3, 0xE5, 0x8F, 0xB0, 0xE8, 0xB4, 0xA6, 0xE5, 0x8F, 0xB7, 0xE5, 0x88, 0x97, 0xE8, 0xA1, 0xA8, 0xE4, 0xB8, 0x8E, 0xE8, 0xAF, 0xA6, 0xE6, 0x83, 0x85])
       [],
     action ActionPlatformAccountCreate
       (utf8 [0xE6, 0x96, 0xB0, 0xE5, 0xA2, 0x9E, 0xE5, 0xB9, 0xB3, 0xE5, 0x8F, 0xB0, 0xE8, 0xB4, 0xA6, 0xE5, 0x8F, 0xB7])
       (utf8 [0xE5, 0x88, 0x9B, 0xE5, 0xBB, 0xBA, 0xE5, 0xB9, 0xB3, 0xE5, 0x8F, 0xB0, 0xE8, 0xB4, 0xA6, 0xE5, 0x8F, 0xB7])
       [],
     action ActionPlatformAccountUpdate
       (utf8 [0xE7, 0xBC, 0x96, 0xE8, 0xBE, 0x91, 0xE5, 0xB9, 0xB3, 0xE5, 0x8F, 0xB0, 0xE8, 0xB4, 0xA6, 0xE5, 0x8F, 0xB7])
       (utf8 [0xE4, 0xBF, 0xAE, 0xE6, 0x94, 0xB9, 0xE5, 0xB9, 0xB3, 0xE5, 0x8F, 0xB0, 0xE8, 0xB4, 0xA6, 0xE5, 0x8F, 0xB7])
       [],
     action ActionPlatformAccountDelete
       (utf8 [0xE5, 0x88, 0xA0, 0xE9, 0x99, 0xA4, 0xE5, 0xB9, 0xB3, 0xE5, 0x8F, 0xB0, 0xE8, 0xB4, 0xA6, 0xE5, 0x8F, 0xB7])
       (utf8 [0xE5, 0x88, 0xA0, 0xE9, 0x99, 0xA4, 0xE5, 0xB9, 0xB3, 0xE5, 0x8F, 0xB0, 0xE8, 0xB4, 0xA6, 0xE5, 0x8F, 0xB7])
       [],
     action ActionPlatformAccountUse
       (utf8 [0xE4, 0xBD, 0xBF, 0xE7, 0x94, 0xA8, 0xE5, 0xB9, 0xB3, 0xE5, 0x8F, 0xB0, 0xE8, 0xB4, 0xA6, 0xE5, 0x8F, 0xB7])
       (utf8 [0xE4, 0xBD, 0xBF, 0xE7, 0x94, 0xA8, 0xE6, 0x8C, 0x87, 0xE5, 0xAE, 0x9A, 0xE5, 0xB9, 0xB3, 0xE5, 0x8F, 0xB0, 0xE8, 0xB4, 0xA6, 0xE5, 0x8F, 0xB7, 0xE8, 0xAE, 0xBF, 0xE9, 0x97, 0xAE, 0xE5, 0xA4, 0x96, 0xE9, 0x83, 0xA8, 0xE5, 0xB9, 0xB3, 0xE5, 0x8F, 0xB0])
       [ResourceTypePlatformAccount]]"

definition page_applications :: PermissionPageDefinition where
  "page_applications = page ''applications'' (utf8 [0xE5, 0xBA, 0x94, 0xE7, 0x94, 0xA8, 0xE5, 0x8F, 0x91, 0xE5, 0xB8, 0x83]) ''/applications'' 50 [
     action ActionAppView
       (utf8 [0xE6, 0x9F, 0xA5, 0xE7, 0x9C, 0x8B, 0xE5, 0xBA, 0x94, 0xE7, 0x94, 0xA8])
       (utf8 [0xE6, 0xB5, 0x8F, 0xE8, 0xA7, 0x88, 0xE5, 0xBA, 0x94, 0xE7, 0x94, 0xA8, 0xE4, 0xBB, 0xA3, 0xE7, 0x90, 0x86, 0xE5, 0x88, 0x97, 0xE8, 0xA1, 0xA8])
       [],
     action ActionAppCreate
       (utf8 [0xE6, 0x96, 0xB0, 0xE5, 0xA2, 0x9E, 0xE5, 0xBA, 0x94, 0xE7, 0x94, 0xA8])
       (utf8 [0xE5, 0x88, 0x9B, 0xE5, 0xBB, 0xBA, 0xE5, 0xBA, 0x94, 0xE7, 0x94, 0xA8, 0xE4, 0xBB, 0xA3, 0xE7, 0x90, 0x86])
       [],
     action ActionAppUpdate
       (utf8 [0xE7, 0xBC, 0x96, 0xE8, 0xBE, 0x91, 0xE5, 0xBA, 0x94, 0xE7, 0x94, 0xA8])
       (utf8 [0xE4, 0xBF, 0xAE, 0xE6, 0x94, 0xB9, 0xE5, 0xBA, 0x94, 0xE7, 0x94, 0xA8, 0xE4, 0xBB, 0xA3, 0xE7, 0x90, 0x86])
       [],
     action ActionAppDelete
       (utf8 [0xE5, 0x88, 0xA0, 0xE9, 0x99, 0xA4, 0xE5, 0xBA, 0x94, 0xE7, 0x94, 0xA8])
       (utf8 [0xE5, 0x88, 0xA0, 0xE9, 0x99, 0xA4, 0xE5, 0xBA, 0x94, 0xE7, 0x94, 0xA8, 0xE4, 0xBB, 0xA3, 0xE7, 0x90, 0x86])
       []]"

definition page_containers :: PermissionPageDefinition where
  "page_containers = page ''containers'' (utf8 [0xE5, 0xAE, 0xB9, 0xE5, 0x99, 0xA8, 0xE7, 0xAE, 0xA1, 0xE7, 0x90, 0x86]) ''/containers'' 55 [
     action ActionContainerView
       (utf8 [0xE6, 0x9F, 0xA5, 0xE7, 0x9C, 0x8B, 0xE5, 0xAE, 0xB9, 0xE5, 0x99, 0xA8])
       (utf8 [0xE6, 0xB5, 0x8F, 0xE8, 0xA7, 0x88, 0xE5, 0xAE, 0xB9, 0xE5, 0x99, 0xA8, 0xE8, 0xBF, 0x9E, 0xE6, 0x8E, 0xA5, 0xE4, 0xB8, 0x8E, 0xE8, 0xBF, 0x90, 0xE8, 0xA1, 0x8C, 0xE5, 0xAE, 0x9E, 0xE4, 0xBE, 0x8B])
       [],
     action ActionContainerCreate
       (utf8 [0xE6, 0x96, 0xB0, 0xE5, 0xA2, 0x9E, 0xE5, 0xAE, 0xB9, 0xE5, 0x99, 0xA8, 0xE8, 0xBF, 0x9E, 0xE6, 0x8E, 0xA5])
       (utf8 [0xE5, 0x88, 0x9B, 0xE5, 0xBB, 0xBA, 0x20, 0x44, 0x6F, 0x63, 0x6B, 0x65, 0x72, 0x20, 0xE6, 0x88, 0x96, 0x20, 0x63, 0x6F, 0x6E, 0x74, 0x61, 0x69, 0x6E, 0x65, 0x72, 0x64, 0x20, 0xE8, 0xBF, 0x9E, 0xE6, 0x8E, 0xA5])
       [],
     action ActionContainerUpdate
       (utf8 [0xE7, 0xBC, 0x96, 0xE8, 0xBE, 0x91, 0xE5, 0xAE, 0xB9, 0xE5, 0x99, 0xA8, 0xE8, 0xBF, 0x9E, 0xE6, 0x8E, 0xA5])
       (utf8 [0xE4, 0xBF, 0xAE, 0xE6, 0x94, 0xB9, 0xE5, 0xAE, 0xB9, 0xE5, 0x99, 0xA8, 0xE8, 0xBF, 0x9E, 0xE6, 0x8E, 0xA5, 0xE9, 0x85, 0x8D, 0xE7, 0xBD, 0xAE])
       [],
     action ActionContainerDelete
       (utf8 [0xE5, 0x88, 0xA0, 0xE9, 0x99, 0xA4, 0xE5, 0xAE, 0xB9, 0xE5, 0x99, 0xA8, 0xE8, 0xBF, 0x9E, 0xE6, 0x8E, 0xA5])
       (utf8 [0xE5, 0x88, 0xA0, 0xE9, 0x99, 0xA4, 0xE5, 0xAE, 0xB9, 0xE5, 0x99, 0xA8, 0xE8, 0xBF, 0x9E, 0xE6, 0x8E, 0xA5, 0xE9, 0x85, 0x8D, 0xE7, 0xBD, 0xAE])
       []]"

definition page_audit :: PermissionPageDefinition where
  "page_audit = page ''audit'' (utf8 [0xE5, 0xAE, 0xA1, 0xE8, 0xAE, 0xA1, 0xE4, 0xB8, 0xAD, 0xE5, 0xBF, 0x83]) ''/audit'' 60 [
     action ActionAuditView
       (utf8 [0xE6, 0x9F, 0xA5, 0xE7, 0x9C, 0x8B, 0x20, 0x53, 0x53, 0x48, 0x20, 0xE5, 0xAE, 0xA1, 0xE8, 0xAE, 0xA1])
       (utf8 [0xE6, 0x9F, 0xA5, 0xE7, 0x9C, 0x8B, 0x20, 0x53, 0x53, 0x48, 0x20, 0xE4, 0xBC, 0x9A, 0xE8, 0xAF, 0x9D, 0xE3, 0x80, 0x81, 0xE5, 0x91, 0xBD, 0xE4, 0xBB, 0xA4, 0xE4, 0xB8, 0x8E, 0xE6, 0x96, 0x87, 0xE4, 0xBB, 0xB6, 0xE5, 0xAE, 0xA1, 0xE8, 0xAE, 0xA1])
       [],
     action ActionDBAuditView
       (utf8 [0xE6, 0x9F, 0xA5, 0xE7, 0x9C, 0x8B, 0xE6, 0x95, 0xB0, 0xE6, 0x8D, 0xAE, 0xE5, 0xBA, 0x93, 0xE5, 0xAE, 0xA1, 0xE8, 0xAE, 0xA1])
       (utf8 [0xE6, 0x9F, 0xA5, 0xE7, 0x9C, 0x8B, 0xE6, 0x95, 0xB0, 0xE6, 0x8D, 0xAE, 0xE5, 0xBA, 0x93, 0xE8, 0xBF, 0x9E, 0xE6, 0x8E, 0xA5, 0xE4, 0xB8, 0x8E, 0x20, 0x53, 0x51, 0x4C, 0x20, 0xE5, 0xAE, 0xA1, 0xE8, 0xAE, 0xA1])
       [],
     action ActionRDPRecordingView
       (utf8 [0xE6, 0x9F, 0xA5, 0xE7, 0x9C, 0x8B, 0x20, 0x52, 0x44, 0x50, 0x20, 0xE5, 0xBD, 0x95, 0xE5, 0x83, 0x8F])
       (utf8 [0xE6, 0x9F, 0xA5, 0xE8, 0xAF, 0xA2, 0xE5, 0xB9, 0xB6, 0xE5, 0x9B, 0x9E, 0xE6, 0x94, 0xBE, 0xE6, 0x9C, 0x89, 0xE6, 0x9D, 0x83, 0xE8, 0xAE, 0xBF, 0xE9, 0x97, 0xAE, 0xE7, 0x9A, 0x84, 0x20, 0x52, 0x44, 0x50, 0x20, 0xE4, 0xBC, 0x9A, 0xE8, 0xAF, 0x9D, 0xE5, 0xBD, 0x95, 0xE5, 0x83, 0x8F])
       [ResourceTypeHostAccount],
     action ActionSessionView
       (utf8 [0xE6, 0x9F, 0xA5, 0xE7, 0x9C, 0x8B, 0xE4, 0xBC, 0x9A, 0xE8, 0xAF, 0x9D])
       (utf8 [0xE6, 0x9F, 0xA5, 0xE7, 0x9C, 0x8B, 0xE5, 0x9C, 0xA8, 0xE7, 0xBA, 0xBF, 0xE5, 0x8F, 0x8A, 0xE5, 0x8E, 0x86, 0xE5, 0x8F, 0xB2, 0xE4, 0xBC, 0x9A, 0xE8, 0xAF, 0x9D])
       [],
     action ActionSessionDisconnect
       (utf8 [0xE6, 0x96, 0xAD, 0xE5, 0xBC, 0x80, 0xE4, 0xBC, 0x9A, 0xE8, 0xAF, 0x9D])
       (utf8 [0xE5, 0xBC, 0xBA, 0xE5, 0x88, 0xB6, 0xE4, 0xB8, 0xAD, 0xE6, 0x96, 0xAD, 0xE5, 0x9C, 0xA8, 0xE7, 0xBA, 0xBF, 0xE4, 0xBC, 0x9A, 0xE8, 0xAF, 0x9D])
       []]"

definition page_rbac :: PermissionPageDefinition where
  "page_rbac = page ''rbac'' (utf8 [0xE6, 0x9D, 0x83, 0xE9, 0x99, 0x90, 0xE7, 0xAE, 0xA1, 0xE7, 0x90, 0x86]) ''/rbac'' 70 [
     action ActionRBACManage
       (utf8 [0xE7, 0xAE, 0xA1, 0xE7, 0x90, 0x86, 0xE6, 0x9D, 0x83, 0xE9, 0x99, 0x90])
       (utf8 [0xE7, 0xAE, 0xA1, 0xE7, 0x90, 0x86, 0xE7, 0x94, 0xA8, 0xE6, 0x88, 0xB7, 0xE3, 0x80, 0x81, 0xE8, 0xA7, 0x92, 0xE8, 0x89, 0xB2, 0xE3, 0x80, 0x81, 0xE6, 0x93, 0x8D, 0xE4, 0xBD, 0x9C, 0xE4, 0xB8, 0x8E, 0xE8, 0xB5, 0x84, 0xE6, 0xBA, 0x90, 0xE6, 0x8E, 0x88, 0xE6, 0x9D, 0x83])
       [],
     action ActionAIManage
       (utf8 [0x41, 0x49, 0x20, 0xE6, 0x8E, 0x88, 0xE6, 0x9D, 0x83])
       (utf8 [0xE7, 0xAD, 0xBE, 0xE5, 0x8F, 0x91, 0xE5, 0x92, 0x8C, 0xE6, 0x92, 0xA4, 0xE9, 0x94, 0x80, 0x20, 0x41, 0x49, 0x20, 0xE8, 0xAE, 0xBF, 0xE9, 0x97, 0xAE, 0xE4, 0xBB, 0xA4, 0xE7, 0x89, 0x8C])
       []]"

definition permissionPages :: "PermissionPageDefinition list" where
  "permissionPages =
     [page_quickConnect, page_sqlConsole, page_hosts, page_databases,
      page_platformAccounts, page_applications, page_containers, page_audit,
      page_rbac]"

definition actionDependencies :: "(string \<times> string list) list" where
  "actionDependencies =
     [(ActionDBQuery, [ActionDBConnect]),
      (ActionDBExecute, [ActionDBQuery]),
      (ActionHostCreate, [ActionHostView]),
      (ActionHostUpdate, [ActionHostView]),
      (ActionHostDelete, [ActionHostView]),
      (ActionTargetView, [ActionHostView]),
      (ActionTargetCreate, [ActionHostView, ActionTargetView]),
      (ActionTargetUpdate, [ActionHostView, ActionTargetView]),
      (ActionTargetDelete, [ActionHostView, ActionTargetView]),
      (ActionDBProxyCreate, [ActionDBProxyView]),
      (ActionDBProxyUpdate, [ActionDBProxyView]),
      (ActionDBProxyDelete, [ActionDBProxyView]),
      (ActionAppCreate, [ActionAppView]),
      (ActionAppUpdate, [ActionAppView]),
      (ActionAppDelete, [ActionAppView]),
      (ActionContainerCreate, [ActionContainerView]),
      (ActionContainerUpdate, [ActionContainerView]),
      (ActionContainerDelete, [ActionContainerView]),
      (ActionPlatformAccountCreate, [ActionPlatformAccountView]),
      (ActionPlatformAccountUpdate, [ActionPlatformAccountView]),
      (ActionPlatformAccountDelete, [ActionPlatformAccountView]),
      (ActionPlatformAccountUse, [ActionPlatformAccountView]),
      (ActionSessionDisconnect, [ActionSessionView]),
      (ActionRDPClipboardRead, [ActionRDPConnect]),
      (ActionRDPClipboardWrite, [ActionRDPConnect]),
      (ActionRDPFileUpload, [ActionRDPConnect]),
      (ActionRDPFileDownload, [ActionRDPConnect]),
      (ActionRDPDriveMap, [ActionRDPConnect])]"

definition pageVisibilityActions :: "(string \<times> string list) list" where
  "pageVisibilityActions =
     [(''quickConnect'', [ActionSessionConnect, ActionSFTPConnect, ActionRDPConnect, ActionDBConnect, ActionAppConnect, ActionContainerConnect]),
      (''sqlConsole'', [ActionDBQuery, ActionDBExecute]),
      (''hosts'', [ActionHostView]),
      (''databases'', [ActionDBProxyView]),
      (''platformAccounts'', [ActionPlatformAccountView]),
      (''applications'', [ActionAppView]),
      (''containers'', [ActionContainerView]),
      (''audit'', [ActionAuditView, ActionDBAuditView, ActionRDPConnect, ActionRDPRecordingView, ActionSessionView]),
      (''rbac'', [ActionRBACManage])]"

lemmas page_defs =
  page_quickConnect_def page_sqlConsole_def page_hosts_def page_databases_def page_platformAccounts_def
  page_applications_def page_containers_def page_audit_def page_rbac_def
  permissionPages_def page_def action_def

section \<open>The catalog\<close>

definition flattenPermissionPages :: "PermissionPageDefinition list \<Rightarrow> PermissionDefinition list" where
  "flattenPermissionPages pages = concat (map Actions pages)"

definition permissionCatalog :: "PermissionDefinition list" where
  "permissionCatalog = flattenPermissionPages permissionPages"

text \<open>The index keeps the last entry of a key, as assignment to a map does.\<close>

definition buildPermissionCatalogIndex :: "PermissionDefinition list \<Rightarrow> string \<Rightarrow> PermissionDefinition option" where
  "buildPermissionCatalogIndex items = foldl (\<lambda>index item. index(Action item \<mapsto> item)) Map.empty items"

definition permissionCatalogByAction :: "string \<Rightarrow> PermissionDefinition option" where
  "permissionCatalogByAction = buildPermissionCatalogIndex permissionCatalog"

definition FindPermissionDefinition :: "string \<Rightarrow> PermissionDefinition option" where
  "FindPermissionDefinition actionKey = permissionCatalogByAction (TrimSpace actionKey)"

definition dependencies_of :: "string \<Rightarrow> string list" where
  "dependencies_of actionKey = (case map_of actionDependencies actionKey of None \<Rightarrow> [] | Some ds \<Rightarrow> ds)"

datatype catalog_error =
    NotAssignable string
  | IncompletePage nat
  | DuplicatePageKey string
  | DuplicatePagePath string
  | IncompleteAction string nat
  | DuplicateAction string
  | NoVisibilityActions string
  | MissingVisibilityAction string
  | MissingDependencySource string
  | MissingDependency string

section \<open>Validating the actions of a role\<close>

lemma index_dom: "dom (buildPermissionCatalogIndex items) = Action ` set items"
proof -
  have "dom (foldl (\<lambda>index item. index(Action item \<mapsto> item)) m items) = dom m \<union> Action ` set items" for m
    by (induction items arbitrary: m) auto
  then show ?thesis by (simp add: buildPermissionCatalogIndex_def)
qed

definition known_actions :: "string set" where
  "known_actions = Action ` set permissionCatalog"

lemma permissionCatalogByAction_dom: "dom permissionCatalogByAction = known_actions"
  by (simp add: permissionCatalogByAction_def known_actions_def index_dom)

lemma finite_known_actions: "finite known_actions"
  by (simp add: known_actions_def)

function assign_loop :: "string list \<Rightarrow> string list \<Rightarrow> catalog_error + string list" where
  "assign_loop pending unique =
     (case pending of
        [] \<Rightarrow> Inr unique
      | first # rest \<Rightarrow>
          (let actionKey = TrimSpace first in
           if actionKey = [] then assign_loop rest unique
           else (case permissionCatalogByAction actionKey of
                   None \<Rightarrow> Inl (NotAssignable actionKey)
                 | Some item \<Rightarrow>
                     if \<not> Assignable item then Inl (NotAssignable actionKey)
                     else if actionKey \<in> set unique then assign_loop rest unique
                     else assign_loop (rest @ dependencies_of actionKey) (actionKey # unique))))"
  by pat_completeness auto
termination
proof (relation "inv_image ({(m, n). m < n} <*lex*> {(m, n). m < n})
    (\<lambda>(pending, unique). (card (known_actions - set unique), length pending))")
  show "wf (inv_image ({(m, n). m < n} <*lex*> {(m, n). m < n})
    (\<lambda>(pending, unique). (card (known_actions - set unique), length (pending :: string list))))"
    by (intro wf_inv_image wf_lex_prod wf_less)
next
  fix pending unique rest :: "string list" and first k :: string and item
  assume "permissionCatalogByAction k = Some item" "k \<notin> set unique"
  then have "k \<in> known_actions - set unique"
    by (auto simp: permissionCatalogByAction_dom [symmetric])
  then have "card (known_actions - set unique - {k}) < card (known_actions - set unique)"
    using finite_known_actions by (intro card_Diff1_less) auto
  moreover have "known_actions - set (k # unique) = known_actions - set unique - {k}" by auto
  ultimately show "((rest @ dependencies_of k, k # unique), pending, unique)
      \<in> inv_image ({(m, n). m < n} <*lex*> {(m, n). m < n})
        (\<lambda>(pending, unique). (card (known_actions - set unique), length pending))"
    by simp
qed auto

declare assign_loop.simps [simp del]

definition ValidateAssignableActions :: "string list \<Rightarrow> catalog_error + string list" where
  "ValidateAssignableActions actions =
     (case assign_loop actions [] of Inl e \<Rightarrow> Inl e | Inr unique \<Rightarrow> Inr (sort unique))"

section \<open>Visible pages\<close>

definition AccessiblePages :: "string list \<Rightarrow> PageAccess list" where
  "AccessiblePages actions =
     [\<lparr>AccessKey = Key p, AccessPath = Path p, AccessOrder = Order p\<rparr>. p \<leftarrow> permissionPages,
       ''*'' \<in> set actions
       \<or> list_ex (\<lambda>a. a \<in> set actions) (case map_of pageVisibilityActions (Key p) of None \<Rightarrow> [] | Some vs \<Rightarrow> vs)]"

section \<open>The start-up check\<close>

fun check_actions ::
    "string \<Rightarrow> nat \<Rightarrow> PermissionDefinition list \<Rightarrow> string list \<Rightarrow> catalog_error + string list" where
  "check_actions pageKey i [] actions = Inr actions"
| "check_actions pageKey i (item # items) actions =
     (if Action item = [] \<or> Label item = [] \<or> Description item = [] then Inl (IncompleteAction pageKey i)
      else if Action item \<in> set actions then Inl (DuplicateAction (Action item))
      else check_actions pageKey (i + 1) items (Action item # actions))"

fun check_pages ::
    "nat \<Rightarrow> PermissionPageDefinition list \<Rightarrow> string list \<Rightarrow> string list \<Rightarrow> string list \<Rightarrow> catalog_error + string list" where
  "check_pages i [] pageKeys paths actions = Inr actions"
| "check_pages i (p # ps) pageKeys paths actions =
     (if Key p = [] \<or> PageLabel p = [] \<or> Path p = [] \<or> Order p \<le> 0 \<or> Actions p = [] then Inl (IncompletePage i)
      else if Key p \<in> set pageKeys then Inl (DuplicatePageKey (Key p))
      else if Path p \<in> set paths then Inl (DuplicatePagePath (Path p))
      else (case check_actions (Key p) 0 (Actions p) actions of Inl e \<Rightarrow> Inl e
        | Inr actions' \<Rightarrow> check_pages (i + 1) ps (Key p # pageKeys) (Path p # paths) actions'))"

fun first_error :: "('a \<Rightarrow> catalog_error option) \<Rightarrow> 'a list \<Rightarrow> catalog_error option" where
  "first_error f [] = None"
| "first_error f (x # xs) = (case f x of Some e \<Rightarrow> Some e | None \<Rightarrow> first_error f xs)"

definition check_visibility :: "string list \<Rightarrow> PermissionPageDefinition \<Rightarrow> catalog_error option" where
  "check_visibility actions p =
     (case map_of pageVisibilityActions (Key p) of
        None \<Rightarrow> Some (NoVisibilityActions (Key p))
      | Some shown \<Rightarrow>
          if shown = [] then Some (NoVisibilityActions (Key p))
          else first_error (\<lambda>a. if a \<in> set actions then None else Some (MissingVisibilityAction a)) shown)"

definition check_dependency :: "string list \<Rightarrow> string \<times> string list \<Rightarrow> catalog_error option" where
  "check_dependency actions d =
     (if fst d \<notin> set actions then Some (MissingDependencySource (fst d))
      else first_error (\<lambda>a. if a \<in> set actions then None else Some (MissingDependency a)) (snd d))"

definition ValidatePermissionCatalog :: "catalog_error option" where
  "ValidatePermissionCatalog =
     (case check_pages 0 permissionPages [] [] [] of Inl e \<Rightarrow> Some e
      | Inr actions \<Rightarrow>
        (case first_error (check_visibility actions) permissionPages of Some e \<Rightarrow> Some e
         | None \<Rightarrow> first_error (check_dependency actions) actionDependencies))"

section \<open>Facts about the tables\<close>

definition action_list :: "string list" where
  "action_list = map Action permissionCatalog"

lemma action_list_eq:
  "action_list =
     [''session:connect'', ''sftp:connect'', ''rdp:connect'', ''rdp:clipboard:read'', ''rdp:clipboard:write'',
      ''rdp:file:upload'', ''rdp:file:download'', ''rdp:drive:map'', ''db:connect'', ''app:connect'',
      ''container:connect'', ''db:query'', ''db:execute'', ''host:view'', ''host:create'', ''host:update'',
      ''host:delete'', ''target:view'', ''target:create'', ''target:update'', ''target:delete'', ''dbproxy:view'',
      ''dbproxy:create'', ''dbproxy:update'', ''dbproxy:delete'', ''platform_account:view'',
      ''platform_account:create'', ''platform_account:update'', ''platform_account:delete'',
      ''platform_account:use'', ''application:view'', ''application:create'', ''application:update'',
      ''application:delete'', ''container:view'', ''container:create'', ''container:update'', ''container:delete'',
      ''audit:view'', ''db:audit:view'', ''rdp:recording:view'', ''session:view'', ''session:disconnect'',
      ''rbac:manage'', ''ai:access:manage'']"
  by (simp add: action_list_def permissionCatalog_def flattenPermissionPages_def page_defs action_names)

lemma all_assignable: "list_all Assignable permissionCatalog"
  by (simp add: permissionCatalog_def flattenPermissionPages_def page_defs)

lemma action_list_trimmed: "list_all (\<lambda>a. a \<noteq> [] \<and> TrimSpace a = a) action_list"
  by (simp add: action_list_eq TrimSpace_visible visible_def)

lemma dependencies_known: "list_all (\<lambda>d. list_all (\<lambda>a. a \<in> set action_list) (snd d)) actionDependencies"
  by (simp add: action_list_eq actionDependencies_def action_names)

lemma known_actions_list: "known_actions = set action_list"
  by (simp add: known_actions_def action_list_def)


section \<open>The worklist computes the dependency closure\<close>

definition needs :: "(string \<times> string) set" where
  "needs = {(a, b). b \<in> set (dependencies_of a)}"

definition keys_of :: "string list \<Rightarrow> string set" where
  "keys_of actions = {k. k \<noteq> [] \<and> k \<in> TrimSpace ` set actions}"

lemma keys_of_simps:
  "keys_of [] = {}"
  "keys_of (a # as) = (if TrimSpace a = [] then keys_of as else insert (TrimSpace a) (keys_of as))"
  "keys_of (as @ bs) = keys_of as \<union> keys_of bs"
  by (auto simp: keys_of_def)

lemma dependencies_of_known: "set (dependencies_of a) \<subseteq> known_actions"
proof (cases "map_of actionDependencies a")
  case None
  then show ?thesis by (simp add: dependencies_of_def)
next
  case (Some ds)
  then have "(a, ds) \<in> set actionDependencies" by (rule map_of_SomeD)
  with dependencies_known Some show ?thesis
    by (auto simp: dependencies_of_def list_all_iff known_actions_list)
qed

lemma known_trimmed: "a \<in> known_actions \<Longrightarrow> a \<noteq> [] \<and> TrimSpace a = a"
  using action_list_trimmed by (auto simp: known_actions_list list_all_iff)

lemma keys_of_dependencies: "keys_of (dependencies_of a) = set (dependencies_of a)"
  using dependencies_of_known [of a] known_trimmed by (force simp: keys_of_def)

lemma known_entry: "a \<in> known_actions \<Longrightarrow> \<exists>item. permissionCatalogByAction a = Some item \<and> Assignable item"
proof -
  have ran: "item \<in> set items" if "buildPermissionCatalogIndex items a = Some item" for items item
  proof -
    have "m x = Some item \<or> item \<in> set items" if "foldl (\<lambda>index item. index(Action item \<mapsto> item)) m items x = Some item" for m x
      using that
    proof (induction items arbitrary: m)
      case (Cons i items)
      from Cons.IH [of "m(Action i \<mapsto> i)"] Cons.prems show ?case by (auto split: if_splits)
    qed simp
    from this [of Map.empty a] that show ?thesis by (auto simp: buildPermissionCatalogIndex_def)
  qed
  assume "a \<in> known_actions"
  then obtain item where "permissionCatalogByAction a = Some item"
    using permissionCatalogByAction_dom by auto
  with ran [of permissionCatalog item] all_assignable show ?thesis
    by (auto simp: permissionCatalogByAction_def list_all_iff)
qed

lemma unknown_entry: "a \<notin> known_actions \<Longrightarrow> permissionCatalogByAction a = None"
  using permissionCatalogByAction_dom by auto

lemma assign_loop_Nil [simp]: "assign_loop [] unique = Inr unique"
  by (simp add: assign_loop.simps)

lemma assign_loop_Cons:
  "assign_loop (a # rest) unique =
     (if TrimSpace a = [] then assign_loop rest unique
      else if TrimSpace a \<notin> known_actions then Inl (NotAssignable (TrimSpace a))
      else if TrimSpace a \<in> set unique then assign_loop rest unique
      else assign_loop (rest @ dependencies_of (TrimSpace a)) (TrimSpace a # unique))"
  using known_entry [of "TrimSpace a"] unknown_entry [of "TrimSpace a"]
  by (auto simp: assign_loop.simps [of "a # rest"] Let_def)

lemma assign_induct [case_names Nil Blank Unknown Seen New]:
  assumes "\<And>unique. P [] unique"
    and "\<And>a rest unique. TrimSpace a = [] \<Longrightarrow> P rest unique \<Longrightarrow> P (a # rest) unique"
    and "\<And>a rest unique. TrimSpace a \<noteq> [] \<Longrightarrow> TrimSpace a \<notin> known_actions \<Longrightarrow> P (a # rest) unique"
    and "\<And>a rest unique. TrimSpace a \<noteq> [] \<Longrightarrow> TrimSpace a \<in> known_actions \<Longrightarrow> TrimSpace a \<in> set unique \<Longrightarrow>
           P rest unique \<Longrightarrow> P (a # rest) unique"
    and "\<And>a rest unique. TrimSpace a \<noteq> [] \<Longrightarrow> TrimSpace a \<in> known_actions \<Longrightarrow> TrimSpace a \<notin> set unique \<Longrightarrow>
           P (rest @ dependencies_of (TrimSpace a)) (TrimSpace a # unique) \<Longrightarrow> P (a # rest) unique"
  shows "P pending unique"
proof (induction pending unique rule: assign_loop.induct)
  case (1 pending unique)
  show ?case
  proof (cases pending)
    case Nil
    then show ?thesis by (simp add: assms(1))
  next
    case (Cons a rest)
    show ?thesis
    proof (cases "TrimSpace a \<in> known_actions")
      case True
      then obtain item where item: "permissionCatalogByAction (TrimSpace a) = Some item" "Assignable item"
        using known_entry by blast
      with True 1 Cons assms(2,4,5) known_trimmed show ?thesis
        by (cases "TrimSpace a \<in> set unique") auto
    next
      case False
      with 1 Cons assms(2,3) show ?thesis by (cases "TrimSpace a = []") auto
    qed
  qed
qed

lemma assign_loop_known:
  "keys_of pending \<subseteq> known_actions \<Longrightarrow> \<exists>U. assign_loop pending unique = Inr U"
proof (induction pending unique rule: assign_induct)
  case (New a rest unique)
  have "keys_of (rest @ dependencies_of (TrimSpace a)) \<subseteq> known_actions"
    using New dependencies_of_known by (auto simp: keys_of_simps keys_of_dependencies)
  with New show ?case by (simp add: assign_loop_Cons)
qed (simp_all add: assign_loop_Cons keys_of_simps)

lemma assign_loop_error:
  "assign_loop pending unique = Inl e \<Longrightarrow> \<exists>k. e = NotAssignable k \<and> k \<notin> known_actions"
  by (induction pending unique rule: assign_induct) (auto simp: assign_loop_Cons)

lemma assign_loop_in_catalog:
  "assign_loop pending unique = Inr U \<Longrightarrow> set U \<subseteq> set unique \<union> known_actions"
  by (induction pending unique rule: assign_induct) (auto simp: assign_loop_Cons)

lemma assign_loop_result:
  "assign_loop pending unique = Inr U \<Longrightarrow> distinct unique \<Longrightarrow>
     distinct U \<and> set unique \<subseteq> set U \<and> keys_of pending \<subseteq> set U
     \<and> (\<forall>u \<in> set U - set unique. set (dependencies_of u) \<subseteq> set U)
     \<and> set U \<subseteq> set unique \<union> needs\<^sup>* `` keys_of pending"
proof (induction pending unique rule: assign_induct)
  case (New a rest unique)
  let ?k = "TrimSpace a"
  have IH: "distinct U \<and> set (?k # unique) \<subseteq> set U \<and> keys_of (rest @ dependencies_of ?k) \<subseteq> set U
     \<and> (\<forall>u \<in> set U - set (?k # unique). set (dependencies_of u) \<subseteq> set U)
     \<and> set U \<subseteq> set (?k # unique) \<union> needs\<^sup>* `` keys_of (rest @ dependencies_of ?k)"
    using New by (simp add: assign_loop_Cons)
  have "needs\<^sup>* `` (keys_of rest \<union> set (dependencies_of ?k)) \<subseteq> needs\<^sup>* `` keys_of (a # rest)"
    using New(1) by (auto simp: keys_of_simps needs_def intro: converse_rtrancl_into_rtrancl)
  moreover have "?k \<in> needs\<^sup>* `` keys_of (a # rest)" using New(1) by (auto simp: keys_of_simps)
  moreover have "set U \<subseteq> insert ?k (set unique) \<union> needs\<^sup>* `` (keys_of rest \<union> set (dependencies_of ?k))"
    using IH by (simp add: keys_of_simps keys_of_dependencies)
  ultimately have "set U \<subseteq> set unique \<union> needs\<^sup>* `` keys_of (a # rest)"
    by blast
  then show ?case
    using IH New(1) by (auto simp: keys_of_simps keys_of_dependencies)
qed (auto simp: assign_loop_Cons keys_of_simps)

lemma closure_of_result:
  assumes "assign_loop actions [] = Inr U"
  shows "set U = needs\<^sup>* `` keys_of actions"
proof
  note res = assign_loop_result [OF assms]
  show "set U \<subseteq> needs\<^sup>* `` keys_of actions" using res by simp
  have "b \<in> set U" if "(a, b) \<in> needs\<^sup>*" "a \<in> set U" for a b
    using that res by (induction rule: rtrancl_induct) (auto simp: needs_def)
  then show "needs\<^sup>* `` keys_of actions \<subseteq> set U" using res by auto
qed

section \<open>Properties\<close>

text \<open>
  C30. Validating the actions of a role: when every action (after trimming, blanks skipped) is in the
  catalog, the result is the sorted, duplicate-free list of exactly the given actions and everything
  they depend on, directly or indirectly.
\<close>

theorem ValidateAssignableActions_closure:
  assumes "keys_of actions \<subseteq> known_actions"
  shows "\<exists>L. ValidateAssignableActions actions = Inr L \<and> sorted L \<and> distinct L \<and> set L = needs\<^sup>* `` keys_of actions"
proof -
  obtain U where U: "assign_loop actions [] = Inr U" using assign_loop_known [OF assms] by blast
  then have "distinct U" using assign_loop_result [OF U] by simp
  then show ?thesis
    using U closure_of_result [OF U] by (simp add: ValidateAssignableActions_def)
qed

theorem ValidateAssignableActions_closure_witness:
  "\<exists>L. ValidateAssignableActions [''db:execute'', ''''] = Inr L \<and> sorted L \<and> distinct L
    \<and> set L = needs\<^sup>* `` keys_of [''db:execute'', '''']"
  by (rule ValidateAssignableActions_closure)
     (simp add: keys_of_simps known_actions_list action_list_eq TrimSpace_visible visible_def)

text \<open>
  The only way validation fails is on an action that the catalog does not have, and the error
  names one; an unknown action among the given ones always makes it fail.
\<close>

theorem ValidateAssignableActions_error:
  "case ValidateAssignableActions actions of
     Inl e \<Rightarrow> (\<exists>k. e = NotAssignable k \<and> k \<notin> known_actions) \<and> \<not> keys_of actions \<subseteq> known_actions
   | Inr L \<Rightarrow> keys_of actions \<subseteq> known_actions"
proof (cases "assign_loop actions []")
  case (Inl e)
  then have "\<not> keys_of actions \<subseteq> known_actions" using assign_loop_known [of actions "[]"] by auto
  with Inl show ?thesis by (auto simp: ValidateAssignableActions_def dest: assign_loop_error)
next
  case (Inr U)
  from assign_loop_in_catalog [OF Inr] have "set U \<subseteq> known_actions" by simp
  with assign_loop_result [OF Inr] Inr show ?thesis
    by (auto simp: ValidateAssignableActions_def)
qed

text \<open>
  The catalog shipped with the program passes its own start-up check: complete metadata,
  unique pages, paths and actions, and visibility and dependency tables that mention only actions
  of the catalog.
\<close>

theorem ValidatePermissionCatalog_ok: "ValidatePermissionCatalog = None"
  by (simp add: ValidatePermissionCatalog_def page_defs action_names utf8_def check_visibility_def
      check_dependency_def pageVisibilityActions_def actionDependencies_def)

end
