(* ===== verification/Guacamole.thy ===== *)
theory Guacamole
  imports Utf8 Net
begin

text \<open>
  Guacamole instructions (\<open>internal/proxy/rdpproxy/protocol.go\<close>): the length-prefixed text protocol
  spoken with guacd for RDP sessions.  The decoder reads from a byte stream and returns what is
  left of it; both sides enforce the same limits.
\<close>

section \<open>Limits and errors\<close>

record Limits =
  MaxElementLength :: int
  MaxInstructionLength :: int
  MaxElements :: int

record Instruction =
  Opcode :: string
  Args :: "string list"

datatype guac_error =
    EndOfFile
  | Malformed string
  | ElementTooLarge
  | InstructionTooLarge
  | TooManyElements
  | WriteFailed string
  | ShortWrite

definition defaultMaxElementLength :: int where "defaultMaxElementLength = 2 ^ 20"
definition defaultMaxInstructionLength :: int where "defaultMaxInstructionLength = 8 * 2 ^ 20"
definition defaultMaxElements :: int where "defaultMaxElements = 256"

definition normalizeLimits :: "Limits \<Rightarrow> Limits" where
  "normalizeLimits limits =
     \<lparr>MaxElementLength = (if MaxElementLength limits \<le> 0 then defaultMaxElementLength else MaxElementLength limits),
      MaxInstructionLength = (if MaxInstructionLength limits \<le> 0 then defaultMaxInstructionLength
                              else MaxInstructionLength limits),
      MaxElements = (if MaxElements limits \<le> 0 then defaultMaxElements else MaxElements limits)\<rparr>"

section \<open>Encoding\<close>

fun encode_elements :: "Limits \<Rightarrow> string list \<Rightarrow> bytes \<Rightarrow> guac_error + bytes" where
  "encode_elements limits [] encoded = Inr encoded"
| "encode_elements limits (element # elements) encoded =
     (if \<not> utf8_valid element then Inl (Malformed ''invalid utf-8'')
      else if int (rune_count element) > MaxElementLength limits then Inl ElementTooLarge
      else
      let encoded = encoded @ itoa (rune_count element) @ ''.'' @ element
                    @ (if elements = [] then '';'' else '','') in
      if int (length encoded) > MaxInstructionLength limits then Inl InstructionTooLarge
      else encode_elements limits elements encoded)"

definition encode_instruction :: "Limits \<Rightarrow> Instruction \<Rightarrow> guac_error + bytes" where
  "encode_instruction limits i =
     (if Opcode i = [] then Inl (Malformed ''empty opcode'')
      else if int (length (Opcode i # Args i)) > MaxElements limits then Inl TooManyElements
      else encode_elements limits (Opcode i # Args i) [])"

definition Encode :: "Limits \<Rightarrow> conn \<Rightarrow> Instruction \<Rightarrow> guac_error option \<times> conn" where
  "Encode limits c i =
     (case encode_instruction limits i of Inl e \<Rightarrow> (Some e, c)
      | Inr raw \<Rightarrow>
        (case conn_write c raw of
           (written, Some e, c') \<Rightarrow> (Some (WriteFailed e), c')
         | (written, None, c') \<Rightarrow> if written \<noteq> length raw then (Some ShortWrite, c') else (None, c')))"

section \<open>Decoding\<close>

text \<open>Go's integer division rounds towards zero.\<close>

definition go_div10 :: "int \<Rightarrow> int" where
  "go_div10 a = (if a \<ge> 0 then a div 10 else - ((- a) div 10))"

fun read_length_loop :: "Limits \<Rightarrow> bytes \<Rightarrow> int \<Rightarrow> nat \<Rightarrow> nat \<Rightarrow> guac_error + (int \<times> nat \<times> bytes)" where
  "read_length_loop limits [] len digits consumed =
     Inl (if consumed = 0 then EndOfFile else Malformed ''truncated length'')"
| "read_length_loop limits (next # s) len digits consumed =
     (if next = CHR ''.'' then
        (if digits = 0 then Inl (Malformed ''empty length'') else Inr (len, consumed + 1, s))
      else if \<not> is_digit next then Inl (Malformed ''non-decimal length'')
      else if digits + 1 > 10 then Inl ElementTooLarge
      else
      let digit = int (byte_val next) - 48 in
      if len > go_div10 (MaxElementLength limits - digit) then Inl ElementTooLarge
      else read_length_loop limits s (len * 10 + digit) (digits + 1) (consumed + 1))"

definition readElementLength :: "Limits \<Rightarrow> bytes \<Rightarrow> guac_error + (int \<times> nat \<times> bytes)" where
  "readElementLength limits s = read_length_loop limits s 0 0 0"

text \<open>The loop over the code points of the value: \<open>k\<close> are left to read.\<close>

fun read_runes :: "Limits \<Rightarrow> nat \<Rightarrow> nat \<Rightarrow> bytes \<Rightarrow> bytes \<Rightarrow> nat \<Rightarrow> guac_error + (bytes \<times> nat \<times> bytes)" where
  "read_runes limits already 0 s v consumed = Inr (v, consumed, s)"
| "read_runes limits already (Suc k) s v consumed =
     (if s = [] then Inl (Malformed ''truncated element'')
      else
      let n = rune_len s in
      if n = 0 then Inl (Malformed ''invalid utf-8'')
      else if int (already + consumed + n) > MaxInstructionLength limits then Inl InstructionTooLarge
      else read_runes limits already k (drop n s) (v @ take n s) (consumed + n))"

definition readElement :: "Limits \<Rightarrow> nat \<Rightarrow> bytes \<Rightarrow> guac_error + (string \<times> byte \<times> nat \<times> bytes)" where
  "readElement limits alreadyConsumed s =
     (case readElementLength limits s of Inl e \<Rightarrow> Inl e
      | Inr (len, prefixBytes, s1) \<Rightarrow>
        if len > MaxElementLength limits then Inl ElementTooLarge
        else if int (alreadyConsumed + prefixBytes) > MaxInstructionLength limits then Inl InstructionTooLarge
        else (case read_runes limits alreadyConsumed (nat len) s1 [] prefixBytes of Inl e \<Rightarrow> Inl e
          | Inr (v, consumed, s2) \<Rightarrow>
            (case s2 of [] \<Rightarrow> Inl (Malformed ''missing separator'')
             | separator # s3 \<Rightarrow>
                 if separator \<noteq> CHR '','' \<and> separator \<noteq> CHR '';'' then Inl (Malformed ''invalid separator'')
                 else Inr (v, separator, consumed + 1, s3))))"

function decode_loop :: "Limits \<Rightarrow> bytes \<Rightarrow> string list \<Rightarrow> nat \<Rightarrow> guac_error + (Instruction \<times> bytes)" where
  "decode_loop limits s elements wireBytes =
     (if int (length elements) \<ge> MaxElements limits then Inl TooManyElements
      else (case readElement limits wireBytes s of Inl e \<Rightarrow> Inl e
        | Inr (element, separator, consumed, s') \<Rightarrow>
          if int (wireBytes + consumed) > MaxInstructionLength limits then Inl InstructionTooLarge
          else
          let elements' = elements @ [element] in
          if separator = CHR '','' then decode_loop limits s' elements' (wireBytes + consumed)
          else if separator = CHR '';'' then
            (if elements' ! 0 = [] then Inl (Malformed ''empty opcode'')
             else Inr (\<lparr>Opcode = elements' ! 0, Args = tl elements'\<rparr>, s'))
          else Inl (Malformed ''invalid separator'')))"
  by pat_completeness auto
termination
  by (relation "measure (\<lambda>(limits, s, elements, wireBytes). nat (MaxElements limits) - length elements)") auto

declare decode_loop.simps [simp del]

definition Decode :: "Limits \<Rightarrow> bytes \<Rightarrow> guac_error + (Instruction \<times> bytes)" where
  "Decode limits s = decode_loop limits s [] 0"


section \<open>Round trip\<close>

lemma read_runes_valid:
  "runes s = Some rs \<Longrightarrow> int (already + consumed + length s) \<le> MaxInstructionLength limits \<Longrightarrow>
     read_runes limits already (length rs) (s @ rest) v consumed = Inr (v @ s, consumed + length s, rest)"
proof (induction s arbitrary: rs v consumed rule: runes.induct)
  case (1 s)
  show ?case
  proof (cases "s = []")
    case True
    with "1.prems" show ?thesis by simp
  next
    case False
    with "1.prems"(1) obtain rs' where n: "rune_len s \<noteq> 0" and rs: "rs = take (rune_len s) s # rs'"
        and rest: "runes (drop (rune_len s) s) = Some rs'"
      by (auto simp: runes.simps [of s] split: if_splits)
    have le: "rune_len s \<le> length s" by (rule rune_len_le)
    have "read_runes limits already (length rs') (drop (rune_len s) s @ rest) (v @ take (rune_len s) s) (consumed + rune_len s)
        = Inr ((v @ take (rune_len s) s) @ drop (rune_len s) s, consumed + rune_len s + length (drop (rune_len s) s), rest)"
      using "1.IH" [OF False n rest] "1.prems"(2) le by simp
    with False n rs le "1.prems"(2) show ?thesis
      by (simp add: rune_len_append Let_def)
  qed
qed

lemma digit_value: "is_digit c \<Longrightarrow> int (byte_val c - 48) = int (byte_val c) - 48"
  by (simp add: is_digit_def)

lemma foldl_digits_ge:
  "(v :: nat) \<le> foldl (\<lambda>v d. v * 10 + (byte_val d - 48)) v ds"
proof (induction ds arbitrary: v)
  case Nil
  then show ?case by simp
next
  case (Cons d ds)
  have "v \<le> v * 10 + (byte_val d - 48)" by simp
  also note Cons.IH [of "v * 10 + (byte_val d - 48)"]
  finally show ?case by simp
qed

lemma read_length_digits:
  assumes "list_all is_digit ds" "k + length ds \<le> 10" "0 < k + length ds"
    and "int (foldl (\<lambda>v d. v * 10 + (byte_val d - 48)) v ds) \<le> MaxElementLength limits"
  shows "read_length_loop limits (ds @ CHR ''.'' # rest) (int v) k consumed
    = Inr (int (foldl (\<lambda>v d. v * 10 + (byte_val d - 48)) v ds), consumed + length ds + 1, rest)"
  using assms
proof (induction ds arbitrary: v k consumed)
  case Nil
  then show ?case by simp
next
  case (Cons d ds)
  let ?v = "v * 10 + (byte_val d - 48)"
  have d: "is_digit d" "d \<noteq> CHR ''.''" using Cons.prems by (auto simp: is_digit_def)
  have "int ?v \<le> MaxElementLength limits"
    using Cons.prems(4) foldl_digits_ge [of ?v ds] by simp
  then have "int v * 10 \<le> MaxElementLength limits - (int (byte_val d) - 48)"
    using digit_value [OF d(1)] by simp
  then have small: "int v \<le> go_div10 (MaxElementLength limits - (int (byte_val d) - 48))"
    by (simp add: go_div10_def)
  have v: "int v * 10 + (int (byte_val d) - 48) = int ?v"
    using digit_value [OF d(1)] by simp
  have rec: "read_length_loop limits (ds @ CHR ''.'' # rest) (int ?v) (k + 1) (consumed + 1)
    = Inr (int (foldl (\<lambda>v d. v * 10 + (byte_val d - 48)) ?v ds), consumed + 1 + length ds + 1, rest)"
    using Cons.prems by (intro Cons.IH) auto
  have "read_length_loop limits ((d # ds) @ CHR ''.'' # rest) (int v) k consumed
      = read_length_loop limits (ds @ CHR ''.'' # rest) (int ?v) (k + 1) (consumed + 1)"
    unfolding v [symmetric] using d small Cons.prems(2) by (simp add: Let_def)
  then show ?case unfolding rec by simp
qed

definition element_bytes :: "string \<Rightarrow> byte \<Rightarrow> bytes" where
  "element_bytes element separator = itoa (rune_count element) @ ''.'' @ element @ [separator]"

lemma readElement_bytes:
  assumes "utf8_valid element" "int (rune_count element) \<le> MaxElementLength limits" "MaxElementLength limits < 10 ^ 10"
    and "int (already + length (element_bytes element separator)) \<le> MaxInstructionLength limits"
    and "separator = CHR '','' \<or> separator = CHR '';''"
  shows "readElement limits already (element_bytes element separator @ rest)
    = Inr (element, separator, length (element_bytes element separator), rest)"
proof -
  let ?n = "rune_count element"
  obtain rs where rs: "runes element = Some rs" "?n = length rs"
    using assms(1) by (auto simp: utf8_valid_def rune_count_def)
  have "length (itoa ?n) \<le> 10" using assms(2,3) by (intro length_itoa) auto
  then have "readElementLength limits (element_bytes element separator @ rest)
      = Inr (int ?n, length (itoa ?n) + 1, element @ separator # rest)"
    using assms(2) itoa_digits [of ?n] dec_val_itoa [of ?n]
      read_length_digits [of "itoa ?n" 0 0 limits "element @ separator # rest" 0]
    by (simp add: readElementLength_def element_bytes_def dec_val_def list_all_iff)
  moreover have "read_runes limits already (nat (int ?n)) (element @ separator # rest) [] (length (itoa ?n) + 1)
      = Inr (element, length (itoa ?n) + 1 + length element, separator # rest)"
    using read_runes_valid [OF rs(1), of already "length (itoa ?n) + 1" limits "separator # rest" "[]"] assms(4) rs(2)
    by (simp add: element_bytes_def)
  ultimately show ?thesis
    using assms(2,4,5) by (auto simp: readElement_def element_bytes_def)
qed

lemma encode_elements_decode:
  "encode_elements limits els encoded = Inr raw \<Longrightarrow> els \<noteq> [] \<Longrightarrow>
     int (length seen + length els) \<le> MaxElements limits \<Longrightarrow> MaxElementLength limits < 10 ^ 10 \<Longrightarrow> hd (seen @ els) \<noteq> [] \<Longrightarrow>
     \<exists>wire. raw = encoded @ wire \<and> decode_loop limits (wire @ rest) seen (length encoded)
       = Inr (\<lparr>Opcode = hd (seen @ els), Args = tl (seen @ els)\<rparr>, rest)"
proof (induction els arbitrary: encoded seen)
  case Nil
  then show ?case by simp
next
  case (Cons e es)
  let ?sep = "if es = [] then CHR '';'' else CHR '',''"
  let ?chunk = "element_bytes e ?sep"
  from Cons.prems(1) have e: "utf8_valid e" "int (rune_count e) \<le> MaxElementLength limits"
      "int (length (encoded @ ?chunk)) \<le> MaxInstructionLength limits"
      and rec: "encode_elements limits es (encoded @ ?chunk) = Inr raw"
    by (auto simp: element_bytes_def Let_def split: if_splits)
  have read: "readElement limits (length encoded) (?chunk @ s) = Inr (e, ?sep, length ?chunk, s)" for s
    using e Cons.prems(4) by (intro readElement_bytes) auto
  have room: "\<not> int (length seen) \<ge> MaxElements limits" using Cons.prems(3) by simp
  show ?case
  proof (cases "es = []")
    case True
    then have "raw = encoded @ ?chunk" using rec by simp
    moreover have "(seen @ [e]) ! 0 = hd (seen @ [e])" by (cases "seen") auto
    ultimately show ?thesis
      using True read [of rest] e(3) room Cons.prems(5)
      by (intro exI [of _ ?chunk]) (subst decode_loop.simps, simp add: Let_def)
  next
    case False
    with Cons.IH [OF rec False, of "seen @ [e]"] Cons.prems obtain wire where
        wire: "raw = (encoded @ ?chunk) @ wire"
          "decode_loop limits (wire @ rest) (seen @ [e]) (length (encoded @ ?chunk))
            = Inr (\<lparr>Opcode = hd (seen @ e # es), Args = tl (seen @ e # es)\<rparr>, rest)"
      by auto
    then show ?thesis
      using False read [of "wire @ rest"] e(3) room
      by (intro exI [of _ "?chunk @ wire"]) (subst decode_loop.simps, simp add: Let_def)
  qed
qed

lemma Decode_encode:
  assumes "encode_instruction limits i = Inr raw" "MaxElementLength limits < 10 ^ 10"
  shows "Decode limits (raw @ rest) = Inr (i, rest)"
proof -
  from assms(1) have "Opcode i \<noteq> []" "int (length (Opcode i # Args i)) \<le> MaxElements limits"
      "encode_elements limits (Opcode i # Args i) [] = Inr raw"
    by (auto simp: encode_instruction_def split: if_splits)
  with encode_elements_decode [of limits "Opcode i # Args i" "[]" raw "[]" rest] assms(2) show ?thesis
    by (auto simp: Decode_def)
qed


definition instruction_bytes :: "Limits \<Rightarrow> Instruction \<Rightarrow> bytes" where
  "instruction_bytes limits i = (case encode_instruction limits i of Inl e \<Rightarrow> [] | Inr raw \<Rightarrow> raw)"

definition instruction_ok :: "Limits \<Rightarrow> Instruction \<Rightarrow> bool" where
  "instruction_ok limits i \<longleftrightarrow> MaxElementLength limits < 10 ^ 10 \<and> \<not> isl (encode_instruction limits i)"

definition instruction_read :: "Limits \<Rightarrow> bytes \<Rightarrow> (Instruction \<times> bytes) option" where
  "instruction_read limits s = (case Decode limits s of Inl e \<Rightarrow> None | Inr r \<Rightarrow> Some r)"

section \<open>What the decoder consumes\<close>

lemma read_length_consumes:
  "read_length_loop limits s v k c = Inr (len, c', s') \<Longrightarrow> \<exists>pre. s = pre @ s' \<and> c' = c + length pre \<and> pre \<noteq> []"
proof (induction limits s v k c rule: read_length_loop.induct)
  case (1 limits v k c)
  then show ?case by simp
next
  case (2 limits x s v k c)
  show ?case
  proof (cases "x = CHR ''.''")
    case True
    with "2.prems" show ?thesis by (intro exI [of _ "[x]"]) (auto split: if_splits)
  next
    case False
    with 2 obtain pre where "s = pre @ s'" "c' = c + 1 + length pre"
      by (fastforce simp: Let_def split: if_splits)
    then show ?thesis by (intro exI [of _ "x # pre"]) simp
  qed
qed

lemma read_length_nonneg: "read_length_loop limits s v k c = Inr (len, c', s') \<Longrightarrow> 0 \<le> v \<Longrightarrow> 0 \<le> len"
proof (induction limits s v k c rule: read_length_loop.induct)
  case (2 limits x s v k c)
  show ?case
  proof (cases "x = CHR ''.''")
    case True
    with 2 show ?thesis by (simp split: if_splits)
  next
    case False
    with "2.prems"(1) have "is_digit x"
      and rec: "read_length_loop limits s (v * 10 + (int (byte_val x) - 48)) (k + 1) (c + 1) = Inr (len, c', s')"
      by (simp_all add: Let_def split: if_splits)
    then have "0 \<le> v * 10 + (int (byte_val x) - 48)" using "2.prems"(2) by (simp add: is_digit_def)
    with "2.IH" rec False "2.prems"(1) show ?thesis by (simp add: Let_def split: if_splits)
  qed
qed simp

lemma read_runes_consumes:
  "read_runes limits already k s v c = Inr (v', c', s') \<Longrightarrow>
     \<exists>pre rs. s = pre @ s' \<and> c' = c + length pre \<and> v' = v @ pre \<and> runes pre = Some rs \<and> length rs = k"
proof (induction limits already k s v c rule: read_runes.induct)
  case (1 limits already s v c)
  then show ?case by simp
next
  case (2 limits already k s v c)
  let ?n = "rune_len s"
  from "2.prems" have n: "s \<noteq> []" "?n \<noteq> 0"
      and rec: "read_runes limits already k (drop ?n s) (v @ take ?n s) (c + ?n) = Inr (v', c', s')"
    by (auto simp: Let_def split: if_splits)
  from "2.IH" [OF n(1) refl n(2)] "2.prems" n rec obtain pre rs where
      pre: "drop ?n s = pre @ s'" "c' = c + ?n + length pre" "v' = (v @ take ?n s) @ pre"
        "runes pre = Some rs" "length rs = k"
    by (auto simp: Let_def split: if_splits)
  have len: "length (take ?n s) = ?n" using rune_len_le [of s] by simp
  have s: "s = take ?n s @ pre @ s'" using pre(1) by (metis append_take_drop_id)
  have "rune_len (take ?n s @ pre) = ?n" using n(2) by (rule rune_len_take)
  then have "runes (take ?n s @ pre) = Some (take ?n s # rs)"
    using n len pre(4) by (simp add: runes.simps [of "take ?n s @ pre"])
  with s pre(2,3,5) len show ?case
    by (intro exI [of _ "take ?n s @ pre"] exI [of _ "take ?n s # rs"]) simp
qed


definition element_ok :: "Limits \<Rightarrow> string \<Rightarrow> bool" where
  "element_ok limits e \<longleftrightarrow> utf8_valid e \<and> int (rune_count e) \<le> MaxElementLength limits"

lemma readElement_consumes:
  assumes "readElement limits already s = Inr (e, sep, c, s')"
  shows "element_ok limits e \<and> (\<exists>pre. s = pre @ s' \<and> c = length pre \<and> 2 \<le> length pre) \<and> (sep = CHR '','' \<or> sep = CHR '';'')"
proof -
  from assms obtain len p s1 where l: "readElementLength limits s = Inr (len, p, s1)" "len \<le> MaxElementLength limits"
    by (auto simp: readElement_def split: sum.splits prod.splits if_splits)
  from assms l obtain v c2 s2 where r: "read_runes limits already (nat len) s1 [] p = Inr (v, c2, s2)"
    by (auto simp: readElement_def split: sum.splits prod.splits if_splits)
  with assms l have s2: "s2 = sep # s'" "c = c2 + 1" "e = v" "sep = CHR '','' \<or> sep = CHR '';''"
    by (auto simp: readElement_def split: list.splits if_splits)
  from read_length_consumes [OF l(1) [unfolded readElementLength_def]] obtain p1 where
      p1: "s = p1 @ s1" "p = length p1" "p1 \<noteq> []" by auto
  from read_runes_consumes [OF r] obtain p2 rs where
      p2: "s1 = p2 @ s2" "c2 = p + length p2" "v = p2" "runes p2 = Some rs" "length rs = nat len" by auto
  have "element_ok limits e"
    using p2 s2(3) l(2) read_length_nonneg [OF l(1) [unfolded readElementLength_def]]
    by (simp add: element_ok_def utf8_valid_def rune_count_def)
  moreover have "s = (p1 @ p2 @ [sep]) @ s'" using p1 p2 s2 by simp
  ultimately show ?thesis using p1 p2 s2 by (intro conjI exI [of _ "p1 @ p2 @ [sep]"]) (auto simp: Suc_le_eq)
qed

lemma decode_step:
  assumes "decode_loop limits s seen wire = Inr (i, rest)"
  obtains e sep c s' where "readElement limits wire s = Inr (e, sep, c, s')"
    "int (length seen) < MaxElements limits" "int (wire + c) \<le> MaxInstructionLength limits"
    "sep = CHR '','' \<and> decode_loop limits s' (seen @ [e]) (wire + c) = Inr (i, rest)
     \<or> rest = s' \<and> i = \<lparr>Opcode = hd (seen @ [e]), Args = tl (seen @ [e])\<rparr> \<and> hd (seen @ [e]) \<noteq> []"
proof (cases "readElement limits wire s")
  case (Inl e)
  with assms show ?thesis by (simp add: decode_loop.simps [of limits s seen wire] split: if_splits)
next
  case (Inr r)
  obtain e sep c s' where r: "r = (e, sep, c, s')" by (cases r)
  have hd: "(seen @ [e]) ! 0 = hd (seen @ [e])" by (cases seen) simp_all
  from assms Inr r hd that [of e sep c s'] show ?thesis
    by (simp add: decode_loop.simps [of limits s seen wire] Let_def not_le not_less split: if_splits)
qed

lemma decode_loop_consumes:
  "decode_loop limits s seen wire = Inr (i, rest) \<Longrightarrow> list_all (element_ok limits) seen \<Longrightarrow>
     \<exists>pre. s = pre @ rest \<and> pre \<noteq> [] \<and> int (wire + length pre) \<le> MaxInstructionLength limits
       \<and> list_all (element_ok limits) (Opcode i # Args i) \<and> int (length (Opcode i # Args i)) \<le> MaxElements limits
       \<and> Opcode i \<noteq> []"
proof (induction "nat (MaxElements limits) - length seen" arbitrary: s seen wire rule: less_induct)
  case less
  obtain e sep c s' where step: "readElement limits wire s = Inr (e, sep, c, s')"
    "int (length seen) < MaxElements limits" "int (wire + c) \<le> MaxInstructionLength limits"
    "sep = CHR '','' \<and> decode_loop limits s' (seen @ [e]) (wire + c) = Inr (i, rest)
     \<or> rest = s' \<and> i = \<lparr>Opcode = hd (seen @ [e]), Args = tl (seen @ [e])\<rparr> \<and> hd (seen @ [e]) \<noteq> []"
    using decode_step [OF less.prems(1)] .
  from readElement_consumes [OF step(1)] obtain pre where e: "element_ok limits e"
      and pre: "s = pre @ s'" "c = length pre" "2 \<le> length pre" by blast
  have seen: "list_all (element_ok limits) (seen @ [e])" using e less.prems(2) by simp
  from step(4) show ?case
  proof
    assume "sep = CHR '','' \<and> decode_loop limits s' (seen @ [e]) (wire + c) = Inr (i, rest)"
    then have rec: "decode_loop limits s' (seen @ [e]) (wire + c) = Inr (i, rest)" by simp
    have "nat (MaxElements limits) - length (seen @ [e]) < nat (MaxElements limits) - length seen"
      using step(2) by simp
    from less.hyps [OF this rec seen] obtain pre' where
      "s' = pre' @ rest \<and> pre' \<noteq> [] \<and> int (wire + c + length pre') \<le> MaxInstructionLength limits
       \<and> list_all (element_ok limits) (Opcode i # Args i) \<and> int (length (Opcode i # Args i)) \<le> MaxElements limits
       \<and> Opcode i \<noteq> []" by blast
    with pre show ?thesis by (intro exI [of _ "pre @ pre'"]) (simp add: add.assoc)
  next
    assume i: "rest = s' \<and> i = \<lparr>Opcode = hd (seen @ [e]), Args = tl (seen @ [e])\<rparr> \<and> hd (seen @ [e]) \<noteq> []"
    then have "Opcode i # Args i = seen @ [e]" by simp
    moreover have "Opcode i \<noteq> []" using i by simp
    ultimately show ?thesis using i pre step(2,3) seen
      by (intro exI [of _ pre]) (simp only: length_append list.size, auto)
  qed
qed

interpretation guac_codec: codec "instruction_bytes limits" "instruction_read limits" "instruction_ok limits"
  for limits
proof
  fix i rest
  assume "instruction_ok limits i"
  then show "instruction_read limits (instruction_bytes limits i @ rest) = Some (i, rest)"
    using Decode_encode [of limits i _ rest]
    by (auto simp: instruction_ok_def instruction_read_def instruction_bytes_def split: sum.splits)
next
  fix s i rest
  assume "instruction_read limits s = Some (i, rest)"
  then have "Decode limits s = Inr (i, rest)" by (auto simp: instruction_read_def split: sum.splits)
  from decode_loop_consumes [OF this [unfolded Decode_def]] show "length rest < length s" by auto
qed

section \<open>Properties\<close>

text \<open>
  C27. Instructions survive the wire: a stream of instructions written by the encoder is read back by
  the decoder, under the same limits, as exactly those instructions.
\<close>

theorem guacamole_stream:
  assumes "list_all (instruction_ok limits) instrs"
  shows "guac_codec.decode_all limits (concat (map (instruction_bytes limits) instrs) @ rest)
    = (instrs @ fst (guac_codec.decode_all limits rest), snd (guac_codec.decode_all limits rest))"
  using assms by (intro guac_codec.decode_all_frames) (simp add: list_all_iff)

text \<open>
  The decoder enforces its limits on whatever a peer sends: an instruction it returns has a
  non-empty opcode, no more elements than allowed, every element valid UTF-8 of at most the allowed
  number of code points, and was read from at most the allowed number of bytes.
\<close>

theorem Decode_bounded:
  assumes "Decode limits s = Inr (i, rest)"
  shows "\<exists>wire. s = wire @ rest \<and> int (length wire) \<le> MaxInstructionLength limits \<and> Opcode i \<noteq> []
    \<and> int (length (Opcode i # Args i)) \<le> MaxElements limits \<and> list_all (element_ok limits) (Opcode i # Args i)"
  using decode_loop_consumes [OF assms [unfolded Decode_def]] by auto

definition sample_limits :: Limits where
  "sample_limits = \<lparr>MaxElementLength = 100, MaxInstructionLength = 1000, MaxElements = 8\<rparr>"

lemma sample_decode: "Decode sample_limits ''4.sync,3.123;'' = Inr (\<lparr>Opcode = ''sync'', Args = [''123'']\<rparr>, [])"
  by code_simp

theorem Decode_bounded_witness:
  "\<exists>wire. ''4.sync,3.123;'' = wire @ [] \<and> int (length wire) \<le> MaxInstructionLength sample_limits
    \<and> Opcode \<lparr>Opcode = ''sync'', Args = [''123'']\<rparr> \<noteq> []
    \<and> int (length (Opcode \<lparr>Opcode = ''sync'', Args = [''123'']\<rparr> # Args \<lparr>Opcode = ''sync'', Args = [''123'']\<rparr>)) \<le> MaxElements sample_limits
    \<and> list_all (element_ok sample_limits) (Opcode \<lparr>Opcode = ''sync'', Args = [''123'']\<rparr> # Args \<lparr>Opcode = ''sync'', Args = [''123'']\<rparr>)"
  by (rule Decode_bounded) (rule sample_decode)

theorem guacamole_stream_witness:
  "guac_codec.decode_all sample_limits (concat (map (instruction_bytes sample_limits)
      [\<lparr>Opcode = ''sync'', Args = [''123'']\<rparr>, \<lparr>Opcode = ''nop'', Args = []\<rparr>]) @ [])
    = ([\<lparr>Opcode = ''sync'', Args = [''123'']\<rparr>, \<lparr>Opcode = ''nop'', Args = []\<rparr>]
        @ fst (guac_codec.decode_all sample_limits []), snd (guac_codec.decode_all sample_limits []))"
  by (rule guacamole_stream) code_simp

end
