(* ===== verification/Sql_Redactor.thy ===== *)
theory Sql_Redactor
  imports Utf8 Go_Text
begin

text \<open>
  Redaction of SQL before it is stored for audit (\<open>internal/databaseaudit\<close>): the stream redactor
  (\<open>sql_redactor.go\<close>), a state machine over single bytes that may look at a byte again in another
  state, and the processor that feeds it and keeps the preview (\<open>capture.go\<close>).  The callback that
  receives the output is the output component of the results; it is called at most once per
  \<open>Write\<close> or \<open>Flush\<close>, and only with something to write.
\<close>

section \<open>Character classes\<close>

definition RedactedMarker :: string where "RedactedMarker = ''[REDACTED]''"
definition DefaultPreviewBytes :: int where "DefaultPreviewBytes = 64 * 1024"
definition maxDollarTagBytes :: nat where "maxDollarTagBytes = 64 * 1024"

definition between :: "byte \<Rightarrow> byte \<Rightarrow> byte \<Rightarrow> bool" where
  "between lo hi v \<longleftrightarrow> byte_val lo \<le> byte_val v \<and> byte_val v \<le> byte_val hi"

definition isIdentifierStart :: "byte \<Rightarrow> bool" where
  "isIdentifierStart v \<longleftrightarrow> v = CHR ''_'' \<or> between CHR ''a'' CHR ''z'' v \<or> between CHR ''A'' CHR ''Z'' v"

definition isIdentifierPart :: "byte \<Rightarrow> bool" where
  "isIdentifierPart v \<longleftrightarrow> isIdentifierStart v \<or> between CHR ''0'' CHR ''9'' v \<or> v = CHR ''$''"

definition isDatabaseSQLSensitiveValuePart :: "byte \<Rightarrow> bool" where
  "isDatabaseSQLSensitiveValuePart v \<longleftrightarrow>
     isIdentifierPart v \<or> v = CHR ''.'' \<or> v = CHR ''/'' \<or> v = CHR ''+'' \<or> v = CHR ''-''"

definition startsDatabaseSQLStreamNumber :: "byte \<Rightarrow> byte \<Rightarrow> bool" where
  "startsDatabaseSQLStreamNumber prev v \<longleftrightarrow>
     (if \<not> between CHR ''0'' CHR ''9'' v then False else \<not> isIdentifierPart prev \<and> prev \<noteq> CHR ''$'')"

definition isDatabaseSQLStreamNumberPart :: "byte \<Rightarrow> bool" where
  "isDatabaseSQLStreamNumberPart v \<longleftrightarrow>
     between CHR ''0'' CHR ''9'' v \<or> between CHR ''a'' CHR ''f'' v \<or> between CHR ''A'' CHR ''F'' v
     \<or> v \<in> {CHR ''.'', CHR ''x'', CHR ''X'', CHR ''b'', CHR ''B'', CHR ''e'', CHR ''E'', CHR ''+'', CHR ''-''}"

definition sensitive_keys :: "string list" where
  "sensitive_keys =
     [''password'', ''passwd'', ''pwd'', ''secret'', ''token'', ''authorization'', ''api_key'',
      ''access_token'', ''refresh_token'', ''client_secret'']"

definition isDatabaseSQLSensitiveAssignmentKey :: "bytes \<Rightarrow> bool" where
  "isDatabaseSQLSensitiveAssignmentKey ident = list_ex (EqualFold ident) sensitive_keys"

definition is_blank :: "byte \<Rightarrow> bool" where
  "is_blank v \<longleftrightarrow> v = CHR '' '' \<or> v = CHR 0x09 \<or> v = CR \<or> v = LF"

section \<open>The state machine\<close>

datatype redact_state =
    Normal | Dash | Slash | Quoted | QuotePending | LineComment | BlockComment | BlockStar
  | DollarCandidate | DollarBody | Numeric | Identifier | SensitiveSeparator | SensitiveB
  | SensitiveValueStart | SensitiveValue

record SQLStreamRedactor =
  state :: redact_state
  quote :: byte
  escaped :: bool
  previous :: byte
  dollarTag :: bytes
  dollarMatch :: nat
  ident_buf :: bytes
  sensitiveParts :: int

definition NewSQLStreamRedactor :: SQLStreamRedactor where
  "NewSQLStreamRedactor = \<lparr>state = Normal, quote = NUL, escaped = False, previous = NUL, dollarTag = [],
     dollarMatch = 0, ident_buf = [], sensitiveParts = 0\<rparr>"

text \<open>One pass of the loop body: the new redactor, what is written to the output buffer, and whether
  the same byte is processed again.\<close>

type_synonym pass = "SQLStreamRedactor \<times> bytes \<times> bool"

definition step_normal :: "SQLStreamRedactor \<Rightarrow> byte \<Rightarrow> pass" where
  "step_normal r v =
     (if v = CHR 0x27 \<or> v = CHR 0x22 then
        (r\<lparr>quote := v, escaped := False, state := Quoted\<rparr>, [v] @ RedactedMarker, False)
      else if v = CHR ''-'' then (r\<lparr>state := Dash\<rparr>, [], False)
      else if v = CHR ''/'' then (r\<lparr>state := Slash\<rparr>, [], False)
      else if v = CHR ''#'' then (r\<lparr>state := LineComment\<rparr>, ''# '' @ RedactedMarker, False)
      else if isIdentifierStart v then (r\<lparr>ident_buf := [v], state := Identifier\<rparr>, [], False)
      else if v = CHR ''$'' then (r\<lparr>dollarTag := ''$'', state := DollarCandidate\<rparr>, [], False)
      else if startsDatabaseSQLStreamNumber (previous r) v then (r\<lparr>state := Numeric\<rparr>, RedactedMarker, True)
      else (r\<lparr>previous := v\<rparr>, [v], False))"

definition step_dollar_candidate :: "SQLStreamRedactor \<Rightarrow> byte \<Rightarrow> pass" where
  "step_dollar_candidate r v =
     (let give_up = (r\<lparr>previous := last (dollarTag r), dollarTag := [], state := Normal\<rparr>, dollarTag r, True) in
      if v = CHR ''$'' then
        (r\<lparr>dollarTag := dollarTag r @ ''$'', dollarMatch := 0, state := DollarBody\<rparr>,
         dollarTag r @ ''$'' @ RedactedMarker, False)
      else if length (dollarTag r) = 1 \<and> isIdentifierStart v \<or> length (dollarTag r) > 1 \<and> isIdentifierPart v then
        (if length (dollarTag r) \<ge> maxDollarTagBytes then give_up
         else (r\<lparr>dollarTag := dollarTag r @ [v]\<rparr>, [], False))
      else give_up)"

definition step_dollar_body :: "SQLStreamRedactor \<Rightarrow> byte \<Rightarrow> pass" where
  "step_dollar_body r v =
     (if v = dollarTag r ! dollarMatch r then
        (if dollarMatch r + 1 = length (dollarTag r) then
           (r\<lparr>previous := CHR ''$'', dollarMatch := 0, dollarTag := [], state := Normal\<rparr>, dollarTag r, False)
         else (r\<lparr>dollarMatch := dollarMatch r + 1\<rparr>, [], False))
      else if v = CHR ''$'' then (r\<lparr>dollarMatch := 1\<rparr>, [], False)
      else (r\<lparr>dollarMatch := 0\<rparr>, [], False))"

definition step_identifier :: "SQLStreamRedactor \<Rightarrow> byte \<Rightarrow> pass" where
  "step_identifier r v =
     (if isIdentifierPart v \<and> length (ident_buf r) < 256 then
        (r\<lparr>ident_buf := ident_buf r @ [v]\<rparr>, [], False)
      else
        (r\<lparr>sensitiveParts := (if EqualFold (ident_buf r) ''authorization'' then 2 else 1),
           previous := last (ident_buf r), ident_buf := [],
           state := (if isDatabaseSQLSensitiveAssignmentKey (ident_buf r) then SensitiveSeparator else Normal)\<rparr>,
         ident_buf r, True))"

definition step :: "SQLStreamRedactor \<Rightarrow> byte \<Rightarrow> pass" where
  "step r v =
     (case state r of
        Normal \<Rightarrow> step_normal r v
      | Dash \<Rightarrow>
          if v = CHR ''-'' then (r\<lparr>state := LineComment\<rparr>, ''-- '' @ RedactedMarker, False)
          else (r\<lparr>previous := CHR ''-'', state := Normal\<rparr>, ''-'', True)
      | Slash \<Rightarrow>
          if v = CHR ''*'' then (r\<lparr>state := BlockComment\<rparr>, ''/* '' @ RedactedMarker @ '' */'', False)
          else (r\<lparr>previous := CHR ''/'', state := Normal\<rparr>, ''/'', True)
      | Quoted \<Rightarrow>
          if escaped r then (r\<lparr>escaped := False\<rparr>, [], False)
          else if v = CHR 0x5C then (r\<lparr>escaped := True\<rparr>, [], False)
          else if v = quote r then (r\<lparr>state := QuotePending\<rparr>, [], False)
          else (r, [], False)
      | QuotePending \<Rightarrow>
          if v = quote r then (r\<lparr>state := Quoted\<rparr>, [], False)
          else (r\<lparr>previous := quote r, state := Normal\<rparr>, [quote r], True)
      | LineComment \<Rightarrow>
          if v = LF then (r\<lparr>previous := LF, state := Normal\<rparr>, [LF], False) else (r, [], False)
      | BlockComment \<Rightarrow> if v = CHR ''*'' then (r\<lparr>state := BlockStar\<rparr>, [], False) else (r, [], False)
      | BlockStar \<Rightarrow>
          if v = CHR ''/'' then (r\<lparr>previous := CHR ''/'', state := Normal\<rparr>, [], False)
          else if v \<noteq> CHR ''*'' then (r\<lparr>state := BlockComment\<rparr>, [], False)
          else (r, [], False)
      | DollarCandidate \<Rightarrow> step_dollar_candidate r v
      | DollarBody \<Rightarrow> step_dollar_body r v
      | Numeric \<Rightarrow>
          if \<not> isDatabaseSQLStreamNumberPart v then (r\<lparr>state := Normal\<rparr>, [], True) else (r, [], False)
      | Identifier \<Rightarrow> step_identifier r v
      | SensitiveSeparator \<Rightarrow>
          if is_blank v then (r, [v], False)
          else if v = CHR ''='' \<or> v = CHR '':'' then (r\<lparr>state := SensitiveValueStart\<rparr>, [v], False)
          else if v = CHR ''b'' \<or> v = CHR ''B'' then (r\<lparr>state := SensitiveB\<rparr>, [], False)
          else (r\<lparr>state := Normal\<rparr>, [], True)
      | SensitiveB \<Rightarrow>
          if v = CHR ''y'' \<or> v = CHR ''Y'' then (r\<lparr>state := SensitiveValueStart\<rparr>, ''BY'', False)
          else (r\<lparr>previous := CHR ''B'', state := Normal\<rparr>, ''B'', True)
      | SensitiveValueStart \<Rightarrow>
          if is_blank v then (r, [v], False)
          else if isDatabaseSQLSensitiveValuePart v then (r\<lparr>state := SensitiveValue\<rparr>, RedactedMarker, False)
          else (r\<lparr>state := Normal\<rparr>, [], True)
      | SensitiveValue \<Rightarrow>
          if \<not> isDatabaseSQLSensitiveValuePart v then
            (if sensitiveParts r > 1 \<and> is_blank v
             then (r\<lparr>sensitiveParts := sensitiveParts r - 1, state := SensitiveValueStart\<rparr>, [v], False)
             else (r\<lparr>state := Normal\<rparr>, [], True))
          else (r, [], False))"

text \<open>A byte is looked at again at most three times: an identifier ends before it, a separator
  gives up on it, and the ordinary state may start a number with it.\<close>

definition passes_left :: "SQLStreamRedactor \<Rightarrow> byte \<Rightarrow> nat" where
  "passes_left r v =
     (case state r of
        Numeric \<Rightarrow> if isDatabaseSQLStreamNumberPart v then 0 else 2
      | Normal \<Rightarrow> 1
      | Identifier \<Rightarrow> 3
      | _ \<Rightarrow> 2)"

lemma number_start_part: "startsDatabaseSQLStreamNumber p v \<Longrightarrow> isDatabaseSQLStreamNumberPart v"
  by (simp add: startsDatabaseSQLStreamNumber_def isDatabaseSQLStreamNumberPart_def split: if_splits)

lemma step_again: "step r v = (r', out, True) \<Longrightarrow> passes_left r' v < passes_left r v"
  by (cases "state r")
     (auto simp: step_def passes_left_def step_normal_def step_dollar_candidate_def step_dollar_body_def
        step_identifier_def Let_def number_start_part split: if_splits)

function process_byte :: "SQLStreamRedactor \<Rightarrow> byte \<Rightarrow> SQLStreamRedactor \<times> bytes" where
  "process_byte r v =
     (case step r v of (r', out, again) \<Rightarrow>
        if again then (let (r'', out') = process_byte r' v in (r'', out @ out')) else (r', out))"
  by pat_completeness auto
termination
  by (relation "measure (\<lambda>(r, v). passes_left r v)") (auto dest: step_again [OF sym])

declare process_byte.simps [simp del]

fun process_bytes :: "SQLStreamRedactor \<Rightarrow> bytes \<Rightarrow> SQLStreamRedactor \<times> bytes" where
  "process_bytes r [] = (r, [])"
| "process_bytes r (v # data) =
     (let (r', out) = process_byte r v; (r'', out') = process_bytes r' data in (r'', out @ out'))"

text \<open>\<open>Write\<close> and \<open>Flush\<close>: the new redactor and the calls of the output callback.\<close>

definition Write :: "SQLStreamRedactor \<Rightarrow> bytes \<Rightarrow> SQLStreamRedactor \<times> bytes list" where
  "Write r data =
     (if data = [] then (r, [])
      else let (r', output) = process_bytes r data in (r', if output = [] then [] else [output]))"

definition flush_output :: "SQLStreamRedactor \<Rightarrow> bytes" where
  "flush_output r =
     (case state r of
        Dash \<Rightarrow> ''-'' | Slash \<Rightarrow> ''/'' | QuotePending \<Rightarrow> [quote r] | DollarCandidate \<Rightarrow> dollarTag r
      | Identifier \<Rightarrow> ident_buf r | SensitiveB \<Rightarrow> ''B'' | _ \<Rightarrow> [])"

definition Flush :: "SQLStreamRedactor \<Rightarrow> SQLStreamRedactor \<times> bytes list" where
  "Flush r =
     (r\<lparr>state := Normal, dollarTag := [], ident_buf := [], dollarMatch := 0\<rparr>,
      if flush_output r = [] then [] else [flush_output r])"

section \<open>The processor\<close>

record SQLProcessor =
  redact :: bool
  previewLimit :: int
  preview :: bytes
  originalBytes :: int
  redactor :: "SQLStreamRedactor option"

record Section =
  Bytes :: int

record SQLResult =
  Preview :: string
  OriginalBytes :: int
  StoredBytes :: int
  Truncated :: bool
  Redacted :: bool

record Policy =
  PreviewBytes :: int
  RedactionEnabled :: bool

definition NewSQLProcessor :: "bool \<Rightarrow> int \<Rightarrow> SQLProcessor" where
  "NewSQLProcessor rd previewBytes =
     \<lparr>redact = rd, previewLimit = (if previewBytes < 0 then 0 else previewBytes), preview = [],
      originalBytes = 0, redactor = None\<rparr>"

definition collect :: "SQLProcessor \<Rightarrow> bytes \<Rightarrow> SQLProcessor" where
  "collect p data =
     (if previewLimit p \<le> 0 \<or> int (length (preview p)) \<ge> previewLimit p then p
      else
      let remaining = previewLimit p - int (length (preview p));
          remaining = (if remaining > int (length data) then int (length data) else remaining)
      in p\<lparr>preview := preview p @ take (nat remaining) data\<rparr>)"

text \<open>The second component is what is handed to \<open>emit\<close>, call by call.\<close>

definition processor_Write :: "SQLProcessor \<Rightarrow> bytes \<Rightarrow> SQLProcessor \<times> bytes list" where
  "processor_Write p data =
     (let p = p\<lparr>originalBytes := originalBytes p + int (length data)\<rparr> in
      if \<not> redact p then (collect p data, [data])
      else
      let r = (case redactor p of None \<Rightarrow> NewSQLStreamRedactor | Some r \<Rightarrow> r);
          (r', calls) = Write r data in
        (fold (\<lambda>output q. collect q output) calls (p\<lparr>redactor := Some r'\<rparr>), calls))"

definition processor_Flush :: "SQLProcessor \<Rightarrow> SQLProcessor \<times> bytes list" where
  "processor_Flush p =
     (if \<not> redact p then (p, [])
      else (case redactor p of None \<Rightarrow> (p, [])
        | Some r \<Rightarrow>
          (let (r', calls) = Flush r in
            (fold (\<lambda>output q. collect q output) calls (p\<lparr>redactor := Some r'\<rparr>), calls))))"

function trim_invalid :: "bytes \<Rightarrow> bytes" where
  "trim_invalid s = (if s \<noteq> [] \<and> \<not> utf8_valid s then trim_invalid (butlast s) else s)"
  by pat_completeness auto
termination
  by (relation "measure length") auto

declare trim_invalid.simps [simp del]

definition Result :: "SQLProcessor \<Rightarrow> Section \<Rightarrow> SQLResult" where
  "Result p sec =
     (let pv = trim_invalid (preview p) in
      \<lparr>Preview = pv, OriginalBytes = originalBytes p, StoredBytes = Bytes sec,
       Truncated = (int (length pv) < Bytes sec), Redacted = redact p\<rparr>)"

definition PreviewSQL :: "bytes \<Rightarrow> Policy \<Rightarrow> SQLResult" where
  "PreviewSQL data policy =
     (let limit = (if PreviewBytes policy \<le> 0 then DefaultPreviewBytes else PreviewBytes policy);
          p = NewSQLProcessor (RedactionEnabled policy) limit;
          (p, stored1) = processor_Write p data;
          (p, stored2) = processor_Flush p
      in Result p \<lparr>Bytes = int (length (concat (stored1 @ stored2)))\<rparr>)"


definition parameter_Write :: "bool \<Rightarrow> bytes \<Rightarrow> bytes list" where
  "parameter_Write rd data = (if \<not> rd then [data] else [])"

definition parameter_Flush :: "bool \<Rightarrow> bytes list" where
  "parameter_Flush rd = (if rd then [''[PARAMETERS REDACTED]''] else [])"


section \<open>The invariant of the state machine\<close>

text \<open>Exactly what the source needs so that none of its index expressions is out of range: the tag
  under comparison is longer than the part matched so far, and the buffers whose last byte is taken
  are not empty.\<close>

definition redactor_ok :: "SQLStreamRedactor \<Rightarrow> bool" where
  "redactor_ok r \<longleftrightarrow>
     (case state r of
        DollarBody \<Rightarrow> 2 \<le> length (dollarTag r) \<and> dollarMatch r < length (dollarTag r)
      | DollarCandidate \<Rightarrow> dollarTag r \<noteq> []
      | Identifier \<Rightarrow> ident_buf r \<noteq> []
      | _ \<Rightarrow> True)"

lemma step_ok: "redactor_ok r \<Longrightarrow> step r v = (r', out, again) \<Longrightarrow> redactor_ok r'"
  by (cases "state r")
     (auto simp: step_def redactor_ok_def step_normal_def step_dollar_candidate_def step_dollar_body_def
        step_identifier_def Let_def Suc_le_eq split: if_splits)

lemma process_byte_ok: "redactor_ok r \<Longrightarrow> redactor_ok (fst (process_byte r v))"
proof (induction r v rule: process_byte.induct)
  case (1 r v)
  obtain r' out again where s: "step r v = (r', out, again)" by (cases "step r v")
  with 1 show ?case
    by (auto simp: process_byte.simps [of r v] Let_def dest: step_ok split: prod.splits)
qed

lemma process_bytes_ok: "redactor_ok r \<Longrightarrow> redactor_ok (fst (process_bytes r data))"
proof (induction data arbitrary: r)
  case (Cons v data)
  have "fst (process_bytes r (v # data)) = fst (process_bytes (fst (process_byte r v)) data)"
    by (simp add: Let_def split: prod.splits)
  with Cons process_byte_ok [of r v] show ?case by simp
qed simp

lemma process_bytes_append:
  "process_bytes r (xs @ ys) =
     (let (r', o1) = process_bytes r xs; (r'', o2) = process_bytes r' ys in (r'', o1 @ o2))"
  by (induction xs arbitrary: r) (simp_all add: Let_def split: prod.splits)

interpretation redact_stream: stream_processor process_bytes redactor_ok
proof
  show "process_bytes r [] = (r, [])" for r by simp
  show "process_bytes r (xs @ ys) =
      (let (r', o1) = process_bytes r xs; (r'', o2) = process_bytes r' ys in (r'', o1 @ o2))" for r xs ys
    by (rule process_bytes_append)
  show "redactor_ok r \<Longrightarrow> redactor_ok (fst (process_bytes r xs))" for r xs
    by (rule process_bytes_ok)
qed

lemma new_redactor_ok: "redactor_ok NewSQLStreamRedactor"
  by (simp add: redactor_ok_def NewSQLStreamRedactor_def)

fun write_all :: "SQLStreamRedactor \<Rightarrow> bytes list \<Rightarrow> SQLStreamRedactor \<times> bytes list" where
  "write_all r [] = (r, [])"
| "write_all r (c # cs) = (let (r', o1) = Write r c; (r'', o2) = write_all r' cs in (r'', o1 @ o2))"

lemma Write_process: "fst (Write r d) = fst (process_bytes r d)" "concat (snd (Write r d)) = snd (process_bytes r d)"
  by (simp_all add: Write_def split: prod.split)

lemma write_all_chunks:
  "(fst (write_all r cs), concat (snd (write_all r cs))) = redact_stream.process_chunks r cs"
proof (induction cs arbitrary: r)
  case (Cons c cs)
  obtain r' o1 where w: "Write r c = (r', o1)" by (cases "Write r c")
  with Write_process [of r c] have "process_bytes r c = (r', concat o1)" by (cases "process_bytes r c") simp
  with w Cons [of r'] show ?case
    by (cases "write_all r' cs"; cases "redact_stream.process_chunks r' cs") (simp add: Let_def)
qed simp

section \<open>Literals\<close>




section \<open>The preview\<close>

lemma trim_invalid_prefix: "prefix (trim_invalid s) s"
proof (induction s rule: trim_invalid.induct)
  case (1 s)
  then show ?case
    by (auto simp: trim_invalid.simps [of s] intro: prefix_order.trans [OF _ prefixeq_butlast])
qed

lemma trim_invalid_valid: "utf8_valid (trim_invalid s)"
  by (induction s rule: trim_invalid.induct) (subst trim_invalid.simps, auto)

definition redacted_output :: "bytes \<Rightarrow> bytes" where
  "redacted_output data = (let (r, out) = process_bytes NewSQLStreamRedactor data in out @ flush_output r)"

lemma fold_collect:
  assumes "0 < previewLimit p" "int (length (preview p)) \<le> previewLimit p"
  shows "fold (\<lambda>output q. collect q output) calls p =
    p\<lparr>preview := take (nat (previewLimit p)) (preview p @ concat calls)\<rparr>"
  using assms
proof (induction calls arbitrary: p)
  case Nil
  then show ?case by simp
next
  case (Cons c cs)
  let ?l = "nat (previewLimit p)"
  have "collect p c = p\<lparr>preview := take ?l (preview p @ c)\<rparr>"
    using Cons.prems by (auto simp: collect_def Let_def nat_diff_distrib)
  moreover have "take ?l (take ?l (preview p @ c) @ concat cs) = take ?l (preview p @ c @ concat cs)"
    by (simp add: min_def)
  ultimately show ?case
    using Cons.prems Cons.IH [of "p\<lparr>preview := take ?l (preview p @ c)\<rparr>"] by simp
qed


lemma preview_of_redacted:
  assumes "0 < limit"
  shows "PreviewSQL data \<lparr>PreviewBytes = limit, RedactionEnabled = True\<rparr> =
    (let out = redacted_output data; pv = trim_invalid (take (nat limit) out) in
     \<lparr>Preview = pv, OriginalBytes = int (length data), StoredBytes = int (length out),
      Truncated = (int (length pv) < int (length out)), Redacted = True\<rparr>)"
proof -
  let ?p = "NewSQLProcessor True limit\<lparr>originalBytes := int (length data)\<rparr>"
  obtain r calls where w: "Write NewSQLStreamRedactor data = (r, calls)" by fastforce
  obtain r' calls' where f: "Flush r = (r', calls')" by fastforce
  have p: "previewLimit ?p = limit" "preview ?p = []" using assms by (simp_all add: NewSQLProcessor_def)
  have out: "concat calls @ concat calls' = redacted_output data"
    using Write_process [of NewSQLStreamRedactor data] w f
    by (auto simp: redacted_output_def Flush_def Let_def split: prod.splits if_splits)
  have len: "int (length (concat calls)) + int (length (concat calls')) = int (length (redacted_output data))"
    using arg_cong [OF out, of length] by simp
  define p1 where "p1 = ?p\<lparr>redactor := Some r, preview := take (nat limit) (concat calls)\<rparr>"
  have "processor_Write (NewSQLProcessor True limit) data = (p1, calls)"
    using w p assms fold_collect [of "?p\<lparr>redactor := Some r\<rparr>" calls]
    by (simp add: processor_Write_def NewSQLProcessor_def p1_def)
  moreover have "processor_Flush p1 = (p1\<lparr>redactor := Some r', preview := take (nat limit) (concat calls @ concat calls')\<rparr>, calls')"
  proof -
    let ?q = "p1\<lparr>redactor := Some r'\<rparr>"
    have q: "previewLimit ?q = limit" "preview ?q = take (nat limit) (concat calls)"
      using assms by (simp_all add: p1_def NewSQLProcessor_def)
    have "int (length (preview ?q)) \<le> previewLimit ?q" unfolding q using assms by (auto simp: min_def)
    from fold_collect [OF _ this] q assms
    have "fold (\<lambda>output q. collect q output) calls' ?q = ?q\<lparr>preview := take (nat limit) (take (nat limit) (concat calls) @ concat calls')\<rparr>"
      by simp
    moreover have "take (nat limit) (take (nat limit) (concat calls) @ concat calls') = take (nat limit) (concat calls @ concat calls')"
      by (simp add: min_def)
    ultimately show ?thesis
      using f by (simp only: processor_Flush_def) (simp add: p1_def NewSQLProcessor_def)
  qed
  ultimately show ?thesis
    using assms out len by (simp add: PreviewSQL_def Result_def p1_def NewSQLProcessor_def Let_def)
qed

section \<open>Properties\<close>

text \<open>
  How a statement is cut into writes never shows: whatever the chunks, the bytes handed to the
  audit store and the state of the redactor are those of one write of the whole statement.
\<close>

theorem redaction_chunking:
  "(fst (write_all NewSQLStreamRedactor chunks), concat (snd (write_all NewSQLStreamRedactor chunks)))
    = (fst (Write NewSQLStreamRedactor (concat chunks)), concat (snd (Write NewSQLStreamRedactor (concat chunks))))"
  using redact_stream.process_chunks_concat [OF new_redactor_ok, of chunks]
  by (simp add: write_all_chunks Write_process)

text \<open>
  The redactor never indexes outside its buffers: from the initial state, after any sequence of
  writes and flushes, the state satisfies the invariant that makes every index expression of the
  source valid.
\<close>

theorem redactor_indices_safe:
  "redactor_ok (fst (Write (fst (Flush (fst (write_all NewSQLStreamRedactor cs)))) data))
   \<and> redactor_ok (fst (write_all NewSQLStreamRedactor cs))"
proof -
  have "redactor_ok (fst (redact_stream.process_chunks NewSQLStreamRedactor cs))"
    by (rule redact_stream.process_chunks_inv) (rule new_redactor_ok)
  then have "redactor_ok (fst (write_all NewSQLStreamRedactor cs))"
    using write_all_chunks [of NewSQLStreamRedactor cs] by (metis fst_conv)
  moreover have "redactor_ok (fst (Flush r))" for r
    by (simp add: Flush_def redactor_ok_def)
  ultimately show ?thesis by (simp add: Write_process process_bytes_ok)
qed


text \<open>
  Previews are bounded and well-formed: with redaction on, the preview is a prefix of what was
  stored, at most the configured number of bytes, valid UTF-8, and flagged as truncated exactly when
  it is not all of it.
\<close>

theorem PreviewSQL_bounded:
  fixes data :: bytes
  assumes "0 < limit"
  defines "res \<equiv> PreviewSQL data \<lparr>PreviewBytes = limit, RedactionEnabled = True\<rparr>"
  shows "prefix (Preview res) (redacted_output data) \<and> int (length (Preview res)) \<le> limit
    \<and> utf8_valid (Preview res) \<and> StoredBytes res = int (length (redacted_output data))
    \<and> (Truncated res \<longleftrightarrow> Preview res \<noteq> redacted_output data)"
proof -
  let ?out = "redacted_output data"
  let ?pv = "trim_invalid (take (nat limit) ?out)"
  have res: "Preview res = ?pv" "StoredBytes res = int (length ?out)"
    "Truncated res \<longleftrightarrow> length ?pv < length ?out"
    using preview_of_redacted [OF assms(1), of data] by (simp_all add: res_def Let_def)
  have pre: "prefix ?pv (take (nat limit) ?out)" by (rule trim_invalid_prefix)
  then have "prefix ?pv ?out" by (rule prefix_order.trans) (rule take_is_prefix)
  moreover have "length ?pv \<le> nat limit" using prefix_length_le [OF pre] by simp
  moreover have "length ?pv < length ?out \<longleftrightarrow> ?pv \<noteq> ?out"
    using \<open>prefix ?pv ?out\<close> prefix_length_le [of ?pv ?out] prefix_length_less [of ?pv ?out]
    by (metis less_irrefl strict_prefix_def)
  ultimately show ?thesis
    using res trim_invalid_valid assms(1) by auto
qed

theorem PreviewSQL_bounded_witness:
  "prefix (Preview (PreviewSQL ''SELECT 1'' \<lparr>PreviewBytes = 8, RedactionEnabled = True\<rparr>)) (redacted_output ''SELECT 1'')
    \<and> int (length (Preview (PreviewSQL ''SELECT 1'' \<lparr>PreviewBytes = 8, RedactionEnabled = True\<rparr>))) \<le> 8
    \<and> utf8_valid (Preview (PreviewSQL ''SELECT 1'' \<lparr>PreviewBytes = 8, RedactionEnabled = True\<rparr>))
    \<and> StoredBytes (PreviewSQL ''SELECT 1'' \<lparr>PreviewBytes = 8, RedactionEnabled = True\<rparr>) = int (length (redacted_output ''SELECT 1''))
    \<and> (Truncated (PreviewSQL ''SELECT 1'' \<lparr>PreviewBytes = 8, RedactionEnabled = True\<rparr>)
        \<longleftrightarrow> Preview (PreviewSQL ''SELECT 1'' \<lparr>PreviewBytes = 8, RedactionEnabled = True\<rparr>) \<noteq> redacted_output ''SELECT 1'')"
  by (rule PreviewSQL_bounded) simp



end
