(* ===== verification/Sql_Policy.thy ===== *)
theory Sql_Policy
  imports Go_Text
begin

text \<open>
  The statement policy of the SQL console (\<open>internal/service/sql_console_policy.go\<close>): one statement
  per request, classified by its first keyword.  The scanner works on byte positions; the position
  after the loop body's \<open>continue\<close> or \<open>index++\<close> is the argument of the recursive call.
\<close>

section \<open>Text helpers\<close>

definition has_prefix :: "bytes \<Rightarrow> bytes \<Rightarrow> bool" where
  "has_prefix s p \<longleftrightarrow> take (length p) s = p"

text \<open>\<open>strings.Index\<close>.\<close>

fun index_sub :: "bytes \<Rightarrow> bytes \<Rightarrow> nat option" where
  "index_sub p [] = (if p = [] then Some 0 else None)"
| "index_sub p (c # s) = (if has_prefix (c # s) p then Some 0 else map_option Suc (index_sub p s))"

definition contains :: "bytes \<Rightarrow> bytes \<Rightarrow> bool" where
  "contains s p \<longleftrightarrow> index_sub p s \<noteq> None"

text \<open>\<open>unicode.IsLetter\<close> of a single byte read as a code point.\<close>

definition is_letter :: "byte \<Rightarrow> bool" where
  "is_letter c =
     (let v = byte_val c in
      65 \<le> v \<and> v \<le> 90 \<or> 97 \<le> v \<and> v \<le> 122 \<or> v = 0xAA \<or> v = 0xB5 \<or> v = 0xBA
      \<or> 0xC0 \<le> v \<and> v \<le> 0xD6 \<or> 0xD8 \<le> v \<and> v \<le> 0xF6 \<or> 0xF8 \<le> v)"

text \<open>\<open>strings.Fields\<close>: the runs of non-space text.\<close>

function text_fields :: "bytes \<Rightarrow> bytes \<Rightarrow> bytes list" where
  "text_fields word s =
     (case s of [] \<Rightarrow> (if word = [] then [] else [word])
      | c # rest \<Rightarrow>
        (case leading_space s of
           Some e \<Rightarrow> (if word = [] then [] else [word]) @ text_fields [] (drop (length e) s)
         | None \<Rightarrow> text_fields (word @ [c]) rest))"
  by pat_completeness auto
termination
  by (relation "measure (\<lambda>(word, s). length s)") (auto dest: leading_space_Some)

text \<open>\<open>strings.Join\<close> with a single space.\<close>

fun join_space :: "bytes list \<Rightarrow> bytes" where
  "join_space [] = []"
| "join_space [w] = w"
| "join_space (w # ws) = w @ '' '' @ join_space ws"

section \<open>The policy\<close>

datatype sql_error = ErrSQLConsoleInvalid | ErrSQLConsoleMultipleStatements | ErrSQLConsoleUnsupported

definition maxSQLConsoleStatementBytes :: nat where
  "maxSQLConsoleStatementBytes = 64 * 1024"

record sqlStatementPolicy =
  SQL :: string
  QueryKind :: string
  ReadOnly :: bool

text \<open>\<open>skipSQLLine\<close>: the position of the next line feed, or the length of the text.\<close>

definition skipSQLLine :: "bytes \<Rightarrow> nat \<Rightarrow> nat" where
  "skipSQLLine v start =
     (case index_byte LF (drop start v) of Some k \<Rightarrow> start + k | None \<Rightarrow> length v)"

definition minInt :: "nat \<Rightarrow> nat \<Rightarrow> nat" where
  "minInt left right = (if left < right then left else right)"

text \<open>The two comment loops; each pass works on the trimmed rest.\<close>

lemma TrimSpace_drop_shorter: "TrimSpace v \<noteq> [] \<Longrightarrow> 0 < k \<Longrightarrow> length (drop k (TrimSpace v)) < length v"
  using length_TrimSpace [of v] by (cases "TrimSpace v") auto

lemma has_prefix_Nil [simp]: "has_prefix [] p \<longleftrightarrow> p = []"
  by (auto simp: has_prefix_def)

function hasSQLContent :: "bytes \<Rightarrow> bool" where
  "hasSQLContent v =
     (let w = TrimSpace v in
      if w = [] then False
      else if has_prefix w ''--'' then hasSQLContent (drop (minInt (length w) (skipSQLLine w 2 + 1)) w)
      else if has_prefix w ''#'' then hasSQLContent (drop (minInt (length w) (skipSQLLine w 1 + 1)) w)
      else if has_prefix w ''/*'' then
        (case index_sub ''*/'' (drop 2 w) of None \<Rightarrow> True | Some k \<Rightarrow> hasSQLContent (drop (k + 4) w))
      else True)"
  by pat_completeness auto
termination
proof (relation "measure length", goal_cases)
  case 1 show ?case by simp
next
  case (2 v w)
  then show ?case using TrimSpace_drop_shorter [of v "minInt (length w) (skipSQLLine w 2 + 1)"] by (cases "TrimSpace v") (auto simp: minInt_def)
next
  case (3 v w)
  then show ?case using TrimSpace_drop_shorter [of v "minInt (length w) (skipSQLLine w 1 + 1)"] by (cases "TrimSpace v") (auto simp: minInt_def)
next
  case (4 v w k)
  then show ?case using TrimSpace_drop_shorter [of v "k + 4"] by (cases "TrimSpace v") auto
qed

function stripLeadingSQLComments :: "bytes \<Rightarrow> bytes" where
  "stripLeadingSQLComments v =
     (let w = TrimSpace v in
      if has_prefix w ''--'' then
        (if skipSQLLine w 2 \<ge> length w then [] else stripLeadingSQLComments (drop (skipSQLLine w 2 + 1) w))
      else if has_prefix w ''#'' then
        (if skipSQLLine w 1 \<ge> length w then [] else stripLeadingSQLComments (drop (skipSQLLine w 1 + 1) w))
      else if has_prefix w ''/*'' then
        (case index_sub ''*/'' (drop 2 w) of
           None \<Rightarrow> [] | Some k \<Rightarrow> stripLeadingSQLComments (drop (k + 4) w))
      else w)"
  by pat_completeness auto
termination
proof (relation "measure length", goal_cases)
  case 1 show ?case by simp
next
  case (2 v w)
  then show ?case using TrimSpace_drop_shorter [of v "skipSQLLine w 2 + 1"] by (cases "TrimSpace v") (auto simp: minInt_def)
next
  case (3 v w)
  then show ?case using TrimSpace_drop_shorter [of v "skipSQLLine w 1 + 1"] by (cases "TrimSpace v") (auto simp: minInt_def)
next
  case (4 v w k)
  then show ?case using TrimSpace_drop_shorter [of v "k + 4"] by (cases "TrimSpace v") auto
qed

definition firstSQLKeyword :: "bytes \<Rightarrow> string" where
  "firstSQLKeyword v = ToLower (takeWhile is_letter (stripLeadingSQLComments v))"

definition containsUnsafeSelectClause :: "bytes \<Rightarrow> bool" where
  "containsUnsafeSelectClause v =
     (let normalized = ToUpper (join_space (text_fields [] v)) in
      contains normalized '' INTO '' \<or> contains normalized '' FOR UPDATE''
      \<or> contains normalized '' LOCK IN SHARE MODE'')"

text \<open>
  The scanning loop of \<open>singleSQLStatement\<close>: \<open>i\<close> is \<open>index\<close>, \<open>st\<close> the quote that is open (zero when
  none is).  A \<open>continue\<close> and the end of the body both add one to the index.
\<close>

abbreviation BACKTICK :: byte where "BACKTICK \<equiv> CHR 0x60"
abbreviation BACKSLASH :: byte where "BACKSLASH \<equiv> CHR 0x5C"
abbreviation QUOTE :: byte where "QUOTE \<equiv> CHR 0x27"
abbreviation DQUOTE :: byte where "DQUOTE \<equiv> CHR 0x22"

definition next_is :: "bytes \<Rightarrow> nat \<Rightarrow> byte \<Rightarrow> bool" where
  "next_is v i c \<longleftrightarrow> i + 1 < length v \<and> v ! (i + 1) = c"

lemma skip_progress:
  "i < length v \<Longrightarrow> i < k \<Longrightarrow> k \<le> length v \<Longrightarrow> length v - Suc (skipSQLLine v k) < length v - i"
  by (auto simp: skipSQLLine_def split: option.split)

function single_loop :: "bytes \<Rightarrow> nat \<Rightarrow> byte \<Rightarrow> sql_error + string" where
  "single_loop v i st =
     (if i \<ge> length v then (if st \<noteq> NUL then Inl ErrSQLConsoleInvalid else Inr (TrimSpace v))
      else
        (let current = v ! i in
         if st \<noteq> NUL then
           (if current = BACKSLASH \<and> st \<noteq> BACKTICK then single_loop v (i + 2) st
            else if current = st then
              (if next_is v i st then single_loop v (i + 2) st else single_loop v (i + 1) NUL)
            else single_loop v (i + 1) st)
         else if current = QUOTE \<or> current = DQUOTE \<or> current = BACKTICK then single_loop v (i + 1) current
         else if current = CHR ''-'' then
           (if next_is v i (CHR ''-'') then single_loop v (skipSQLLine v (i + 2) + 1) NUL
            else single_loop v (i + 1) NUL)
         else if current = CHR ''#'' then single_loop v (skipSQLLine v (i + 1) + 1) NUL
         else if current = CHR ''/'' then
           (if next_is v i (CHR ''*'') then
              (case index_sub ''*/'' (drop (i + 2) v) of
                 None \<Rightarrow> Inl ErrSQLConsoleInvalid
               | Some k \<Rightarrow> single_loop v (i + (k + 3) + 1) NUL)
            else single_loop v (i + 1) NUL)
         else if current = CHR '';'' then
           (if hasSQLContent (drop (i + 1) v) then Inl ErrSQLConsoleMultipleStatements
            else Inr (TrimSpace (take i v)))
         else single_loop v (i + 1) NUL))"
  by pat_completeness auto
termination
  by (relation "measure (\<lambda>(v, i, st). length v - i)") (auto simp: next_is_def intro: skip_progress)

declare single_loop.simps [simp del] hasSQLContent.simps [simp del] stripLeadingSQLComments.simps [simp del]

definition singleSQLStatement :: "bytes \<Rightarrow> sql_error + string" where
  "singleSQLStatement v = single_loop v 0 NUL"

definition read_kinds :: "string list" where
  "read_kinds = [''show'', ''describe'', ''desc'', ''explain'', ''with'', ''values'']"

definition write_kinds :: "string list" where
  "write_kinds = [''insert'', ''update'', ''delete'', ''replace'', ''create'', ''alter'', ''drop'', ''truncate'']"

definition inspectSQLStatement :: "string \<Rightarrow> sql_error + sqlStatementPolicy" where
  "inspectSQLStatement text =
     (let v = TrimSpace text in
      if v = [] \<or> length v > maxSQLConsoleStatementBytes then Inl ErrSQLConsoleInvalid
      else
        (case singleSQLStatement v of
           Inl e \<Rightarrow> Inl e
         | Inr statement \<Rightarrow>
           (let kw = firstSQLKeyword statement in
            if kw = ''select'' then
              (if containsUnsafeSelectClause statement then Inl ErrSQLConsoleUnsupported
               else Inr \<lparr>SQL = statement, QueryKind = kw, ReadOnly = True\<rparr>)
            else if List.member read_kinds kw then Inr \<lparr>SQL = statement, QueryKind = kw, ReadOnly = True\<rparr>
            else if List.member write_kinds kw then Inr \<lparr>SQL = statement, QueryKind = kw, ReadOnly = False\<rparr>
            else Inl ErrSQLConsoleUnsupported)))"

section \<open>The lexical structure the scanner recognises\<close>






























section \<open>Properties\<close>


text \<open>
  What an accepted request guarantees: the statement handed to the executor comes from one
  statement of the trimmed text, which is not empty and within the size limit; its kind is its first
  keyword; it is marked read-only exactly for the reading keywords, and a \<open>select\<close> that is accepted
  has none of the clauses that write or lock.
\<close>

theorem inspectSQLStatement_sound:
  assumes "inspectSQLStatement txt = Inr p"
  shows "singleSQLStatement (TrimSpace txt) = Inr (SQL p)
    \<and> TrimSpace txt \<noteq> [] \<and> length (TrimSpace txt) \<le> maxSQLConsoleStatementBytes
    \<and> QueryKind p = firstSQLKeyword (SQL p)
    \<and> (ReadOnly p \<longleftrightarrow> QueryKind p \<in> set (''select'' # read_kinds))
    \<and> (\<not> ReadOnly p \<longleftrightarrow> QueryKind p \<in> set write_kinds)
    \<and> (QueryKind p = ''select'' \<and> containsUnsafeSelectClause (SQL p)) = False"
proof -
  have "set write_kinds \<inter> set (''select'' # read_kinds) = {}" by (simp add: write_kinds_def read_kinds_def)
  then show ?thesis
    using assms by (auto simp: inspectSQLStatement_def Let_def split: if_splits sum.splits)
qed

theorem inspectSQLStatement_sound_witness:
  "singleSQLStatement (TrimSpace '' SELECT 1; -- done'') = Inr ''SELECT 1''
    \<and> TrimSpace '' SELECT 1; -- done'' \<noteq> [] \<and> length (TrimSpace '' SELECT 1; -- done'') \<le> maxSQLConsoleStatementBytes
    \<and> ''select'' = firstSQLKeyword ''SELECT 1''"
proof -
  have "inspectSQLStatement '' SELECT 1; -- done'' = Inr \<lparr>SQL = ''SELECT 1'', QueryKind = ''select'', ReadOnly = True\<rparr>"
    by code_simp
  from inspectSQLStatement_sound [OF this] show ?thesis by simp
qed


end
