(* ===== verification/Leases.thy ===== *)
theory Leases
  imports Prelude
begin

text \<open>
  The two lease pools of the database gateway (\<open>internal/server/dbproxy/observer_memory_budget.go\<close> and
  \<open>pending_handshake.go\<close>) and the set of open client connections (\<open>listener_connections.go\<close>).

  Many goroutines use them at once.  The memory budget is lock-free: an acquisition loads the counter,
  compares, and publishes with a compare-and-swap that fails when the counter has changed in between;
  the program counter of every goroutine is part of the state and each load, compare-and-swap and
  release is one step.  The handshake limiter is a buffered channel.  A lease remembers that it has
  been released (\<open>sync.Once\<close>).  The nil receivers, which the code accepts, are not part of the model.
\<close>

section \<open>The memory budget\<close>

text \<open>Arithmetic on \<open>int64\<close> wraps.\<close>

definition i64 :: "int \<Rightarrow> int" where
  "i64 x = (x + 2 ^ 63) mod 2 ^ 64 - 2 ^ 63"

lemma i64_id: "- (2 ^ 63) \<le> x \<Longrightarrow> x < 2 ^ 63 \<Longrightarrow> i64 x = x"
  by (simp add: i64_def)

definition defaultObserverGlobalMemoryBudgetBytes :: int where
  "defaultObserverGlobalMemoryBudgetBytes = 64 * 1024 * 1024"

datatype pc = Idle | Want int | Loaded int int

record observerMemoryBudget =
  limit :: int
  used :: int
  goroutines :: "nat \<Rightarrow> pc"
  leases :: "(int \<times> bool) list"

definition newObserverMemoryBudget :: "int \<Rightarrow> observerMemoryBudget" where
  "newObserverMemoryBudget l =
     \<lparr>limit = (if l \<le> 0 then defaultObserverGlobalMemoryBudgetBytes else l), used = 0,
      goroutines = (\<lambda>_. Idle), leases = []\<rparr>"

text \<open>The actions of \<open>tryAcquire\<close>, in the order of the code: the test of the size, the load, the test
  against the limit, and the compare-and-swap that publishes a lease or sends the loop round again;
  and the two ways \<open>release\<close> can run.\<close>

inductive budget_step :: "observerMemoryBudget \<Rightarrow> observerMemoryBudget \<Rightarrow> bool" where
  call_nothing: "goroutines b g = Idle \<Longrightarrow> sz \<le> (0 :: int) \<Longrightarrow> budget_step b b"
| call: "goroutines b g = Idle \<Longrightarrow> 0 < sz \<Longrightarrow> sz < 2 ^ 63
    \<Longrightarrow> budget_step b (b\<lparr>goroutines := (goroutines b)(g := Want sz)\<rparr>)"
| load: "goroutines b g = Want sz
    \<Longrightarrow> budget_step b (b\<lparr>goroutines := (goroutines b)(g := Loaded sz (used b))\<rparr>)"
| refuse: "goroutines b g = Loaded sz seen \<Longrightarrow> sz > i64 (limit b - seen)
    \<Longrightarrow> budget_step b (b\<lparr>goroutines := (goroutines b)(g := Idle)\<rparr>)"
| swap: "goroutines b g = Loaded sz seen \<Longrightarrow> \<not> sz > i64 (limit b - seen) \<Longrightarrow> used b = seen
    \<Longrightarrow> budget_step b (b\<lparr>goroutines := (goroutines b)(g := Idle), used := i64 (seen + sz),
          leases := leases b @ [(sz, False)]\<rparr>)"
| retry: "goroutines b g = Loaded sz seen \<Longrightarrow> \<not> sz > i64 (limit b - seen) \<Longrightarrow> used b \<noteq> seen
    \<Longrightarrow> budget_step b (b\<lparr>goroutines := (goroutines b)(g := Want sz)\<rparr>)"
| release: "i < length (leases b) \<Longrightarrow> leases b ! i = (sz, False)
    \<Longrightarrow> budget_step b (b\<lparr>leases := (leases b)[i := (sz, True)], used := i64 (used b - sz)\<rparr>)"
| release_again: "i < length (leases b) \<Longrightarrow> leases b ! i = (sz, True) \<Longrightarrow> budget_step b b"

text \<open>The bytes of the leases that have not been released.\<close>

definition outstanding :: "(int \<times> bool) list \<Rightarrow> int" where
  "outstanding ls = sum_list (map (\<lambda>(sz, released). if released then 0 else sz) ls)"

lemma outstanding_simps [simp]:
  "outstanding [] = 0" "outstanding (ls @ ms) = outstanding ls + outstanding ms"
  "outstanding [(sz, r)] = (if r then 0 else sz)"
  by (simp_all add: outstanding_def)

lemma outstanding_release:
  "i < length ls \<Longrightarrow> ls ! i = (sz, False) \<Longrightarrow> outstanding (ls[i := (sz, True)]) = outstanding ls - sz"
proof -
  assume i: "i < length ls" "ls ! i = (sz, False)"
  then have "ls = take i ls @ (sz, False) # drop (Suc i) ls" using id_take_nth_drop [of i ls] by simp
  then have "outstanding ls = outstanding (take i ls) + sz + outstanding (drop (Suc i) ls)"
    by (metis add.assoc append_Cons append_Nil outstanding_simps(2,3))
  moreover have "outstanding (ls[i := (sz, True)]) = outstanding (take i ls) + outstanding (drop (Suc i) ls)"
    using i(1) by (simp add: upd_conv_take_nth_drop outstanding_def)
  ultimately show ?thesis by simp
qed

lemma outstanding_nonneg: "\<forall>l \<in> set ls. 0 < fst l \<Longrightarrow> 0 \<le> outstanding ls"
  by (induction ls) (auto simp: outstanding_def split: if_splits)

lemma outstanding_member:
  "i < length ls \<Longrightarrow> ls ! i = (sz, False) \<Longrightarrow> \<forall>l \<in> set ls. 0 < fst l \<Longrightarrow> sz \<le> outstanding ls"
proof -
  assume i: "i < length ls" "ls ! i = (sz, False)" and pos: "\<forall>l \<in> set ls. 0 < fst l"
  have "set (ls[i := (sz, True)]) \<subseteq> insert (sz, True) (set ls)" by (rule set_update_subset_insert)
  moreover have "0 < sz" using i pos nth_mem [of i ls] by fastforce
  ultimately have "\<forall>l \<in> set (ls[i := (sz, True)]). 0 < fst l" using pos by auto
  then show ?thesis using outstanding_release [OF i] outstanding_nonneg by fastforce
qed

fun pc_ok :: "int \<Rightarrow> pc \<Rightarrow> bool" where
  "pc_ok l Idle \<longleftrightarrow> True"
| "pc_ok l (Want sz) \<longleftrightarrow> 0 < sz \<and> sz < 2 ^ 63"
| "pc_ok l (Loaded sz seen) \<longleftrightarrow> 0 < sz \<and> sz < 2 ^ 63 \<and> 0 \<le> seen \<and> seen \<le> l"

definition budget_inv :: "observerMemoryBudget \<Rightarrow> bool" where
  "budget_inv b \<longleftrightarrow> 0 < limit b \<and> limit b < 2 ^ 63 \<and> used b = outstanding (leases b) \<and> used b \<le> limit b
     \<and> (\<forall>l \<in> set (leases b). 0 < fst l) \<and> (\<forall>g. pc_ok (limit b) (goroutines b g))"

definition budget_init :: "observerMemoryBudget \<Rightarrow> bool" where
  "budget_init b \<longleftrightarrow> (\<exists>l. l < 2 ^ 63 \<and> b = newObserverMemoryBudget l)"

lemma budget_used_nonneg: "budget_inv b \<Longrightarrow> 0 \<le> used b"
  using outstanding_nonneg [of "leases b"] by (simp add: budget_inv_def)

lemma i64_room: "0 \<le> seen \<Longrightarrow> seen \<le> l \<Longrightarrow> l < 2 ^ 63 \<Longrightarrow> i64 (l - seen) = l - seen"
  by (rule i64_id) auto

lemma budget_step_inv: "budget_step b b' \<Longrightarrow> budget_inv b \<Longrightarrow> budget_inv b'"
proof (induction rule: budget_step.induct)
  case (load b g sz)
  then have "pc_ok (limit b) (Want sz)" unfolding budget_inv_def by metis
  with load budget_used_nonneg [OF load(2)] show ?case by (auto simp: budget_inv_def)
next
  case (swap b g sz seen)
  then have p: "pc_ok (limit b) (Loaded sz seen)" unfolding budget_inv_def by metis
  have l: "limit b < 2 ^ 63" using swap.prems by (simp add: budget_inv_def)
  then have "sz \<le> limit b - seen" using swap.hyps(2) p i64_room [of seen "limit b"] by simp
  with l p have "i64 (seen + sz) = seen + sz" "seen + sz \<le> limit b" by (auto intro: i64_id)
  with swap p show ?case by (auto simp: budget_inv_def)
next
  case (retry b g sz seen)
  then have "pc_ok (limit b) (Loaded sz seen)" unfolding budget_inv_def by metis
  with retry show ?case by (auto simp: budget_inv_def)
next
  case (release i b sz)
  then have pos: "\<forall>l \<in> set (leases b). 0 < fst l" and u: "used b = outstanding (leases b)" "used b \<le> limit b" "limit b < 2 ^ 63"
    by (auto simp: budget_inv_def)
  have "0 < sz" using pos nth_mem [OF release(1)] release(2) by fastforce
  moreover have "sz \<le> used b" using outstanding_member [OF release(1,2) pos] u by simp
  ultimately have "i64 (used b - sz) = used b - sz" using u by (intro i64_id) auto
  moreover have "\<forall>l \<in> set ((leases b)[i := (sz, True)]). 0 < fst l"
    using pos \<open>0 < sz\<close> set_update_subset_insert [of "leases b" i "(sz, True)"] by auto
  ultimately show ?case
    using release \<open>0 < sz\<close> outstanding_release [OF release(1,2)] by (auto simp: budget_inv_def)
qed (auto simp: budget_inv_def)

interpretation budget: guarded_system budget_init budget_step budget_inv
proof
  fix b
  assume "budget_init b"
  then show "budget_inv b"
    by (auto simp: budget_init_def newObserverMemoryBudget_def budget_inv_def defaultObserverGlobalMemoryBudgetBytes_def)
next
  fix b b'
  assume "budget_inv b" "budget_step b b'"
  then show "budget_inv b'" using budget_step_inv by blast
qed

text \<open>The counter as \<open>inUse\<close> reports it, and an acquisition that nobody disturbs.\<close>

definition inUse :: "observerMemoryBudget \<Rightarrow> int" where
  "inUse b = used b"

lemma undisturbed_acquire:
  assumes "budget_inv b" "goroutines b g = Want sz"
  shows "\<exists>b'. budget_step\<^sup>*\<^sup>* b b' \<and> goroutines b' g = Idle
    \<and> leases b' = (if sz \<le> limit b - used b then leases b @ [(sz, False)] else leases b)"
proof -
  let ?b = "b\<lparr>goroutines := (goroutines b)(g := Loaded sz (used b))\<rparr>"
  have first: "budget_step b ?b" using assms(2) by (rule load)
  have room: "i64 (limit b - used b) = limit b - used b"
    using assms(1) budget_used_nonneg [OF assms(1)] by (intro i64_room) (auto simp: budget_inv_def)
  show ?thesis
  proof (cases "sz \<le> limit b - used b")
    case True
    let ?c = "?b\<lparr>goroutines := (goroutines ?b)(g := Idle), used := i64 (used b + sz), leases := leases ?b @ [(sz, False)]\<rparr>"
    have "budget_step ?b ?c" by (rule swap [of _ g sz "used b", simplified]) (use True room in simp_all)
    then have "budget_step\<^sup>*\<^sup>* b ?c" by (rule rtranclp.rtrancl_into_rtrancl [OF r_into_rtranclp [of budget_step, OF first]])
    then show ?thesis using True by (intro exI [of _ ?c]) simp
  next
    case False
    let ?c = "?b\<lparr>goroutines := (goroutines ?b)(g := Idle)\<rparr>"
    have "budget_step ?b ?c" by (rule refuse [of _ g sz "used b"]) (use False room in simp_all)
    then have "budget_step\<^sup>*\<^sup>* b ?c" by (rule rtranclp.rtrancl_into_rtrancl [OF r_into_rtranclp [of budget_step, OF first]])
    then show ?thesis using False by (intro exI [of _ ?c]) simp
  qed
qed

section \<open>The limit on pending handshakes\<close>

definition defaultPendingHandshakeLimit :: int where "defaultPendingHandshakeLimit = 256"

record pendingHandshakeLimiter =
  capacity :: nat
  slots :: nat
  given :: "bool list"

text \<open>\<open>None\<close>: the constructor panics.\<close>

definition newPendingHandshakeLimiter :: "int \<Rightarrow> pendingHandshakeLimiter option" where
  "newPendingHandshakeLimiter l =
     (if l \<le> 0 then None else Some \<lparr>capacity = nat l, slots = 0, given = []\<rparr>)"

text \<open>A send to the channel that is not ready takes the default branch; the lease is its number.\<close>

definition tryAcquire :: "pendingHandshakeLimiter \<Rightarrow> nat option \<times> pendingHandshakeLimiter" where
  "tryAcquire l =
     (if slots l < capacity l then (Some (length (given l)), l\<lparr>slots := slots l + 1, given := given l @ [False]\<rparr>)
      else (None, l))"

text \<open>A receive from an empty channel would block for ever, which is \<open>None\<close>.\<close>

definition release_lease :: "nat \<Rightarrow> pendingHandshakeLimiter \<Rightarrow> pendingHandshakeLimiter option" where
  "release_lease i l =
     (if given l ! i then Some l
      else if slots l = 0 then None
      else Some (l\<lparr>slots := slots l - 1, given := (given l)[i := True]\<rparr>))"

inductive limiter_step :: "pendingHandshakeLimiter \<Rightarrow> pendingHandshakeLimiter \<Rightarrow> bool" where
  try_acquire: "tryAcquire l = (r, l') \<Longrightarrow> limiter_step l l'"
| release_one: "i < length (given l) \<Longrightarrow> release_lease i l = Some l' \<Longrightarrow> limiter_step l l'"

definition unreleased :: "bool list \<Rightarrow> nat" where
  "unreleased bs = length (filter Not bs)"

lemma unreleased_snoc [simp]: "unreleased (bs @ [b]) = unreleased bs + (if b then 0 else 1)" "unreleased [] = 0"
  by (simp_all add: unreleased_def)

lemma unreleased_release: "i < length bs \<Longrightarrow> \<not> bs ! i \<Longrightarrow> unreleased (bs[i := True]) + 1 = unreleased bs"
proof -
  assume i: "i < length bs" "\<not> bs ! i"
  then have "bs = take i bs @ False # drop (Suc i) bs" using id_take_nth_drop [of i bs] by simp
  then have "unreleased bs = unreleased (take i bs) + 1 + unreleased (drop (Suc i) bs)"
    unfolding unreleased_def by (metis (no_types, lifting) Suc_eq_plus1 add_Suc filter.simps(2) filter_append length_Cons length_append add_Suc_right)
  then show ?thesis using i(1) by (simp add: upd_conv_take_nth_drop unreleased_def)
qed

definition limiter_inv :: "pendingHandshakeLimiter \<Rightarrow> bool" where
  "limiter_inv l \<longleftrightarrow> slots l = unreleased (given l) \<and> slots l \<le> capacity l"

definition limiter_init :: "pendingHandshakeLimiter \<Rightarrow> bool" where
  "limiter_init l \<longleftrightarrow> (\<exists>n. newPendingHandshakeLimiter n = Some l)"

interpretation limiter: guarded_system limiter_init limiter_step limiter_inv
proof
  fix l
  assume "limiter_init l"
  then show "limiter_inv l"
    by (auto simp: limiter_init_def newPendingHandshakeLimiter_def limiter_inv_def split: if_splits)
next
  fix l l'
  assume inv: "limiter_inv l" and "limiter_step l l'"
  from this(2) show "limiter_inv l'"
  proof cases
    case (try_acquire r)
    with inv show ?thesis by (auto simp: tryAcquire_def limiter_inv_def split: if_splits)
  next
    case (release_one i)
    with inv unreleased_release [of i "given l"] show ?thesis
      by (auto simp: release_lease_def limiter_inv_def split: if_splits)
  qed
qed

section \<open>Open client connections\<close>

record activeConnectionSet =
  connections :: "nat set"
  closed :: bool
  closed_connections :: "nat set"

definition newActiveConnectionSet :: activeConnectionSet where
  "newActiveConnectionSet = \<lparr>connections = {}, closed = False, closed_connections = {}\<rparr>"

definition add_connection :: "nat \<Rightarrow> activeConnectionSet \<Rightarrow> bool \<times> activeConnectionSet" where
  "add_connection c s = (if closed s then (False, s) else (True, s\<lparr>connections := insert c (connections s)\<rparr>))"

definition remove_connection :: "nat \<Rightarrow> activeConnectionSet \<Rightarrow> activeConnectionSet" where
  "remove_connection c s = s\<lparr>connections := connections s - {c}\<rparr>"

definition closeAll :: "activeConnectionSet \<Rightarrow> activeConnectionSet" where
  "closeAll s = s\<lparr>closed := True, closed_connections := closed_connections s \<union> connections s\<rparr>"

inductive connection_step :: "activeConnectionSet \<Rightarrow> activeConnectionSet \<Rightarrow> bool" where
  add: "add_connection c s = (r, s') \<Longrightarrow> connection_step s s'"
| remove: "connection_step s (remove_connection c s)"
| close_all: "connection_step s (closeAll s)"

definition connections_inv :: "activeConnectionSet \<Rightarrow> bool" where
  "connections_inv s \<longleftrightarrow> (closed s \<longrightarrow> connections s \<subseteq> closed_connections s)"

interpretation connection_set: guarded_system "\<lambda>s. s = newActiveConnectionSet" connection_step connections_inv
proof
  fix s s'
  assume "connections_inv s" "connection_step s s'"
  from this(2,1) show "connections_inv s'"
    by cases (auto simp: connections_inv_def add_connection_def remove_connection_def closeAll_def split: if_splits)
qed (simp add: connections_inv_def newActiveConnectionSet_def)

section \<open>Properties\<close>

text \<open>
  C28. The memory budget holds under every interleaving: whatever the order of the loads,
  compare-and-swaps and releases of all goroutines, the counter is exactly the number of bytes of the
  leases that have not been released, it is never negative and never above the limit, and it never
  wraps; in particular it returns to zero when every lease has been released, however often each was.
\<close>

theorem budget_never_exceeded:
  assumes "l < 2 ^ 63" "budget_step\<^sup>*\<^sup>* (newObserverMemoryBudget l) b"
  shows "inUse b = outstanding (leases b) \<and> 0 \<le> inUse b \<and> inUse b \<le> limit b \<and> limit b < 2 ^ 63"
proof -
  have "budget_inv b" using assms by (intro budget.reachable_inv) (auto simp: budget_init_def)
  then show ?thesis using budget_used_nonneg [of b] by (simp add: budget_inv_def inUse_def)
qed

text \<open>
  C29. The handshake limiter loses no slot and never hangs: in every reachable state the slots in use
  are exactly the leases that have not been released, at most the capacity; releasing any lease, for
  the first time or again, never blocks; and a new handshake is admitted exactly when fewer leases
  than the capacity are out.
\<close>

theorem handshake_limiter_live:
  assumes "newPendingHandshakeLimiter n = Some l0" "limiter_step\<^sup>*\<^sup>* l0 l"
  shows "slots l = unreleased (given l) \<and> slots l \<le> capacity l
    \<and> list_all (\<lambda>i. release_lease i l \<noteq> None) [0..<length (given l)]
    \<and> (fst (tryAcquire l) \<noteq> None) = (unreleased (given l) < capacity l)"
proof -
  have inv: "limiter_inv l" using assms by (intro limiter.reachable_inv) (auto simp: limiter_init_def)
  have "release_lease i l \<noteq> None" if "i < length (given l)" for i
  proof (cases "given l ! i")
    case False
    from unreleased_release [OF that this] have "0 < unreleased (given l)" by linarith
    with inv show ?thesis by (simp add: release_lease_def limiter_inv_def)
  qed (simp add: release_lease_def)
  with inv show ?thesis by (auto simp: limiter_inv_def tryAcquire_def list_all_iff)
qed

text \<open>
  An acquisition that is left alone comes to an end with the right answer: from every reachable
  state in which a goroutine has entered the loop of \<open>tryAcquire\<close>, running that goroutine
  alone brings it back, with a lease when the bytes fit beside those outstanding and without one when
  they do not.
\<close>

theorem budget_acquire_completes:
  assumes "l < 2 ^ 63" "budget_step\<^sup>*\<^sup>* (newObserverMemoryBudget l) b" "goroutines b g = Want sz"
  shows "\<exists>b'. budget_step\<^sup>*\<^sup>* b b' \<and> goroutines b' g = Idle
    \<and> leases b' = (if sz + outstanding (leases b) \<le> limit b then leases b @ [(sz, False)] else leases b)"
proof -
  have inv: "budget_inv b" using assms by (intro budget.reachable_inv) (auto simp: budget_init_def)
  then have "sz \<le> limit b - used b \<longleftrightarrow> sz + outstanding (leases b) \<le> limit b" by (auto simp: budget_inv_def)
  then show ?thesis using undisturbed_acquire [OF inv assms(3)] by simp
qed

theorem budget_acquire_completes_witness:
  "\<exists>b'. budget_step\<^sup>*\<^sup>* (newObserverMemoryBudget 100\<lparr>goroutines := (\<lambda>_. Idle)(3 := Want 40)\<rparr>) b'
    \<and> goroutines b' 3 = Idle \<and> leases b' = [(40, False)]"
proof -
  have "budget_step (newObserverMemoryBudget 100)
      (newObserverMemoryBudget 100\<lparr>goroutines := (goroutines (newObserverMemoryBudget 100))(3 := Want 40)\<rparr>)"
    by (rule call) (simp_all add: newObserverMemoryBudget_def)
  from budget_acquire_completes [OF _ r_into_rtranclp [of budget_step, OF this], of 3 40]
  show ?thesis by (simp add: newObserverMemoryBudget_def)
qed

theorem budget_never_exceeded_witness:
  "inUse (newObserverMemoryBudget 100) = outstanding (leases (newObserverMemoryBudget 100))
    \<and> 0 \<le> inUse (newObserverMemoryBudget 100)
    \<and> inUse (newObserverMemoryBudget 100) \<le> limit (newObserverMemoryBudget 100) \<and> limit (newObserverMemoryBudget 100) < 2 ^ 63"
  by (rule budget_never_exceeded [of 100]) simp_all

theorem handshake_limiter_live_witness:
  "slots \<lparr>capacity = 2, slots = 1, given = [False]\<rparr> = unreleased (given \<lparr>capacity = 2, slots = 1, given = [False]\<rparr>)
    \<and> slots \<lparr>capacity = 2, slots = 1, given = [False]\<rparr> \<le> capacity \<lparr>capacity = 2, slots = 1, given = [False]\<rparr>
    \<and> list_all (\<lambda>i. release_lease i \<lparr>capacity = 2, slots = 1, given = [False]\<rparr> \<noteq> None)
        [0..<length (given \<lparr>capacity = 2, slots = 1, given = [False]\<rparr>)]
    \<and> (fst (tryAcquire \<lparr>capacity = 2, slots = 1, given = [False]\<rparr>) \<noteq> None)
        = (unreleased (given \<lparr>capacity = 2, slots = 1, given = [False]\<rparr>) < capacity \<lparr>capacity = 2, slots = 1, given = [False]\<rparr>)"
proof (rule handshake_limiter_live)
  show "newPendingHandshakeLimiter 2 = Some \<lparr>capacity = 2, slots = 0, given = []\<rparr>"
    by (simp add: newPendingHandshakeLimiter_def)
  have "limiter_step \<lparr>capacity = 2, slots = 0, given = []\<rparr> \<lparr>capacity = 2, slots = 1, given = [False]\<rparr>"
    by (rule try_acquire [of _ "Some 0"]) (simp add: tryAcquire_def)
  then show "limiter_step\<^sup>*\<^sup>* \<lparr>capacity = 2, slots = 0, given = []\<rparr> \<lparr>capacity = 2, slots = 1, given = [False]\<rparr>"
    by (rule r_into_rtranclp)
qed

end
