(* ===== verification/Spec2Isabelle.thy ===== *)
theory Spec2Isabelle
  imports Provision_System Redis_Gateway Rbac_Catalog Guacamole Sql_Redactor Sql_Policy Leases
begin

text \<open>
  Jianmen is a bastion host: users reach databases, hosts and applications only through it, it decides
  who may connect to what, proxies the traffic and keeps an audit trail.  This development models the
  Go code that carries those decisions and proves what makes it correct.

  \<^bold>\<open>Parts of the program and the theories that model them\<close> (paths under \<open>src/internal/\<close>)

  \<^item> Foundations.  Prelude holds shared lemmas, integer conversions and the locales; Go_Text the functions
    of \<open>strings\<close>; Utf8 Go's decoding of UTF-8; Go_Encoding base64, hexadecimal and big-endian numbers; Net
    connections with partial reads and writes, deadlines and errors.
  \<^item> Compact_Ids: \<open>util/base62.go\<close>, \<open>util/compact.go\<close>, \<open>util/mysql_password.go\<close>, the user names that carry an
    account and a session, and the MySQL password hash.
  \<^item> Rbac_Store, Rbac_Checker, Rbac_Grants, Rbac_Batch, Rbac_Actions and Rbac_Catalog: \<open>rbac/\<close> over the rows
    of \<open>model/\<close>.  Queries can fail; permissions, grants and their batched form, and the permission catalog.
  \<^item> Authorization: \<open>service/authorization.go\<close> and \<open>service/identity.go\<close> on top of them, as \<open>cmd/jianmen/main.go\<close>
    wires it.
  \<^item> Mysql_Wire: \<open>proxy/mysqlwire/\<close>, framing and the client side of a login.  Mysql_Gateway: the server side
    of a login, \<open>server/dbproxy/account_auth.go\<close> and \<open>mysql_*.go\<close>.  Gateway_Access: resolving compact names,
    connection passwords and the handler up to the decision (\<open>server/dbproxy/authorization.go\<close>,
    \<open>store/dbstore_connection_passwords.go\<close>).
  \<^item> Postgres_Wire, Postgres_Scram, Postgres_Cancel, Postgres_Upstream and Postgres_Gateway:
    \<open>server/dbproxy/postgres_*.go\<close>, from the first bytes of a client to a connection ready for the relay,
    with Db_Tls for \<open>dbtls/config.go\<close>.
  \<^item> Redis_Wire, Redis_Policy and Redis_Gateway: \<open>server/dbproxy/redis*.go\<close>, the protocol, the commands that
    may follow a login with their audit text, and the handler up to a connection ready for the relay.
  \<^item> Leases: the lock-free memory budget, the handshake limiter and the connection set of the gateway.
  \<^item> Guacamole: \<open>proxy/rdpproxy/protocol.go\<close>.  Sql_Redactor: \<open>databaseaudit/\<close>.  Sql_Policy:
    \<open>service/sql_console_policy.go\<close>.
  \<^item> Mysql_Provision with Sql_Lexer: \<open>service/db_provision.go\<close>, \<open>db_provision_sql.go\<close> and
    \<open>db_provision_host.go\<close>, the client that creates, grants and drops accounts on a server.
    Provision_Store: \<open>store/dbstore_database_provisioning*.go\<close>.  Provision_Saga: the service
    (\<open>service/db_provision_saga.go\<close>, \<open>_orchestrator.go\<close>, \<open>_idempotency.go\<close>, \<open>_access.go\<close>, \<open>_reconcile.go\<close>,
    \<open>db_deprovision.go\<close>).  Provision_Facts and Provision_System: its invariant and what follows.

  \<^bold>\<open>How the code is modelled\<close>

  Structs are records, enumerations datatypes, errors values of a datatype per component, a Go function
  one definition with the source's name (a loop or a long tail is a definition of its own, named after
  what it does).  State is passed explicitly.  Integers are \<open>int\<close> or \<open>nat\<close> where they cannot overflow and
  carry their width (\<open>i64\<close>, words) where they can.  A slice expression or an index that is out of range is
  the value for a panic.

  What is not under \<open>src/\<close> is a parameter: SHA-1, SHA-256, MD5, bcrypt, SASLprep, random sources, TLS
  handshakes, diallers, the clock and the cancellation of contexts.  Database queries take their failures
  from a flag of the store (authorization) or from a script of events (provisioning), over which the
  theorems quantify.  Properties whose hypotheses speak of such a parameter have a witness with a concrete
  function.

  \<^bold>\<open>Interfaces\<close>

  Locales state what components promise each other: in Prelude \<open>codec\<close> (encoders and decoders),
  \<open>stream_processor\<close> (chunking does not show) and \<open>guarded_system\<close> (a step relation and its invariant); in
  Rbac_Store \<open>deny_overrides\<close> (a decision over a list of rules), in Authorization \<open>batch_authorizer\<close> (a batch
  decides as the single calls do), in Postgres_Upstream \<open>key_registrar\<close> (registrations that are undone by
  their owner).  Each is interpreted on the model's definitions in the theory that provides them.

  \<^bold>\<open>What the properties show\<close>

  Admission: a MySQL, PostgreSQL or Redis connection is relayed only after every check of account, session,
  password and authorization; a listener that requires TLS never serves a plaintext login; upstream
  passwords leave the gateway only through digests unless TLS was verified.  Authorization: a yes is
  justified by the rows, denies win, batches agree with single decisions.  Provisioning: whatever fails
  and in whatever order calls run, no account is left on a server without an operation that still reaches
  it, a success delivers the account, a fence is good for one change, side effects end before the lease
  does, a key is used once, and the statements sent are exactly the intended ones.  Audit: the text of a
  literal does not reach what is stored, previews are bounded.  Protocols: round trips, limits and the
  exact languages of the parsers.  Error properties pin down defects: inputs that panic, denies lost on a
  failing query, statements hidden by a comment sign, wildcards in grants.

  \<^bold>\<open>Termination and bounds\<close>

  Loops are recursive functions with termination proofs; no definition uses fuel except the rounds of
  \<open>RunReconciler\<close>, whose number is how often the timer fires before the context ends.  The loops that may
  run for as long as a peer sends read from a connection whose unread bytes are finite, which is their
  measure.

  \<^bold>\<open>Not modelled\<close>

  The calls of the provisioning service are serialised: an interleaving of two workers inside a call is
  not represented, only that any call may follow any other, with leases and fences as they are stored.
  Left out: the traffic observers and the relay loops of the gateway other than those named above, the
  SSH, SFTP and RDP proxies and the application proxy (their logic sits in callbacks of third-party
  libraries), the other services and stores (queries through an object-relational mapper), migrations,
  configuration, encryption at rest, recordings and object storage, and the HTTP handlers.
\<close>

section \<open>Properties that span components\<close>

text \<open>
  C1. Nobody reaches a database through the MySQL gateway without every check: when the handler goes
  on to dial the upstream for a login packet, the user name is the compact name of an account that is
  live, active and not expired, on a live MySQL instance that is not disabled; it names an active
  session that has not expired; the response in the packet verifies, for the salt of this connection,
  against the password of the session's user or against a connection password of that user for that
  account that is neither revoked nor expired; and the user is a super administrator, or may connect
  to databases, is not denied this account and holds a grant in force for it.
\<close>

theorem mysql_admission_sound:
  assumes "handleMySQLLogin sha1 (production_gateway st now) ctx now salt pkt = (Admitted r obs, g')"
  shows "g' = production_gateway st now
    \<and> account_open st (TrimSpace (User obs)) r
    \<and> not_past now (acct_ExpiresAt (ra_account r))
    \<and> ToLower (TrimSpace (row_Protocol (ra_instance r))) = ''mysql''
    \<and> session_open st now (TrimSpace (User obs)) r
    \<and> (\<exists>response. mysqlLoginAuthResponse (payload pkt) = Inr response
         \<and> response_verified sha1 st now r salt response)
    \<and> may_connect st now (TrimSpace (u_ID (ra_user r))) (acct_ID (ra_account r))"
proof -
  obtain response where h: "mysqlLoginAuthResponse (payload pkt) = Inr response"
    "resolveAccount (production_gateway st now) now (User obs) = (Inr r, g')"
    "validateResolvedAccountProtocol r databaseProtocolMySQL = None"
    "authenticateMySQLConnection sha1 g' ctx now r salt response = None"
    "not_past now (acct_ExpiresAt (ra_account r))"
    by (rule handleMySQLLogin_Admitted [OF assms])
  have st: "gw_db (production_gateway st now) = Some st" by (simp add: production_gateway_def)
  note res = resolveAccount_Inr [OF h(2) st]
  have auth: "AuthenticateMySQLConnectionPassword sha1 st now (u_ID (ra_user r)) (acct_ID (ra_account r)) salt response"
    "authorizeConnect (production_gateway st now) ctx (u_ID (ra_user r)) (acct_ID (ra_account r)) = None"
    using h(4) res(1)
    by (auto simp: authenticateMySQLConnection_def authenticateAndAuthorizeConnection_def production_gateway_def split: if_splits)
  have "may_connect st now (TrimSpace (u_ID (ra_user r))) (acct_ID (ra_account r))"
    by (rule authorizeConnect_None [OF auth(2)]) (auto simp: production_gateway_def intro: authorized_may_connect)
  with h res AuthenticateMySQL_verified [OF auth(1) res(4)] show ?thesis
    by (auto simp: validateResolvedAccountProtocol_def Let_def split: if_splits)
qed

theorem mysql_admission_sound_witness:
  "account_open demo_db (TrimSpace (User demo_observation)) demo_resolved
    \<and> session_open demo_db 5 (TrimSpace (User demo_observation)) demo_resolved
    \<and> (\<exists>response. mysqlLoginAuthResponse demo_payload = Inr response
         \<and> response_verified demo_sha1 demo_db 5 demo_resolved (replicate 20 CHR ''s'') response)
    \<and> may_connect demo_db 5 (TrimSpace (u_ID (ra_user demo_resolved))) (acct_ID (ra_account demo_resolved))"
  using mysql_admission_sound [OF demo_admitted] by simp

end
